(* ===== verification/Prelude.thy ===== *)
theory Prelude
  imports Main "HOL-Library.Word"
begin

text \<open>
  Shared vocabulary of the development: the machine integers of the Rust code, the
  outcome of a Rust computation (a value, an error returned with \<open>?\<close>, or a panic), the
  combinators that the source's \<open>?\<close>, \<open>ensure!\<close>, \<open>ok_or\<close>, \<open>map_err\<close> and \<open>unwrap\<close> become,
  slices of byte vectors, and the lemmas about them that the component theories use
  through the collection \<open>outcome_simps\<close>.
\<close>

named_theorems outcome_simps \<open>when a Rust computation returns, fails or panics\<close>

section \<open>Machine integers\<close>

type_synonym u8 = "8 word"
type_synonym u16 = "16 word"
type_synonym u32 = "32 word"
type_synonym u64 = "64 word"
type_synonym u128 = "128 word"
type_synonym u256 = "256 word"
type_synonym byte = u8

text \<open>Rust's \<open>saturating_sub\<close> on an unsigned integer stops at zero.\<close>

definition saturating_sub :: "'a::len word \<Rightarrow> 'a word \<Rightarrow> 'a word" where
  "saturating_sub a b = (if a < b then 0 else a - b)"

lemma unat_saturating_sub [simp]: "unat (saturating_sub a b) = unat a - unat b"
proof (cases "a < b")
  case True
  then show ?thesis by (simp add: saturating_sub_def word_less_nat_alt)
next
  case False
  then have "b \<le> a" by simp
  then have "unat (a - b) = unat a - unat b" by (rule unat_sub)
  with False show ?thesis by (simp add: saturating_sub_def)
qed

lemma zero_less_word_iff: "0 < a \<longleftrightarrow> 0 < unat a" for a :: "'a::len word"
  by (simp add: word_less_nat_alt)

lemma div_bounds:
  fixes d m :: nat
  assumes "0 < d"
  shows "d * (m div d) \<le> m" and "m < d * (m div d + 1)"
  using assms dividend_less_times_div [of d m] by (simp_all add: algebra_simps)

section \<open>Outcome of a Rust computation\<close>

text \<open>
  \<open>Ok\<close> and \<open>Err\<close> are the two constructors of \<open>Result\<close>; \<open>Panic\<close> is a computation that
  does not return because it panicked (an index out of range, an \<open>unwrap\<close> of nothing, a
  division by zero).
\<close>

datatype ('a, 'e) outcome = Ok 'a | Err 'e | Panic

primrec rbind :: "('a, 'e) outcome \<Rightarrow> ('a \<Rightarrow> ('b, 'e) outcome) \<Rightarrow> ('b, 'e) outcome" where
  "rbind (Ok x) f = f x"
| "rbind (Err e) f = Err e"
| "rbind Panic f = Panic"

primrec map_err :: "('e \<Rightarrow> 'f) \<Rightarrow> ('a, 'e) outcome \<Rightarrow> ('a, 'f) outcome" where
  "map_err f (Ok x) = Ok x"
| "map_err f (Err e) = Err (f e)"
| "map_err f Panic = Panic"

definition ensure :: "bool \<Rightarrow> 'e \<Rightarrow> (unit, 'e) outcome" where
  "ensure c e = (if c then Ok () else Err e)"

primrec ok_or :: "'a option \<Rightarrow> 'e \<Rightarrow> ('a, 'e) outcome" where
  "ok_or None e = Err e"
| "ok_or (Some x) e = Ok x"

primrec unwrap :: "'a option \<Rightarrow> ('a, 'e) outcome" where
  "unwrap None = Panic"
| "unwrap (Some x) = Ok x"

lemma rbind_Ok_iff [outcome_simps]:
  "rbind m f = Ok y \<longleftrightarrow> (\<exists>x. m = Ok x \<and> f x = Ok y)"
  by (cases m) auto

lemma rbind_Err_iff [outcome_simps]:
  "rbind m f = Err e \<longleftrightarrow> m = Err e \<or> (\<exists>x. m = Ok x \<and> f x = Err e)"
  by (cases m) auto

lemma rbind_Panic_iff [outcome_simps]:
  "rbind m f = Panic \<longleftrightarrow> m = Panic \<or> (\<exists>x. m = Ok x \<and> f x = Panic)"
  by (cases m) auto

lemma map_err_iffs [outcome_simps]:
  "map_err g m = Ok x \<longleftrightarrow> m = Ok x"
  "map_err g m = Err d \<longleftrightarrow> (\<exists>e. m = Err e \<and> d = g e)"
  "map_err g m = Panic \<longleftrightarrow> m = Panic"
  by (cases m; auto)+

lemma ensure_iffs [outcome_simps]:
  "ensure c e = Ok u \<longleftrightarrow> c"
  "ensure c e = Err d \<longleftrightarrow> \<not> c \<and> d = e"
  "ensure c e \<noteq> Panic"
  by (auto simp: ensure_def)

lemma ensure_cases [simp]:
  "ensure True e = Ok ()" "ensure False e = Err e"
  by (simp_all add: ensure_def)

lemma ok_or_iffs [outcome_simps]:
  "ok_or m e = Ok x \<longleftrightarrow> m = Some x"
  "ok_or m e = Err d \<longleftrightarrow> m = None \<and> d = e"
  "ok_or m e \<noteq> Panic"
  by (cases m; auto)+

lemma unwrap_iffs [outcome_simps]:
  "unwrap m = Ok x \<longleftrightarrow> m = Some x"
  "unwrap m \<noteq> Err e"
  "unwrap m = Panic \<longleftrightarrow> m = None"
  by (cases m; auto)+

lemma rbind_assoc: "rbind (rbind m f) g = rbind m (\<lambda>x. rbind (f x) g)"
  by (cases m) auto

section \<open>Byte slices\<close>

text \<open>
  \<open>xs[a..b]\<close> panics unless \<open>a \<le> b \<le> xs.len()\<close>; \<open>xs[a..b].copy_from_slice(ys)\<close> panics
  also when \<open>ys\<close> does not have the length of the range.
\<close>

definition slice :: "nat \<Rightarrow> nat \<Rightarrow> 'a list \<Rightarrow> ('a list, 'e) outcome" where
  "slice a b xs = (if a \<le> b \<and> b \<le> length xs then Ok (take (b - a) (drop a xs)) else Panic)"

definition copy_from_slice ::
  "nat \<Rightarrow> nat \<Rightarrow> 'a list \<Rightarrow> 'a list \<Rightarrow> ('a list, 'e) outcome" where
  "copy_from_slice a b xs ys =
     (if a \<le> b \<and> b \<le> length xs \<and> length ys = b - a
      then Ok (take a xs @ ys @ drop b xs) else Panic)"

lemma slice_ok [simp]:
  "a \<le> b \<Longrightarrow> b \<le> length xs \<Longrightarrow> slice a b xs = Ok (take (b - a) (drop a xs))"
  by (simp add: slice_def)

lemma slice_iffs [outcome_simps]:
  "slice a b xs = Ok ys \<longleftrightarrow> a \<le> b \<and> b \<le> length xs \<and> ys = take (b - a) (drop a xs)"
  "slice a b xs \<noteq> Err e"
  "slice a b xs = Panic \<longleftrightarrow> \<not> (a \<le> b \<and> b \<le> length xs)"
  by (auto simp: slice_def)

lemma copy_from_slice_ok [simp]:
  "a \<le> b \<Longrightarrow> b \<le> length xs \<Longrightarrow> length ys = b - a \<Longrightarrow>
   copy_from_slice a b xs ys = Ok (take a xs @ ys @ drop b xs)"
  by (simp add: copy_from_slice_def)

lemma copy_from_slice_iffs [outcome_simps]:
  "copy_from_slice a b xs ys = Ok zs \<longleftrightarrow>
     a \<le> b \<and> b \<le> length xs \<and> length ys = b - a \<and> zs = take a xs @ ys @ drop b xs"
  "copy_from_slice a b xs ys \<noteq> Err e"
  "copy_from_slice a b xs ys = Panic \<longleftrightarrow>
     \<not> (a \<le> b \<and> b \<le> length xs \<and> length ys = b - a)"
  by (auto simp: copy_from_slice_def)

text \<open>Adjacent ranges join (\<open>take_join\<close> from left to right over a list of fields).\<close>

lemma take_join:
  "take m xs @ take n (drop m xs) = take (m + n) xs"
  "take m xs @ take n (drop m xs) @ ys = take (m + n) xs @ ys"
  by (simp_all add: take_add)

end
