(* ===== verification/Byte_Codec.thy ===== *)
theory Byte_Codec
  imports Prelude
begin

text \<open>
  Little-endian integers in byte vectors, as \<open>u32::from_le_bytes\<close>, \<open>u128::from_le_bytes\<close>
  and \<open>U256::from_little_endian\<close> read them, and the interface \<open>fixed_codec\<close> of a
  fixed-width encoding (what is decoded is what was encoded, and nothing else decodes
  to it), with the interpretations on the two integer codecs of the voucher.
\<close>

section \<open>Little-endian numbers\<close>

primrec le_val :: "byte list \<Rightarrow> nat" where
  "le_val [] = 0"
| "le_val (b # bs) = unat b + 256 * le_val bs"

primrec le_bytes :: "nat \<Rightarrow> nat \<Rightarrow> byte list" where
  "le_bytes 0 n = []"
| "le_bytes (Suc w) n = word_of_nat (n mod 256) # le_bytes w (n div 256)"

lemma length_le_bytes [simp]: "length (le_bytes w n) = w"
  by (induction w arbitrary: n) auto

lemma unat_byte_less [simp]: "unat (b :: byte) < 256"
  using unsigned_less [of b] by simp

lemma le_val_bound: "le_val bs < 256 ^ length bs"
proof (induction bs)
  case Nil
  then show ?case by simp
next
  case (Cons b bs)
  have "le_val (b # bs) < 256 * (le_val bs + 1)"
    using unat_byte_less [of b] by simp
  also have "\<dots> \<le> 256 * 256 ^ length bs"
    using Cons by simp
  finally show ?case by simp
qed

lemma unat_byte_of_nat [simp]: "unat (word_of_nat (n mod 256) :: byte) = n mod 256"
  by (simp add: unat_of_nat)

lemma le_val_le_bytes: "le_val (le_bytes w n) = n mod 256 ^ w"
proof (induction w arbitrary: n)
  case 0
  then show ?case by simp
next
  case (Suc w)
  have "n mod (256 * 256 ^ w) = 256 * (n div 256 mod 256 ^ w) + n mod 256"
    by (rule mod_mult2_eq)
  with Suc show ?case by simp
qed

lemma le_bytes_le_val: "le_bytes (length bs) (le_val bs) = bs"
  by (induction bs) auto

lemma le_val_append: "le_val (bs @ cs) = le_val bs + 256 ^ length bs * le_val cs"
  by (induction bs) (auto simp: algebra_simps)

lemma le_val_zeros [simp]: "le_val (replicate n 0) = 0"
  by (induction n) auto

lemma le_val_inj: "length bs = length cs \<Longrightarrow> le_val bs = le_val cs \<Longrightarrow> bs = cs"
  by (metis le_bytes_le_val)

section \<open>Fixed-width encodings\<close>

locale fixed_codec =
  fixes width :: nat
    and enc :: "'a \<Rightarrow> byte list"
    and dec :: "byte list \<Rightarrow> 'a option"
  assumes length_enc: "length (enc a) = width"
    and dec_enc: "dec (enc a) = Some a"
    and enc_dec: "length bs = width \<Longrightarrow> dec bs = Some a \<Longrightarrow> enc a = bs"
begin

lemma dec_iff: "length bs = width \<Longrightarrow> dec bs = Some a \<longleftrightarrow> bs = enc a"
  using dec_enc enc_dec by auto

lemma enc_inject: "enc a = enc b \<longleftrightarrow> a = b"
  using dec_enc by (metis option.inject)

lemma dec_inject:
  "length bs = width \<Longrightarrow> length cs = width \<Longrightarrow> dec bs = Some a \<Longrightarrow> dec cs = Some a \<Longrightarrow> bs = cs"
  using enc_dec by blast

text \<open>A field at the front of a longer message.\<close>

lemma dec_front: "dec (take width (enc a @ rest)) = Some a"
  by (simp add: length_enc dec_enc)

end

text \<open>An encoding whose every bit pattern is a value, as those of integers.\<close>

locale total_codec = fixed_codec +
  assumes dec_total: "length bs = width \<Longrightarrow> dec bs \<noteq> None"
begin

lemma dec_obtain:
  assumes "length bs = width"
  obtains a where "dec bs = Some a" and "bs = enc a"
  using assms dec_total [OF assms] enc_dec by blast

end

section \<open>The integer codecs of the voucher\<close>

text \<open>
  \<open>u32::from_le_bytes(xs.try_into().unwrap())\<close>: the conversion to \<open>[u8; 4]\<close> fails unless
  \<open>xs\<close> has four bytes.
\<close>

definition u32_from_le_bytes :: "byte list \<Rightarrow> u32 option" where
  "u32_from_le_bytes bs = (if length bs = 4 then Some (word_of_nat (le_val bs)) else None)"

definition u128_from_le_bytes :: "byte list \<Rightarrow> u128 option" where
  "u128_from_le_bytes bs = (if length bs = 16 then Some (word_of_nat (le_val bs)) else None)"

definition u32_to_le_bytes :: "u32 \<Rightarrow> byte list" where
  "u32_to_le_bytes w = le_bytes 4 (unat w)"

definition u128_to_le_bytes :: "u128 \<Rightarrow> byte list" where
  "u128_to_le_bytes w = le_bytes 16 (unat w)"

lemma unat_word_of_le_val:
  assumes "256 ^ length bs \<le> (2::nat) ^ LENGTH('a::len)"
  shows "unat (word_of_nat (le_val bs) :: 'a word) = le_val bs"
  using le_val_bound [of bs] assms by (simp add: unat_of_nat)

text \<open>Every word whose width is a number of bytes has such a codec.\<close>

definition word_from_le :: "byte list \<Rightarrow> 'a::len word option" where
  "word_from_le bs = (if 8 * length bs = LENGTH('a) then Some (word_of_nat (le_val bs)) else None)"

definition word_to_le :: "'a::len word \<Rightarrow> byte list" where
  "word_to_le w = le_bytes (LENGTH('a) div 8) (unat w)"

lemma word_total_codec:
  assumes len: "LENGTH('a::len) = 8 * n"
  shows "total_codec n (word_to_le :: 'a word \<Rightarrow> byte list) word_from_le"
proof
  fix a :: "'a word" and bs :: "byte list"
  have pow: "(256::nat) ^ n = 2 ^ LENGTH('a)"
    using len by (simp add: power_mult)
  show "length (word_to_le a) = n"
    using len by (simp add: word_to_le_def)
  have "unat a mod 256 ^ n = unat a"
    unfolding pow by (rule mod_less) (rule unsigned_less)
  then show "word_from_le (word_to_le a) = Some a"
    using len by (simp add: word_from_le_def word_to_le_def le_val_le_bytes)
  assume n: "length bs = n"
  then show "word_from_le bs \<noteq> (None :: 'a word option)"
    using len by (simp add: word_from_le_def)
  assume "word_from_le bs = Some a"
  then have "a = word_of_nat (le_val bs)"
    by (simp add: word_from_le_def split: if_splits)
  moreover have "le_val bs < 2 ^ LENGTH('a)"
    using le_val_bound [of bs] by (simp add: n pow)
  ultimately show "word_to_le a = bs"
    using le_bytes_le_val [of bs] len n by (simp add: word_to_le_def unat_of_nat)
qed

lemma u32_codec_word: "u32_to_le_bytes = word_to_le" "u32_from_le_bytes = word_from_le"
  by (auto simp: fun_eq_iff u32_to_le_bytes_def word_to_le_def u32_from_le_bytes_def word_from_le_def)

lemma u128_codec_word: "u128_to_le_bytes = word_to_le" "u128_from_le_bytes = word_from_le"
  by (auto simp: fun_eq_iff u128_to_le_bytes_def word_to_le_def u128_from_le_bytes_def word_from_le_def)

interpretation u32_le: total_codec 4 u32_to_le_bytes u32_from_le_bytes
  unfolding u32_codec_word by (rule word_total_codec) simp

interpretation u128_le: total_codec 16 u128_to_le_bytes u128_from_le_bytes
  unfolding u128_codec_word by (rule word_total_codec) simp

section \<open>U256\<close>

text \<open>
  \<open>U256::from_little_endian\<close> accepts at most 32 bytes; \<open>/\<close> on \<open>U256\<close> panics when the
  divisor is zero and rounds down otherwise.
\<close>

definition u256_from_little_endian :: "byte list \<Rightarrow> (u256, 'e) outcome" where
  "u256_from_little_endian bs = (if length bs \<le> 32 then Ok (word_of_nat (le_val bs)) else Panic)"

definition u256_div :: "u256 \<Rightarrow> u256 \<Rightarrow> (u256, 'e) outcome" where
  "u256_div a b = (if b = 0 then Panic else Ok (a div b))"

lemma u256_iffs [outcome_simps]:
  "u256_from_little_endian bs = Ok n \<longleftrightarrow> length bs \<le> 32 \<and> n = word_of_nat (le_val bs)"
  "u256_from_little_endian bs \<noteq> Err e"
  "u256_from_little_endian bs = Panic \<longleftrightarrow> \<not> length bs \<le> 32"
  "u256_div a b = Ok n \<longleftrightarrow> b \<noteq> 0 \<and> n = a div b"
  "u256_div a b \<noteq> Err e"
  "u256_div a b = Panic \<longleftrightarrow> b = 0"
  by (auto simp: u256_from_little_endian_def u256_div_def)

lemma unat_u256_le: "length bs \<le> 32 \<Longrightarrow> unat (word_of_nat (le_val bs) :: u256) = le_val bs"
  using power_increasing [of "length bs" 32 "256::nat"]
  by (intro unat_word_of_le_val) simp

end
