(* ===== verification/Substrate.thy ===== *)
theory Substrate
  imports Byte_Codec
begin

text \<open>
  The parameters of the model: everything the pallet takes from the Substrate crates is a
  field of the record \<open>substrate\<close>; what is used of it is stated by \<open>substrate_ok\<close> and by
  \<open>fixed_codec\<close>. The last section gives concrete parameters, on which the hypotheses
  hold and the witnesses of the development are evaluated.
\<close>

section \<open>What the pallet takes from Substrate\<close>

text \<open>
  \<^item> \<open>decode_account\<close>: \<open>Decode::decode\<close> at the signer's \<open>AccountId\<close>;
  \<^item> \<open>decode_signature\<close>: \<open>sr25519::Signature::decode\<close> followed by \<open>into()\<close>;
  \<^item> \<open>h256_from_slice\<close>: \<open>H256::from_slice\<close>, \<open>None\<close> where it panics;
  \<^item> \<open>sig_verify\<close>: \<open>Verify::verify\<close> of the signature type;
  \<^item> \<open>encode_hash\<close>, \<open>encode_block_number\<close>: SCALE encodings of a hash and a block number;
  \<^item> \<open>blake2_256\<close>: the \<open>Blake2_256\<close> storage hasher.
\<close>

record ('acc, 'sig, 'h) substrate =
  decode_account :: "byte list \<Rightarrow> 'acc option"
  decode_signature :: "byte list \<Rightarrow> 'sig option"
  h256_from_slice :: "byte list \<Rightarrow> 'h option"
  sig_verify :: "'sig \<Rightarrow> byte list \<Rightarrow> 'acc \<Rightarrow> bool"
  encode_hash :: "'h \<Rightarrow> byte list"
  encode_block_number :: "u32 \<Rightarrow> byte list"
  blake2_256 :: "byte list \<Rightarrow> byte list"

text \<open>
  Documented facts: \<open>from_slice\<close> accepts every slice of 32 bytes, a hash encodes to its
  32 bytes, and \<open>Blake2_256\<close> returns 32 bytes.
\<close>

definition substrate_ok :: "('acc, 'sig, 'h) substrate \<Rightarrow> bool" where
  "substrate_ok env \<longleftrightarrow>
     (\<forall>bs. length bs = 32 \<longrightarrow> h256_from_slice env bs \<noteq> None) \<and>
     (\<forall>h. length (encode_hash env h) = 32) \<and>
     (\<forall>bs. length (blake2_256 env bs) = 32)"

lemma substrate_okD:
  assumes "substrate_ok env"
  shows "length bs = 32 \<Longrightarrow> h256_from_slice env bs \<noteq> None"
    and "length (encode_hash env h) = 32"
    and "length (blake2_256 env cs) = 32"
  using assms by (auto simp: substrate_ok_def)

section \<open>Concrete parameters\<close>

text \<open>
  Accounts and hashes are 256-bit words and signatures 512-bit words in little-endian
  order; a signature is valid when its low half is the signer; the hash of a message is
  its first 32 bytes.
\<close>

definition demo_substrate :: "(u256, 512 word, u256) substrate" where
  "demo_substrate =
     \<lparr>decode_account = word_from_le, decode_signature = word_from_le,
      h256_from_slice = word_from_le, sig_verify = (\<lambda>sig _ pk. ucast sig = pk),
      encode_hash = word_to_le, encode_block_number = u32_to_le_bytes,
      blake2_256 = (\<lambda>bs. take 32 (bs @ replicate 32 0))\<rparr>"

lemma demo_substrate_ok: "substrate_ok demo_substrate"
  by (auto simp: substrate_ok_def demo_substrate_def word_from_le_def word_to_le_def)

end
