(* ===== verification/Voucher.thy ===== *)
theory Voucher
  imports Substrate
begin

text \<open>
  The lottery voucher of the probabilistic-payments pallet and its parser
  (\<open>Voucher\<close> and \<open>Voucher::parse\<close> in
  \<open>blockchain/pallets/probabilistic-payments/src/lib.rs\<close>): the record, the parser over
  byte slices, the wire layout as a reference encoder, and the round trips between the
  two.
\<close>

section \<open>The voucher and its parser\<close>

record ('acc, 'sig, 'h) voucher =
  oracle_block :: u32
  difficulty :: u32
  no_redeem_before_block :: u32
  value_if_paid :: u32
  price_list_commit :: u128
  sender_pk :: 'acc
  recipient_pk :: 'acc
  nonce :: 'h
  signature :: 'sig

definition read_u32 :: "nat \<Rightarrow> nat \<Rightarrow> byte list \<Rightarrow> (u32, 'e) outcome" where
  "read_u32 a b voucher = rbind (slice a b voucher) (\<lambda>bs. unwrap (u32_from_le_bytes bs))"

definition read_u128 :: "nat \<Rightarrow> nat \<Rightarrow> byte list \<Rightarrow> (u128, 'e) outcome" where
  "read_u128 a b voucher = rbind (slice a b voucher) (\<lambda>bs. unwrap (u128_from_le_bytes bs))"

definition parse ::
  "('acc, 'sig, 'h) substrate \<Rightarrow> byte list \<Rightarrow> (('acc, 'sig, 'h) voucher, u8) outcome" where
  "parse env voucher =
     (if length voucher < 192 then Err 0 else
      rbind (read_u32 0 4 voucher) (\<lambda>oracle.
      rbind (read_u32 4 8 voucher) (\<lambda>diff.
      rbind (read_u32 8 12 voucher) (\<lambda>no_redeem.
      rbind (read_u32 12 16 voucher) (\<lambda>val.
      rbind (read_u128 16 32 voucher) (\<lambda>commit.
      rbind (rbind (slice 32 64 voucher) (\<lambda>bs. ok_or (decode_account env bs) 1)) (\<lambda>sender.
      rbind (rbind (slice 64 96 voucher) (\<lambda>bs. ok_or (decode_account env bs) 2)) (\<lambda>recipient.
      rbind (rbind (slice 96 128 voucher) (\<lambda>bs. unwrap (h256_from_slice env bs))) (\<lambda>nnc.
      rbind (rbind (slice 128 192 voucher) (\<lambda>bs. ok_or (decode_signature env bs) 3)) (\<lambda>sig.
      Ok \<lparr>oracle_block = oracle, difficulty = diff, no_redeem_before_block = no_redeem,
          value_if_paid = val, price_list_commit = commit, sender_pk = sender,
          recipient_pk = recipient, nonce = nnc, signature = sig\<rparr>))))))))))"

section \<open>When parsing returns, fails and panics\<close>

lemma read_u32_ok:
  "a + 4 = b \<Longrightarrow> b \<le> length bs \<Longrightarrow>
   read_u32 a b bs = Ok (word_of_nat (le_val (take 4 (drop a bs))))"
  by (auto simp: read_u32_def u32_from_le_bytes_def)

lemma read_u128_ok:
  "a + 16 = b \<Longrightarrow> b \<le> length bs \<Longrightarrow>
   read_u128 a b bs = Ok (word_of_nat (le_val (take 16 (drop a bs))))"
  by (auto simp: read_u128_def u128_from_le_bytes_def)

text \<open>The parser over a message that is long enough: no slice and no integer read can fail.\<close>

lemma parse_long:
  assumes "192 \<le> length bs"
  shows "parse env bs =
     rbind (ok_or (decode_account env (take 32 (drop 32 bs))) 1) (\<lambda>sender.
     rbind (ok_or (decode_account env (take 32 (drop 64 bs))) 2) (\<lambda>recipient.
     rbind (unwrap (h256_from_slice env (take 32 (drop 96 bs)))) (\<lambda>nnc.
     rbind (ok_or (decode_signature env (take 64 (drop 128 bs))) 3) (\<lambda>sig.
     Ok \<lparr>oracle_block = word_of_nat (le_val (take 4 bs)),
         difficulty = word_of_nat (le_val (take 4 (drop 4 bs))),
         no_redeem_before_block = word_of_nat (le_val (take 4 (drop 8 bs))),
         value_if_paid = word_of_nat (le_val (take 4 (drop 12 bs))),
         price_list_commit = word_of_nat (le_val (take 16 (drop 16 bs))),
         sender_pk = sender, recipient_pk = recipient, nonce = nnc, signature = sig\<rparr>))))"
  using assms by (simp add: parse_def read_u32_ok read_u128_ok)

lemma parse_short: "length bs < 192 \<Longrightarrow> parse env bs = Err 0"
  by (simp add: parse_def)

text \<open>Only the first 192 bytes are read.\<close>

lemma parse_prefix: "192 \<le> length bs \<Longrightarrow> parse env bs = parse env (take 192 bs)"
  by (simp add: parse_long drop_take min_def)

lemma parse_no_panic: "substrate_ok env \<Longrightarrow> parse env bs \<noteq> Panic"
  by (cases "length bs < 192")
    (auto simp: parse_short parse_long not_less outcome_simps substrate_ok_def)

lemma parse_Ok_iff:
  "parse env bs = Ok v \<longleftrightarrow>
     192 \<le> length bs \<and>
     u32_from_le_bytes (take 4 bs) = Some (oracle_block v) \<and>
     u32_from_le_bytes (take 4 (drop 4 bs)) = Some (difficulty v) \<and>
     u32_from_le_bytes (take 4 (drop 8 bs)) = Some (no_redeem_before_block v) \<and>
     u32_from_le_bytes (take 4 (drop 12 bs)) = Some (value_if_paid v) \<and>
     u128_from_le_bytes (take 16 (drop 16 bs)) = Some (price_list_commit v) \<and>
     decode_account env (take 32 (drop 32 bs)) = Some (sender_pk v) \<and>
     decode_account env (take 32 (drop 64 bs)) = Some (recipient_pk v) \<and>
     h256_from_slice env (take 32 (drop 96 bs)) = Some (nonce v) \<and>
     decode_signature env (take 64 (drop 128 bs)) = Some (signature v)"
proof (cases "length bs < 192")
  case True
  then show ?thesis by (simp add: parse_short)
next
  case False
  then show ?thesis
    by (cases v) (auto simp: parse_long outcome_simps u32_from_le_bytes_def u128_from_le_bytes_def)
qed

lemma parse_Ok_length: "parse env bs = Ok v \<Longrightarrow> 192 \<le> length bs"
  by (simp add: parse_Ok_iff)

section \<open>The wire layout\<close>

text \<open>
  The layout of \<open>README.md\<close> (offsets 0, 4, 8, 12, 16, 32, 64, 96 and 128), as an encoder
  over the encoders of the account, hash and signature types.
\<close>

definition unsigned_layout ::
  "('acc \<Rightarrow> byte list) \<Rightarrow> ('h \<Rightarrow> byte list) \<Rightarrow> ('acc, 'sig, 'h) voucher \<Rightarrow> byte list" where
  "unsigned_layout ea eh v =
     u32_to_le_bytes (oracle_block v) @ u32_to_le_bytes (difficulty v) @
     u32_to_le_bytes (no_redeem_before_block v) @ u32_to_le_bytes (value_if_paid v) @
     u128_to_le_bytes (price_list_commit v) @ ea (sender_pk v) @ ea (recipient_pk v) @
     eh (nonce v)"

definition voucher_layout ::
  "('acc \<Rightarrow> byte list) \<Rightarrow> ('h \<Rightarrow> byte list) \<Rightarrow> ('sig \<Rightarrow> byte list) \<Rightarrow>
   ('acc, 'sig, 'h) voucher \<Rightarrow> byte list" where
  "voucher_layout ea eh es v = unsigned_layout ea eh v @ es (signature v)"

text \<open>The codecs of the third-party types, as one hypothesis.\<close>

definition voucher_codecs ::
  "('acc, 'sig, 'h) substrate \<Rightarrow> ('acc \<Rightarrow> byte list) \<Rightarrow> ('h \<Rightarrow> byte list) \<Rightarrow>
   ('sig \<Rightarrow> byte list) \<Rightarrow> bool" where
  "voucher_codecs env ea eh es \<longleftrightarrow>
     fixed_codec 32 ea (decode_account env) \<and>
     fixed_codec 32 eh (h256_from_slice env) \<and>
     fixed_codec 64 es (decode_signature env)"

lemmas integer_codecs = u32_le.length_enc u128_le.length_enc u32_le.dec_enc u128_le.dec_enc

lemma voucher_codecsD:
  assumes "voucher_codecs env ea eh es"
  shows "length (ea a) = 32" "length (eh h) = 32" "length (es s) = 64"
    and "decode_account env (ea a) = Some a"
    and "h256_from_slice env (eh h) = Some h"
    and "decode_signature env (es s) = Some s"
    and "length bs = 32 \<Longrightarrow> decode_account env bs = Some a \<Longrightarrow> ea a = bs"
    and "length bs = 32 \<Longrightarrow> h256_from_slice env bs = Some h \<Longrightarrow> eh h = bs"
    and "length bs = 64 \<Longrightarrow> decode_signature env bs = Some s \<Longrightarrow> es s = bs"
proof -
  have a: "fixed_codec 32 ea (decode_account env)" and h: "fixed_codec 32 eh (h256_from_slice env)"
    and s: "fixed_codec 64 es (decode_signature env)"
    using assms by (auto simp: voucher_codecs_def)
  show "length (ea a) = 32" "decode_account env (ea a) = Some a"
    "length bs = 32 \<Longrightarrow> decode_account env bs = Some a \<Longrightarrow> ea a = bs"
    using a by (auto simp: fixed_codec_def)
  show "length (eh h) = 32" "h256_from_slice env (eh h) = Some h"
    "length bs = 32 \<Longrightarrow> h256_from_slice env bs = Some h \<Longrightarrow> eh h = bs"
    using h by (auto simp: fixed_codec_def)
  show "length (es s) = 64" "decode_signature env (es s) = Some s"
    "length bs = 64 \<Longrightarrow> decode_signature env bs = Some s \<Longrightarrow> es s = bs"
    using s by (auto simp: fixed_codec_def)
qed

lemma length_unsigned_layout:
  "voucher_codecs env ea eh es \<Longrightarrow> length (unsigned_layout ea eh v) = 128"
  by (simp add: unsigned_layout_def integer_codecs voucher_codecsD)

lemma parse_layout:
  "voucher_codecs env ea eh es \<Longrightarrow> parse env (voucher_layout ea eh es v @ rest) = Ok v"
  by (simp add: parse_Ok_iff voucher_layout_def unsigned_layout_def integer_codecs voucher_codecsD)

text \<open>Conversely the bytes of a parsed voucher are its layout: parsing is injective.\<close>

lemma layout_parse:
  assumes codecs: "voucher_codecs env ea eh es" and ok: "parse env bs = Ok v"
  shows "voucher_layout ea eh es v = take 192 bs"
proof -
  note field = ok [unfolded parse_Ok_iff]
  have ints: "u32_to_le_bytes (oracle_block v) = take 4 bs"
    "u32_to_le_bytes (difficulty v) = take 4 (drop 4 bs)"
    "u32_to_le_bytes (no_redeem_before_block v) = take 4 (drop 8 bs)"
    "u32_to_le_bytes (value_if_paid v) = take 4 (drop 12 bs)"
    "u128_to_le_bytes (price_list_commit v) = take 16 (drop 16 bs)"
    using field by (auto intro!: u32_le.enc_dec u128_le.enc_dec)
  have keys: "ea (sender_pk v) = take 32 (drop 32 bs)" "ea (recipient_pk v) = take 32 (drop 64 bs)"
    "eh (nonce v) = take 32 (drop 96 bs)" "es (signature v) = take 64 (drop 128 bs)"
    using field by (auto intro!: voucher_codecsD(7,8,9) [OF codecs])
  have "take 192 bs = take 4 bs @ take 4 (drop 4 bs) @ take 4 (drop 8 bs) @ take 4 (drop 12 bs) @
      take 16 (drop 16 bs) @ take 32 (drop 32 bs) @ take 32 (drop 64 bs) @ take 32 (drop 96 bs) @
      take 64 (drop 128 bs)"
    by (simp add: take_join)
  then show ?thesis
    by (simp add: voucher_layout_def unsigned_layout_def ints keys)
qed

section \<open>A concrete voucher\<close>

text \<open>
  Account 1 promises account 2 four units at difficulty 2, redeemable from block 1 on,
  decided by the randomness of block 1.
\<close>

definition demo_voucher :: "(u256, 512 word, u256) voucher" where
  "demo_voucher = \<lparr>oracle_block = 1, difficulty = 2, no_redeem_before_block = 1,
     value_if_paid = 4, price_list_commit = 0, sender_pk = 1, recipient_pk = 2, nonce = 0,
     signature = 1\<rparr>"

definition demo_bytes :: "byte list" where
  "demo_bytes = [1, 0, 0, 0, 2, 0, 0, 0, 1, 0, 0, 0, 4, 0, 0, 0] @ replicate 16 0 @
     (1 # replicate 31 0) @ (2 # replicate 31 0) @ replicate 32 0 @ (1 # replicate 63 0)"

lemma demo_parse: "parse demo_substrate demo_bytes = Ok demo_voucher"
  by (simp add: parse_Ok_iff demo_substrate_def word_from_le_def u32_from_le_bytes_def
      u128_from_le_bytes_def demo_bytes_def demo_voucher_def)

lemma length_demo_bytes: "length demo_bytes = 192"
  by (simp add: demo_bytes_def)

lemma take_demo_bytes: "take 192 (demo_bytes @ rest) = demo_bytes"
  by (simp add: length_demo_bytes)

text \<open>The same voucher under a second valid signature.\<close>

definition demo_resigned :: "byte list" where
  "demo_resigned = take 191 demo_bytes @ [5]"

lemma demo_resigned_parse:
  "parse demo_substrate demo_resigned = Ok (demo_voucher\<lparr>signature := 1 + 5 * 2 ^ 504\<rparr>)"
  by (simp add: parse_Ok_iff demo_substrate_def word_from_le_def u32_from_le_bytes_def
      u128_from_le_bytes_def demo_resigned_def demo_bytes_def demo_voucher_def le_val_append)

lemma demo_codecs: "voucher_codecs demo_substrate word_to_le word_to_le word_to_le"
proof -
  have "total_codec 32 (word_to_le :: u256 \<Rightarrow> byte list) word_from_le"
    and "total_codec 64 (word_to_le :: 512 word \<Rightarrow> byte list) word_from_le"
    by (rule word_total_codec, simp)+
  then show ?thesis
    by (simp add: voucher_codecs_def demo_substrate_def total_codec_def)
qed

section \<open>Properties\<close>

text \<open>
  C10: Parsing inverts the wire layout: whatever voucher a client lays out at the
  documented offsets, with any bytes after the signature, \<open>Voucher::parse\<close> returns exactly
  its fields.
\<close>

theorem parse_roundtrip:
  assumes "voucher_codecs env ea eh es"
  shows "parse env (voucher_layout ea eh es v @ rest) = Ok v"
  using assms by (rule parse_layout)

theorem parse_roundtrip_witness:
  "voucher_codecs demo_substrate word_to_le word_to_le word_to_le \<and>
   parse demo_substrate (voucher_layout word_to_le word_to_le word_to_le demo_voucher @ [9])
     = Ok demo_voucher"
  using demo_codecs parse_roundtrip [OF demo_codecs, of demo_voucher "[9]"] by simp

text \<open>
  C11: Parsing is canonical: a byte string that parses starts with the wire layout of the
  result, so two vouchers with the same fields have the same 192 bytes and no field can be
  encoded in a second way.
\<close>

theorem parse_canonical:
  assumes "voucher_codecs env ea eh es" and "parse env bs = Ok v"
  shows "take 192 bs = voucher_layout ea eh es v \<and> 192 \<le> length bs"
  using layout_parse [OF assms] parse_Ok_length [OF assms(2)] by simp

theorem parse_canonical_witness:
  "voucher_codecs demo_substrate word_to_le word_to_le word_to_le \<and>
   take 192 demo_bytes = voucher_layout word_to_le word_to_le word_to_le demo_voucher"
  using demo_codecs parse_canonical [OF demo_codecs demo_parse] by simp

text \<open>
  C37: Parsing never panics and its error codes say what is wrong: 0 for fewer than 192
  bytes, 1 for a sender key, 2 for a recipient key and 3 for a signature that does not
  decode, the first of them in this order.
\<close>

theorem parse_errors:
  assumes "substrate_ok env"
  shows "parse env bs \<noteq> Panic \<and>
    (parse env bs = Err c \<longleftrightarrow>
      (if length bs < 192 then c = 0
       else if decode_account env (take 32 (drop 32 bs)) = None then c = 1
       else if decode_account env (take 32 (drop 64 bs)) = None then c = 2
       else decode_signature env (take 64 (drop 128 bs)) = None \<and> c = 3))"
proof -
  have "parse env bs = Err c \<longleftrightarrow>
      (if decode_account env (take 32 (drop 32 bs)) = None then c = 1
       else if decode_account env (take 32 (drop 64 bs)) = None then c = 2
       else decode_signature env (take 64 (drop 128 bs)) = None \<and> c = 3)" if "192 \<le> length bs"
    using that substrate_okD(1) [OF assms, of "take 32 (drop 96 bs)"]
    by (auto simp: parse_long outcome_simps)
  then show ?thesis
    using parse_no_panic [OF assms] by (auto simp: parse_short not_less)
qed

theorem parse_errors_witness:
  "substrate_ok demo_substrate \<and> parse demo_substrate [] = Err 0"
  using demo_substrate_ok parse_errors [OF demo_substrate_ok, of "[]" 0] by simp

end
