(* ===== verification/Randomness_History.thy ===== *)
theory Randomness_History
  imports Voucher
begin

text \<open>
  The state of the probabilistic-payments pallet and its \<open>on_initialize\<close> hook
  (\<open>blockchain/pallets/probabilistic-payments/src/lib.rs\<close>): the storage map
  \<open>RandomnessHistory\<close>, which receives one entry per block and forgets the entry of
  \<open>EPOCH_LENGTH\<close> blocks ago. The interfaces \<open>storage_map\<close> and \<open>rolling_window\<close> state
  what the map and the hook promise; both are interpreted on the pallet's definitions.
\<close>

section \<open>State\<close>

definition EPOCH_LENGTH :: u32 where
  "EPOCH_LENGTH = 1024"

definition MaxVoucherLength :: u32 where
  "MaxVoucherLength = 256"

datatype 'acc event = VoucherClaimed (ev_value: u32) (ev_who: 'acc)

text \<open>
  \<open>block_number\<close> is \<open>frame_system\<close>'s current block number, as the pallet reads it, and
  \<open>deposited\<close> the calls of \<open>deposit_event\<close>, oldest first; \<open>randomness_history\<close> is the
  pallet's own storage.
\<close>

record ('acc, 'h) pallet_state =
  block_number :: u32
  randomness_history :: "u32 \<rightharpoonup> 'h"
  deposited :: "'acc event list"

text \<open>
  \<open>RandomnessHistory\<close> is a \<open>StorageMap\<close> with \<open>OptionQuery\<close>: \<open>get\<close> returns the entry or
  \<open>None\<close>, \<open>set\<close> with \<open>None\<close> removes it.
\<close>

definition history_get :: "('acc, 'h) pallet_state \<Rightarrow> u32 \<Rightarrow> 'h option" where
  "history_get s k = randomness_history s k"

definition history_set ::
  "('acc, 'h) pallet_state \<Rightarrow> u32 \<Rightarrow> 'h option \<Rightarrow> ('acc, 'h) pallet_state" where
  "history_set s k r = s\<lparr>randomness_history := (randomness_history s)(k := r)\<rparr>"

definition deposit_event ::
  "'acc event \<Rightarrow> ('acc, 'h) pallet_state \<Rightarrow> ('acc, 'h) pallet_state" where
  "deposit_event e s = s\<lparr>deposited := deposited s @ [e]\<rparr>"

section \<open>The hook\<close>

text \<open>The UTF-8 bytes of the two characters U+1F3B2 and U+1F45B that end the topic.\<close>

definition topic_suffix :: "byte list" where
  "topic_suffix = [0xF0, 0x9F, 0x8E, 0xB2, 0xF0, 0x9F, 0x91, 0x9B]"

definition topic :: "('acc, 'sig, 'h) substrate \<Rightarrow> u32 \<Rightarrow> byte list" where
  "topic env n = encode_block_number env n @ topic_suffix"

text \<open>
  The database weights of the runtime (\<open>T::DbWeight\<close>), and the randomness source: the
  \<open>random\<close> of the collective-flip pallet in the state it has when the hook runs, which
  returns the value and the block it dates from.
\<close>

record 'w db_weight =
  reads_writes :: "u64 \<Rightarrow> u64 \<Rightarrow> 'w"
  writes :: "u64 \<Rightarrow> 'w"

type_synonym 'h source = "byte list \<Rightarrow> 'h \<times> u32"

definition on_initialize ::
  "('acc, 'sig, 'h) substrate \<Rightarrow> 'w db_weight \<Rightarrow> 'h source \<Rightarrow> u32 \<Rightarrow>
   ('acc, 'h) pallet_state \<Rightarrow> ('acc, 'h) pallet_state \<times> 'w" where
  "on_initialize env db random n s =
     (let (rand, _) = random (topic env n);
          s1 = history_set s n (Some rand);
          expired = saturating_sub n EPOCH_LENGTH;
          s2 = (if expired > 0 then history_set s1 expired None else s1)
      in (s2, reads_writes db 1 2))"

definition drawn :: "('acc, 'sig, 'h) substrate \<Rightarrow> u32 \<Rightarrow> 'h source \<Rightarrow> 'h" where
  "drawn env n random = fst (random (topic env n))"

section \<open>The storage map interface\<close>

locale storage_map =
  fixes get :: "'m \<Rightarrow> 'k \<Rightarrow> 'v option"
    and set :: "'m \<Rightarrow> 'k \<Rightarrow> 'v option \<Rightarrow> 'm"
  assumes get_set: "get (set m k v) j = (if j = k then v else get m j)"
begin

lemma get_set_same: "get (set m k v) k = v"
  by (simp add: get_set)

lemma get_set_other: "j \<noteq> k \<Longrightarrow> get (set m k v) j = get m j"
  by (simp add: get_set)

lemma get_set_twice: "get (set (set m k v) k w) j = get (set m k w) j"
  by (simp add: get_set)

lemma get_set_swap:
  "k \<noteq> l \<Longrightarrow> get (set (set m k v) l w) j = get (set (set m l w) k v) j"
  by (simp add: get_set)

end

interpretation history: storage_map history_get history_set
  by unfold_locales (simp add: history_get_def history_set_def)

section \<open>The rolling window interface\<close>

text \<open>
  A storage map over block numbers with an operation \<open>roll\<close> that records the value
  \<open>draw n x\<close> for block \<open>n\<close> and drops the entry of \<open>len\<close> blocks before, if there is such
  a block after the genesis block.
\<close>

definition in_window :: "u32 \<Rightarrow> u32 \<Rightarrow> u32 \<Rightarrow> bool" where
  "in_window len n k \<longleftrightarrow> 0 < unat k \<and> unat k \<le> unat n \<and> unat n < unat k + unat len"

lemma unat_Suc_block:
  assumes "n \<noteq> - 1"
  shows "unat (n + 1 :: u32) = unat n + 1"
proof -
  have "1 + n \<noteq> 0"
    using assms by (simp add: eq_neg_iff_add_eq_0 add.commute)
  then show ?thesis
    using unatSuc [of n] by (simp add: add.commute)
qed

locale rolling_window = storage_map get set
  for get :: "'m \<Rightarrow> u32 \<Rightarrow> 'v option" and set :: "'m \<Rightarrow> u32 \<Rightarrow> 'v option \<Rightarrow> 'm" +
  fixes len :: u32
    and draw :: "u32 \<Rightarrow> 'x \<Rightarrow> 'v"
    and roll :: "'m \<Rightarrow> u32 \<Rightarrow> 'x \<Rightarrow> 'm"
  assumes len_pos: "0 < unat len"
    and get_roll: "get (roll m n x) k =
      (if unat len < unat n \<and> unat k + unat len = unat n then None
       else if k = n then Some (draw n x) else get m k)"
begin

lemma roll_window:
  assumes win: "\<And>k. get m k = (if in_window len n k then Some (\<rho> k) else None)"
    and n: "n \<noteq> - 1"
  shows "get (roll m (n + 1) x) k =
    (if in_window len (n + 1) k then Some ((\<rho>(n + 1 := draw (n + 1) x)) k) else None)"
proof -
  have "unat (n + 1) = unat n + 1" using n by (rule unat_Suc_block)
  moreover have "k = n + 1 \<longleftrightarrow> unat k = unat (n + 1)" by (simp add: word_unat_eq_iff)
  ultimately show ?thesis
    using len_pos by (auto simp: get_roll win in_window_def)
qed

lemma empty_window: "(\<And>k. get m k = None) \<Longrightarrow>
  get m k = (if in_window len 0 k then Some (\<rho> k) else None)"
  by (auto simp: in_window_def)

text \<open>What was recorded is read back until it expires, and never after.\<close>

lemma roll_records: "get (roll m n x) n = Some (draw n x)"
  using len_pos by (simp add: get_roll)

lemma roll_expires: "unat len < unat n \<Longrightarrow> unat k + unat len = unat n \<Longrightarrow> get (roll m n x) k = None"
  by (simp add: get_roll)

end

lemma window_card: "card {k. in_window len n k} \<le> unat len"
proof -
  have "unat ` {k. in_window len n k} \<subseteq> {unat n + 1 - unat len ..< unat n + 1}"
    by (auto simp: in_window_def)
  then have "card (unat ` {k. in_window len n k}) \<le> card {unat n + 1 - unat len ..< unat n + 1}"
    by (intro card_mono) auto
  moreover have "inj_on unat {k. in_window len n k}"
    by (rule inj_onI) (simp add: word_unat_eq_iff)
  ultimately show ?thesis by (simp add: card_image)
qed

interpretation window:
  rolling_window history_get history_set EPOCH_LENGTH "drawn env"
    "\<lambda>s n src. fst (on_initialize env db src n s)"
  for env :: "('acc, 'sig, 'h) substrate" and db :: "'w db_weight"
proof
  show "0 < unat EPOCH_LENGTH" by (simp add: EPOCH_LENGTH_def)
  fix m :: "('acc, 'h) pallet_state" and n k :: u32 and src :: "'h source"
  have k: "unat k = unat j \<longleftrightarrow> k = j" for j by (simp add: word_unat_eq_iff)
  have "unat k + unat EPOCH_LENGTH = unat n \<longleftrightarrow>
      k = saturating_sub n EPOCH_LENGTH" if "unat EPOCH_LENGTH < unat n"
    using that by (auto simp flip: k)
  then show "history_get (fst (on_initialize env db src n m)) k =
      (if unat EPOCH_LENGTH < unat n \<and> unat k + unat EPOCH_LENGTH = unat n then None
       else if k = n then Some (drawn env n src) else history_get m k)"
    by (auto simp: on_initialize_def drawn_def Let_def history.get_set zero_less_word_iff
        split: prod.splits)
qed

section \<open>Frame conditions\<close>

lemma history_set_frame [simp]:
  "block_number (history_set s k r) = block_number s"
  "deposited (history_set s k r) = deposited s"
  by (simp_all add: history_set_def)

lemma on_initialize_frame [simp]:
  "block_number (fst (on_initialize env db src n s)) = block_number s"
  "deposited (fst (on_initialize env db src n s)) = deposited s"
  by (auto simp: on_initialize_def Let_def split: prod.splits)

lemma deposit_event_frame [simp]:
  "block_number (deposit_event e s) = block_number s"
  "randomness_history (deposit_event e s) = randomness_history s"
  "history_get (deposit_event e s) k = history_get s k"
  "deposited (deposit_event e s) = deposited s @ [e]"
  by (simp_all add: deposit_event_def history_get_def)

lemma history_get_number [simp]:
  "history_get (s\<lparr>block_number := n\<rparr>) k = history_get s k"
  by (simp add: history_get_def)

end
