(* ===== verification/Draw.thy ===== *)
theory Draw
  imports Byte_Codec
begin

text \<open>
  The lottery draw of a claim (\<open>Pallet::claim\<close>, the last \<open>ensure!\<close> of
  \<open>blockchain/pallets/probabilistic-payments/src/lib.rs\<close>): the threshold
  \<open>U256::MAX / U256::from(difficulty)\<close>, the comparison against it, and how many of the
  \<open>2 ^ 256\<close> hash values win at a given difficulty.
\<close>

section \<open>Threshold and comparison\<close>

definition U256_MAX :: u256 where
  "U256_MAX = - 1"

definition threshold :: "u32 \<Rightarrow> (u256, 'e) outcome" where
  "threshold d = u256_div U256_MAX (ucast d)"

definition draw_wins :: "byte list \<Rightarrow> u32 \<Rightarrow> (bool, 'e) outcome" where
  "draw_wins hash d =
     rbind (u256_from_little_endian hash) (\<lambda>draw.
     rbind (threshold d) (\<lambda>limit. Ok (draw < limit)))"

text \<open>The specification over numbers: at difficulty \<open>d\<close> the value \<open>h\<close> wins.\<close>

definition wins :: "u32 \<Rightarrow> nat \<Rightarrow> bool" where
  "wins d h \<longleftrightarrow> h < (2 ^ 256 - 1) div unat d"

section \<open>Correctness\<close>

lemma unat_U256_MAX: "unat U256_MAX = 2 ^ 256 - 1"
  by (simp add: U256_MAX_def unsigned_minus_1_eq_mask mask_eq_exp_minus_1)

lemma unat_ucast_u256: "unat (ucast (d :: u32) :: u256) = unat d"
  by (simp add: unsigned_ucast_eq take_bit_nat_eq_self_iff order_less_trans [OF unsigned_less])

lemma threshold_eq: "threshold d = (if d = 0 then Panic else Ok (U256_MAX div ucast d))"
  by (simp add: threshold_def u256_div_def word_unat_eq_iff [of "ucast d"] unat_ucast_u256
      word_unat_eq_iff [of d])

lemma unat_threshold: "unat (U256_MAX div ucast (d :: u32)) = (2 ^ 256 - 1) div unat d"
  by (simp only: unat_div_distrib unat_U256_MAX unat_ucast_u256)

lemma draw_wins_eq:
  assumes "length hash = 32"
  shows "draw_wins hash d = (if d = 0 then Panic else Ok (wins d (le_val hash)))"
  using assms
  by (simp add: draw_wins_def u256_from_little_endian_def threshold_eq word_less_nat_alt
      unat_u256_le unat_threshold wins_def del: unat_of_nat)

lemma draw_wins_iffs [outcome_simps]:
  assumes "length hash = 32"
  shows "draw_wins hash d = Ok b \<longleftrightarrow> d \<noteq> 0 \<and> b = wins d (le_val hash)"
    and "draw_wins hash d \<noteq> Err e"
    and "draw_wins hash d = Panic \<longleftrightarrow> d = 0"
  using assms by (auto simp: draw_wins_eq)

section \<open>How many values win\<close>

definition winning_hashes :: "u32 \<Rightarrow> byte list set" where
  "winning_hashes d = {hash. length hash = 32 \<and> draw_wins hash d = (Ok True :: (bool, unit) outcome)}"

lemma winning_hashes_eq:
  "d \<noteq> 0 \<Longrightarrow> winning_hashes d = {hash. length hash = 32 \<and> le_val hash < (2 ^ 256 - 1) div unat d}"
  by (auto simp: winning_hashes_def outcome_simps wins_def)

lemma bij_le_val: "bij_betw le_val {hash. length hash = w} {..< 256 ^ w}"
proof (rule bij_betw_byWitness [where f' = "le_bytes w"])
  show "\<forall>hash \<in> {hash. length hash = w}. le_bytes w (le_val hash) = hash"
    using le_bytes_le_val by auto
  show "\<forall>n \<in> {..< 256 ^ w}. le_val (le_bytes w n) = n"
    by (simp add: le_val_le_bytes)
qed (use le_val_bound in auto)

lemma card_winning_hashes:
  assumes "d \<noteq> 0"
  shows "card (winning_hashes d) = (2 ^ 256 - 1) div unat d"
proof -
  let ?t = "(2 ^ 256 - 1) div unat d"
  have "?t \<le> 2 ^ 256 - 1" by (rule div_le_dividend)
  also have "\<dots> < 256 ^ 32" by simp
  finally have t: "?t < 256 ^ 32" .
  have inj: "inj_on le_val {hash. length hash = 32}"
    using bij_le_val [of 32] by (simp add: bij_betw_def)
  have "le_val ` winning_hashes d = {..< ?t}"
  proof
    show "le_val ` winning_hashes d \<subseteq> {..< ?t}"
      using assms by (auto simp: winning_hashes_eq)
    show "{..< ?t} \<subseteq> le_val ` winning_hashes d"
    proof
      fix n assume "n \<in> {..< ?t}"
      with t have "n = le_val (le_bytes 32 n)" and "n < ?t"
        by (auto simp: le_val_le_bytes)
      with assms show "n \<in> le_val ` winning_hashes d"
        by (auto simp: winning_hashes_eq intro!: image_eqI [of _ _ "le_bytes 32 n"])
    qed
  qed
  moreover have "inj_on le_val (winning_hashes d)"
    using inj by (rule inj_on_subset) (auto simp: winning_hashes_def)
  ultimately show ?thesis
    by (metis card_image card_lessThan)
qed

lemma wins_antimono: "d \<le> e \<Longrightarrow> d \<noteq> 0 \<Longrightarrow> wins e h \<Longrightarrow> wins d h"
  unfolding wins_def word_le_nat_alt
  by (meson div_le_mono2 less_le_trans unat_gt_0)

lemma le_val_max: "length hash = w \<Longrightarrow> le_val hash = 256 ^ w - 1 \<longleftrightarrow> hash = replicate w 255"
proof -
  assume len: "length hash = w"
  have ff: "unat (255 :: byte) = 255" by simp
  have "le_val (replicate w (255 :: byte)) + 1 = 256 ^ w" for w
    by (induction w) (simp_all add: ff)
  then have top: "le_val (replicate w (255 :: byte)) = 256 ^ w - 1" for w
    by (metis add_diff_cancel_right')
  then show ?thesis
    using le_val_inj [of hash "replicate w 255"] len by (metis length_replicate)
qed

section \<open>Properties\<close>

text \<open>
  C14: At difficulty \<open>d\<close> exactly \<open>(2^256 - 1) div d\<close> of the \<open>2^256\<close> hash values win, so the
  chance of a voucher is one in \<open>d\<close> up to less than \<open>d\<close> values of the \<open>2^256\<close>, and a hash
  that wins at some difficulty wins at every lower one.
\<close>

theorem winning_count:
  assumes "d \<noteq> 0"
  shows "card (winning_hashes d) = (2 ^ 256 - 1) div unat d \<and>
    unat d * card (winning_hashes d) < 2 ^ 256 \<and>
    2 ^ 256 \<le> unat d * (card (winning_hashes d) + 1) \<and>
    (e \<ge> d \<longrightarrow> winning_hashes e \<subseteq> winning_hashes d)"
proof -
  define m :: nat where "m = 2 ^ 256 - 1"
  have m: "2 ^ 256 = m + 1" by (simp add: m_def)
  have card: "card (winning_hashes d) = m div unat d"
    using card_winning_hashes [OF assms] by (simp add: m_def)
  have pos: "0 < unat d" using assms by (simp add: unat_gt_0)
  have sub: "winning_hashes e \<subseteq> winning_hashes d" if "e \<ge> d"
    using that assms wins_antimono by (auto simp: winning_hashes_def outcome_simps)
  show ?thesis
    unfolding card m using div_bounds [OF pos, of m] sub
    by (intro conjI impI; linarith?) (simp_all add: m_def [symmetric])
qed

theorem winning_count_witness:
  "(5000 :: u32) \<noteq> 0 \<and> card (winning_hashes 5000) = (2 ^ 256 - 1) div 5000"
  using winning_count [of 5000 5000] by simp

text \<open>
  Difficulty 1, documented as certain payment, loses on exactly one hash value: the one
  with every byte 255.
\<close>

lemma difficulty_one_loses_once:
  "{hash. length hash = 32} - winning_hashes 1 = {replicate 32 255}"
proof -
  have "hash \<in> winning_hashes 1 \<longleftrightarrow> le_val hash \<noteq> 256 ^ 32 - 1" if "length hash = 32" for hash
    using that le_val_bound [of hash] by (auto simp: winning_hashes_eq)
  then show ?thesis using le_val_max [of _ 32] by auto
qed

end
