(* ===== verification/Claim.thy ===== *)
theory Claim
  imports Randomness_History Draw
begin

text \<open>
  The dispatchable \<open>claim\<close> of the probabilistic-payments pallet
  (\<open>blockchain/pallets/probabilistic-payments/src/lib.rs\<close>), with its errors, and the
  lemmas that say on which voucher it succeeds, with which error it fails, and when it
  panics. The order of the checks is the order of the code.
\<close>

section \<open>Errors and the dispatchable\<close>

datatype pallet_error =
    InvalidVoucher u8
  | InvalidRecipient
  | InvalidVoucherSignature
  | ClaimedTooSoonOrLate
  | VoucherDidNotWin

datatype dispatch_error = BadOrigin | Module pallet_error

text \<open>
  An origin is given by what \<open>ensure_signed\<close> makes of it: the account that signed the
  extrinsic, or \<open>None\<close>, on which it returns \<open>BadOrigin\<close>.
\<close>

type_synonym 'acc origin = "'acc option"

definition claim ::
  "('acc, 'sig, 'h) substrate \<Rightarrow> 'acc origin \<Rightarrow> byte list \<Rightarrow> ('acc, 'h) pallet_state \<Rightarrow>
   (('acc, 'h) pallet_state, dispatch_error) outcome" where
  "claim env origin voucher s =
     rbind (ok_or origin BadOrigin) (\<lambda>who.
     rbind (map_err (\<lambda>c. Module (InvalidVoucher c)) (parse env voucher)) (\<lambda>v.
     rbind (ensure (recipient_pk v = who) (Module InvalidRecipient)) (\<lambda>_.
     rbind (ensure (block_number s \<ge> no_redeem_before_block v)
       (Module ClaimedTooSoonOrLate)) (\<lambda>_.
     rbind (slice 0 128 voucher) (\<lambda>unsigned_voucher.
     rbind (ensure (sig_verify env (signature v) unsigned_voucher (sender_pk v))
       (Module InvalidVoucherSignature)) (\<lambda>_.
     rbind (ok_or (history_get s (oracle_block v)) (Module ClaimedTooSoonOrLate)) (\<lambda>rand.
     rbind (copy_from_slice 0 128 (replicate (128 + 32) 0) unsigned_voucher) (\<lambda>input1.
     rbind (copy_from_slice 128 160 input1 (encode_hash env rand)) (\<lambda>input2.
     rbind (draw_wins (blake2_256 env input2) (difficulty v)) (\<lambda>won.
     rbind (ensure won (Module VoucherDidNotWin)) (\<lambda>_.
     Ok (deposit_event (VoucherClaimed (value_if_paid v) who) s))))))))))))"

section \<open>Reference decision\<close>

text \<open>
  The number drawn for a voucher: the hash of its 128 signed bytes and of the randomness
  of its oracle block.
\<close>

definition draw_of :: "('acc, 'sig, 'h) substrate \<Rightarrow> byte list \<Rightarrow> 'h \<Rightarrow> nat" where
  "draw_of env voucher rand = le_val (blake2_256 env (take 128 voucher @ encode_hash env rand))"

text \<open>
  The decision table of a claim on a parsed voucher, with the panic as a row: in the
  code a zero difficulty divides by zero.
\<close>

definition decide ::
  "('acc, 'sig, 'h) substrate \<Rightarrow> 'acc \<Rightarrow> byte list \<Rightarrow> ('acc, 'sig, 'h) voucher \<Rightarrow> u32 \<Rightarrow>
   (u32 \<Rightarrow> 'h option) \<Rightarrow> ('acc event, pallet_error) outcome" where
  "decide env who bytes v now hist =
     (if recipient_pk v \<noteq> who then Err InvalidRecipient
      else if now < no_redeem_before_block v then Err ClaimedTooSoonOrLate
      else if \<not> sig_verify env (signature v) (take 128 bytes) (sender_pk v)
        then Err InvalidVoucherSignature
      else case hist (oracle_block v) of
        None \<Rightarrow> Err ClaimedTooSoonOrLate
      | Some rand \<Rightarrow>
          if difficulty v = 0 then Panic
          else if wins (difficulty v) (draw_of env bytes rand)
            then Ok (VoucherClaimed (value_if_paid v) who)
          else Err VoucherDidNotWin)"

lemma decide_iffs [outcome_simps]:
  "decide env who bytes v now hist = Ok e \<longleftrightarrow>
     recipient_pk v = who \<and> no_redeem_before_block v \<le> now \<and>
     sig_verify env (signature v) (take 128 bytes) (sender_pk v) \<and>
     (\<exists>rand. hist (oracle_block v) = Some rand \<and> difficulty v \<noteq> 0 \<and>
        wins (difficulty v) (draw_of env bytes rand)) \<and>
     e = VoucherClaimed (value_if_paid v) who"
  "decide env who bytes v now hist = Panic \<longleftrightarrow>
     recipient_pk v = who \<and> no_redeem_before_block v \<le> now \<and>
     sig_verify env (signature v) (take 128 bytes) (sender_pk v) \<and>
     hist (oracle_block v) \<noteq> None \<and> difficulty v = 0"
  by (auto simp: decide_def not_less split: option.splits)

text \<open>The dispatchable is the decision table on the parsed voucher.\<close>

lemma claim_parsed:
  assumes env: "substrate_ok env" and v: "parse env voucher = Ok v"
  shows "claim env (Some who) voucher s =
    rbind (map_err Module (decide env who voucher v (block_number s) (history_get s)))
      (\<lambda>e. Ok (deposit_event e s))"
proof -
  have len: "128 \<le> length voucher" using parse_Ok_length [OF v] by simp
  have enc: "length (encode_hash env r) = 32" and hash: "length (blake2_256 env bs) = 32" for r bs
    using env by (auto simp: substrate_ok_def)
  show ?thesis
    using len
    by (auto simp: claim_def v decide_def draw_of_def enc draw_wins_eq [OF hash] not_less not_le
        ensure_def split: option.splits)
qed

lemma claim_unparsed:
  assumes "substrate_ok env" and "\<And>v. parse env voucher \<noteq> Ok v"
  obtains c where "parse env voucher = Err c"
    and "claim env (Some who) voucher s = Err (Module (InvalidVoucher c))"
  using assms parse_no_panic [of env voucher]
  by (cases "parse env voucher") (auto simp: claim_def)

lemma claim_unsigned: "claim env None voucher s = Err BadOrigin"
  by (simp add: claim_def)

lemma claim_Ok_iff:
  assumes "substrate_ok env"
  shows "claim env origin voucher s = Ok s' \<longleftrightarrow>
    (\<exists>who v e. origin = Some who \<and> parse env voucher = Ok v \<and>
       decide env who voucher v (block_number s) (history_get s) = Ok e \<and>
       s' = deposit_event e s)"
proof (cases origin)
  case None
  then show ?thesis by (simp add: claim_unsigned)
next
  case (Some who)
  show ?thesis
  proof (cases "parse env voucher")
    case (Ok v)
    with Some show ?thesis by (auto simp: claim_parsed [OF assms] outcome_simps)
  qed (auto simp: Some claim_def)
qed

lemma claim_Panic_iff:
  assumes "substrate_ok env"
  shows "claim env origin voucher s = Panic \<longleftrightarrow>
    (\<exists>who v. origin = Some who \<and> parse env voucher = Ok v \<and>
       decide env who voucher v (block_number s) (history_get s) = Panic)"
proof (cases origin)
  case None
  then show ?thesis by (simp add: claim_unsigned)
next
  case (Some who)
  show ?thesis
  proof (cases "parse env voucher")
    case (Ok v)
    with Some show ?thesis by (auto simp: claim_parsed [OF assms] outcome_simps)
  qed (auto simp: Some claim_def parse_no_panic [OF assms])
qed

text \<open>A claim only deposits an event.\<close>

lemma claim_frame:
  assumes "substrate_ok env" and "claim env origin voucher s = Ok s'"
  shows "block_number s' = block_number s" and "history_get s' = history_get s"
    and "randomness_history s' = randomness_history s"
    and "\<exists>e. deposited s' = deposited s @ [e]"
  using assms(2) by (auto simp: claim_Ok_iff [OF assms(1)])

text \<open>What a claim reads: the parsed voucher, its signed bytes, the block and the history.\<close>

lemma decide_cong:
  assumes "take 128 bytes = take 128 bytes'" and "hist (oracle_block v) = hist' (oracle_block v)"
    and "no_redeem_before_block v \<le> now \<longleftrightarrow> no_redeem_before_block v \<le> now'"
  shows "decide env who bytes v now hist = decide env who bytes' v now' hist'"
proof -
  have "draw_of env bytes = draw_of env bytes'"
    using assms(1) by (simp add: draw_of_def fun_eq_iff)
  with assms show ?thesis by (simp add: decide_def not_le [symmetric] split: option.split)
qed

text \<open>
  Two vouchers that agree on the signed bytes parse to the same fields, the signature
  excepted.
\<close>

lemma parse_signed_fields:
  assumes same: "take 128 bs = take 128 cs" and v: "parse env bs = Ok v" and w: "parse env cs = Ok w"
  shows "w = v\<lparr>signature := signature w\<rparr>"
proof -
  have "take n (drop m bs) = take n (drop m cs)" if "m + n \<le> 128" for m n
  proof -
    have "take (n + m) bs = take (n + m) (take 128 bs)" and "take (n + m) cs = take (n + m) (take 128 cs)"
      using that by (simp_all add: min_absorb1 add.commute)
    with same show ?thesis by (simp add: take_drop)
  qed
  from this [of 0 4] this [of 4 4] this [of 8 4] this [of 12 4] this [of 16 16]
    this [of 32 32] this [of 64 32] this [of 96 32]
  show ?thesis
    using v w by (auto simp: parse_Ok_iff)
qed

lemma decide_resigned:
  assumes "take 128 bs = take 128 cs"
    and "sig_verify env (signature v) (take 128 bs) (sender_pk v)"
    and "sig_verify env (signature w) (take 128 cs) (sender_pk w)"
    and "w = v\<lparr>signature := signature w\<rparr>"
  shows "decide env who bs v now hist = decide env who cs w now hist"
proof -
  have draw: "draw_of env bs = draw_of env cs"
    using assms(1) by (simp add: draw_of_def fun_eq_iff)
  have "sender_pk w = sender_pk v" "recipient_pk w = recipient_pk v"
    "no_redeem_before_block w = no_redeem_before_block v" "oracle_block w = oracle_block v"
    "difficulty w = difficulty v" "value_if_paid w = value_if_paid v"
    by (subst assms(4); simp)+
  with assms(2,3) show ?thesis by (simp add: decide_def draw split: option.split)
qed

section \<open>A concrete claim\<close>

definition demo_state :: "(u256, u256) pallet_state" where
  "demo_state = \<lparr>block_number = 1, randomness_history = [1 \<mapsto> 7], deposited = []\<rparr>"

lemma demo_draw: "wins 2 (draw_of demo_substrate demo_bytes 7)"
  by (simp add: draw_of_def demo_substrate_def demo_bytes_def wins_def le_val_append)

lemma demo_claim:
  "claim demo_substrate (Some 2) demo_bytes demo_state =
     Ok (deposit_event (VoucherClaimed 4 2) demo_state)"
  using demo_draw
  by (simp add: claim_parsed [OF demo_substrate_ok demo_parse] decide_def demo_state_def
      history_get_def demo_voucher_def) (simp add: demo_substrate_def)

section \<open>Properties\<close>

text \<open>
  C2: The dispatchable on every branch: an unsigned origin is \<open>BadOrigin\<close>, a voucher that
  does not parse is \<open>InvalidVoucher\<close> with the parser's code, and otherwise the outcome is
  the decision table on the parsed voucher: recipient, redemption block, signature, oracle
  block, division by a zero difficulty, draw, in this order. On success the only change of
  state is one event with the voucher's value and the signer.
\<close>

theorem claim_decision:
  assumes "substrate_ok env"
  shows "claim env origin bytes s =
    (case origin of None \<Rightarrow> Err BadOrigin
     | Some who \<Rightarrow>
        (case parse env bytes of
           Err c \<Rightarrow> Err (Module (InvalidVoucher c))
         | Panic \<Rightarrow> Panic
         | Ok v \<Rightarrow>
            (case decide env who bytes v (block_number s) (history_get s) of
               Ok e \<Rightarrow> Ok (deposit_event e s)
             | Err e \<Rightarrow> Err (Module e)
             | Panic \<Rightarrow> Panic)))"
proof (cases origin)
  case None
  then show ?thesis by (simp add: claim_unsigned)
next
  case (Some who)
  show ?thesis
  proof (cases "parse env bytes")
    case (Ok v)
    then show ?thesis by (simp add: Some claim_parsed [OF assms] split: outcome.split)
  qed (simp_all add: Some claim_def)
qed

theorem claim_decision_witness:
  "substrate_ok demo_substrate \<and> claim demo_substrate None demo_bytes demo_state = Err BadOrigin"
  using demo_substrate_ok claim_decision [OF demo_substrate_ok, of None demo_bytes demo_state] by simp

text \<open>
  C9: A claim panics exactly when a signed, well-formed voucher of difficulty 0 reaches the
  draw: claimed by its recipient, redeemable, validly signed and with a known oracle block.
  On every other input, of any length and content, it returns.
\<close>

theorem claim_panics_iff:
  assumes "substrate_ok env"
  shows "claim env origin bytes s = Panic \<longleftrightarrow>
    (\<exists>v. parse env bytes = Ok v \<and> origin = Some (recipient_pk v) \<and>
       no_redeem_before_block v \<le> block_number s \<and>
       sig_verify env (signature v) (take 128 bytes) (sender_pk v) \<and>
       history_get s (oracle_block v) \<noteq> None \<and> difficulty v = 0)"
  by (auto simp: claim_Panic_iff [OF assms] outcome_simps)

theorem claim_panics_iff_witness:
  "substrate_ok demo_substrate \<and> claim demo_substrate (Some 2) demo_bytes demo_state \<noteq> Panic"
  using demo_substrate_ok demo_parse
    claim_panics_iff [OF demo_substrate_ok, of "Some 2" demo_bytes demo_state]
  by (simp add: demo_voucher_def)

text \<open>
  The draw cannot be ground by re-signing: two vouchers with the same 128 signed bytes
  and two valid signatures have the same outcome, whatever the signatures are.
\<close>

lemma claim_resigned:
  assumes env: "substrate_ok env" and same: "take 128 bs = take 128 cs"
    and v: "parse env bs = Ok v" "sig_verify env (signature v) (take 128 bs) (sender_pk v)"
    and w: "parse env cs = Ok w" "sig_verify env (signature w) (take 128 cs) (sender_pk w)"
  shows "claim env origin bs s = claim env origin cs s"
proof (cases origin)
  case None
  then show ?thesis by (simp add: claim_unsigned)
next
  case (Some who)
  have "decide env who bs v (block_number s) (history_get s) =
      decide env who cs w (block_number s) (history_get s)"
    by (rule decide_resigned [OF same v(2) w(2) parse_signed_fields [OF same v(1) w(1)]])
  then show ?thesis
    by (simp add: Some claim_parsed [OF env v(1)] claim_parsed [OF env w(1)])
qed

lemma claim_resigned_witness:
  "demo_resigned \<noteq> demo_bytes \<and>
   claim demo_substrate (Some 2) demo_resigned demo_state =
     claim demo_substrate (Some 2) demo_bytes demo_state"
proof
  show "demo_resigned \<noteq> demo_bytes"
    using demo_parse demo_resigned_parse by (auto simp: demo_voucher_def)
  show "claim demo_substrate (Some 2) demo_resigned demo_state =
     claim demo_substrate (Some 2) demo_bytes demo_state"
  proof (rule claim_resigned [OF demo_substrate_ok _ demo_resigned_parse _ demo_parse])
    show "take 128 demo_resigned = take 128 demo_bytes"
      by (simp add: demo_resigned_def length_demo_bytes)
  qed (simp_all add: demo_substrate_def demo_voucher_def)
qed

text \<open>
  Only the first 192 bytes of the argument matter: bytes after the signature change
  neither the outcome nor the event.
\<close>

lemma claim_ignores_trailing_bytes:
  assumes "192 \<le> length bytes"
  shows "claim env origin bytes s = claim env origin (take 192 bytes) s"
proof -
  have "slice 0 128 bytes = (slice 0 128 (take 192 bytes) :: (byte list, dispatch_error) outcome)"
    using assms by simp
  moreover have "parse env bytes = parse env (take 192 bytes)"
    using assms by (rule parse_prefix)
  ultimately show ?thesis by (simp add: claim_def)
qed

lemma claim_ignores_trailing_bytes_witness:
  "192 \<le> length (demo_bytes @ [1, 2]) \<and>
   claim demo_substrate (Some 2) (demo_bytes @ [1, 2]) demo_state =
     claim demo_substrate (Some 2) demo_bytes demo_state"
proof -
  have len: "192 \<le> length (demo_bytes @ [1, 2])" by (simp add: length_demo_bytes)
  then show ?thesis
    using claim_ignores_trailing_bytes [OF len, of demo_substrate "Some 2" demo_state]
    by (simp add: take_demo_bytes del: take_append)
qed

text \<open>
  A successful claim spends nothing: it changes neither the block number nor the
  history, and records no use of the voucher, so the same submission succeeds again at once
  with the same event.
\<close>

lemma claim_not_spent:
  assumes "substrate_ok env" and "claim env origin bytes s = Ok s'"
  shows "\<exists>e. s' = s\<lparr>deposited := deposited s @ [e]\<rparr> \<and>
    claim env origin bytes s' = Ok (s\<lparr>deposited := deposited s @ [e, e]\<rparr>)"
proof -
  obtain who v e where o: "origin = Some who" and v: "parse env bytes = Ok v"
    and d: "decide env who bytes v (block_number s) (history_get s) = Ok e"
    and s': "s' = deposit_event e s"
    using assms(2) by (auto simp: claim_Ok_iff [OF assms(1)])
  have "history_get s' = history_get s" by (simp add: s' fun_eq_iff)
  then have "decide env who bytes v (block_number s') (history_get s') = Ok e"
    using d by (simp add: s')
  then have "claim env origin bytes s' = Ok (deposit_event e s')"
    using o v by (simp add: claim_parsed [OF assms(1)])
  then show ?thesis by (auto simp: s' deposit_event_def)
qed

lemma claim_not_spent_witness:
  "\<exists>e s'. claim demo_substrate (Some 2) demo_bytes demo_state = Ok s' \<and>
     claim demo_substrate (Some 2) demo_bytes s' =
       Ok (demo_state\<lparr>deposited := deposited demo_state @ [e, e]\<rparr>)"
  using demo_claim claim_not_spent [OF demo_substrate_ok demo_claim] by blast

end
