(* ===== verification/Chain.thy ===== *)
theory Chain
  imports Claim
begin

text \<open>
  The pallet over the life of a chain: blocks are numbered from the genesis block on, each
  new block runs \<open>on_initialize\<close> once, and then takes any number of \<open>claim\<close> extrinsics.
  A claim that returns an error leaves the storage as it was; a claim that panics is not
  part of any block. The traces of these steps are compared with the log of all blocks:
  the history is a window on the log, every deposited event is backed by a winning
  voucher, and a voucher can be claimed exactly in an interval of blocks.
\<close>

section \<open>Actions, steps and traces\<close>

datatype ('acc, 'h) action =
    NewBlock "'h source"
  | Submit "'acc origin" "byte list"

definition genesis :: "('acc, 'h) pallet_state" where
  "genesis = \<lparr>block_number = 0, randomness_history = Map.empty, deposited = []\<rparr>"

definition new_block ::
  "('acc, 'sig, 'h) substrate \<Rightarrow> 'w db_weight \<Rightarrow> 'h source \<Rightarrow>
   ('acc, 'h) pallet_state \<Rightarrow> ('acc, 'h) pallet_state" where
  "new_block env db src s =
     (let n = block_number s + 1
      in fst (on_initialize env db src n (s\<lparr>block_number := n\<rparr>)))"

inductive step ::
  "('acc, 'sig, 'h) substrate \<Rightarrow> 'w db_weight \<Rightarrow> ('acc, 'h) action \<Rightarrow>
   ('acc, 'h) pallet_state \<Rightarrow> ('acc, 'h) pallet_state \<Rightarrow> bool"
  for env and db where
  step_block: "block_number s \<noteq> - 1 \<Longrightarrow> step env db (NewBlock src) s (new_block env db src s)"
| step_claim_ok: "length voucher \<le> unat MaxVoucherLength \<Longrightarrow>
    claim env origin voucher s = Ok s' \<Longrightarrow> step env db (Submit origin voucher) s s'"
| step_claim_err: "length voucher \<le> unat MaxVoucherLength \<Longrightarrow>
    claim env origin voucher s = Err e \<Longrightarrow> step env db (Submit origin voucher) s s"

inductive_simps step_NewBlock_simp: "step env db (NewBlock src) s s'"
inductive_simps step_Submit_simp: "step env db (Submit origin voucher) s s'"
inductive_cases step_SubmitE: "step env db (Submit origin voucher) s s'"

inductive trace ::
  "('acc, 'sig, 'h) substrate \<Rightarrow> 'w db_weight \<Rightarrow> ('acc, 'h) action list \<Rightarrow>
   ('acc, 'h) pallet_state \<Rightarrow> bool"
  for env and db where
  trace_genesis: "trace env db [] genesis"
| trace_step: "trace env db as s \<Longrightarrow> step env db a s s' \<Longrightarrow> trace env db (as @ [a]) s'"

text \<open>The same as a function, on which a concrete chain is evaluated.\<close>

primrec perform ::
  "('acc, 'sig, 'h) substrate \<Rightarrow> 'w db_weight \<Rightarrow> ('acc, 'h) pallet_state \<Rightarrow>
   ('acc, 'h) action \<Rightarrow> ('acc, 'h) pallet_state option" where
  "perform env db s (NewBlock src) =
     (if block_number s = - 1 then None else Some (new_block env db src s))"
| "perform env db s (Submit origin voucher) =
     (if length voucher \<le> unat MaxVoucherLength
      then (case claim env origin voucher s of Ok s' \<Rightarrow> Some s' | Err e \<Rightarrow> Some s | Panic \<Rightarrow> None)
      else None)"

primrec run_chain ::
  "('acc, 'sig, 'h) substrate \<Rightarrow> 'w db_weight \<Rightarrow> ('acc, 'h) pallet_state \<Rightarrow>
   ('acc, 'h) action list \<Rightarrow> ('acc, 'h) pallet_state option" where
  "run_chain env db s [] = Some s"
| "run_chain env db s (a # as) = Option.bind (perform env db s a) (\<lambda>s'. run_chain env db s' as)"

lemma step_iff_perform: "step env db a s s' \<longleftrightarrow> perform env db s a = Some s'"
  by (cases a) (auto simp: step_NewBlock_simp step_Submit_simp split: outcome.splits)

lemma run_chain_append:
  "run_chain env db s (as @ bs) = Option.bind (run_chain env db s as) (\<lambda>s'. run_chain env db s' bs)"
  by (induction as arbitrary: s) (auto split: bind_splits)

lemma trace_iff_run_chain: "trace env db as s \<longleftrightarrow> run_chain env db genesis as = Some s"
proof
  show "trace env db as s \<Longrightarrow> run_chain env db genesis as = Some s"
    by (induction rule: trace.induct) (auto simp: run_chain_append step_iff_perform)
  show "run_chain env db genesis as = Some s \<Longrightarrow> trace env db as s"
  proof (induction as arbitrary: s rule: rev_induct)
    case Nil
    then show ?case by (auto intro: trace.trace_genesis)
  next
    case (snoc a as)
    then obtain t where "run_chain env db genesis as = Some t" and "perform env db t a = Some s"
      by (auto simp: run_chain_append bind_eq_Some_conv)
    with snoc.IH show ?case by (auto simp: step_iff_perform intro: trace.trace_step)
  qed
qed

text \<open>The log of a trace: the randomness source of every block, block 1 first.\<close>

primrec blocks :: "('acc, 'h) action list \<Rightarrow> 'h source list" where
  "blocks [] = []"
| "blocks (a # as) = (case a of NewBlock src \<Rightarrow> [src] | Submit _ _ \<Rightarrow> []) @ blocks as"

lemma blocks_append [simp]: "blocks (as @ bs) = blocks as @ blocks bs"
  by (induction as) auto

definition logged :: "('acc, 'sig, 'h) substrate \<Rightarrow> ('acc, 'h) action list \<Rightarrow> u32 \<Rightarrow> 'h" where
  "logged env as k = drawn env k (blocks as ! (unat k - 1))"

lemma logged_prefix:
  assumes "0 < unat k" and "unat k \<le> length (blocks as)"
  shows "logged env (as @ bs) k = logged env as k"
proof -
  have "unat k - 1 < length (blocks as)" using assms by linarith
  then show ?thesis by (simp add: logged_def nth_append)
qed

section \<open>The history is a window on the log\<close>

lemma new_block_frame [simp]:
  "block_number (new_block env db src s) = block_number s + 1"
  "deposited (new_block env db src s) = deposited s"
  by (simp_all add: new_block_def Let_def)

text \<open>A claim of any outcome keeps the block number and the history.\<close>

lemma step_Submit_frame:
  assumes "substrate_ok env" and "step env db (Submit origin voucher) s s'"
  shows "block_number s' = block_number s" and "history_get s' = history_get s"
  using assms(2) claim_frame [OF assms(1)] by (auto elim!: step_SubmitE)

lemma trace_window:
  assumes "substrate_ok env" and "trace env db as s"
  shows "unat (block_number s) = length (blocks as) \<and>
    (\<forall>k. history_get s k =
      (if in_window EPOCH_LENGTH (block_number s) k then Some (logged env as k) else None))"
  using assms(2)
proof (induction rule: trace.induct)
  case trace_genesis
  show ?case by (auto simp: genesis_def history_get_def in_window_def)
next
  case (trace_step as s a s')
  show ?case
  proof (cases a)
    case (NewBlock src)
    let ?n = "block_number s + 1" and ?t = "s\<lparr>block_number := block_number s + 1\<rparr>"
    have n: "block_number s \<noteq> - 1" and s': "s' = new_block env db src s"
      using trace_step.hyps(2) by (auto simp: NewBlock step_NewBlock_simp)
    have num: "unat ?n = length (blocks as) + 1"
      using unat_Suc_block [OF n] trace_step.IH by simp
    have new: "logged env (as @ [a]) ?n = drawn env ?n src"
      by (simp add: logged_def NewBlock num nth_append)
    have old: "logged env (as @ [a]) k = logged env as k" if "unat k < unat ?n" "0 < unat k" for k
      using that num by (intro logged_prefix) auto
    have "history_get s' k =
        (if in_window EPOCH_LENGTH ?n k
         then Some (((logged env as)(?n := drawn env ?n src)) k) else None)" for k
      unfolding s' new_block_def Let_def
      by (rule window.roll_window [OF _ n]) (use trace_step.IH in simp)
    moreover have "((logged env as)(?n := drawn env ?n src)) k = logged env (as @ [a]) k"
      if "in_window EPOCH_LENGTH ?n k" for k
    proof (cases "k = ?n")
      case True
      with new show ?thesis by simp
    next
      case False
      then have "unat k \<noteq> unat ?n" by (simp add: word_unat_eq_iff)
      with that False show ?thesis by (simp add: in_window_def old)
    qed
    ultimately show ?thesis
      using num by (simp add: s' NewBlock)
  next
    case (Submit origin voucher)
    then show ?thesis
      using trace_step step_Submit_frame [OF assms(1), of db origin voucher s s']
      by (simp add: logged_def)
  qed
qed

lemmas trace_block_number = trace_window [THEN conjunct1]

lemma trace_history:
  assumes "substrate_ok env" and "trace env db as s"
  shows "history_get s k =
    (if in_window EPOCH_LENGTH (block_number s) k then Some (logged env as k) else None)"
  using trace_window [OF assms] by blast

lemma trace_history_card:
  assumes "substrate_ok env" and "trace env db as s"
  shows "card (dom (randomness_history s)) \<le> 1024"
proof -
  have "dom (randomness_history s) = {k. in_window EPOCH_LENGTH (block_number s) k}"
    using trace_history [OF assms] by (auto simp: history_get_def split: if_splits)
  then show ?thesis
    using window_card [of EPOCH_LENGTH] by (simp add: EPOCH_LENGTH_def)
qed

section \<open>When a voucher can be claimed\<close>

text \<open>
  The blocks in which a voucher is not too soon and not too late: from its redemption
  block and its oracle block on, until \<open>EPOCH_LENGTH\<close> blocks after the oracle block.
\<close>

definition claimable_at :: "('acc, 'sig, 'h) voucher \<Rightarrow> u32 \<Rightarrow> bool" where
  "claimable_at v now \<longleftrightarrow>
     no_redeem_before_block v \<le> now \<and> in_window EPOCH_LENGTH now (oracle_block v)"

lemma claimable_at_interval:
  "claimable_at v now \<longleftrightarrow> 0 < unat (oracle_block v) \<and>
     max (unat (no_redeem_before_block v)) (unat (oracle_block v)) \<le> unat now \<and>
     unat now < unat (oracle_block v) + 1024"
  by (auto simp: claimable_at_def in_window_def EPOCH_LENGTH_def word_le_nat_alt)

text \<open>On a trace the decision table reads the log instead of the history.\<close>

definition honest_voucher ::
  "('acc, 'sig, 'h) substrate \<Rightarrow> 'acc \<Rightarrow> byte list \<Rightarrow> ('acc, 'sig, 'h) voucher \<Rightarrow> bool" where
  "honest_voucher env who bytes v \<longleftrightarrow>
     parse env bytes = Ok v \<and> recipient_pk v = who \<and>
     sig_verify env (signature v) (take 128 bytes) (sender_pk v)"

lemma claim_on_trace:
  assumes "substrate_ok env" and "trace env db as s" and "honest_voucher env who bytes v"
  shows "claim env (Some who) bytes s =
    (if \<not> claimable_at v (block_number s) then Err (Module ClaimedTooSoonOrLate)
     else if difficulty v = 0 then Panic
     else if wins (difficulty v) (draw_of env bytes (logged env as (oracle_block v)))
       then Ok (deposit_event (VoucherClaimed (value_if_paid v) who) s)
     else Err (Module VoucherDidNotWin))"
proof -
  have "parse env bytes = Ok v" using assms(3) by (simp add: honest_voucher_def)
  with assms show ?thesis
    by (auto simp: claim_parsed decide_def honest_voucher_def trace_history claimable_at_def)
qed

lemma claim_Ok_on_trace:
  assumes "substrate_ok env" and "trace env db as s" and "claim env origin bytes s = Ok s'"
  obtains who v where "origin = Some who" and "honest_voucher env who bytes v"
    and "claimable_at v (block_number s)" and "difficulty v \<noteq> 0"
    and "wins (difficulty v) (draw_of env bytes (logged env as (oracle_block v)))"
    and "s' = deposit_event (VoucherClaimed (value_if_paid v) who) s"
proof -
  obtain who v e where o: "origin = Some who" and v: "parse env bytes = Ok v"
    and d: "decide env who bytes v (block_number s) (history_get s) = Ok e"
    using assms(3) by (auto simp: claim_Ok_iff [OF assms(1)])
  then have "honest_voucher env who bytes v"
    by (simp add: honest_voucher_def outcome_simps)
  moreover from this claim_on_trace [OF assms(1,2) this] assms(3) o
  have "claimable_at v (block_number s) \<and> difficulty v \<noteq> 0 \<and>
      wins (difficulty v) (draw_of env bytes (logged env as (oracle_block v))) \<and>
      s' = deposit_event (VoucherClaimed (value_if_paid v) who) s"
    by (auto split: if_splits)
  ultimately show ?thesis using that o by blast
qed

lemma trace_prefix_le:
  assumes "substrate_ok env" and "trace env db as s" and "trace env db (as @ bs) t"
  shows "unat (block_number s) \<le> unat (block_number t)"
  using trace_block_number [OF assms(1,2)] trace_block_number [OF assms(1,3)] by simp

section \<open>The events are a function of the log\<close>

text \<open>
  The specification of the whole pallet: the event of an extrinsic submitted after the
  actions \<open>pre\<close> depends on the log of the blocks in \<open>pre\<close> only, with no storage and no
  expiry of entries.
\<close>

definition verdict ::
  "('acc, 'sig, 'h) substrate \<Rightarrow> ('acc, 'h) action list \<Rightarrow> 'acc origin \<Rightarrow> byte list \<Rightarrow>
   'acc event option" where
  "verdict env pre origin bytes =
     (case (origin, parse env bytes) of
        (Some who, Ok v) \<Rightarrow>
          if honest_voucher env who bytes v \<and>
             claimable_at v (word_of_nat (length (blocks pre))) \<and>
             wins (difficulty v) (draw_of env bytes (logged env pre (oracle_block v)))
          then Some (VoucherClaimed (value_if_paid v) who) else None
      | _ \<Rightarrow> None)"

primrec events_from ::
  "('acc, 'sig, 'h) substrate \<Rightarrow> ('acc, 'h) action list \<Rightarrow> ('acc, 'h) action list \<Rightarrow>
   'acc event list" where
  "events_from env pre [] = []"
| "events_from env pre (a # as) =
     (case a of NewBlock _ \<Rightarrow> []
      | Submit origin bytes \<Rightarrow> (case verdict env pre origin bytes of None \<Rightarrow> [] | Some e \<Rightarrow> [e])) @
     events_from env (pre @ [a]) as"

lemma events_from_append:
  "events_from env pre (as @ bs) = events_from env pre as @ events_from env (pre @ as) bs"
  by (induction as arbitrary: pre) auto

lemma wins_nonzero: "wins d h \<Longrightarrow> d \<noteq> 0"
  by (auto simp: wins_def)

lemma verdict_Some_iff:
  "verdict env pre origin bytes = Some e \<longleftrightarrow>
     (\<exists>v. origin = Some (ev_who e) \<and> honest_voucher env (ev_who e) bytes v \<and>
        ev_value e = value_if_paid v \<and>
        claimable_at v (word_of_nat (length (blocks pre))) \<and>
        wins (difficulty v) (draw_of env bytes (logged env pre (oracle_block v))))"
  by (cases e) (auto simp: verdict_def honest_voucher_def split: option.splits outcome.splits if_splits)

lemma claim_verdict:
  assumes env: "substrate_ok env" and tr: "trace env db as s"
  shows "claim env origin bytes s = Ok s' \<longleftrightarrow>
    (\<exists>e. verdict env as origin bytes = Some e \<and> s' = deposit_event e s)"
proof -
  have num: "word_of_nat (length (blocks as)) = block_number s"
    using trace_block_number [OF env tr] by (simp flip: trace_block_number [OF env tr])
  show ?thesis
  proof
    assume "claim env origin bytes s = Ok s'"
    from claim_Ok_on_trace [OF env tr this] obtain who v where
      "origin = Some who" "honest_voucher env who bytes v" "claimable_at v (block_number s)"
      "wins (difficulty v) (draw_of env bytes (logged env as (oracle_block v)))"
      and s': "s' = deposit_event (VoucherClaimed (value_if_paid v) who) s"
      by metis
    then have "verdict env as origin bytes = Some (VoucherClaimed (value_if_paid v) who)"
      by (auto simp: verdict_Some_iff num)
    with s' show "\<exists>e. verdict env as origin bytes = Some e \<and> s' = deposit_event e s" by blast
  next
    assume "\<exists>e. verdict env as origin bytes = Some e \<and> s' = deposit_event e s"
    then obtain e v where e: "origin = Some (ev_who e)" "ev_value e = value_if_paid v"
      and v: "honest_voucher env (ev_who e) bytes v" "claimable_at v (block_number s)"
        "wins (difficulty v) (draw_of env bytes (logged env as (oracle_block v)))"
      and s': "s' = deposit_event e s"
      by (auto simp: verdict_Some_iff num)
    show "claim env origin bytes s = Ok s'"
      using claim_on_trace [OF env tr v(1)] v wins_nonzero [OF v(3)] e s' by (cases e) simp
  qed
qed

lemma trace_events:
  assumes env: "substrate_ok env" and "trace env db as s"
  shows "deposited s = events_from env [] as"
  using assms(2)
proof (induction rule: trace.induct)
  case trace_genesis
  then show ?case by (simp add: genesis_def)
next
  case (trace_step as s a s')
  show ?case
  proof (cases a)
    case (NewBlock src)
    with trace_step show ?thesis by (auto simp: step_NewBlock_simp events_from_append)
  next
    case (Submit origin bytes)
    note claim = claim_verdict [OF env trace_step.hyps(1), of origin bytes]
    from trace_step.hyps(2) consider (ok) "claim env origin bytes s = Ok s'"
      | (err) e where "claim env origin bytes s = Err e" and "s' = s"
      unfolding Submit by (rule step_SubmitE)
    then show ?thesis
    proof cases
      case ok
      then obtain e where "verdict env as origin bytes = Some e" and "s' = deposit_event e s"
        using claim by auto
      with trace_step.IH show ?thesis by (simp add: Submit events_from_append)
    next
      case (err e)
      then have "verdict env as origin bytes = None"
        using claim by (cases "verdict env as origin bytes") auto
      with err trace_step.IH show ?thesis by (simp add: Submit events_from_append)
    qed
  qed
qed

text \<open>
  Provenance: an event names a submission in the trace, signed by the recipient, whose
  voucher was valid, in time and winning at that point.
\<close>

lemma events_from_backed:
  "e \<in> set (events_from env pre as) \<Longrightarrow>
   \<exists>mid post bytes. as = mid @ Submit (Some (ev_who e)) bytes # post \<and>
     verdict env (pre @ mid) (Some (ev_who e)) bytes = Some e"
proof (induction as arbitrary: pre)
  case Nil
  then show ?case by simp
next
  case (Cons a as)
  show ?case
  proof (cases "e \<in> set (events_from env (pre @ [a]) as)")
    case True
    with Cons.IH obtain mid post bytes where
      "as = mid @ Submit (Some (ev_who e)) bytes # post"
      "verdict env ((pre @ [a]) @ mid) (Some (ev_who e)) bytes = Some e" by blast
    then show ?thesis by (intro exI [of _ "a # mid"] exI [of _ post] exI [of _ bytes]) simp
  next
    case False
    with Cons.prems obtain origin bytes where
      "a = Submit origin bytes" "verdict env pre origin bytes = Some e"
      by (auto split: action.splits option.splits)
    moreover from this(2) have "origin = Some (ev_who e)" by (auto simp: verdict_Some_iff)
    ultimately show ?thesis
      by (intro exI [of _ "[]"] exI [of _ as] exI [of _ bytes]) simp
  qed
qed

text \<open>At most one event for each extrinsic.\<close>

primrec submissions :: "('acc, 'h) action list \<Rightarrow> nat" where
  "submissions [] = 0"
| "submissions (a # as) = (case a of NewBlock _ \<Rightarrow> 0 | Submit _ _ \<Rightarrow> 1) + submissions as"

lemma events_bound: "length (events_from env pre as) \<le> submissions as"
proof (induction as arbitrary: pre)
  case Nil
  then show ?case by simp
next
  case (Cons a as)
  from Cons [of "pre @ [a]"] show ?case
    by (auto split: action.splits option.splits)
qed

section \<open>A concrete chain\<close>

definition demo_db :: "(u64 \<times> u64) db_weight" where
  "demo_db = \<lparr>reads_writes = Pair, writes = Pair 0\<rparr>"

definition demo_source :: "u256 source" where
  "demo_source = (\<lambda>_. (7, 0))"

lemma demo_new_block: "new_block demo_substrate demo_db demo_source genesis = demo_state"
  by (simp add: new_block_def on_initialize_def genesis_def demo_state_def demo_source_def
      history_set_def saturating_sub_def EPOCH_LENGTH_def)

lemma demo_trace: "trace demo_substrate demo_db [NewBlock demo_source] demo_state"
proof -
  have "step demo_substrate demo_db (NewBlock demo_source) genesis
      (new_block demo_substrate demo_db demo_source genesis)"
    by (rule step_block) (simp add: genesis_def)
  then show ?thesis
    using trace_step [OF trace_genesis] by (simp add: demo_new_block)
qed

lemma demo_honest: "honest_voucher demo_substrate 2 demo_bytes demo_voucher"
  by (simp add: honest_voucher_def demo_parse) (simp add: demo_voucher_def demo_substrate_def)

lemma demo_length_ok: "length demo_bytes \<le> unat MaxVoucherLength"
  by (simp add: length_demo_bytes MaxVoucherLength_def)

lemma demo_trace2:
  "trace demo_substrate demo_db [NewBlock demo_source, Submit (Some 2) demo_bytes]
     (deposit_event (VoucherClaimed 4 2) demo_state)"
  using trace_step [OF demo_trace step_claim_ok [OF demo_length_ok demo_claim]] by simp

section \<open>Properties\<close>

text \<open>
  C3: In every reachable state the history is the window of the last \<open>EPOCH_LENGTH\<close> blocks on
  the log: block \<open>k\<close> has the entry its own \<open>on_initialize\<close> drew if \<open>0 < k \<le> n < k + 1024\<close>
  for the current block \<open>n\<close>, no other key has an entry, and there are at most 1024 entries.
\<close>

theorem chain_history:
  assumes "substrate_ok env" and "trace env db as s"
  shows "unat (block_number s) = length (blocks as) \<and>
    history_get s k =
      (if 0 < unat k \<and> unat k \<le> length (blocks as) \<and> length (blocks as) < unat k + 1024
       then Some (drawn env k (blocks as ! (unat k - 1))) else None) \<and>
    card (dom (randomness_history s)) \<le> 1024"
proof -
  have num: "unat (block_number s) = length (blocks as)"
    by (rule trace_block_number [OF assms])
  show ?thesis
    using num trace_history [OF assms, of k] trace_history_card [OF assms]
    by (simp add: in_window_def logged_def EPOCH_LENGTH_def)
qed

theorem chain_history_witness:
  "trace demo_substrate demo_db [NewBlock demo_source] demo_state \<and>
   history_get demo_state 1 = Some 7"
  using demo_trace chain_history [OF demo_substrate_ok demo_trace, of 1]
  by (simp add: drawn_def demo_source_def)

text \<open>
  C1: The pallet refines its specification over the full log: the events deposited along any
  trace are, in order, the verdicts of the submitted vouchers, where a verdict reads the log
  of all blocks and the interval of the voucher, and knows of no storage and no pruning.
\<close>

theorem chain_events:
  assumes "substrate_ok env" and "trace env db as s"
  shows "deposited s = events_from env [] as"
  using assms by (rule trace_events)

theorem chain_events_witness:
  "events_from demo_substrate [] [NewBlock demo_source, Submit (Some 2) demo_bytes]
     = [VoucherClaimed 4 2]"
  using chain_events [OF demo_substrate_ok demo_trace2] by (simp add: demo_state_def)

text \<open>
  C7: No payment out of nothing: every event deposited along a trace names a submission,
  signed by the account it pays, of a voucher for that account with that value, signed by its
  sender, in its interval of blocks and winning against the randomness logged for its
  oracle block; and there are no more events than submissions.
\<close>

theorem events_are_backed:
  assumes "substrate_ok env" and "trace env db as s"
  shows "length (deposited s) \<le> submissions as \<and>
    (\<forall>e \<in> set (deposited s). \<exists>pre post bytes v.
       as = pre @ Submit (Some (ev_who e)) bytes # post \<and>
       parse env bytes = Ok v \<and> recipient_pk v = ev_who e \<and> value_if_paid v = ev_value e \<and>
       sig_verify env (signature v) (take 128 bytes) (sender_pk v) \<and>
       claimable_at v (word_of_nat (length (blocks pre))) \<and>
       wins (difficulty v) (draw_of env bytes (logged env pre (oracle_block v))))"
proof
  show "length (deposited s) \<le> submissions as"
    unfolding trace_events [OF assms] by (rule events_bound)
  show "\<forall>e \<in> set (deposited s). \<exists>pre post bytes v.
       as = pre @ Submit (Some (ev_who e)) bytes # post \<and>
       parse env bytes = Ok v \<and> recipient_pk v = ev_who e \<and> value_if_paid v = ev_value e \<and>
       sig_verify env (signature v) (take 128 bytes) (sender_pk v) \<and>
       claimable_at v (word_of_nat (length (blocks pre))) \<and>
       wins (difficulty v) (draw_of env bytes (logged env pre (oracle_block v)))"
    unfolding trace_events [OF assms]
    by (fastforce dest!: events_from_backed simp: verdict_Some_iff honest_voucher_def)
qed

theorem events_are_backed_witness:
  "\<exists>pre post bytes. [NewBlock demo_source, Submit (Some 2) demo_bytes] =
     pre @ Submit (Some (2 :: u256)) bytes # post"
  using events_are_backed [OF demo_substrate_ok demo_trace2] by (fastforce simp: demo_state_def)

text \<open>
  C6: When a valid voucher can be claimed: a voucher presented by its recipient with the
  sender's signature is too soon or too late exactly outside the blocks from the later of its
  redemption and oracle blocks up to 1023 blocks after the oracle block. Inside, the outcome
  is the draw against the randomness logged for the oracle block (or the panic of a zero
  difficulty).
\<close>

theorem claim_interval:
  assumes "substrate_ok env" and "trace env db as s" and "parse env bytes = Ok v"
    and "sig_verify env (signature v) (take 128 bytes) (sender_pk v)"
  shows "claim env (Some (recipient_pk v)) bytes s =
    (if 0 < unat (oracle_block v) \<and>
        max (unat (no_redeem_before_block v)) (unat (oracle_block v)) \<le> unat (block_number s) \<and>
        unat (block_number s) < unat (oracle_block v) + 1024
     then (if difficulty v = 0 then Panic
       else if draw_of env bytes (logged env as (oracle_block v)) <
               (2 ^ 256 - 1) div unat (difficulty v)
         then Ok (deposit_event (VoucherClaimed (value_if_paid v) (recipient_pk v)) s)
       else Err (Module VoucherDidNotWin))
     else Err (Module ClaimedTooSoonOrLate))"
proof -
  have "honest_voucher env (recipient_pk v) bytes v"
    using assms(3,4) by (simp add: honest_voucher_def)
  from claim_on_trace [OF assms(1,2) this] show ?thesis
    by (simp only: claimable_at_interval wins_def if_not_P if_P not_not split: if_split) blast
qed

theorem claim_interval_witness:
  "claim demo_substrate (Some (recipient_pk demo_voucher)) demo_bytes demo_state =
     Ok (deposit_event (VoucherClaimed 4 2) demo_state)"
proof -
  have sig: "sig_verify demo_substrate (signature demo_voucher) (take 128 demo_bytes)
      (sender_pk demo_voucher)"
    by (simp add: demo_substrate_def demo_voucher_def)
  have log: "logged demo_substrate [NewBlock demo_source] 1 = 7"
    by (simp add: logged_def drawn_def demo_source_def)
  show ?thesis
    unfolding claim_interval [OF demo_substrate_ok demo_trace demo_parse sig]
    using demo_draw by (simp add: demo_voucher_def demo_state_def log wins_def)
qed

text \<open>
  C12: A claim that would succeed keeps succeeding: whatever blocks and submissions follow,
  until 1024 blocks after the oracle block the same submission still pays the same value to
  the same account, so a winner loses nothing by waiting within the window.
\<close>

theorem claim_stays_good:
  assumes "substrate_ok env" and "trace env db as s" and "trace env db (as @ bs) t"
    and "claim env origin bytes s = Ok (deposit_event e s)" and "parse env bytes = Ok v"
    and "unat (block_number t) < unat (oracle_block v) + 1024"
  shows "claim env origin bytes t = Ok (deposit_event e t)"
proof -
  obtain who w where o: "origin = Some who" and w: "honest_voucher env who bytes w"
    and at: "claimable_at w (block_number s)" and d: "difficulty w \<noteq> 0"
    and win: "wins (difficulty w) (draw_of env bytes (logged env as (oracle_block w)))"
    and e: "deposit_event e s = deposit_event (VoucherClaimed (value_if_paid w) who) s"
    using claim_Ok_on_trace [OF assms(1,2,4)] by metis
  have "w = v" using w assms(5) by (simp add: honest_voucher_def)
  moreover have "e = VoucherClaimed (value_if_paid w) who"
    using arg_cong [OF e, of deposited] by simp
  moreover have "claimable_at v (block_number t)"
    using at trace_prefix_le [OF assms(1,2,3)] assms(6) \<open>w = v\<close>
    by (auto simp: claimable_at_interval)
  moreover have "logged env (as @ bs) (oracle_block v) = logged env as (oracle_block v)"
    using at \<open>w = v\<close> trace_block_number [OF assms(1,2)]
    by (intro logged_prefix) (auto simp: claimable_at_interval)
  ultimately show ?thesis
    using claim_on_trace [OF assms(1,3) w] d win o by simp
qed

theorem claim_stays_good_witness:
  "claim demo_substrate (Some 2) demo_bytes (deposit_event (VoucherClaimed 4 2) demo_state) =
     Ok (deposit_event (VoucherClaimed 4 2) (deposit_event (VoucherClaimed 4 2) demo_state))"
proof (rule claim_stays_good [OF demo_substrate_ok demo_trace _ demo_claim demo_parse])
  show "trace demo_substrate demo_db ([NewBlock demo_source] @ [Submit (Some 2) demo_bytes])
     (deposit_event (VoucherClaimed 4 2) demo_state)"
    using demo_trace2 by simp
qed (simp add: demo_state_def demo_voucher_def)

text \<open>
  A voucher whose redemption block lies 1024 blocks or more after its oracle block can
  never be claimed, by anyone, in any reachable state: when it becomes redeemable the
  randomness it needs has been pruned.
\<close>

lemma late_redemption_unclaimable:
  assumes "substrate_ok env" and "trace env db as s" and "parse env bytes = Ok v"
    and "unat (oracle_block v) + 1024 \<le> unat (no_redeem_before_block v)"
  shows "claim env origin bytes s \<noteq> Ok s'"
proof
  assume "claim env origin bytes s = Ok s'"
  from claim_Ok_on_trace [OF assms(1,2) this] obtain who w where
    "honest_voucher env who bytes w" and "claimable_at w (block_number s)"
    by metis
  with assms(3,4) show False
    by (auto simp: honest_voucher_def claimable_at_interval)
qed

lemma late_redemption_unclaimable_witness:
  "parse demo_substrate (take 9 demo_bytes @ [5] @ drop 10 demo_bytes) =
     Ok (demo_voucher\<lparr>no_redeem_before_block := 1281\<rparr>) \<and>
   claim demo_substrate (Some 2) (take 9 demo_bytes @ [5] @ drop 10 demo_bytes) demo_state \<noteq>
     Ok demo_state"
proof -
  have late: "parse demo_substrate (take 9 demo_bytes @ [5] @ drop 10 demo_bytes) =
      Ok (demo_voucher\<lparr>no_redeem_before_block := 1281\<rparr>)"
    by (simp add: parse_Ok_iff demo_substrate_def word_from_le_def u32_from_le_bytes_def
        u128_from_le_bytes_def demo_bytes_def demo_voucher_def)
  have "unat (oracle_block (demo_voucher\<lparr>no_redeem_before_block := 1281\<rparr>)) + 1024 \<le>
      unat (no_redeem_before_block (demo_voucher\<lparr>no_redeem_before_block := 1281\<rparr>))"
    by (simp add: demo_voucher_def)
  then show ?thesis
    using late late_redemption_unclaimable [OF demo_substrate_ok demo_trace late] by blast
qed

text \<open>
  C36: A winning voucher can be replayed without bound: after a submission that pays, the
  trace can be extended by any number of the same submission, and each deposits the same
  event again.
\<close>

theorem voucher_replay:
  assumes "substrate_ok env" and "trace env db as s"
    and "length bytes \<le> unat MaxVoucherLength"
    and "claim env origin bytes s = Ok (deposit_event e s)"
  shows "\<exists>t. trace env db (as @ replicate n (Submit origin bytes)) t \<and>
    deposited t = deposited s @ replicate n e"
proof -
  obtain who v where o: "origin = Some who" and v: "parse env bytes = Ok v"
    using assms(4) by (auto simp: claim_Ok_iff [OF assms(1)])
  have "\<exists>t. trace env db (as @ replicate n (Submit origin bytes)) t \<and>
      block_number t = block_number s \<and> history_get t = history_get s \<and>
      deposited t = deposited s @ replicate n e"
  proof (induction n)
    case 0
    with assms(2) show ?case by auto
  next
    case (Suc n)
    then obtain t where t: "trace env db (as @ replicate n (Submit origin bytes)) t"
      "block_number t = block_number s" "history_get t = history_get s"
      "deposited t = deposited s @ replicate n e" by blast
    have "claim env origin bytes t = Ok (deposit_event e t)"
      using assms(4) t(2,3) o
      by (auto simp: claim_parsed [OF assms(1) v] outcome_simps deposit_event_def
          dest: arg_cong [of _ _ deposited])
    from trace_step [OF t(1) step_claim_ok [OF assms(3) this]] t(2-4)
    show ?case
      by (intro exI [of _ "deposit_event e t"])
        (simp add: replicate_append_same fun_eq_iff flip: replicate_Suc)
  qed
  then show ?thesis by blast
qed

theorem voucher_replay_witness:
  "\<exists>t. trace demo_substrate demo_db
      ([NewBlock demo_source] @ replicate 1000 (Submit (Some 2) demo_bytes)) t \<and>
    deposited t = replicate 1000 (VoucherClaimed 4 2)"
  using voucher_replay [OF demo_substrate_ok demo_trace demo_length_ok demo_claim, of 1000]
  by (simp add: demo_state_def)

end
