(* ===== verification/Chain_Progress.thy ===== *)
theory Chain_Progress
  imports Chain
begin

text \<open>
  The chain never gets stuck on its own: block production and claims are total functions of the
  state as long as the block number fits its 32 bits and no voucher of difficulty zero reaches
  the draw. The steps are deterministic, so a list of actions has exactly one outcome.
\<close>

definition live_action :: "('acc, 'sig, 'h) substrate \<Rightarrow> ('acc, 'h) action \<Rightarrow> bool" where
  "live_action env a =
     (case a of
        NewBlock src \<Rightarrow> True
      | Submit origin voucher \<Rightarrow> length voucher \<le> unat MaxVoucherLength \<and>
          (case parse env voucher of Ok v \<Rightarrow> difficulty v \<noteq> 0 | _ \<Rightarrow> True))"

lemma trace_deterministic: "trace env db as s \<Longrightarrow> trace env db as t \<Longrightarrow> s = t"
  by (simp add: trace_iff_run_chain)

lemma trace_snoc_iff:
  "trace env db (as @ [a]) s' \<longleftrightarrow> (\<exists>s. trace env db as s \<and> step env db a s s')"
  by (auto simp: trace_iff_run_chain run_chain_append step_iff_perform bind_eq_Some_conv)

text \<open>A live submission returns in every state.\<close>

lemma live_submission_steps:
  assumes "substrate_ok env" and "live_action env (Submit origin voucher)"
  shows "\<exists>s'. step env db (Submit origin voucher) s s'"
proof (cases "claim env origin voucher s")
  case Panic
  then obtain v where "parse env voucher = Ok v" and "difficulty v = 0"
    by (auto simp: claim_Panic_iff [OF assms(1)] outcome_simps)
  then show ?thesis using assms(2) by (simp add: live_action_def)
qed (use assms(2) in \<open>auto simp: live_action_def step_Submit_simp\<close>)

text \<open>A block can follow every block but the last that the block number can count.\<close>

lemma block_steps_iff:
  assumes "substrate_ok env" and "trace env db as s"
  shows "(\<exists>s'. step env db (NewBlock src) s s') \<longleftrightarrow> length (blocks as) + 1 < 2 ^ 32"
proof -
  have "unat (block_number s) = length (blocks as)"
    using trace_block_number [OF assms] .
  moreover have "unat (- 1 :: u32) = 2 ^ 32 - 1"
    by (simp add: unsigned_minus_1_eq_mask mask_eq_exp_minus_1)
  moreover have "unat (block_number s) < 2 ^ 32"
    using unsigned_less [of "block_number s"] by simp
  ultimately show ?thesis
    by (auto simp: step_NewBlock_simp word_unat_eq_iff)
qed

lemma live_trace_exists:
  assumes env: "substrate_ok env"
  shows "length (blocks as) < 2 ^ 32 \<Longrightarrow> \<forall>a \<in> set as. live_action env a \<Longrightarrow> \<exists>s. trace env db as s"
proof (induction as rule: rev_induct)
  case Nil
  then show ?case using trace_genesis by blast
next
  case (snoc a as)
  then obtain s where s: "trace env db as s" by auto
  have "\<exists>s'. step env db a s s'"
  proof (cases a)
    case (NewBlock src)
    then show ?thesis using block_steps_iff [OF env s] snoc.prems(1) by simp
  next
    case (Submit origin voucher)
    then show ?thesis using live_submission_steps [OF env, of origin voucher db s] snoc.prems(2) by simp
  qed
  with s show ?case by (auto simp: trace_snoc_iff)
qed

section \<open>Properties\<close>

text \<open>
  C13: The chain always goes on: every list of fewer than \<open>2 ^ 32\<close> blocks with any submissions in
  between, by any callers and of any bytes of at most 256, runs to the end in exactly one state,
  provided no submitted voucher has difficulty zero.
\<close>

theorem chain_progress:
  assumes "substrate_ok env" and "length (blocks as) < 2 ^ 32"
    and "\<forall>a \<in> set as. live_action env a"
  shows "\<exists>!s. trace env db as s"
  using live_trace_exists [OF assms] trace_deterministic by blast

theorem chain_progress_witness:
  "\<exists>!s. trace demo_substrate demo_db [NewBlock demo_source, Submit (Some 2) demo_bytes, Submit None []] s"
proof (rule chain_progress [OF demo_substrate_ok])
  show "\<forall>a \<in> set [NewBlock demo_source, Submit (Some 2) demo_bytes, Submit None []].
      live_action demo_substrate a"
    using demo_length_ok
    by (simp add: live_action_def demo_parse parse_short) (simp add: demo_voucher_def)
qed simp

end
