(* ===== verification/Claim_Order.thy ===== *)
theory Claim_Order
  imports Chain_Progress "HOL-Library.Multiset"
begin

text \<open>
  The order of the claims in a block (\<open>claim\<close> in
  \<open>blockchain/pallets/probabilistic-payments/src/lib.rs\<close>, run by the steps of \<open>Chain\<close>): no claim
  sees what another did, so a block author who reorders the claims of a block changes the
  order of the events and nothing else, then and ever after.
\<close>

section \<open>Earlier events do not matter\<close>

text \<open>A state with events deposited before its own.\<close>

definition after_events :: "'acc event list \<Rightarrow> ('acc, 'h) pallet_state \<Rightarrow> ('acc, 'h) pallet_state" where
  "after_events es s = s\<lparr>deposited := es @ deposited s\<rparr>"

lemma after_events_simps [simp]:
  "block_number (after_events es s) = block_number s"
  "history_get (after_events es s) = history_get s"
  "deposited (after_events es s) = es @ deposited s"
  "after_events es (after_events fs s) = after_events (es @ fs) s"
  "after_events es (deposit_event e s) = deposit_event e (after_events es s)"
  by (simp_all add: after_events_def deposit_event_def history_get_def fun_eq_iff)

lemma new_block_after_events:
  "new_block env db src (after_events es s) = after_events es (new_block env db src s)"
  by (auto simp: new_block_def on_initialize_def after_events_def history_set_def Let_def
      split: prod.splits)

lemma claim_after_events:
  assumes "substrate_ok env"
  shows "claim env origin voucher (after_events es s) =
    (case claim env origin voucher s of
       Ok s' \<Rightarrow> Ok (after_events es s') | Err e \<Rightarrow> Err e | Panic \<Rightarrow> Panic)"
proof (cases origin)
  case (Some who)
  show ?thesis
  proof (cases "\<exists>v. parse env voucher = Ok v")
    case True
    then obtain v where v: "parse env voucher = Ok v" by blast
    show ?thesis
      by (cases "decide env who voucher v (block_number s) (history_get s)")
        (simp_all add: Some claim_parsed [OF assms v])
  next
    case False
    then obtain c where "parse env voucher = Err c"
      using claim_unparsed [OF assms, of voucher] by metis
    then show ?thesis by (simp add: Some claim_def)
  qed
qed (simp add: claim_unsigned)

lemma perform_after_events:
  "substrate_ok env \<Longrightarrow>
   perform env db (after_events es s) a = map_option (after_events es) (perform env db s a)"
  by (cases a) (auto simp: new_block_after_events claim_after_events split: outcome.split)

text \<open>A whole run goes on in the same way, whatever was deposited before it.\<close>

lemma run_chain_after_events:
  assumes "substrate_ok env"
  shows "run_chain env db (after_events es s) as = map_option (after_events es) (run_chain env db s as)"
proof (induction as arbitrary: s)
  case (Cons a as)
  then show ?case
    by (cases "perform env db s a") (simp_all add: perform_after_events [OF assms])
qed simp

section \<open>The claims of one block\<close>

primrec is_submission :: "('acc, 'h) action \<Rightarrow> bool" where
  "is_submission (NewBlock src) \<longleftrightarrow> False"
| "is_submission (Submit origin voucher) \<longleftrightarrow> True"

text \<open>The events that an action deposits in a state: none, or the one of a claim.\<close>

definition events_of ::
  "('acc, 'sig, 'h) substrate \<Rightarrow> 'w db_weight \<Rightarrow> ('acc, 'h) pallet_state \<Rightarrow> ('acc, 'h) action \<Rightarrow>
   'acc event list" where
  "events_of env db s a =
     (case perform env db s a of
        Some t \<Rightarrow> drop (length (deposited s)) (deposited t)
      | None \<Rightarrow> [])"

lemma perform_submission:
  assumes "substrate_ok env" and "is_submission a" and "perform env db s a = Some t"
  shows "t = s\<lparr>deposited := deposited s @ events_of env db s a\<rparr>"
proof (cases a)
  case (Submit origin voucher)
  show ?thesis
  proof (cases "claim env origin voucher s")
    case (Ok s')
    then obtain e where "s' = deposit_event e s"
      by (auto simp: claim_Ok_iff [OF assms(1)])
    then show ?thesis
      using assms(3) Ok by (auto simp: Submit events_of_def deposit_event_def split: if_splits)
  qed (use assms(3) in \<open>auto simp: Submit events_of_def split: if_splits\<close>)
qed (use assms(2) in simp)

text \<open>What a submission deposits does not depend on the events before it.\<close>

lemma perform_deposited:
  assumes "substrate_ok env" and "is_submission a"
  shows "perform env db (s\<lparr>deposited := es\<rparr>) a =
    (if perform env db s a = None then None
     else Some (s\<lparr>deposited := es @ events_of env db s a\<rparr>))"
proof -
  let ?s0 = "s\<lparr>deposited := []\<rparr>"
  have s: "s = after_events (deposited s) ?s0" and es: "s\<lparr>deposited := es\<rparr> = after_events es ?s0"
    by (simp_all add: after_events_def)
  have "perform env db s a = map_option (after_events (deposited s)) (perform env db ?s0 a)"
    by (subst s) (simp add: perform_after_events [OF assms(1)])
  moreover have "perform env db (s\<lparr>deposited := es\<rparr>) a =
      map_option (after_events es) (perform env db ?s0 a)"
    by (subst es) (simp add: perform_after_events [OF assms(1)])
  moreover have "\<exists>d. t = s\<lparr>deposited := d\<rparr>" if "perform env db ?s0 a = Some t" for t
    using perform_submission [OF assms that] by (metis pallet_state.update_convs(3) pallet_state.surjective)
  ultimately show ?thesis
    by (cases "perform env db ?s0 a") (auto simp: events_of_def after_events_def)
qed

text \<open>
  The submissions of a block run if and only if each of them runs on its own at its start, and
  they deposit the events they would deposit there.
\<close>

lemma run_submissions:
  assumes "substrate_ok env"
  shows "\<forall>a \<in> set xs. is_submission a \<Longrightarrow>
    run_chain env db (s\<lparr>deposited := es\<rparr>) xs =
      (if \<exists>a \<in> set xs. perform env db s a = None then None
       else Some (s\<lparr>deposited := es @ concat (map (events_of env db s) xs)\<rparr>))"
  by (induction xs arbitrary: es) (auto simp: perform_deposited [OF assms])

section \<open>Properties\<close>

text \<open>
  C8: The order of the claims within a block does not matter: if a run reaches a state and the
  claims of one of its blocks are put into another order, the run still exists, ends in the
  same block with the same history and the same events up to their order; claims that paid
  still pay, and claims that failed still fail.
\<close>

theorem claims_commute:
  assumes "substrate_ok env" and "trace env db (pre @ xs @ post) s"
    and "\<forall>a \<in> set xs. is_submission a" and "mset ys = mset xs"
  shows "\<exists>t. trace env db (pre @ ys @ post) t \<and> block_number t = block_number s \<and>
    history_get t = history_get s \<and> mset (deposited t) = mset (deposited s)"
proof -
  obtain p where p: "run_chain env db genesis pre = Some p"
    and rest: "Option.bind (run_chain env db p xs) (\<lambda>q. run_chain env db q post) = Some s"
    using assms(2) by (auto simp: trace_iff_run_chain run_chain_append bind_eq_Some_conv)
  let ?run = "\<lambda>zs. run_chain env db (p\<lparr>deposited := deposited p\<rparr>) zs"
  let ?ev = "\<lambda>zs. deposited p @ concat (map (events_of env db p) zs)"
  have set: "set ys = set xs" using assms(4) by (metis set_mset_mset)
  have live: "\<not> (\<exists>a \<in> set xs. perform env db p a = None)"
    using rest run_submissions [OF assms(1,3), where s = p and db = db and es = "deposited p"] by (auto split: if_splits)
  have runs: "?run zs = Some (after_events (?ev zs) (p\<lparr>deposited := []\<rparr>))" if "set zs = set xs" for zs
    using run_submissions [OF assms(1), where xs = zs and s = p and db = db and es = "deposited p"] assms(3) live that
    by (simp add: after_events_def)
  obtain u where u: "run_chain env db (p\<lparr>deposited := []\<rparr>) post = Some u"
    and s: "s = after_events (?ev xs) u"
    using rest runs [of xs] by (auto simp: run_chain_after_events [OF assms(1)])
  have "trace env db (pre @ ys @ post) (after_events (?ev ys) u)"
    using p u runs [OF set]
    by (simp add: trace_iff_run_chain run_chain_append run_chain_after_events [OF assms(1)])
  moreover have "mset (concat (map f ys)) = mset (concat (map f xs))"
    for f :: "('a, 'c) action \<Rightarrow> 'a event list"
  proof -
    have "mset (concat (map f zs)) = sum_mset (image_mset (mset \<circ> f) (mset zs))" for zs
      by (induction zs) simp_all
    then show ?thesis using assms(4) by simp
  qed
  ultimately show ?thesis
    by (intro exI [of _ "after_events (?ev ys) u"]) (simp add: s)
qed

theorem claims_commute_witness:
  "\<exists>t. trace demo_substrate demo_db
      [NewBlock demo_source, Submit None [], Submit (Some 2) demo_bytes] t \<and>
    deposited t = [VoucherClaimed 4 2]"
proof -
  let ?s = "deposit_event (VoucherClaimed 4 2) demo_state"
  have "trace demo_substrate demo_db
      ([NewBlock demo_source, Submit (Some 2) demo_bytes] @ [Submit None []]) ?s"
    by (rule trace_step [OF demo_trace2 step_claim_err]) (simp_all add: claim_unsigned)
  then have "trace demo_substrate demo_db
      ([NewBlock demo_source] @ [Submit (Some 2) demo_bytes, Submit None []] @ []) ?s"
    by simp
  from claims_commute [OF demo_substrate_ok this, of "[Submit None [], Submit (Some 2) demo_bytes]"]
  show ?thesis by (auto simp: demo_state_def)
qed

end
