(* ===== verification/Raw_Storage.thy ===== *)
theory Raw_Storage
  imports Chain
begin

text \<open>
  The pallet over the key-value store of the chain
  (\<open>RandomnessHistory\<close> in \<open>blockchain/pallets/probabilistic-payments/src/lib.rs\<close>): a
  \<open>StorageMap\<close> with the hasher \<open>Blake2_256\<close> keeps the entry of a block under the hash of the
  encoded block number, behind a prefix that all its keys share, and the store also holds the
  items of all other pallets. \<open>on_initialize\<close> and \<open>claim\<close> are written again over this store, and
  shown to refine those over the map.
\<close>

section \<open>Keys and values\<close>

text \<open>
  \<open>item_prefix\<close> is what the storage keys of the item start with, made by Substrate from the names
  of pallet and item; \<open>decode_value\<close> the SCALE decoder of a hash.
\<close>

record 'h storage_api =
  item_prefix :: "byte list"
  decode_value :: "byte list \<Rightarrow> 'h option"

definition storage_key :: "('acc, 'sig, 'h) substrate \<Rightarrow> 'h storage_api \<Rightarrow> u32 \<Rightarrow> byte list" where
  "storage_key env api n = item_prefix api @ blake2_256 env (encode_block_number env n)"

record 'acc raw_state =
  raw_block_number :: u32
  raw_storage :: "byte list \<rightharpoonup> byte list"
  raw_deposited :: "'acc event list"

definition raw_get ::
  "('acc, 'sig, 'h) substrate \<Rightarrow> 'h storage_api \<Rightarrow> 'acc raw_state \<Rightarrow> u32 \<Rightarrow> 'h option" where
  "raw_get env api r n = Option.bind (raw_storage r (storage_key env api n)) (decode_value api)"

definition raw_set ::
  "('acc, 'sig, 'h) substrate \<Rightarrow> 'h storage_api \<Rightarrow> 'acc raw_state \<Rightarrow> u32 \<Rightarrow> 'h option \<Rightarrow>
   'acc raw_state" where
  "raw_set env api r n v =
     r\<lparr>raw_storage := (raw_storage r)(storage_key env api n := map_option (encode_hash env) v)\<rparr>"

section \<open>The operations over the store\<close>

definition raw_on_initialize ::
  "('acc, 'sig, 'h) substrate \<Rightarrow> 'h storage_api \<Rightarrow> 'w db_weight \<Rightarrow> 'h source \<Rightarrow> u32 \<Rightarrow>
   'acc raw_state \<Rightarrow> 'acc raw_state \<times> 'w" where
  "raw_on_initialize env api db random n r =
     (let (rand, _) = random (topic env n);
          r1 = raw_set env api r n (Some rand);
          expired = saturating_sub n EPOCH_LENGTH;
          r2 = (if expired > 0 then raw_set env api r1 expired None else r1)
      in (r2, reads_writes db 1 2))"

definition raw_claim ::
  "('acc, 'sig, 'h) substrate \<Rightarrow> 'h storage_api \<Rightarrow> 'acc origin \<Rightarrow> byte list \<Rightarrow> 'acc raw_state \<Rightarrow>
   ('acc raw_state, dispatch_error) outcome" where
  "raw_claim env api origin voucher r =
     rbind (ok_or origin BadOrigin) (\<lambda>who.
     rbind (map_err (\<lambda>c. Module (InvalidVoucher c)) (parse env voucher)) (\<lambda>v.
     rbind (ensure (recipient_pk v = who) (Module InvalidRecipient)) (\<lambda>_.
     rbind (ensure (raw_block_number r \<ge> no_redeem_before_block v)
       (Module ClaimedTooSoonOrLate)) (\<lambda>_.
     rbind (slice 0 128 voucher) (\<lambda>unsigned_voucher.
     rbind (ensure (sig_verify env (signature v) unsigned_voucher (sender_pk v))
       (Module InvalidVoucherSignature)) (\<lambda>_.
     rbind (ok_or (raw_get env api r (oracle_block v)) (Module ClaimedTooSoonOrLate)) (\<lambda>rand.
     rbind (copy_from_slice 0 128 (replicate (128 + 32) 0) unsigned_voucher) (\<lambda>input1.
     rbind (copy_from_slice 128 160 input1 (encode_hash env rand)) (\<lambda>input2.
     rbind (draw_wins (blake2_256 env input2) (difficulty v)) (\<lambda>won.
     rbind (ensure won (Module VoucherDidNotWin)) (\<lambda>_.
     Ok (r\<lparr>raw_deposited := raw_deposited r @ [VoucherClaimed (value_if_paid v) who]\<rparr>))))))))))))"

primrec raw_perform ::
  "('acc, 'sig, 'h) substrate \<Rightarrow> 'h storage_api \<Rightarrow> 'w db_weight \<Rightarrow> 'acc raw_state \<Rightarrow>
   ('acc, 'h) action \<Rightarrow> 'acc raw_state option" where
  "raw_perform env api db r (NewBlock src) =
     (if raw_block_number r = - 1 then None
      else let n = raw_block_number r + 1
        in Some (fst (raw_on_initialize env api db src n (r\<lparr>raw_block_number := n\<rparr>))))"
| "raw_perform env api db r (Submit origin voucher) =
     (if length voucher \<le> unat MaxVoucherLength
      then (case raw_claim env api origin voucher r of
          Ok r' \<Rightarrow> Some r' | Err e \<Rightarrow> Some r | Panic \<Rightarrow> None)
      else None)"

primrec raw_run ::
  "('acc, 'sig, 'h) substrate \<Rightarrow> 'h storage_api \<Rightarrow> 'w db_weight \<Rightarrow> 'acc raw_state \<Rightarrow>
   ('acc, 'h) action list \<Rightarrow> 'acc raw_state option" where
  "raw_run env api db r [] = Some r"
| "raw_run env api db r (a # as) = Option.bind (raw_perform env api db r a) (\<lambda>r'. raw_run env api db r' as)"

text \<open>The chain starts on a store \<open>g\<close> that holds the items of the other pallets.\<close>

definition raw_genesis :: "(byte list \<rightharpoonup> byte list) \<Rightarrow> 'acc raw_state" where
  "raw_genesis g = \<lparr>raw_block_number = 0, raw_storage = g, raw_deposited = []\<rparr>"

section \<open>Refinement\<close>

text \<open>
  What is relied on: a hash is read back as it was written, and the block numbers have different
  hashes.
\<close>

definition storage_ok :: "('acc, 'sig, 'h) substrate \<Rightarrow> 'h storage_api \<Rightarrow> bool" where
  "storage_ok env api \<longleftrightarrow>
     (\<forall>h. decode_value api (encode_hash env h) = Some h) \<and>
     inj (\<lambda>n. blake2_256 env (encode_block_number env n))"

text \<open>
  The store \<open>r\<close> holds the state \<open>s\<close>: under the keys of the item the encoded entries of the map and
  nothing else, under every other key what the store \<open>g\<close> has there.
\<close>

definition holds ::
  "('acc, 'sig, 'h) substrate \<Rightarrow> 'h storage_api \<Rightarrow> (byte list \<rightharpoonup> byte list) \<Rightarrow>
   ('acc, 'h) pallet_state \<Rightarrow> 'acc raw_state \<Rightarrow> bool" where
  "holds env api g s r \<longleftrightarrow>
     raw_block_number r = block_number s \<and> raw_deposited r = deposited s \<and>
     (\<forall>n. raw_storage r (storage_key env api n) = map_option (encode_hash env) (history_get s n)) \<and>
     (\<forall>k. k \<notin> range (storage_key env api) \<longrightarrow> raw_storage r k = g k)"

lemma storage_key_eq [simp]:
  "storage_ok env api \<Longrightarrow> storage_key env api m = storage_key env api n \<longleftrightarrow> m = n"
  by (auto simp: storage_ok_def storage_key_def dest: injD)

lemma holds_get:
  assumes "storage_ok env api" and "holds env api g s r"
  shows "raw_get env api r n = history_get s n"
  using assms by (cases "history_get s n") (simp_all add: raw_get_def holds_def storage_ok_def)

lemma holds_set:
  assumes "storage_ok env api" and "holds env api g s r"
  shows "holds env api g (history_set s n v) (raw_set env api r n v)"
  using assms by (auto simp: holds_def raw_set_def history.get_set)

lemma holds_number:
  "holds env api g s r \<Longrightarrow> holds env api g (s\<lparr>block_number := n\<rparr>) (r\<lparr>raw_block_number := n\<rparr>)"
  by (simp add: holds_def)

lemma holds_deposit:
  "holds env api g s r \<Longrightarrow>
   holds env api g (deposit_event e s) (r\<lparr>raw_deposited := raw_deposited r @ [e]\<rparr>)"
  by (simp add: holds_def)

lemma holds_on_initialize:
  assumes "storage_ok env api" and "holds env api g s r"
  shows "holds env api g (fst (on_initialize env db src n s)) (fst (raw_on_initialize env api db src n r))"
  using assms
  by (auto simp: on_initialize_def raw_on_initialize_def Let_def split: prod.split
      intro!: holds_set)

text \<open>Related values of two computations with the same errors.\<close>

lemma rel_outcome_rbind:
  assumes "\<And>x. m = Ok x \<Longrightarrow> rel_outcome R (=) (f x) (f' x)"
  shows "rel_outcome R (=) (rbind m f) (rbind m f')"
  using assms by (cases m) simp_all

lemma holds_claim:
  assumes "storage_ok env api" and "holds env api g s r"
  shows "rel_outcome (holds env api g) (=) (claim env origin voucher s)
    (raw_claim env api origin voucher r)"
proof -
  have "raw_block_number r = block_number s" using assms(2) by (simp add: holds_def)
  then show ?thesis
    unfolding claim_def raw_claim_def
    by (simp only: holds_get [OF assms])
      (intro rel_outcome_rbind; simp add: holds_deposit [OF assms(2)])
qed

lemma holds_perform:
  assumes "storage_ok env api" and "holds env api g s r"
  shows "rel_option (holds env api g) (perform env db s a) (raw_perform env api db r a)"
proof (cases a)
  case (NewBlock src)
  have "raw_block_number r = block_number s" using assms(2) by (simp add: holds_def)
  then show ?thesis
    by (simp add: NewBlock new_block_def Let_def holds_on_initialize [OF assms(1) holds_number [OF assms(2)]])
next
  case (Submit origin voucher)
  show ?thesis
    using holds_claim [OF assms, of origin voucher] assms(2)
    by (cases "claim env origin voucher s"; cases "raw_claim env api origin voucher r")
      (simp_all add: Submit)
qed

lemma holds_run:
  assumes "storage_ok env api" and "holds env api g s r"
  shows "rel_option (holds env api g) (run_chain env db s as) (raw_run env api db r as)"
  using assms(2)
proof (induction as arbitrary: s r)
  case (Cons a as)
  from holds_perform [OF assms(1) Cons.prems, of db a] show ?case
    by (cases "perform env db s a"; cases "raw_perform env api db r a") (auto intro: Cons.IH)
qed simp

text \<open>The entries of the item are as many as those of the map.\<close>

lemma holds_dom:
  assumes "storage_ok env api" and "holds env api g s r"
    and "\<And>n. g (storage_key env api n) = None"
  shows "dom (raw_storage r) = dom g \<union> storage_key env api ` dom (randomness_history s)"
    and "card (dom (raw_storage r) - dom g) = card (dom (randomness_history s))"
proof -
  have entry: "raw_storage r k \<noteq> None \<longleftrightarrow> g k \<noteq> None \<or> k \<in> storage_key env api ` dom (randomness_history s)" for k
  proof (cases "k \<in> range (storage_key env api)")
    case True
    then obtain n where "k = storage_key env api n" by blast
    then show ?thesis
      using assms by (auto simp: holds_def history_get_def image_iff domIff)
  next
    case False
    then show ?thesis using assms(2) by (auto simp: holds_def)
  qed
  then show dom: "dom (raw_storage r) = dom g \<union> storage_key env api ` dom (randomness_history s)"
    by (intro set_eqI) (simp only: domIff Un_iff entry)
  have "dom (raw_storage r) - dom g = storage_key env api ` dom (randomness_history s)"
    using assms(3) by (auto simp: dom domIff)
  moreover have "inj_on (storage_key env api) (dom (randomness_history s))"
    using assms(1) by (intro inj_onI) simp
  ultimately show "card (dom (raw_storage r) - dom g) = card (dom (randomness_history s))"
    by (simp add: card_image)
qed

section \<open>A concrete store\<close>

definition demo_storage :: "u256 storage_api" where
  "demo_storage = \<lparr>item_prefix = [1, 2], decode_value = word_from_le\<rparr>"

lemma demo_storage_ok: "storage_ok demo_substrate demo_storage"
proof -
  have "total_codec 32 (word_to_le :: u256 \<Rightarrow> byte list) word_from_le"
    by (rule word_total_codec) simp
  then have "word_from_le (word_to_le h) = Some (h :: u256)" for h
    by (simp add: total_codec_def fixed_codec_def)
  moreover have "inj (\<lambda>n. take 32 (u32_to_le_bytes n @ replicate 32 0))"
  proof (rule injI)
    fix m n :: u32
    assume "take 32 (u32_to_le_bytes m @ replicate 32 0) = take 32 (u32_to_le_bytes n @ replicate 32 0)"
    then have "take 4 (take 32 (u32_to_le_bytes m @ replicate 32 0)) =
        take 4 (take 32 (u32_to_le_bytes n @ replicate 32 0))" by simp
    then have "u32_to_le_bytes m = u32_to_le_bytes n" by (simp add: integer_codecs)
    then show "m = n" by (metis u32_le.dec_enc option.inject)
  qed
  ultimately show ?thesis
    by (simp add: storage_ok_def demo_storage_def demo_substrate_def)
qed

section \<open>Properties\<close>

text \<open>
  C5: The pallet over the hashed keys of the chain's store refines the pallet over its map: a run
  exists over the store exactly if it does over the map, it deposits the same events, the store
  holds the entries of the map under their keys and is otherwise as it was, so no item of another
  pallet is touched, and the pallet never occupies more than 1024 keys.
\<close>

theorem raw_storage_refines:
  assumes "substrate_ok env" and "storage_ok env api"
    and "\<forall>n. g (storage_key env api n) = None"
  shows "rel_option (holds env api g) (run_chain env db genesis as) (raw_run env api db (raw_genesis g) as)
    \<and> (\<forall>r. raw_run env api db (raw_genesis g) as = Some r \<longrightarrow>
         card (dom (raw_storage r) - dom g) \<le> 1024 \<and>
         (\<forall>k \<in> dom g. raw_storage r k = g k))"
proof
  have "holds env api g genesis (raw_genesis g)"
    using assms(3) by (simp add: holds_def raw_genesis_def genesis_def history_get_def)
  then show run: "rel_option (holds env api g) (run_chain env db genesis as)
      (raw_run env api db (raw_genesis g) as)"
    by (rule holds_run [OF assms(2)])
  show "\<forall>r. raw_run env api db (raw_genesis g) as = Some r \<longrightarrow>
         card (dom (raw_storage r) - dom g) \<le> 1024 \<and> (\<forall>k \<in> dom g. raw_storage r k = g k)"
  proof (intro allI impI)
    fix r assume "raw_run env api db (raw_genesis g) as = Some r"
    then obtain s where s: "trace env db as s" "holds env api g s r"
      using run by (auto simp: option_rel_Some2 trace_iff_run_chain)
    have "card (dom (randomness_history s)) \<le> 1024"
      using trace_history_card [OF assms(1) s(1)] .
    moreover have "raw_storage r k = g k" if "k \<in> dom g" for k
    proof -
      have "k \<notin> range (storage_key env api)" using that assms(3) by auto
      then show ?thesis using s(2) by (simp add: holds_def)
    qed
    ultimately show "card (dom (raw_storage r) - dom g) \<le> 1024 \<and> (\<forall>k \<in> dom g. raw_storage r k = g k)"
      using holds_dom(2) [OF assms(2) s(2)] assms(3) by simp
  qed
qed

theorem raw_storage_refines_witness:
  "\<exists>r. raw_run demo_substrate demo_storage demo_db (raw_genesis [[9] \<mapsto> [5]])
      [NewBlock demo_source, Submit (Some 2) demo_bytes] = Some r \<and>
    raw_deposited r = [VoucherClaimed 4 2] \<and> raw_storage r [9] = Some [5]"
proof -
  let ?g = "[[9] \<mapsto> [5]] :: byte list \<rightharpoonup> byte list"
  have "\<forall>n. ?g (storage_key demo_substrate demo_storage n) = None"
    by (simp add: storage_key_def demo_storage_def)
  note refines = raw_storage_refines [OF demo_substrate_ok demo_storage_ok this, of demo_db
      "[NewBlock demo_source, Submit (Some 2) demo_bytes]"]
  obtain r where r: "raw_run demo_substrate demo_storage demo_db (raw_genesis ?g)
      [NewBlock demo_source, Submit (Some 2) demo_bytes] = Some r"
    and "holds demo_substrate demo_storage ?g (deposit_event (VoucherClaimed 4 2) demo_state) r"
    using refines [THEN conjunct1, unfolded demo_trace2 [unfolded trace_iff_run_chain] option_rel_Some1]
    by blast
  then have "raw_deposited r = [VoucherClaimed 4 2]"
    by (simp add: holds_def demo_state_def)
  moreover have "raw_storage r [9] = Some [5]"
    using refines [THEN conjunct2] r by (metis domIff fun_upd_same option.distinct(1))
  ultimately show ?thesis using r by blast
qed

end
