(* ===== verification/Weights.thy ===== *)
theory Weights
  imports Claim
begin

text \<open>
  The weights of \<open>claim\<close> (\<open>blockchain/pallets/probabilistic-payments/src/weights.rs\<close>) and its
  benchmark (\<open>benchmarking.rs\<close> beside it). Weights are values of \<open>sp_weights\<close>: their
  constructor and saturating sum are parameters.
\<close>

section \<open>Weights\<close>

record 'w weight_api =
  from_parts :: "u64 \<Rightarrow> u64 \<Rightarrow> 'w"
  saturating_add :: "'w \<Rightarrow> 'w \<Rightarrow> 'w"

text \<open>\<open>WeightInfo for SubstrateWeight<T>\<close>, over the runtime's \<open>T::DbWeight\<close>.\<close>

definition claim_weight_substrate :: "'w weight_api \<Rightarrow> 'w db_weight \<Rightarrow> 'w" where
  "claim_weight_substrate api db_of_runtime =
     saturating_add api (from_parts api 9000000 0) (writes db_of_runtime 1)"

text \<open>\<open>WeightInfo for ()\<close>, over \<open>RocksDbWeight\<close>.\<close>

definition claim_weight_unit :: "'w weight_api \<Rightarrow> 'w db_weight \<Rightarrow> 'w" where
  "claim_weight_unit api rocks_db =
     saturating_add api (from_parts api 9000000 0) (writes rocks_db 1)"

section \<open>The configuration of the pallet\<close>

text \<open>
  The pallet's \<open>Config\<close> (\<open>lib.rs\<close>), as far as it is a value: which implementation of the trait
  \<open>WeightInfo\<close> a runtime chooses. Its types are those of the model. \<open>T::WeightInfo::claim()\<close> is
  the weight of the dispatchable; the runtime's \<open>T::DbWeight\<close> and \<open>RocksDbWeight\<close> are passed on.
\<close>

datatype weight_info = SubstrateWeight | UnitWeight

record payments_config =
  payments_weight_info :: weight_info

primrec claim_weight :: "weight_info \<Rightarrow> 'w weight_api \<Rightarrow> 'w db_weight \<Rightarrow> 'w db_weight \<Rightarrow> 'w" where
  "claim_weight SubstrateWeight api db_of_runtime rocks_db = claim_weight_substrate api db_of_runtime"
| "claim_weight UnitWeight api db_of_runtime rocks_db = claim_weight_unit api rocks_db"

section \<open>The benchmark\<close>

text \<open>
  The extrinsic call of the benchmark \<open>claim\<close>: the empty bounded vector, signed by the
  whitelisted caller.
\<close>

definition benchmark_claim ::
  "('acc, 'sig, 'h) substrate \<Rightarrow> 'acc \<Rightarrow> ('acc, 'h) pallet_state \<Rightarrow>
   (('acc, 'h) pallet_state, dispatch_error) outcome" where
  "benchmark_claim env whitelisted_caller s = claim env (Some whitelisted_caller) [] s"

section \<open>Properties\<close>

text \<open>
  The benchmark of \<open>claim\<close> never measures a claim: its extrinsic call fails in every
  state and for every caller with the parser's code for a voucher that is too short.
\<close>

lemma benchmark_fails:
  "benchmark_claim env caller s = Err (Module (InvalidVoucher 0))"
  by (simp add: benchmark_claim_def claim_def parse_short)

end
