(* ===== verification/Storage_Cost.thy ===== *)
theory Storage_Cost
  imports Weights Chain
begin

text \<open>
  What the pallet's operations cost in storage accesses, against the weights they declare. Here
  \<open>on_initialize\<close> and \<open>claim\<close> (\<open>blockchain/pallets/probabilistic-payments/src/lib.rs\<close>) are
  programs that have no state of their own: they reach the storage only through the steps of
  \<open>storage_prog\<close>, and it is the interpreter that performs a step and logs it, so that no access can
  go unlogged. Run on a state, the programs are the operations of the other theories. The
  system pallet's block number and events are not counted, as in the declared weights.
\<close>

section \<open>Programs over the storage\<close>

datatype ('acc, 'h, 'x) storage_prog =
    Return 'x
  | GetBlockNumber "u32 \<Rightarrow> ('acc, 'h, 'x) storage_prog"
  | AskRandom "byte list" "'h \<times> u32 \<Rightarrow> ('acc, 'h, 'x) storage_prog"
  | GetHistory u32 "'h option \<Rightarrow> ('acc, 'h, 'x) storage_prog"
  | SetHistory u32 "'h option" "('acc, 'h, 'x) storage_prog"
  | Deposit "'acc event" "('acc, 'h, 'x) storage_prog"

datatype storage_op = ReadMaterial | ReadHistory u32 | WriteHistory u32

text \<open>The result, the state and the log of the accesses, oldest first.\<close>

primrec run_prog ::
  "'h source \<Rightarrow> ('acc, 'h, 'x) storage_prog \<Rightarrow> ('acc, 'h) pallet_state \<Rightarrow>
   'x \<times> ('acc, 'h) pallet_state \<times> storage_op list" where
  "run_prog random (Return x) s = (x, s, [])"
| "run_prog random (GetBlockNumber f) s = run_prog random (f (block_number s)) s"
| "run_prog random (AskRandom subject f) s =
     apsnd (apsnd ((#) ReadMaterial)) (run_prog random (f (random subject)) s)"
| "run_prog random (GetHistory k f) s =
     apsnd (apsnd ((#) (ReadHistory k))) (run_prog random (f (history_get s k)) s)"
| "run_prog random (SetHistory k x p) s =
     apsnd (apsnd ((#) (WriteHistory k))) (run_prog random p (history_set s k x))"
| "run_prog random (Deposit e p) s = run_prog random p (deposit_event e s)"

text \<open>A value the code computes without storage, with its early return.\<close>

primrec check ::
  "('a, 'e) outcome \<Rightarrow> ('a \<Rightarrow> ('acc, 'h, ('b, 'e) outcome) storage_prog) \<Rightarrow>
   ('acc, 'h, ('b, 'e) outcome) storage_prog" where
  "check (Ok x) f = f x"
| "check (Err e) f = Return (Err e)"
| "check Panic f = Return Panic"

definition on_initialize_prog ::
  "('acc, 'sig, 'h) substrate \<Rightarrow> 'w db_weight \<Rightarrow> u32 \<Rightarrow> ('acc, 'h, 'w) storage_prog" where
  "on_initialize_prog env db n =
     AskRandom (topic env n) (\<lambda>(rand, _).
     SetHistory n (Some rand)
       (let expired = saturating_sub n EPOCH_LENGTH
        in if expired > 0 then SetHistory expired None (Return (reads_writes db 1 2))
           else Return (reads_writes db 1 2)))"

definition claim_prog ::
  "('acc, 'sig, 'h) substrate \<Rightarrow> 'acc origin \<Rightarrow> byte list \<Rightarrow>
   ('acc, 'h, (unit, dispatch_error) outcome) storage_prog" where
  "claim_prog env origin voucher =
     check (ok_or origin BadOrigin) (\<lambda>who.
     check (map_err (\<lambda>c. Module (InvalidVoucher c)) (parse env voucher)) (\<lambda>v.
     check (ensure (recipient_pk v = who) (Module InvalidRecipient)) (\<lambda>_.
     GetBlockNumber (\<lambda>current_block.
     check (ensure (current_block \<ge> no_redeem_before_block v) (Module ClaimedTooSoonOrLate)) (\<lambda>_.
     check (slice 0 128 voucher) (\<lambda>unsigned_voucher.
     check (ensure (sig_verify env (signature v) unsigned_voucher (sender_pk v))
       (Module InvalidVoucherSignature)) (\<lambda>_.
     GetHistory (oracle_block v) (\<lambda>entry.
     check (ok_or entry (Module ClaimedTooSoonOrLate)) (\<lambda>rand.
     check (copy_from_slice 0 128 (replicate (128 + 32) 0) unsigned_voucher) (\<lambda>input1.
     check (copy_from_slice 128 160 input1 (encode_hash env rand)) (\<lambda>input2.
     check (draw_wins (blake2_256 env input2) (difficulty v)) (\<lambda>won.
     check (ensure won (Module VoucherDidNotWin)) (\<lambda>_.
     Deposit (VoucherClaimed (value_if_paid v) who)
     (Return (Ok ())))))))))))))))"

section \<open>The programs are the operations\<close>

definition run_claim ::
  "'h source \<Rightarrow> ('acc, 'h, (unit, 'e) outcome) storage_prog \<Rightarrow> ('acc, 'h) pallet_state \<Rightarrow>
   (('acc, 'h) pallet_state, 'e) outcome" where
  "run_claim random p s = (case run_prog random p s of (result, t, log) \<Rightarrow> rbind result (\<lambda>_. Ok t))"

lemma run_claim_check: "run_claim random (check m f) s = rbind m (\<lambda>x. run_claim random (f x) s)"
  by (cases m) (simp_all add: run_claim_def)

lemma run_claim_steps:
  "run_claim random (Return (Ok ())) s = Ok s"
  "run_claim random (GetBlockNumber f) s = run_claim random (f (block_number s)) s"
  "run_claim random (GetHistory k g) s = run_claim random (g (history_get s k)) s"
  "run_claim random (Deposit e p) s = run_claim random p (deposit_event e s)"
  by (simp_all add: run_claim_def apsnd_def map_prod_def split: prod.split)

lemma run_claim_prog: "run_claim random (claim_prog env origin voucher) s = claim env origin voucher s"
  by (simp only: claim_prog_def run_claim_check run_claim_steps claim_def)

lemma run_on_initialize_prog:
  "on_initialize env db random n s =
     (case run_prog random (on_initialize_prog env db n) s of (w, t, log) \<Rightarrow> (t, w))"
  by (simp add: on_initialize_prog_def on_initialize_def Let_def split: prod.split)

section \<open>Accesses\<close>

definition accesses ::
  "'h source \<Rightarrow> ('acc, 'h, 'x) storage_prog \<Rightarrow> ('acc, 'h) pallet_state \<Rightarrow> storage_op list" where
  "accesses random p s = snd (snd (run_prog random p s))"

definition reads :: "storage_op list \<Rightarrow> nat" where
  "reads ops = length (filter (\<lambda>op. case op of WriteHistory k \<Rightarrow> False | _ \<Rightarrow> True) ops)"

definition written :: "storage_op list \<Rightarrow> nat" where
  "written ops = length (filter (\<lambda>op. case op of WriteHistory k \<Rightarrow> True | _ \<Rightarrow> False) ops)"

text \<open>What the accesses of a log cost by the database weights.\<close>

definition access_cost :: "'w db_weight \<Rightarrow> storage_op list \<Rightarrow> 'w" where
  "access_cost db ops = reads_writes db (word_of_nat (reads ops)) (word_of_nat (written ops))"

lemma reads_written_simps [simp]:
  "reads [] = 0" "written [] = 0"
  "reads (ReadMaterial # ops) = Suc (reads ops)" "written (ReadMaterial # ops) = written ops"
  "reads (ReadHistory k # ops) = Suc (reads ops)" "written (ReadHistory k # ops) = written ops"
  "reads (WriteHistory k # ops) = reads ops" "written (WriteHistory k # ops) = Suc (written ops)"
  by (simp_all add: reads_def written_def)

lemma accesses_check:
  "accesses random (check m f) s = (case m of Ok x \<Rightarrow> accesses random (f x) s | _ \<Rightarrow> [])"
  by (cases m) (simp_all add: accesses_def)

lemma accesses_steps:
  "accesses random (Return r) s = []"
  "accesses random (GetBlockNumber f) s = accesses random (f (block_number s)) s"
  "accesses random (AskRandom subject g) s = ReadMaterial # accesses random (g (random subject)) s"
  "accesses random (GetHistory k h) s = ReadHistory k # accesses random (h (history_get s k)) s"
  "accesses random (SetHistory k x p) s = WriteHistory k # accesses random p (history_set s k x)"
  "accesses random (Deposit e p) s = accesses random p (deposit_event e s)"
  by (simp_all add: accesses_def)

text \<open>
  A claim reads the history once if it gets past its checks, of its oracle block, and accesses
  nothing else.
\<close>

lemma claim_accesses:
  "accesses random (claim_prog env origin voucher) s =
     (case parse env voucher of
        Ok v \<Rightarrow>
          if origin = Some (recipient_pk v) \<and> no_redeem_before_block v \<le> block_number s \<and>
             sig_verify env (signature v) (take 128 voucher) (sender_pk v)
          then [ReadHistory (oracle_block v)] else []
      | _ \<Rightarrow> [])"
proof (cases "parse env voucher")
  case (Ok v)
  have "128 \<le> length voucher" using parse_Ok_length [OF Ok] by simp
  then show ?thesis
    by (cases origin)
      (auto simp: claim_prog_def Ok accesses_check accesses_steps ensure_def
        split: outcome.splits)
next
  case (Err c)
  then show ?thesis by (cases origin) (simp_all add: claim_prog_def accesses_check accesses_steps)
next
  case Panic
  then show ?thesis by (cases origin) (simp_all add: claim_prog_def accesses_check accesses_steps)
qed

lemma on_initialize_accesses:
  "accesses random (on_initialize_prog env db n) s =
     (if unat EPOCH_LENGTH < unat n
      then [ReadMaterial, WriteHistory n, WriteHistory (n - EPOCH_LENGTH)]
      else [ReadMaterial, WriteHistory n])"
proof -
  have "saturating_sub n EPOCH_LENGTH > 0 \<longleftrightarrow> unat EPOCH_LENGTH < unat n"
    by (simp add: zero_less_word_iff)
  moreover have "saturating_sub n EPOCH_LENGTH = n - EPOCH_LENGTH" if "unat EPOCH_LENGTH < unat n"
    using that by (simp add: saturating_sub_def word_less_nat_alt)
  ultimately show ?thesis
    by (simp add: on_initialize_prog_def accesses_steps Let_def split: prod.split)
qed

section \<open>Concrete weights\<close>

text \<open>Numbers, with the costs of \<open>RocksDbWeight\<close> in picoseconds.\<close>

definition number_weights :: "nat weight_api" where
  "number_weights = \<lparr>from_parts = (\<lambda>t p. unat t), saturating_add = (+)\<rparr>"

definition number_db :: "nat db_weight" where
  "number_db = \<lparr>reads_writes = (\<lambda>r w. 25000000 * unat r + 100000000 * unat w),
     writes = (\<lambda>w. 100000000 * unat w)\<rparr>"

section \<open>Properties\<close>

text \<open>
  The weight a block start declares is sound: the hook reads the randomness material once
  and writes the history once, twice from block 1025 on, and the weight it returns is that of
  one read and two writes.
\<close>

lemma on_initialize_weight_sound:
  "snd (on_initialize env db random n s) = reads_writes db 1 2 \<and>
   reads (accesses random (on_initialize_prog env db n) s) = 1 \<and>
   written (accesses random (on_initialize_prog env db n) s) = (if 1024 < unat n then 2 else 1)"
  by (simp add: on_initialize_accesses EPOCH_LENGTH_def)
    (simp add: on_initialize_def Let_def split: prod.split)

text \<open>
  C18: What a claim costs in storage accesses: run as a program that reaches the storage only
  through logged steps it is the claim, it writes no entry, and it reads the entry of its oracle
  block, once, exactly if its voucher is the caller's, redeemable and validly signed. Both
  weight functions, which charge one write instead, cover that on every database where a
  read costs no more than a write.
\<close>

theorem claim_storage_cost:
  fixes api :: "'w :: order weight_api"
  assumes "\<And>a b. b \<le> saturating_add api a b"
    and "reads_writes db 0 0 \<le> writes db 1" and "reads_writes db 1 0 \<le> writes db 1"
  shows "run_claim random (claim_prog env origin voucher) s = claim env origin voucher s \<and>
    written (accesses random (claim_prog env origin voucher) s) = 0 \<and>
    {k. ReadHistory k \<in> set (accesses random (claim_prog env origin voucher) s)} =
      {oracle_block v |v. parse env voucher = Ok v \<and> origin = Some (recipient_pk v) \<and>
         no_redeem_before_block v \<le> block_number s \<and>
         sig_verify env (signature v) (take 128 voucher) (sender_pk v)} \<and>
    reads (accesses random (claim_prog env origin voucher) s) \<le> 1 \<and>
    (\<forall>s'. claim env origin voucher s = Ok s' \<longrightarrow> randomness_history s' = randomness_history s) \<and>
    access_cost db (accesses random (claim_prog env origin voucher) s)
      \<le> claim_weight_substrate api db \<and>
    access_cost db (accesses random (claim_prog env origin voucher) s) \<le> claim_weight_unit api db"
proof -
  let ?log = "accesses random (claim_prog env origin voucher) s"
  have log: "?log = [] \<or> (\<exists>k. ?log = [ReadHistory k])"
    by (simp add: claim_accesses split: outcome.split)
  have "access_cost db ?log \<le> writes db 1"
    using log assms(2,3) by (auto simp: access_cost_def)
  also have "writes db 1 \<le> saturating_add api (from_parts api 9000000 0) (writes db 1)"
    by (rule assms(1))
  finally have cost: "access_cost db ?log \<le> saturating_add api (from_parts api 9000000 0) (writes db 1)" .
  have "randomness_history s' = randomness_history s" if "claim env origin voucher s = Ok s'" for s'
    using that by (auto simp: claim_def outcome_simps deposit_event_def)
  then show ?thesis
    using log cost
    by (auto simp: run_claim_prog claim_weight_substrate_def claim_weight_unit_def)
      (auto simp: claim_accesses split: outcome.splits if_splits)
qed

theorem claim_storage_cost_witness:
  "access_cost number_db
     (accesses demo_source (claim_prog demo_substrate (Some 2) demo_bytes) demo_state)
     \<le> claim_weight_substrate number_weights number_db \<and>
   {k. ReadHistory k \<in> set
     (accesses demo_source (claim_prog demo_substrate (Some 2) demo_bytes) demo_state)} = {1}"
proof -
  have "b \<le> saturating_add number_weights a b"
    and "reads_writes number_db 0 0 \<le> writes number_db 1"
    and "reads_writes number_db 1 0 \<le> writes number_db 1" for a b
    by (simp_all add: number_weights_def number_db_def)
  note cost = claim_storage_cost [OF this, of demo_source demo_substrate "Some 2" demo_bytes demo_state]
  have "{k. ReadHistory k \<in> set
     (accesses demo_source (claim_prog demo_substrate (Some 2) demo_bytes) demo_state)} = {1}"
    using cost [THEN conjunct2, THEN conjunct2, THEN conjunct1] demo_parse demo_honest
    by (auto simp: demo_voucher_def demo_state_def demo_substrate_def)
  then show ?thesis using cost by blast
qed

end
