(* ===== verification/Runtime_Config.thy ===== *)
theory Runtime_Config
  imports Prelude
begin

text \<open>
  The constants of the runtime (\<open>blockchain/runtime/src/lib.rs\<close>), the pallets that
  \<open>construct_runtime!\<close> composes with their order, and the mortality period of the
  transactions the node signs itself, with the standard library's
  \<open>checked_next_power_of_two\<close> behind it.
\<close>

section \<open>Time and other constants\<close>

definition MILLISECS_PER_BLOCK :: u64 where "MILLISECS_PER_BLOCK = 6000"

definition SLOT_DURATION :: u64 where "SLOT_DURATION = MILLISECS_PER_BLOCK"

definition MINUTES :: u32 where "MINUTES = 60000 div ucast MILLISECS_PER_BLOCK"

definition HOURS :: u32 where "HOURS = MINUTES * 60"

definition DAYS :: u32 where "DAYS = HOURS * 24"

definition BlockHashCount :: u32 where "BlockHashCount = 2400"

definition SS58Prefix :: u8 where "SS58Prefix = 42"

definition EXISTENTIAL_DEPOSIT :: u128 where "EXISTENTIAL_DEPOSIT = 500"

definition MaxAuthorities :: u32 where "MaxAuthorities = 100"

definition StakingUnsignedPriority :: u64 where "StakingUnsignedPriority = - 1 div 2"

definition MinimumPeriod :: u64 where "MinimumPeriod = SLOT_DURATION div 2"

record runtime_version =
  spec_name :: string
  impl_name :: string
  authoring_version :: u32
  spec_version :: u32
  impl_version :: u32
  transaction_version :: u32
  state_version :: u8

definition VERSION :: runtime_version where
  "VERSION = \<lparr>spec_name = ''guillotine-chain'', impl_name = ''guillotine-chain'',
     authoring_version = 1, spec_version = 100, impl_version = 1, transaction_version = 1,
     state_version = 1\<rparr>"

section \<open>The pallets of the runtime\<close>

datatype pallet =
    System | Timestamp | Aura | Grandpa | Balances | TransactionPayment | Sudo | Nfts
  | InsecureRandomnessCollectiveFlip | ProbabilisticPayments

definition construct_runtime :: "pallet list" where
  "construct_runtime =
     [System, Timestamp, Aura, Grandpa, Balances, TransactionPayment, Sudo, Nfts,
      InsecureRandomnessCollectiveFlip, ProbabilisticPayments]"

text \<open>
  The pallets are ordered by their place in \<open>construct_runtime!\<close>, which is the order in
  which their hooks run.
\<close>

primrec pallet_index :: "pallet \<Rightarrow> nat" where
  "pallet_index System = 0"
| "pallet_index Timestamp = 1"
| "pallet_index Aura = 2"
| "pallet_index Grandpa = 3"
| "pallet_index Balances = 4"
| "pallet_index TransactionPayment = 5"
| "pallet_index Sudo = 6"
| "pallet_index Nfts = 7"
| "pallet_index InsecureRandomnessCollectiveFlip = 8"
| "pallet_index ProbabilisticPayments = 9"

lemma pallet_index_inj: "pallet_index p = pallet_index q \<Longrightarrow> p = q"
  by (cases p; cases q) simp_all

instantiation pallet :: linorder
begin

definition less_eq_pallet :: "pallet \<Rightarrow> pallet \<Rightarrow> bool" where
  "less_eq_pallet p q \<longleftrightarrow> pallet_index p \<le> pallet_index q"

definition less_pallet :: "pallet \<Rightarrow> pallet \<Rightarrow> bool" where
  "less_pallet p q \<longleftrightarrow> pallet_index p < pallet_index q"

instance
  by standard (auto simp: less_eq_pallet_def less_pallet_def intro: pallet_index_inj)

end

section \<open>checked_next_power_of_two\<close>

text \<open>
  The smallest power of two that is not below the argument, \<open>None\<close> if it does not fit
  in 32 bits. \<open>pow2_from\<close> searches it by doubling.
\<close>

function pow2_from :: "nat \<Rightarrow> nat \<Rightarrow> nat" where
  "pow2_from p n = (if 0 < p \<and> p < n then pow2_from (2 * p) n else p)"
  by pat_completeness auto
termination
  by (relation "measure (\<lambda>(p, n). n - p)") auto

declare pow2_from.simps [simp del]

definition checked_next_power_of_two :: "u32 \<Rightarrow> u32 option" where
  "checked_next_power_of_two n =
     (let p = pow2_from 1 (unat n) in if p < 2 ^ 32 then Some (word_of_nat p) else None)"

text \<open>\<open>BlockHashCount::get().checked_next_power_of_two().map(|c| c / 2).unwrap_or(2) as u64\<close>\<close>

definition era_period :: "u32 \<Rightarrow> u64" where
  "era_period block_hash_count =
     (case map_option (\<lambda>c. c div 2) (checked_next_power_of_two block_hash_count) of
        Some c \<Rightarrow> ucast c | None \<Rightarrow> 2)"

lemma pow2_from_spec:
  assumes "p = 2 ^ k"
  shows "\<exists>j \<ge> k. pow2_from p n = 2 ^ j \<and> n \<le> 2 ^ j \<and> (2 ^ j div 2 < n \<or> j = k)"
  using assms
proof (induction p n arbitrary: k rule: pow2_from.induct)
  case (1 p n)
  show ?case
  proof (cases "0 < p \<and> p < n")
    case True
    with 1 obtain j where j: "j \<ge> Suc k" "pow2_from (2 * p) n = 2 ^ j" "n \<le> 2 ^ j"
      "2 ^ j div 2 < n \<or> j = Suc k"
      by (metis power_Suc)
    moreover have "pow2_from p n = pow2_from (2 * p) n"
      using True by (simp add: pow2_from.simps [of p])
    moreover have "2 ^ j div 2 < n"
      using j(4) True \<open>p = 2 ^ k\<close> by auto
    ultimately show ?thesis by (auto intro!: exI [of _ j])
  next
    case False
    then have "pow2_from p n = p" by (auto simp: pow2_from.simps [of p])
    with False \<open>p = 2 ^ k\<close> show ?thesis by (auto intro!: exI [of _ k])
  qed
qed

lemma next_power_of_two_Some:
  assumes "1 < unat n" and "unat n \<le> 2 ^ 31"
  shows "\<exists>i c. i < 31 \<and> checked_next_power_of_two n = Some c \<and> unat c = 2 ^ Suc i \<and>
    2 ^ i < unat n \<and> unat n \<le> 2 ^ Suc i"
proof -
  obtain j where j: "pow2_from 1 (unat n) = 2 ^ j" "unat n \<le> 2 ^ j" "2 ^ j div 2 < unat n \<or> j = 0"
    using pow2_from_spec [of 1 0 "unat n"] by auto
  have "j \<noteq> 0" using j(2) assms(1) by (cases j) auto
  then obtain i where i: "j = Suc i" by (cases j) auto
  with j(3) have lt: "2 ^ i < unat n" by simp
  then have "(2 :: nat) ^ i < 2 ^ 31" using assms(2) by linarith
  then have "i < 31" by (rule power_less_imp_less_exp [rotated]) simp
  then have "(2 :: nat) ^ j < 2 ^ 32"
    unfolding i by (intro power_strict_increasing) simp_all
  then have p: "pow2_from 1 (unat n) < 2 ^ 32" using j(1) by simp
  then have "unat (word_of_nat (pow2_from 1 (unat n)) :: u32) = pow2_from 1 (unat n)"
    by (simp add: unat_of_nat)
  moreover have "checked_next_power_of_two n = Some (word_of_nat (pow2_from 1 (unat n)))"
    using p by (simp add: checked_next_power_of_two_def)
  ultimately show ?thesis
    using \<open>i < 31\<close> lt j(1,2) unfolding i by metis
qed

section \<open>Properties\<close>

text \<open>
  C26: The mortality period of a self-signed transaction fits the block hashes the chain
  keeps: for any block hash count from 2 to \<open>2^31\<close> it is a power of two, strictly below the
  count and at least half of it, so the era's first block hash is still known when the
  transaction is checked.
\<close>

theorem era_period_in_hash_window:
  assumes "1 < unat count" and "unat count \<le> 2 ^ 31"
  shows "(\<exists>i < 31. unat (era_period count) = 2 ^ i) \<and>
    unat (era_period count) < unat count \<and> unat count \<le> 2 * unat (era_period count)"
proof -
  obtain i c where i: "i < 31" "checked_next_power_of_two count = Some c" "unat c = 2 ^ Suc i"
    "2 ^ i < unat count" "unat count \<le> 2 ^ Suc i"
    using next_power_of_two_Some [OF assms] by blast
  have "unat (era_period count) = unat (c div 2)"
    by (simp add: era_period_def i(2) unsigned_ucast_eq take_bit_nat_eq_self_iff
        order_less_trans [OF unsigned_less])
  also have "\<dots> = 2 ^ i" by (simp add: unat_div_distrib i(3))
  finally show ?thesis using i by auto
qed

theorem era_period_in_hash_window_witness:
  "(1 :: nat) < unat BlockHashCount \<and> unat BlockHashCount \<le> 2 ^ 31 \<and>
   unat (era_period BlockHashCount) < 2400"
proof -
  have h: "(1 :: nat) < unat BlockHashCount" "unat BlockHashCount \<le> 2 ^ 31"
    by (simp_all add: BlockHashCount_def)
  from h era_period_in_hash_window [OF h] show ?thesis by (simp add: BlockHashCount_def)
qed

text \<open>
  The derived constants: a minute is 10 blocks, an hour 600 and a day 14400, without
  wrap-around, a slot is one block time and the timestamps of two blocks are at least half
  a slot apart.
\<close>

lemma time_constants:
  "unat MINUTES = 10 \<and> unat HOURS = 600 \<and> unat DAYS = 14400 \<and>
   unat SLOT_DURATION * unat MINUTES = 60000 \<and> 2 * unat MinimumPeriod = unat SLOT_DURATION"
  by (simp add: MINUTES_def HOURS_def DAYS_def SLOT_DURATION_def MILLISECS_PER_BLOCK_def
      MinimumPeriod_def)

text \<open>
  \<open>construct_runtime!\<close> lists every pallet once in hook order, and the randomness pallet
  runs its hook before the payments pallet, which reads it.
\<close>

lemma hook_order:
  "sorted construct_runtime \<and> distinct construct_runtime \<and> set construct_runtime = UNIV \<and>
   InsecureRandomnessCollectiveFlip < ProbabilisticPayments \<and>
   map pallet_index construct_runtime = [0..<length construct_runtime]"
proof -
  have "p \<in> set construct_runtime" for p
    by (cases p) (simp_all add: construct_runtime_def)
  moreover have "map pallet_index construct_runtime = [0..<length construct_runtime]"
    by (simp add: construct_runtime_def upt_rec)
  ultimately show ?thesis
    by (auto simp: construct_runtime_def less_eq_pallet_def less_pallet_def)
qed

end
