(* ===== verification/Runtime_Chain.thy ===== *)
theory Runtime_Chain
  imports Chain Runtime_Config
begin

text \<open>
  The payments pallet inside the runtime (\<open>construct_runtime!\<close>, \<open>Executive\<close>, \<open>SignedExtra\<close> and the
  pallet's configuration in \<open>blockchain/runtime/src/lib.rs\<close>). A block starts with a header, from
  which the system pallet is initialized, and with the \<open>on_initialize\<close> hooks of all pallets in the
  order of \<open>construct_runtime!\<close>; then it takes extrinsics, each a call of the payments pallet or of a
  stock pallet between the checks and charges of the signed extensions; then it is finalized. The
  storage of the stock pallets and what they do are parameters.
\<close>

section \<open>State, hooks and calls\<close>

record ('acc, 'h, 'r) runtime_state =
  payments :: "('acc, 'h) pallet_state"
  stock :: 'r

datatype 'c runtime_call = Payments_claim "byte list" | Stock_call 'c

text \<open>An extrinsic: its origin, its call and what the signed extensions carry (era, nonce, tip).\<close>

record ('acc, 'c, 'x) extrinsic =
  signer :: "'acc origin"
  xt_call :: "'c runtime_call"
  signed_extra :: 'x

text \<open>
  What the stock pallets, and with them \<open>frame_executive\<close>, do. \<open>'r\<close> is all storage but that of the
  payments pallet: accounts with their nonces and balances, the events and digests of the system
  pallet, the hashes of past blocks, the randomness material.
  \<^item> \<open>header_number\<close>, \<open>system_initialize\<close>: the number of a header, and \<open>System::initialize\<close> with its
    number, parent hash and digest;
  \<^item> \<open>stock_hook p n\<close>: \<open>on_initialize(n)\<close> of the stock pallet \<open>p\<close>;
  \<^item> \<open>stock_random\<close>: \<open>random\<close> of the collective-flip pallet in the current storage;
  \<^item> \<open>pre_dispatch\<close>, \<open>post_dispatch\<close>: the signed extensions before and after a call, which charge the
    fee and count the nonce; \<open>None\<close> for an extrinsic that they refuse. \<open>post_dispatch\<close> also deposits
    the system event with the call's error, if it has one;
  \<^item> \<open>note_event\<close>: what the system pallet does with an event that the payments pallet deposits;
  \<^item> \<open>stock_call\<close>: the dispatch of a call of a stock pallet, \<open>None\<close> where it returns an error. It has
    the whole state: a call by root may write any storage;
  \<^item> \<open>stock_finalize\<close>: the end of a block.
\<close>

record ('acc, 'h, 'c, 'hd, 'x, 'r) stock_pallets =
  header_number :: "'hd \<Rightarrow> u32"
  system_initialize :: "'hd \<Rightarrow> 'r \<Rightarrow> 'r"
  stock_hook :: "pallet \<Rightarrow> u32 \<Rightarrow> 'r \<Rightarrow> 'r"
  stock_random :: "'r \<Rightarrow> 'h source"
  pre_dispatch :: "('acc, 'c, 'x) extrinsic \<Rightarrow> 'r \<Rightarrow> 'r option"
  post_dispatch :: "('acc, 'c, 'x) extrinsic \<Rightarrow> dispatch_error option option \<Rightarrow> 'r \<Rightarrow> 'r"
  note_event :: "'acc event \<Rightarrow> 'r \<Rightarrow> 'r"
  stock_call :: "'acc origin \<Rightarrow> 'c \<Rightarrow> ('acc, 'h, 'r) runtime_state \<Rightarrow>
    ('acc, 'h, 'r) runtime_state option"
  stock_finalize :: "'r \<Rightarrow> 'r"

definition run_hook ::
  "('acc, 'sig, 'h) substrate \<Rightarrow> 'w db_weight \<Rightarrow> ('acc, 'h, 'c, 'hd, 'x, 'r) stock_pallets \<Rightarrow> u32 \<Rightarrow>
   pallet \<Rightarrow> ('acc, 'h, 'r) runtime_state \<Rightarrow> ('acc, 'h, 'r) runtime_state" where
  "run_hook env db rt n p rs =
     (if p = ProbabilisticPayments
      then rs\<lparr>payments := fst (on_initialize env db (stock_random rt (stock rs)) n (payments rs))\<rparr>
      else rs\<lparr>stock := stock_hook rt p n (stock rs)\<rparr>)"

text \<open>\<open>AllPalletsWithSystem\<close>: the hooks of a list of pallets, first to last.\<close>

definition run_hooks ::
  "('acc, 'sig, 'h) substrate \<Rightarrow> 'w db_weight \<Rightarrow> ('acc, 'h, 'c, 'hd, 'x, 'r) stock_pallets \<Rightarrow>
   pallet list \<Rightarrow> u32 \<Rightarrow> ('acc, 'h, 'r) runtime_state \<Rightarrow> ('acc, 'h, 'r) runtime_state" where
  "run_hooks env db rt pallets n rs = fold (run_hook env db rt n) pallets rs"

definition initialize_block ::
  "('acc, 'sig, 'h) substrate \<Rightarrow> 'w db_weight \<Rightarrow> ('acc, 'h, 'c, 'hd, 'x, 'r) stock_pallets \<Rightarrow>
   pallet list \<Rightarrow> 'hd \<Rightarrow> ('acc, 'h, 'r) runtime_state \<Rightarrow> ('acc, 'h, 'r) runtime_state" where
  "initialize_block env db rt pallets header rs =
     (let n = header_number rt header
      in run_hooks env db rt pallets n
        \<lparr>payments = (payments rs)\<lparr>block_number := n\<rparr>,
         stock = system_initialize rt header (stock rs)\<rparr>)"

text \<open>
  The dispatch of a call. A claim leaves the stock storage to the system pallet, which notes its
  event; a call that fails has no effect. A voucher that does not fit its \<open>BoundedVec\<close> does not
  decode, so there is no such call.
\<close>

definition dispatch ::
  "('acc, 'sig, 'h) substrate \<Rightarrow> ('acc, 'h, 'c, 'hd, 'x, 'r) stock_pallets \<Rightarrow> 'acc origin \<Rightarrow>
   'c runtime_call \<Rightarrow> ('acc, 'h, 'r) runtime_state \<Rightarrow>
   (('acc, 'h, 'r) runtime_state, dispatch_error option) outcome" where
  "dispatch env rt origin call rs =
     (case call of
        Payments_claim voucher \<Rightarrow>
          rbind (map_err Some (claim env origin voucher (payments rs))) (\<lambda>s.
            let events = drop (length (deposited (payments rs))) (deposited s)
            in Ok \<lparr>payments = s, stock = fold (note_event rt) events (stock rs)\<rparr>)
      | Stock_call c \<Rightarrow>
          (case stock_call rt origin c rs of Some rs' \<Rightarrow> Ok rs' | None \<Rightarrow> Err None))"

primrec decodable :: "'c runtime_call \<Rightarrow> bool" where
  "decodable (Payments_claim voucher) \<longleftrightarrow> length voucher \<le> unat MaxVoucherLength"
| "decodable (Stock_call c) \<longleftrightarrow> True"

text \<open>
  \<open>Executive::apply_extrinsic\<close>: an extrinsic that the extensions refuse is an error and not part of
  the block; one whose call fails is, and pays its fee.
\<close>

definition apply_extrinsic ::
  "('acc, 'sig, 'h) substrate \<Rightarrow> ('acc, 'h, 'c, 'hd, 'x, 'r) stock_pallets \<Rightarrow>
   ('acc, 'c, 'x) extrinsic \<Rightarrow> ('acc, 'h, 'r) runtime_state \<Rightarrow>
   (('acc, 'h, 'r) runtime_state, unit) outcome" where
  "apply_extrinsic env rt xt rs =
     (case pre_dispatch rt xt (stock rs) of
        None \<Rightarrow> Err ()
      | Some r \<Rightarrow>
          let rs1 = rs\<lparr>stock := r\<rparr>
          in case dispatch env rt (signer xt) (xt_call xt) rs1 of
               Ok rs2 \<Rightarrow> Ok (rs2\<lparr>stock := post_dispatch rt xt None (stock rs2)\<rparr>)
             | Err e \<Rightarrow> Ok (rs1\<lparr>stock := post_dispatch rt xt (Some e) (stock rs1)\<rparr>)
             | Panic \<Rightarrow> Panic)"

section \<open>Blocks and extrinsics\<close>

datatype ('acc, 'c, 'hd, 'x) runtime_action =
    Block 'hd
  | Extrinsic "('acc, 'c, 'x) extrinsic"
  | Finalize

text \<open>The chain's blocks are numbered one after the other.\<close>

inductive runtime_step ::
  "('acc, 'sig, 'h) substrate \<Rightarrow> 'w db_weight \<Rightarrow> ('acc, 'h, 'c, 'hd, 'x, 'r) stock_pallets \<Rightarrow>
   pallet list \<Rightarrow> ('acc, 'c, 'hd, 'x) runtime_action \<Rightarrow> ('acc, 'h, 'r) runtime_state \<Rightarrow>
   ('acc, 'h, 'r) runtime_state \<Rightarrow> bool"
  for env and db and rt and pallets where
  runtime_block: "block_number (payments rs) \<noteq> - 1 \<Longrightarrow>
    header_number rt header = block_number (payments rs) + 1 \<Longrightarrow>
    runtime_step env db rt pallets (Block header) rs (initialize_block env db rt pallets header rs)"
| runtime_extrinsic: "decodable (xt_call xt) \<Longrightarrow> apply_extrinsic env rt xt rs = Ok rs' \<Longrightarrow>
    runtime_step env db rt pallets (Extrinsic xt) rs rs'"
| runtime_finalize: "runtime_step env db rt pallets Finalize rs
    (rs\<lparr>stock := stock_finalize rt (stock rs)\<rparr>)"

inductive runtime_trace ::
  "('acc, 'sig, 'h) substrate \<Rightarrow> 'w db_weight \<Rightarrow> ('acc, 'h, 'c, 'hd, 'x, 'r) stock_pallets \<Rightarrow>
   pallet list \<Rightarrow> 'r \<Rightarrow> ('acc, 'c, 'hd, 'x) runtime_action list \<Rightarrow> ('acc, 'h, 'r) runtime_state \<Rightarrow> bool"
  for env and db and rt and pallets and r0 where
  runtime_genesis: "runtime_trace env db rt pallets r0 [] \<lparr>payments = genesis, stock = r0\<rparr>"
| runtime_more: "runtime_trace env db rt pallets r0 as rs \<Longrightarrow>
    runtime_step env db rt pallets a rs rs' \<Longrightarrow> runtime_trace env db rt pallets r0 (as @ [a]) rs'"

inductive_simps runtime_step_simps:
  "runtime_step env db rt pallets (Block header) rs rs'"
  "runtime_step env db rt pallets (Extrinsic xt) rs rs'"
  "runtime_step env db rt pallets Finalize rs rs'"

text \<open>The same as a function.\<close>

primrec runtime_perform ::
  "('acc, 'sig, 'h) substrate \<Rightarrow> 'w db_weight \<Rightarrow> ('acc, 'h, 'c, 'hd, 'x, 'r) stock_pallets \<Rightarrow>
   pallet list \<Rightarrow> ('acc, 'h, 'r) runtime_state \<Rightarrow> ('acc, 'c, 'hd, 'x) runtime_action \<Rightarrow>
   ('acc, 'h, 'r) runtime_state option" where
  "runtime_perform env db rt pallets rs (Block header) =
     (if block_number (payments rs) \<noteq> - 1 \<and> header_number rt header = block_number (payments rs) + 1
      then Some (initialize_block env db rt pallets header rs) else None)"
| "runtime_perform env db rt pallets rs (Extrinsic xt) =
     (if decodable (xt_call xt)
      then (case apply_extrinsic env rt xt rs of Ok rs' \<Rightarrow> Some rs' | _ \<Rightarrow> None) else None)"
| "runtime_perform env db rt pallets rs Finalize = Some (rs\<lparr>stock := stock_finalize rt (stock rs)\<rparr>)"

lemma runtime_step_iff_perform:
  "runtime_step env db rt pallets a rs rs' \<longleftrightarrow> runtime_perform env db rt pallets rs a = Some rs'"
  by (cases a) (auto simp: runtime_step_simps split: outcome.splits)

section \<open>The payments pallet in the hook order\<close>

text \<open>
  The stock storage when the payments pallet's hook runs: after the initialization of the system
  pallet and the hooks of the pallets listed before.
\<close>

definition material ::
  "('acc, 'h, 'c, 'hd, 'x, 'r) stock_pallets \<Rightarrow> pallet list \<Rightarrow> 'hd \<Rightarrow> 'r \<Rightarrow> 'r" where
  "material rt pallets header r =
     fold (\<lambda>p. stock_hook rt p (header_number rt header))
       (takeWhile (\<lambda>p. p \<noteq> ProbabilisticPayments) pallets) (system_initialize rt header r)"

lemma run_hooks_Cons [simp]:
  "run_hooks env db rt (p # ps) n rs = run_hooks env db rt ps n (run_hook env db rt n p rs)"
  by (simp add: run_hooks_def)

lemma run_hooks_append [simp]:
  "run_hooks env db rt (ps @ qs) n rs = run_hooks env db rt qs n (run_hooks env db rt ps n rs)"
  by (simp add: run_hooks_def)

lemma run_hooks_stock_only:
  "ProbabilisticPayments \<notin> set ps \<Longrightarrow>
   run_hooks env db rt ps n rs = rs\<lparr>stock := fold (\<lambda>p. stock_hook rt p n) ps (stock rs)\<rparr>"
  unfolding run_hooks_def by (induction ps arbitrary: rs) (auto simp: run_hook_def)

text \<open>
  What is needed of a list of pallets: it has the payments pallet, and no pallet twice.
\<close>

locale hook_schedule =
  fixes pallets :: "pallet list"
  assumes listed_once: "distinct pallets"
    and lists_payments: "ProbabilisticPayments \<in> set pallets"
begin

lemma run_hooks_payments:
  shows "payments (run_hooks env db rt pallets n rs) =
    fst (on_initialize env db
      (stock_random rt (fold (\<lambda>p. stock_hook rt p n)
        (takeWhile (\<lambda>p. p \<noteq> ProbabilisticPayments) pallets) (stock rs))) n (payments rs))"
proof -
  let ?P = "\<lambda>p. p \<noteq> ProbabilisticPayments"
  obtain qs where split: "dropWhile ?P pallets = ProbabilisticPayments # qs"
    using lists_payments dropWhile_eq_Cons_conv [of ?P pallets]
    by (metis (mono_tags, lifting) dropWhile_eq_Nil_conv hd_dropWhile list.exhaust_sel)
  have ps: "pallets = takeWhile ?P pallets @ [ProbabilisticPayments] @ qs"
    using takeWhile_dropWhile_id [of ?P pallets] split by simp
  have before: "ProbabilisticPayments \<notin> set (takeWhile ?P pallets)"
    using set_takeWhileD by fastforce
  have after: "ProbabilisticPayments \<notin> set qs"
    using listed_once by (subst (asm) ps) simp
  show ?thesis
    by (subst (1) ps)
      (simp add: run_hooks_stock_only [OF before] run_hooks_stock_only [OF after] run_hook_def)
qed

lemma initialize_block_payments:
  "payments (initialize_block env db rt pallets header rs) =
    fst (on_initialize env db (stock_random rt (material rt pallets header (stock rs)))
      (header_number rt header) ((payments rs)\<lparr>block_number := header_number rt header\<rparr>))"
  by (simp add: initialize_block_def Let_def run_hooks_payments material_def)

lemma initialize_block_next:
  "header_number rt header = block_number (payments rs) + 1 \<Longrightarrow>
   payments (initialize_block env db rt pallets header rs) =
     new_block env db (stock_random rt (material rt pallets header (stock rs))) (payments rs)"
  by (simp add: initialize_block_payments new_block_def Let_def)

text \<open>The draw that a block records.\<close>

lemma initialize_block_draw:
  "history_get (payments (initialize_block env db rt pallets header rs)) (header_number rt header) =
    Some (fst (stock_random rt (material rt pallets header (stock rs))
      (topic env (header_number rt header))))"
  using window.roll_records [of env db "stock_random rt (material rt pallets header (stock rs))"
      "header_number rt header" "(payments rs)\<lparr>block_number := header_number rt header\<rparr>"]
  by (simp add: initialize_block_payments drawn_def)

end

interpretation runtime_hooks: hook_schedule construct_runtime
  by unfold_locales (simp_all add: construct_runtime_def)

section \<open>A concrete runtime\<close>

text \<open>
  The stock storage is a pair of a number and a list of balances. A header is a block number and
  the hash of its parent, which initialization adds to the number; the randomness pallet's hook adds
  the block number, and the number is what its \<open>random\<close> returns. An extrinsic pays a fee of one. The
  calls are a remark and, the argument \<open>True\<close>, a write into the randomness history.
\<close>

definition demo_rt :: "(u256, u256, bool, u32 \<times> u256, unit, u256 \<times> int) stock_pallets" where
  "demo_rt = \<lparr>header_number = fst, system_initialize = (\<lambda>h r. (fst r + snd h, snd r)),
     stock_hook = (\<lambda>p n r. if p = InsecureRandomnessCollectiveFlip then (fst r + ucast n, snd r) else r),
     stock_random = (\<lambda>r _. (fst r, 0)),
     pre_dispatch = (\<lambda>xt r. Some (fst r, snd r - 1)), post_dispatch = (\<lambda>xt e r. r),
     note_event = (\<lambda>e r. (fst r + 1, snd r)),
     stock_call = (\<lambda>origin c rs.
       Some (if c then rs\<lparr>payments := history_set (payments rs) 1 (Some 9)\<rparr> else rs)),
     stock_finalize = id\<rparr>"

definition demo_rs :: "(u256, u256, u256 \<times> int) runtime_state" where
  "demo_rs = initialize_block demo_substrate demo_db demo_rt construct_runtime (1, 2)
     \<lparr>payments = genesis, stock = (4, 0)\<rparr>"

lemma demo_rs_eq: "demo_rs = \<lparr>payments = demo_state, stock = (7, 0)\<rparr>"
  by (simp add: demo_rs_def initialize_block_def run_hooks_def run_hook_def construct_runtime_def
      demo_rt_def Let_def on_initialize_def genesis_def demo_state_def history_set_def
      saturating_sub_def EPOCH_LENGTH_def)

definition demo_xt :: "(u256, bool, unit) extrinsic" where
  "demo_xt = \<lparr>signer = Some 2, xt_call = Payments_claim demo_bytes, signed_extra = ()\<rparr>"

lemma demo_runtime_block:
  "runtime_trace demo_substrate demo_db demo_rt construct_runtime (4, 0) [Block (1, 2)] demo_rs"
proof -
  have "runtime_step demo_substrate demo_db demo_rt construct_runtime (Block (1, 2))
      \<lparr>payments = genesis, stock = (4, 0)\<rparr> demo_rs"
    unfolding demo_rs_def by (rule runtime_block) (simp_all add: genesis_def demo_rt_def)
  from runtime_more [OF runtime_genesis this] show ?thesis by simp
qed

lemma demo_runtime_trace:
  "runtime_trace demo_substrate demo_db demo_rt construct_runtime (4, 0)
     [Block (1, 2), Extrinsic demo_xt]
     \<lparr>payments = deposit_event (VoucherClaimed 4 2) demo_state, stock = (8, - 1)\<rparr>"
proof -
  have "apply_extrinsic demo_substrate demo_rt demo_xt demo_rs =
      Ok \<lparr>payments = deposit_event (VoucherClaimed 4 2) demo_state, stock = (8, - 1)\<rparr>"
    using demo_claim
    by (simp add: apply_extrinsic_def dispatch_def demo_rs_eq demo_xt_def demo_rt_def Let_def
        deposit_event_def demo_state_def)
  then have "runtime_step demo_substrate demo_db demo_rt construct_runtime (Extrinsic demo_xt) demo_rs
      \<lparr>payments = deposit_event (VoucherClaimed 4 2) demo_state, stock = (8, - 1)\<rparr>"
    by (intro runtime_extrinsic) (simp_all add: demo_xt_def demo_length_ok)
  from runtime_more [OF demo_runtime_block this] show ?thesis by simp
qed

end
