(* ===== verification/Runtime_Refinement.thy ===== *)
theory Runtime_Refinement
  imports Runtime_Chain
begin

text \<open>
  The runtime refines the chain model: the actions of a run of the runtime determine those of the
  chain, with the randomness source of every block read off the storage of the stock pallets as it is
  at that point of the run, after all fees, nonces, events and headers before it. The exception are
  calls of other pallets that change the payments pallet's state: root may write any storage, and the
  sudo pallet may dispatch a claim for another account.
\<close>

section \<open>The chain's actions along a run\<close>

text \<open>
  The chain's action for an action of the runtime: a block draws from the storage that its header and
  the hooks before the payments pallet leave; a call of a stock pallet and the end of a block are no
  action.
\<close>

primrec chain_action ::
  "('acc, 'h, 'c, 'hd, 'x, 'r) stock_pallets \<Rightarrow> pallet list \<Rightarrow> ('acc, 'h, 'r) runtime_state \<Rightarrow>
   ('acc, 'c, 'hd, 'x) runtime_action \<Rightarrow> ('acc, 'h) action list" where
  "chain_action rt pallets rs (Block header) =
     [NewBlock (stock_random rt (material rt pallets header (stock rs)))]"
| "chain_action rt pallets rs (Extrinsic xt) =
     (case xt_call xt of Payments_claim voucher \<Rightarrow> [Submit (signer xt) voucher] | Stock_call c \<Rightarrow> [])"
| "chain_action rt pallets rs Finalize = []"

primrec chain_actions ::
  "('acc, 'sig, 'h) substrate \<Rightarrow> 'w db_weight \<Rightarrow> ('acc, 'h, 'c, 'hd, 'x, 'r) stock_pallets \<Rightarrow>
   pallet list \<Rightarrow> ('acc, 'h, 'r) runtime_state \<Rightarrow> ('acc, 'c, 'hd, 'x) runtime_action list \<Rightarrow>
   ('acc, 'h) action list" where
  "chain_actions env db rt pallets rs [] = []"
| "chain_actions env db rt pallets rs (a # as) =
     chain_action rt pallets rs a @
     (case runtime_perform env db rt pallets rs a of
        Some rs' \<Rightarrow> chain_actions env db rt pallets rs' as | None \<Rightarrow> [])"

primrec runtime_run ::
  "('acc, 'sig, 'h) substrate \<Rightarrow> 'w db_weight \<Rightarrow> ('acc, 'h, 'c, 'hd, 'x, 'r) stock_pallets \<Rightarrow>
   pallet list \<Rightarrow> ('acc, 'h, 'r) runtime_state \<Rightarrow> ('acc, 'c, 'hd, 'x) runtime_action list \<Rightarrow>
   ('acc, 'h, 'r) runtime_state option" where
  "runtime_run env db rt pallets rs [] = Some rs"
| "runtime_run env db rt pallets rs (a # as) =
     Option.bind (runtime_perform env db rt pallets rs a)
       (\<lambda>rs'. runtime_run env db rt pallets rs' as)"

lemma runtime_run_append:
  "runtime_run env db rt pallets rs (as @ bs) =
     Option.bind (runtime_run env db rt pallets rs as) (\<lambda>rs'. runtime_run env db rt pallets rs' bs)"
  by (induction as arbitrary: rs) (auto split: bind_splits)

lemma runtime_trace_run:
  "runtime_trace env db rt pallets r0 as rs \<Longrightarrow>
   runtime_run env db rt pallets \<lparr>payments = genesis, stock = r0\<rparr> as = Some rs"
  by (induction rule: runtime_trace.induct)
    (auto simp: runtime_run_append runtime_step_iff_perform)

text \<open>The calls that leave the payments pallet's storage alone.\<close>

definition leaves_payments :: "('acc, 'h, 'c, 'hd, 'x, 'r) stock_pallets \<Rightarrow> 'c \<Rightarrow> bool" where
  "leaves_payments rt c \<longleftrightarrow>
     (\<forall>origin rs rs'. stock_call rt origin c rs = Some rs' \<longrightarrow> payments rs' = payments rs)"

definition foreign_free ::
  "('acc, 'h, 'c, 'hd, 'x, 'r) stock_pallets \<Rightarrow> ('acc, 'c, 'hd, 'x) runtime_action list \<Rightarrow> bool" where
  "foreign_free rt as \<longleftrightarrow>
     (\<forall>xt c. Extrinsic xt \<in> set as \<and> xt_call xt = Stock_call c \<longrightarrow> leaves_payments rt c)"

section \<open>What is seen of an action\<close>

text \<open>A block, or a claim with its origin.\<close>

primrec chain_shape :: "('acc, 'h) action \<Rightarrow> ('acc origin \<times> byte list) option" where
  "chain_shape (NewBlock src) = None"
| "chain_shape (Submit origin voucher) = Some (origin, voucher)"

primrec runtime_shape ::
  "('acc, 'c, 'hd, 'x) runtime_action \<Rightarrow> ('acc origin \<times> byte list) option list" where
  "runtime_shape (Block header) = [None]"
| "runtime_shape (Extrinsic xt) =
     (case xt_call xt of Payments_claim voucher \<Rightarrow> [Some (signer xt, voucher)] | Stock_call c \<Rightarrow> [])"
| "runtime_shape Finalize = []"

lemma chain_action_shape: "map chain_shape (chain_action rt pallets rs a) = runtime_shape a"
  by (cases a) (simp_all split: runtime_call.split)

lemma chain_actions_shape:
  "runtime_run env db rt pallets rs as = Some rs' \<Longrightarrow>
   map chain_shape (chain_actions env db rt pallets rs as) = concat (map runtime_shape as)"
  by (induction as arbitrary: rs) (auto simp: chain_action_shape bind_eq_Some_conv)

section \<open>Simulation\<close>

text \<open>An extrinsic does to the payments pallet what its claim does, whatever it costs the signer.\<close>

lemma apply_claim:
  assumes "apply_extrinsic env rt xt rs = Ok rs'" and "xt_call xt = Payments_claim voucher"
  shows "claim env (signer xt) voucher (payments rs) = Ok (payments rs') \<or>
    (\<exists>e. claim env (signer xt) voucher (payments rs) = Err e) \<and> payments rs' = payments rs"
  using assms
  by (cases "claim env (signer xt) voucher (payments rs)")
    (auto simp: apply_extrinsic_def dispatch_def Let_def split: option.splits)

lemma apply_stock:
  assumes "apply_extrinsic env rt xt rs = Ok rs'" and "xt_call xt = Stock_call c" and "leaves_payments rt c"
  shows "payments rs' = payments rs"
  using assms
  by (fastforce simp: apply_extrinsic_def dispatch_def Let_def leaves_payments_def
      split: option.splits)

context hook_schedule begin

lemma perform_refines:
  assumes "runtime_perform env db rt pallets rs a = Some rs'" and "foreign_free rt [a]"
  shows "run_chain env db (payments rs) (chain_action rt pallets rs a) = Some (payments rs')"
proof (cases a)
  case (Block header)
  then show ?thesis
    using assms(1) by (auto simp: initialize_block_next split: if_splits)
next
  case (Extrinsic xt)
  then have ok: "decodable (xt_call xt)" "apply_extrinsic env rt xt rs = Ok rs'"
    using assms(1) by (auto split: if_splits outcome.splits)
  show ?thesis
  proof (cases "xt_call xt")
    case (Payments_claim voucher)
    then show ?thesis
      using ok(1) apply_claim [OF ok(2) Payments_claim] by (auto simp: Extrinsic)
  next
    case (Stock_call c)
    then show ?thesis
      using apply_stock [OF ok(2) Stock_call] assms(2) by (auto simp: Extrinsic foreign_free_def)
  qed
next
  case Finalize
  then show ?thesis using assms(1) by auto
qed

lemma run_refines:
  assumes "runtime_run env db rt pallets rs as = Some rs'" and "foreign_free rt as"
  shows "run_chain env db (payments rs) (chain_actions env db rt pallets rs as) = Some (payments rs')"
  using assms
proof (induction as arbitrary: rs)
  case (Cons a as)
  then obtain rs1 where rs1: "runtime_perform env db rt pallets rs a = Some rs1"
    "runtime_run env db rt pallets rs1 as = Some rs'" by (auto simp: bind_eq_Some_conv)
  have "foreign_free rt [a]" and "foreign_free rt as"
    using Cons.prems(2) by (auto simp: foreign_free_def)
  then show ?case
    using perform_refines [OF rs1(1)] Cons.IH [OF rs1(2)] by (simp add: rs1 run_chain_append)
qed simp

end

section \<open>Root can leave the model\<close>

text \<open>A write of root into the history is a step of the runtime that no step of the chain explains.\<close>

lemma set_storage_escapes:
  "\<exists>rs. runtime_run demo_substrate demo_db demo_rt construct_runtime
      \<lparr>payments = genesis, stock = (4, 0)\<rparr>
      [Block (1, 2), Extrinsic \<lparr>signer = None, xt_call = Stock_call True, signed_extra = ()\<rparr>] = Some rs \<and>
    \<not> trace demo_substrate demo_db
      (chain_actions demo_substrate demo_db demo_rt construct_runtime
        \<lparr>payments = genesis, stock = (4, 0)\<rparr>
        [Block (1, 2), Extrinsic \<lparr>signer = None, xt_call = Stock_call True, signed_extra = ()\<rparr>])
      (payments rs)"
proof -
  let ?init = "\<lparr>payments = genesis, stock = (4, 0)\<rparr> :: (u256, u256, u256 \<times> int) runtime_state"
  let ?xt = "\<lparr>signer = None, xt_call = Stock_call True, signed_extra = ()\<rparr> :: (u256, bool, unit) extrinsic"
  let ?rs = "\<lparr>payments = history_set demo_state 1 (Some 9), stock = (7, - 1)\<rparr>
    :: (u256, u256, u256 \<times> int) runtime_state"
  have block: "runtime_perform demo_substrate demo_db demo_rt construct_runtime ?init (Block (1, 2)) =
      Some demo_rs"
    by (simp add: demo_rs_def) (simp add: genesis_def demo_rt_def)
  have foreign: "runtime_perform demo_substrate demo_db demo_rt construct_runtime demo_rs (Extrinsic ?xt) =
      Some ?rs"
    by (simp add: demo_rs_eq apply_extrinsic_def dispatch_def demo_rt_def)
  have acts: "chain_actions demo_substrate demo_db demo_rt construct_runtime ?init
      [Block (1, 2), Extrinsic ?xt] = chain_action demo_rt construct_runtime ?init (Block (1, 2))"
    by (simp only: chain_actions.simps block foreign option.case) simp
  have "run_chain demo_substrate demo_db (payments ?init)
      (chain_action demo_rt construct_runtime ?init (Block (1, 2))) = Some (payments demo_rs)"
    by (rule runtime_hooks.perform_refines [OF block]) (simp add: foreign_free_def)
  then have "run_chain demo_substrate demo_db genesis
      (chain_actions demo_substrate demo_db demo_rt construct_runtime ?init [Block (1, 2), Extrinsic ?xt]) =
      Some demo_state"
    unfolding acts by (simp only: demo_rs_eq runtime_state.simps)
  moreover have "demo_state \<noteq> history_set demo_state 1 (Some 9)"
  proof
    assume "demo_state = history_set demo_state 1 (Some 9)"
    then have "history_get demo_state 1 = history_get (history_set demo_state 1 (Some 9)) 1" by simp
    then show False by (simp add: history.get_set) (simp add: demo_state_def history_get_def)
  qed
  ultimately have "\<not> trace demo_substrate demo_db
      (chain_actions demo_substrate demo_db demo_rt construct_runtime ?init [Block (1, 2), Extrinsic ?xt])
      (payments ?rs)"
    by (simp add: trace_iff_run_chain)
  then show ?thesis
    by (intro exI [of _ ?rs]) (simp only: runtime_run.simps block foreign bind.simps simp_thms)
qed

section \<open>Properties\<close>

text \<open>
  C4: The payments pallet in the runtime is the chain model: take any run of the runtime in which
  no call of another pallet changes its state (only calls by root could). With the actions that it determines, its blocks and
  its claims in their order and with their origins, where every block draws from the stock storage
  as the run has left it, after the block's header and the hooks listed before the payments
  pallet, the chain has a trace, and that trace ends in the pallet's state. So every theorem on
  traces holds of the runtime, whatever the stock pallets, the fees and the headers do.
\<close>

theorem runtime_refines_chain:
  assumes "runtime_trace env db rt construct_runtime r0 as rs" and "foreign_free rt as"
  shows "trace env db
      (chain_actions env db rt construct_runtime \<lparr>payments = genesis, stock = r0\<rparr> as) (payments rs) \<and>
    map chain_shape (chain_actions env db rt construct_runtime \<lparr>payments = genesis, stock = r0\<rparr> as) =
      concat (map runtime_shape as)"
proof -
  note run = runtime_trace_run [OF assms(1)]
  show ?thesis
    using runtime_hooks.run_refines [OF run assms(2)] chain_actions_shape [OF run]
    by (simp add: trace_iff_run_chain)
qed

theorem runtime_refines_chain_witness:
  "\<exists>bs. trace demo_substrate demo_db bs (deposit_event (VoucherClaimed 4 2) demo_state) \<and>
     map chain_shape bs = [None, Some (Some 2, demo_bytes)]"
proof -
  have "foreign_free demo_rt [Block (1, 2), Extrinsic demo_xt]"
    by (simp add: foreign_free_def demo_xt_def)
  from runtime_refines_chain [OF demo_runtime_trace this] show ?thesis
    by (auto simp: demo_xt_def)
qed

end
