(* ===== verification/Chain_Spec.thy ===== *)
theory Chain_Spec
  imports Runtime_Config
begin

text \<open>
  The chain specifications of the node (\<open>blockchain/node/src/chain_spec.rs\<close>): key derivation
  from seeds, the chain properties, the development and local testnet configurations, and
  the genesis state they build. Key derivation itself (\<open>Pair::from_string\<close>) and the WASM
  binary of the build are parameters.
\<close>

section \<open>Keys from seeds\<close>

text \<open>
  \<open>aura_pair\<close>, \<open>grandpa_pair\<close> and \<open>account_pair\<close> are \<open>Pair::from_string(uri, None)\<close> followed by
  \<open>public()\<close> for the three key types (\<open>None\<close> where \<open>from_string\<close> fails); \<open>into_account\<close> is
  \<open>AccountPublic::from(..).into_account()\<close>.
\<close>

record ('aura, 'gran, 'pub, 'acc) key_api =
  aura_pair :: "string \<Rightarrow> 'aura option"
  grandpa_pair :: "string \<Rightarrow> 'gran option"
  account_pair :: "string \<Rightarrow> 'pub option"
  into_account :: "'pub \<Rightarrow> 'acc"

definition get_from_seed :: "(string \<Rightarrow> 'pub option) \<Rightarrow> string \<Rightarrow> ('pub, 'e) outcome" where
  "get_from_seed pair seed = unwrap (pair (''//'' @ seed))"

definition get_account_id_from_seed ::
  "('aura, 'gran, 'pub, 'acc) key_api \<Rightarrow> string \<Rightarrow> ('acc, 'e) outcome" where
  "get_account_id_from_seed api seed =
     rbind (get_from_seed (account_pair api) seed) (\<lambda>p. Ok (into_account api p))"

definition authority_keys_from_seed ::
  "('aura, 'gran, 'pub, 'acc) key_api \<Rightarrow> string \<Rightarrow> ('aura \<times> 'gran \<times> 'acc, 'e) outcome" where
  "authority_keys_from_seed api s =
     rbind (get_from_seed (aura_pair api) s) (\<lambda>a.
     rbind (get_from_seed (grandpa_pair api) s) (\<lambda>g.
     rbind (get_account_id_from_seed api s) (\<lambda>acc. Ok (a, g, acc))))"

text \<open>A \<open>vec![f(x1), f(x2), ..]\<close> evaluates its elements in order.\<close>

primrec vec_of :: "('a \<Rightarrow> ('b, 'e) outcome) \<Rightarrow> 'a list \<Rightarrow> ('b list, 'e) outcome" where
  "vec_of f [] = Ok []"
| "vec_of f (x # xs) = rbind (f x) (\<lambda>y. rbind (vec_of f xs) (\<lambda>ys. Ok (y # ys)))"

section \<open>Chain properties\<close>

datatype json = JString string | JNumber int

definition properties :: "string \<rightharpoonup> json" where
  "properties =
     [''tokenSymbol'' \<mapsto> JString ''COM'', ''tokenDecimals'' \<mapsto> JNumber 10,
      ''ss58Format'' \<mapsto> JNumber 42, ''color'' \<mapsto> JString ''#D2BDB2'']"

section \<open>Genesis\<close>

record ('aura, 'gran, 'acc) genesis_config =
  system_code :: "byte list"
  balances :: "('acc \<times> u128) list"
  aura_authorities :: "'aura list"
  grandpa_authorities :: "('gran \<times> u64) list"
  sudo_key :: "'acc option"

definition testnet_genesis ::
  "byte list \<Rightarrow> ('aura \<times> 'gran \<times> 'acc) list \<Rightarrow> 'acc \<Rightarrow> 'acc list \<Rightarrow>
   ('aura, 'gran, 'acc) genesis_config" where
  "testnet_genesis wasm_binary initial_authorities root_key endowed_accounts =
     \<lparr>system_code = wasm_binary,
      balances = map (\<lambda>k. (k, push_bit 60 1)) endowed_accounts,
      aura_authorities = map (\<lambda>x. fst x) initial_authorities,
      grandpa_authorities = map (\<lambda>x. (fst (snd x), 1)) initial_authorities,
      sudo_key = Some root_key\<rparr>"

datatype chain_type = Development | Local

text \<open>
  A chain specification holds its genesis state as a closure, which is evaluated when the
  state is built; bootnodes, telemetry, protocol and fork identifiers and extensions are
  empty in both configurations.
\<close>

record ('aura, 'gran, 'acc) chain_spec =
  spec_title :: string
  spec_id :: string
  spec_type :: chain_type
  spec_genesis :: "unit \<Rightarrow> (('aura, 'gran, 'acc) genesis_config, string) outcome"
  bootnodes :: "string list"
  telemetry :: "string option"
  protocol_id :: "string option"
  fork_id :: "string option"
  spec_properties :: "(string \<rightharpoonup> json) option"

definition genesis_of ::
  "('aura, 'gran, 'pub, 'acc) key_api \<Rightarrow> byte list \<Rightarrow> string list \<Rightarrow> string \<Rightarrow> string list \<Rightarrow>
   (('aura, 'gran, 'acc) genesis_config, string) outcome" where
  "genesis_of api wasm_binary authorities root endowed =
     rbind (vec_of (authority_keys_from_seed api) authorities) (\<lambda>auths.
     rbind (get_account_id_from_seed api root) (\<lambda>root_key.
     rbind (vec_of (get_account_id_from_seed api) endowed) (\<lambda>accounts.
     Ok (testnet_genesis wasm_binary auths root_key accounts))))"

definition dev_authorities :: "string list" where
  "dev_authorities = [''Alice'', ''Bob'', ''Charlie'', ''Dave'', ''Eve'', ''Ferdie'']"

definition dev_endowed :: "string list" where
  "dev_endowed = [''Alice'', ''Bob'', ''Charlie'',
     ''Alice//stash'', ''Bob//stash'', ''Charlie//stash'']"

definition development_config ::
  "('aura, 'gran, 'pub, 'acc) key_api \<Rightarrow> byte list option \<Rightarrow>
   (('aura, 'gran, 'acc) chain_spec, string) outcome" where
  "development_config api WASM_BINARY =
     rbind (ok_or WASM_BINARY ''Development wasm not available'') (\<lambda>wasm_binary.
     Ok \<lparr>spec_title = ''Guillotine Chain Development'', spec_id = ''dev'',
         spec_type = Development,
         spec_genesis = (\<lambda>_. genesis_of api wasm_binary dev_authorities ''Alice'' dev_endowed),
         bootnodes = [], telemetry = None, protocol_id = None, fork_id = None,
         spec_properties = Some properties\<rparr>)"

definition local_authorities :: "string list" where
  "local_authorities = [''Alice'', ''Bob'']"

definition local_endowed :: "string list" where
  "local_endowed = [''Alice'', ''Bob'', ''Charlie'', ''Dave'', ''Eve'', ''Ferdie'',
     ''Alice//stash'', ''Bob//stash'', ''Charlie//stash'', ''Dave//stash'', ''Eve//stash'',
     ''Ferdie//stash'']"

definition local_testnet_config ::
  "('aura, 'gran, 'pub, 'acc) key_api \<Rightarrow> byte list option \<Rightarrow>
   (('aura, 'gran, 'acc) chain_spec, string) outcome" where
  "local_testnet_config api WASM_BINARY =
     rbind (ok_or WASM_BINARY ''Development wasm not available'') (\<lambda>wasm_binary.
     Ok \<lparr>spec_title = ''Guillotine Chain Local Testnet'', spec_id = ''local_testnet'',
         spec_type = Local,
         spec_genesis = (\<lambda>_. genesis_of api wasm_binary local_authorities ''Alice'' local_endowed),
         bootnodes = [], telemetry = None, protocol_id = None, fork_id = None,
         spec_properties = Some properties\<rparr>)"

section \<open>Correctness\<close>

text \<open>Documented behaviour of key derivation: a hard junction on a valid name never fails.\<close>

definition keys_derivable :: "('aura, 'gran, 'pub, 'acc) key_api \<Rightarrow> string list \<Rightarrow> bool" where
  "keys_derivable api seeds \<longleftrightarrow>
     (\<forall>s \<in> set seeds. aura_pair api (''//'' @ s) \<noteq> None \<and> grandpa_pair api (''//'' @ s) \<noteq> None \<and>
        account_pair api (''//'' @ s) \<noteq> None)"

definition account_of :: "('aura, 'gran, 'pub, 'acc) key_api \<Rightarrow> string \<Rightarrow> 'acc" where
  "account_of api s = into_account api (the (account_pair api (''//'' @ s)))"

definition keys_of :: "('aura, 'gran, 'pub, 'acc) key_api \<Rightarrow> string \<Rightarrow> 'aura \<times> 'gran \<times> 'acc" where
  "keys_of api s =
     (the (aura_pair api (''//'' @ s)), the (grandpa_pair api (''//'' @ s)), account_of api s)"

lemma vec_of_Ok: "(\<And>x. x \<in> set xs \<Longrightarrow> f x = Ok (g x)) \<Longrightarrow> vec_of f xs = Ok (map g xs)"
  by (induction xs) auto

lemma account_from_seed_ok:
  "keys_derivable api seeds \<Longrightarrow> s \<in> set seeds \<Longrightarrow>
   get_account_id_from_seed api s = Ok (account_of api s)"
  by (auto simp: keys_derivable_def get_account_id_from_seed_def get_from_seed_def account_of_def)

lemma authority_keys_ok:
  "keys_derivable api seeds \<Longrightarrow> s \<in> set seeds \<Longrightarrow>
   authority_keys_from_seed api s = Ok (keys_of api s)"
  by (auto simp: authority_keys_from_seed_def account_from_seed_ok keys_of_def)
    (auto simp: keys_derivable_def get_from_seed_def)

lemma genesis_of_ok:
  assumes "keys_derivable api seeds"
    and "set authorities \<subseteq> set seeds" and "root \<in> set seeds" and "set endowed \<subseteq> set seeds"
  shows "genesis_of api wasm authorities root endowed =
    Ok (testnet_genesis wasm (map (keys_of api) authorities) (account_of api root)
         (map (account_of api) endowed))"
  using assms
  by (simp add: genesis_of_def account_from_seed_ok vec_of_Ok [of _ _ "keys_of api"]
      vec_of_Ok [of _ _ "account_of api"] authority_keys_ok subset_iff)

text \<open>What a consistent genesis state promises the runtime.\<close>

definition genesis_consistent :: "('aura, 'gran, 'acc) genesis_config \<Rightarrow> bool" where
  "genesis_consistent g \<longleftrightarrow>
     aura_authorities g \<noteq> [] \<and>
     length (aura_authorities g) = length (grandpa_authorities g) \<and>
     length (aura_authorities g) \<le> unat MaxAuthorities \<and>
     (\<forall>(k, w) \<in> set (grandpa_authorities g). 0 < w) \<and>
     distinct (map fst (balances g)) \<and>
     (\<forall>(k, b) \<in> set (balances g). EXISTENTIAL_DEPOSIT \<le> b) \<and>
     sum_list (map (unat \<circ> snd) (balances g)) < 2 ^ 128 \<and>
     (\<exists>k. sudo_key g = Some k \<and> k \<in> set (map fst (balances g)))"

lemma unat_endowment: "unat (push_bit 60 1 :: u128) = 2 ^ 60"
  by (simp add: push_bit_eq_mult)

lemma testnet_genesis_consistent:
  assumes "auths \<noteq> []" and "length auths \<le> 100" and "distinct accounts"
    and "root \<in> set accounts" and "length accounts < 2 ^ 68"
  shows "genesis_consistent (testnet_genesis wasm auths root accounts)"
proof -
  have "sum_list (map (unat \<circ> (snd \<circ> (\<lambda>k. (k, push_bit 60 1 :: u128)))) accounts) =
      length accounts * 2 ^ 60"
    by (induction accounts) (simp_all add: unat_endowment)
  moreover have "length accounts * 2 ^ 60 < 2 ^ 68 * 2 ^ 60"
    using assms(5) by (intro mult_strict_right_mono) simp_all
  moreover have "EXISTENTIAL_DEPOSIT \<le> push_bit 60 1"
    by (simp add: EXISTENTIAL_DEPOSIT_def word_le_nat_alt unat_endowment)
  ultimately show ?thesis
    using assms
    by (auto simp: genesis_consistent_def testnet_genesis_def MaxAuthorities_def comp_def)
qed

lemma dev_seeds: "set dev_authorities \<subseteq> set local_endowed" "set dev_endowed \<subseteq> set local_endowed"
  "set local_authorities \<subseteq> set local_endowed" "''Alice'' \<in> set local_endowed"
  "''Alice'' \<in> set dev_endowed" "distinct dev_endowed" "distinct local_endowed"
  by (simp_all add: dev_authorities_def local_endowed_def dev_endowed_def local_authorities_def)

lemma distinct_accounts:
  assumes "inj_on (account_of api) (set local_endowed)"
  shows "distinct (map (account_of api) dev_endowed)"
    and "distinct (map (account_of api) local_endowed)"
  using assms dev_seeds by (auto simp: distinct_map intro: inj_on_subset)

section \<open>Concrete keys\<close>

definition demo_keys :: "(string, string, string, string) key_api" where
  "demo_keys = \<lparr>aura_pair = Some, grandpa_pair = Some, account_pair = Some, into_account = id\<rparr>"

lemma demo_keys_ok:
  "keys_derivable demo_keys local_endowed" "inj_on (account_of demo_keys) (set local_endowed)"
  by (auto simp: keys_derivable_def demo_keys_def account_of_def intro: inj_onI)

section \<open>Properties\<close>

text \<open>
  C23: The development chain: given the WASM binary and derivable, collision-free keys, the
  configuration is returned and its genesis closure yields a consistent state (as many Aura
  as GRANDPA authorities, within the runtime's maximum and of positive weight, distinct
  accounts endowed above the existential deposit, an issuance that fits \<open>u128\<close>, an endowed
  sudo key); the authorities are those of the six seeds Alice to Ferdie, each GRANDPA key at
  the position of its Aura key.
\<close>

theorem development_genesis:
  assumes "keys_derivable api local_endowed" and "inj_on (account_of api) (set local_endowed)"
  shows "\<exists>spec g. development_config api (Some wasm) = Ok spec \<and> spec_id spec = ''dev'' \<and>
    spec_genesis spec () = Ok g \<and> genesis_consistent g \<and> system_code g = wasm \<and>
    zip (aura_authorities g) (map fst (grandpa_authorities g)) =
      map (\<lambda>s. (fst (keys_of api s), fst (snd (keys_of api s))))
        [''Alice'', ''Bob'', ''Charlie'', ''Dave'', ''Eve'', ''Ferdie''] \<and>
    sudo_key g = Some (account_of api ''Alice'')"
proof -
  define g where "g = testnet_genesis wasm (map (keys_of api) dev_authorities)
    (account_of api ''Alice'') (map (account_of api) dev_endowed)"
  have "genesis_of api wasm dev_authorities ''Alice'' dev_endowed = Ok g"
    unfolding g_def by (rule genesis_of_ok [OF assms(1)]) (use dev_seeds in auto)
  moreover have "genesis_consistent g"
    unfolding g_def using dev_seeds distinct_accounts [OF assms(2)]
    by (intro testnet_genesis_consistent) (auto simp: dev_authorities_def dev_endowed_def)
  ultimately show ?thesis
    by (simp add: development_config_def)
      (simp add: g_def testnet_genesis_def dev_authorities_def)
qed

theorem development_genesis_witness:
  "\<exists>spec g. development_config demo_keys (Some [0]) = Ok spec \<and> spec_genesis spec () = Ok g \<and>
     genesis_consistent g \<and> sudo_key g = Some ''//Alice''"
  using development_genesis [OF demo_keys_ok, of "[0]"]
  by (fastforce simp: account_of_def demo_keys_def)

text \<open>
  The local testnet: under the same conditions its genesis state is consistent, with the
  two authorities Alice and Bob and twelve endowed accounts of \<open>2^60\<close> units each.
\<close>

lemma local_testnet_genesis:
  assumes "keys_derivable api local_endowed" and "inj_on (account_of api) (set local_endowed)"
  shows "\<exists>spec g. local_testnet_config api (Some wasm) = Ok spec \<and>
    spec_id spec = ''local_testnet'' \<and>
    spec_genesis spec () = Ok g \<and> genesis_consistent g \<and> system_code g = wasm \<and>
    zip (aura_authorities g) (map fst (grandpa_authorities g)) =
      map (\<lambda>s. (fst (keys_of api s), fst (snd (keys_of api s)))) [''Alice'', ''Bob''] \<and>
    length (balances g) = 12 \<and> (\<forall>(k, b) \<in> set (balances g). unat b = 2 ^ 60)"
proof -
  define g where "g = testnet_genesis wasm (map (keys_of api) local_authorities)
    (account_of api ''Alice'') (map (account_of api) local_endowed)"
  have "genesis_of api wasm local_authorities ''Alice'' local_endowed = Ok g"
    unfolding g_def by (rule genesis_of_ok [OF assms(1)]) (use dev_seeds in auto)
  moreover have "genesis_consistent g"
    unfolding g_def using dev_seeds distinct_accounts [OF assms(2)]
    by (intro testnet_genesis_consistent) (auto simp: local_authorities_def local_endowed_def)
  moreover have "\<forall>(k, b) \<in> set (balances g). unat b = 2 ^ 60"
    by (auto simp: g_def testnet_genesis_def unat_endowment)
  ultimately show ?thesis
    by (simp add: local_testnet_config_def)
      (simp add: g_def testnet_genesis_def local_authorities_def local_endowed_def)
qed

lemma local_testnet_genesis_witness:
  "\<exists>spec g. local_testnet_config demo_keys (Some [0]) = Ok spec \<and> spec_genesis spec () = Ok g \<and>
     genesis_consistent g \<and> length (balances g) = 12"
  using local_testnet_genesis [OF demo_keys_ok, of "[0]"] by fastforce

text \<open>
  Whenever the node builds either configuration, it had a WASM binary, and the address
  format it publishes in the chain properties is the prefix the runtime uses.
\<close>

lemma published_address_format:
  assumes "development_config api wasm = Ok spec \<or> local_testnet_config api wasm = Ok spec"
  shows "wasm \<noteq> None \<and>
    Option.bind (spec_properties spec) (\<lambda>p. p ''ss58Format'') = Some (JNumber (uint SS58Prefix))"
  using assms
  by (cases wasm)
    (auto simp: development_config_def local_testnet_config_def properties_def SS58Prefix_def)

lemma published_address_format_witness:
  "\<exists>spec. local_testnet_config demo_keys (Some [0]) = Ok spec \<and>
     Option.bind (spec_properties spec) (\<lambda>p. p ''ss58Format'') = Some (JNumber 42)"
proof -
  obtain spec where spec: "local_testnet_config demo_keys (Some [0]) = Ok spec"
    by (simp add: local_testnet_config_def)
  with published_address_format [OF disjI2, OF spec] show ?thesis
    by (auto simp: SS58Prefix_def)
qed

end
