(* ===== verification/Runtime_Pallets.thy ===== *)
theory Runtime_Pallets
  imports Chain_Spec Weights
begin

text \<open>
  How the runtime configures the pallets it composes (the \<open>Config\<close> implementations and
  \<open>parameter_types!\<close> of \<open>blockchain/runtime/src/lib.rs\<close>), as far as the configuration is a value:
  limits, periods and switches. The weight and ratio types are those of the Substrate crates, so
  their constructors are parameters. The genesis states of the chain specifications are checked
  against these limits.
\<close>

section \<open>Block limits\<close>

text \<open>
  \<open>Perbill::from_percent\<close>, \<open>Weight::from_parts\<close>, \<open>BlockWeights::with_sensible_defaults\<close>,
  \<open>BlockLength::max_with_normal_ratio\<close> and \<open>Multiplier::one\<close>, with the constant
  \<open>WEIGHT_REF_TIME_PER_SECOND\<close>.
\<close>

record ('ratio, 'w, 'bw, 'bl, 'mult) limits_api =
  from_percent :: "nat \<Rightarrow> 'ratio"
  weight_from_parts :: "u64 \<Rightarrow> u64 \<Rightarrow> 'w"
  with_sensible_defaults :: "'w \<Rightarrow> 'ratio \<Rightarrow> 'bw"
  max_with_normal_ratio :: "u32 \<Rightarrow> 'ratio \<Rightarrow> 'bl"
  multiplier_one :: 'mult
  WEIGHT_REF_TIME_PER_SECOND :: u64

definition NORMAL_DISPATCH_RATIO :: "('ratio, 'w, 'bw, 'bl, 'mult) limits_api \<Rightarrow> 'ratio" where
  "NORMAL_DISPATCH_RATIO api = from_percent api 75"

definition BlockWeights :: "('ratio, 'w, 'bw, 'bl, 'mult) limits_api \<Rightarrow> 'bw" where
  "BlockWeights api =
     with_sensible_defaults api (weight_from_parts api (2 * WEIGHT_REF_TIME_PER_SECOND api) (- 1))
       (NORMAL_DISPATCH_RATIO api)"

definition BlockLength :: "('ratio, 'w, 'bw, 'bl, 'mult) limits_api \<Rightarrow> 'bl" where
  "BlockLength api = max_with_normal_ratio api (5 * 1024 * 1024) (NORMAL_DISPATCH_RATIO api)"

section \<open>Pallet configurations\<close>

text \<open>
  A limit given as the unit type \<open>()\<close> is \<open>None\<close>. Associated types that are not values (events,
  origins, hashing, weight functions) are left out.
\<close>

record ('bw, 'bl) system_config =
  block_weights :: 'bw
  block_length :: 'bl
  block_hash_count :: u32
  system_version :: runtime_version
  ss58_prefix :: u8
  max_consumers :: u32

definition system_config ::
  "('ratio, 'w, 'bw, 'bl, 'mult) limits_api \<Rightarrow> ('bw, 'bl) system_config" where
  "system_config api =
     \<lparr>block_weights = BlockWeights api, block_length = BlockLength api,
      block_hash_count = BlockHashCount, system_version = VERSION, ss58_prefix = SS58Prefix,
      max_consumers = 16\<rparr>"

record aura_config =
  aura_max_authorities :: u32
  allow_multiple_blocks_per_slot :: bool

definition aura_config :: aura_config where
  "aura_config = \<lparr>aura_max_authorities = MaxAuthorities, allow_multiple_blocks_per_slot = False\<rparr>"

record grandpa_config =
  grandpa_max_authorities :: u32
  max_set_id_session_entries :: u64
  max_nominators :: u32

definition grandpa_config :: grandpa_config where
  "grandpa_config = \<lparr>grandpa_max_authorities = MaxAuthorities, max_set_id_session_entries = 0,
     max_nominators = 0\<rparr>"

record timestamp_config =
  minimum_period :: u64
  on_timestamp_set :: pallet

definition timestamp_config :: timestamp_config where
  "timestamp_config = \<lparr>minimum_period = MinimumPeriod, on_timestamp_set = Aura\<rparr>"

record balances_config =
  max_locks :: u32
  max_reserves :: "u32 option"
  existential_deposit :: u128
  account_store :: pallet
  max_freezes :: "u32 option"
  max_holds :: "u32 option"

definition balances_config :: balances_config where
  "balances_config = \<lparr>max_locks = 50, max_reserves = None, existential_deposit = EXISTENTIAL_DEPOSIT,
     account_store = System, max_freezes = None, max_holds = None\<rparr>"

datatype fee_polynomial = IdentityFee

definition runtime_payments_config :: payments_config where
  "runtime_payments_config = \<lparr>payments_weight_info = SubstrateWeight\<rparr>"

record 'mult transaction_payment_config =
  operational_fee_multiplier :: u8
  weight_to_fee :: fee_polynomial
  length_to_fee :: fee_polynomial
  fee_multiplier :: 'mult

definition transaction_payment_config ::
  "('ratio, 'w, 'bw, 'bl, 'mult) limits_api \<Rightarrow> 'mult transaction_payment_config" where
  "transaction_payment_config api =
     \<lparr>operational_fee_multiplier = 5, weight_to_fee = IdentityFee, length_to_fee = IdentityFee,
      fee_multiplier = multiplier_one api\<rparr>"

record nfts_config =
  collection_deposit :: "u128 option"
  item_deposit :: "u128 option"
  metadata_deposit_base :: "u128 option"
  attribute_deposit_base :: "u128 option"
  deposit_per_byte :: "u128 option"
  string_limit :: u32
  key_limit :: u32
  value_limit :: u32
  approvals_limit :: "u32 option"
  item_attributes_approvals_limit :: "u32 option"
  max_tips :: "u32 option"
  max_deadline_duration :: "u32 option"
  max_attributes_per_call :: "u32 option"
  nfts_features :: "u64 option"

definition nfts_config :: nfts_config where
  "nfts_config = \<lparr>collection_deposit = None, item_deposit = None, metadata_deposit_base = None,
     attribute_deposit_base = None, deposit_per_byte = None, string_limit = 256, key_limit = 256,
     value_limit = 256, approvals_limit = None, item_attributes_approvals_limit = None,
     max_tips = None, max_deadline_duration = None, max_attributes_per_call = None,
     nfts_features = None\<rparr>"

definition MaxKeys :: u32 where "MaxKeys = 10000"

definition MaxPeerInHeartbeats :: u32 where "MaxPeerInHeartbeats = 10000"

definition NftPermissionPalletId :: "byte list" where
  "NftPermissionPalletId = [0x6E, 0x66, 0x74, 0x5F, 0x70, 0x65, 0x72, 0x6D]"

section \<open>Genesis against the configuration\<close>

text \<open>
  The genesis state is well typed in the runtime: the authority lists fit the bounded vectors of
  the two consensus pallets, no endowed account is below the existential deposit (the balances
  pallet panics on one), and the total issuance is a \<open>u128\<close>.
\<close>

definition fits_runtime :: "('aura, 'gran, 'acc) genesis_config \<Rightarrow> bool" where
  "fits_runtime g \<longleftrightarrow>
     length (aura_authorities g) \<le> unat (aura_max_authorities aura_config) \<and>
     length (grandpa_authorities g) \<le> unat (grandpa_max_authorities grandpa_config) \<and>
     (\<forall>(k, b) \<in> set (balances g). existential_deposit balances_config \<le> b) \<and>
     (\<exists>total. uint (total :: u128) = sum_list (map (uint \<circ> snd) (balances g)))"

lemma genesis_consistent_fits: "genesis_consistent g \<Longrightarrow> fits_runtime g"
proof -
  assume g: "genesis_consistent g"
  let ?sum = "sum_list (map (unat \<circ> snd) (balances g))"
  have "sum_list (map (uint \<circ> snd) bs) = int (sum_list (map (unat \<circ> snd) bs))"
    for bs :: "('acc \<times> u128) list"
    by (induction bs) simp_all
  moreover have "uint (word_of_nat ?sum :: u128) = int ?sum"
    using g by (simp add: genesis_consistent_def uint_nat unat_of_nat)
  ultimately have "\<exists>total. uint (total :: u128) = sum_list (map (uint \<circ> snd) (balances g))"
    by metis
  then show ?thesis
    using g by (simp add: fits_runtime_def genesis_consistent_def aura_config_def
        grandpa_config_def balances_config_def)
qed

section \<open>Properties\<close>

text \<open>
  C19: What the node ships is well typed for the runtime it ships: both specifications, given
  derivable and collision-free keys, yield genesis states that fit the configuration of the
  consensus and balances pallets, and publish the address prefix of the system pallet.
\<close>

theorem genesis_fits_runtime:
  assumes "keys_derivable keys local_endowed" and "inj_on (account_of keys) (set local_endowed)"
    and "spec \<in> {development_config keys (Some wasm), local_testnet_config keys (Some wasm)}"
  shows "\<exists>s g. spec = Ok s \<and> spec_genesis s () = Ok g \<and> fits_runtime g \<and>
    Option.bind (spec_properties s) (\<lambda>p. p ''ss58Format'') =
      Some (JNumber (uint (ss58_prefix (system_config api))))"
proof -
  have ok: "genesis_of keys wasm authorities ''Alice'' endowed =
      Ok (testnet_genesis wasm (map (keys_of keys) authorities) (account_of keys ''Alice'')
        (map (account_of keys) endowed)) \<and>
      fits_runtime (testnet_genesis wasm (map (keys_of keys) authorities)
        (account_of keys ''Alice'') (map (account_of keys) endowed))"
    if "authorities \<noteq> []" "length authorities \<le> 100" "set authorities \<subseteq> set local_endowed"
      "distinct (map (account_of keys) endowed)" "set endowed \<subseteq> set local_endowed"
      "''Alice'' \<in> set endowed" "length endowed < 2 ^ 68" for authorities endowed
    using that dev_seeds(4)
    by (intro conjI genesis_of_ok [OF assms(1)] genesis_consistent_fits testnet_genesis_consistent)
      auto
  have dev: "genesis_of keys wasm dev_authorities ''Alice'' dev_endowed = Ok g \<longrightarrow> fits_runtime g"
    and "\<exists>g. genesis_of keys wasm dev_authorities ''Alice'' dev_endowed = Ok g" for g
    using ok [of dev_authorities dev_endowed] dev_seeds distinct_accounts [OF assms(2)]
    by (auto simp: dev_authorities_def dev_endowed_def)
  moreover have "genesis_of keys wasm local_authorities ''Alice'' local_endowed = Ok g \<longrightarrow> fits_runtime g"
    and "\<exists>g. genesis_of keys wasm local_authorities ''Alice'' local_endowed = Ok g" for g
    using ok [of local_authorities local_endowed] dev_seeds distinct_accounts [OF assms(2)]
    by (auto simp: local_authorities_def local_endowed_def)
  ultimately show ?thesis
    using assms(3)
    by (auto simp: development_config_def local_testnet_config_def properties_def
        system_config_def SS58Prefix_def)
qed

theorem genesis_fits_runtime_witness:
  "\<exists>s g. local_testnet_config demo_keys (Some [0]) = Ok s \<and> spec_genesis s () = Ok g \<and>
     fits_runtime g"
  using genesis_fits_runtime [OF demo_keys_ok, of "local_testnet_config demo_keys (Some [0])" "[0]"]
  by blast

end
