(* ===== verification/Runtime_Api.thy ===== *)
theory Runtime_Api
  imports Runtime_Pallets
begin

text \<open>
  The runtime APIs (\<open>impl_runtime_apis!\<close> in \<open>blockchain/runtime/src/lib.rs\<close>): for every method of
  every trait the expression that answers it, as data, and an evaluator over the functions of the
  stock pallets and crates, which are a parameter. The node's native executor
  (\<open>ExecutorDispatch\<close> in \<open>blockchain/node/src/service.rs\<close>), what the RPC module demands of the
  APIs (\<open>blockchain/node/src/rpc.rs\<close>), and the try-runtime entry points follow.
\<close>

section \<open>Method bodies\<close>

datatype callee =
    ToExecutive string
  | ToPallet pallet string
  | ToRuntime string
  | ToSessionKeys string
  | ToArgument string

text \<open>
  \<open>Forward f\<close> calls \<open>f\<close> with the method's arguments; \<open>IntoInner\<close>, \<open>FromMillis\<close> and
  \<open>OpaqueMetadataNew\<close> convert what the inner body returns.
\<close>

datatype body =
    ReturnVersion runtime_version
  | ReturnNone
  | Forward callee
  | IntoInner body
  | FromMillis body
  | OpaqueMetadataNew body

datatype api_trait =
    Core | Metadata | BlockBuilder | TaggedTransactionQueue | OffchainWorkerApi | AuraApi
  | SessionKeysApi | GrandpaApi | AccountNonceApi | TransactionPaymentApi
  | TransactionPaymentCallApi

type_synonym api_impl = "(string \<times> body) list"

definition core_api :: api_impl where
  "core_api =
     [(''version'', ReturnVersion VERSION),
      (''execute_block'', Forward (ToExecutive ''execute_block'')),
      (''initialize_block'', Forward (ToExecutive ''initialize_block''))]"

definition metadata_api :: api_impl where
  "metadata_api =
     [(''metadata'', OpaqueMetadataNew (Forward (ToRuntime ''metadata''))),
      (''metadata_at_version'', Forward (ToRuntime ''metadata_at_version'')),
      (''metadata_versions'', Forward (ToRuntime ''metadata_versions''))]"

definition block_builder_api :: api_impl where
  "block_builder_api =
     [(''apply_extrinsic'', Forward (ToExecutive ''apply_extrinsic'')),
      (''finalize_block'', Forward (ToExecutive ''finalize_block'')),
      (''inherent_extrinsics'', Forward (ToArgument ''create_extrinsics'')),
      (''check_inherents'', Forward (ToArgument ''check_extrinsics''))]"

definition transaction_queue_api :: api_impl where
  "transaction_queue_api = [(''validate_transaction'', Forward (ToExecutive ''validate_transaction''))]"

definition offchain_worker_api :: api_impl where
  "offchain_worker_api = [(''offchain_worker'', Forward (ToExecutive ''offchain_worker''))]"

definition aura_api :: api_impl where
  "aura_api =
     [(''slot_duration'', FromMillis (Forward (ToPallet Aura ''slot_duration''))),
      (''authorities'', IntoInner (Forward (ToPallet Aura ''authorities'')))]"

definition session_keys_api :: api_impl where
  "session_keys_api =
     [(''generate_session_keys'', Forward (ToSessionKeys ''generate'')),
      (''decode_session_keys'', Forward (ToSessionKeys ''decode_into_raw_public_keys''))]"

definition grandpa_api :: api_impl where
  "grandpa_api =
     [(''grandpa_authorities'', Forward (ToPallet Grandpa ''grandpa_authorities'')),
      (''current_set_id'', Forward (ToPallet Grandpa ''current_set_id'')),
      (''submit_report_equivocation_unsigned_extrinsic'', ReturnNone),
      (''generate_key_ownership_proof'', ReturnNone)]"

definition account_nonce_api :: api_impl where
  "account_nonce_api = [(''account_nonce'', Forward (ToPallet System ''account_nonce''))]"

definition transaction_payment_api :: api_impl where
  "transaction_payment_api =
     [(''query_info'', Forward (ToPallet TransactionPayment ''query_info'')),
      (''query_fee_details'', Forward (ToPallet TransactionPayment ''query_fee_details'')),
      (''query_weight_to_fee'', Forward (ToPallet TransactionPayment ''weight_to_fee'')),
      (''query_length_to_fee'', Forward (ToPallet TransactionPayment ''length_to_fee''))]"

definition transaction_payment_call_api :: api_impl where
  "transaction_payment_call_api =
     [(''query_call_info'', Forward (ToPallet TransactionPayment ''query_call_info'')),
      (''query_call_fee_details'', Forward (ToPallet TransactionPayment ''query_call_fee_details'')),
      (''query_weight_to_fee'', Forward (ToPallet TransactionPayment ''weight_to_fee'')),
      (''query_length_to_fee'', Forward (ToPallet TransactionPayment ''length_to_fee''))]"

primrec impl_runtime_apis :: "api_trait \<Rightarrow> api_impl" where
  "impl_runtime_apis Core = core_api"
| "impl_runtime_apis Metadata = metadata_api"
| "impl_runtime_apis BlockBuilder = block_builder_api"
| "impl_runtime_apis TaggedTransactionQueue = transaction_queue_api"
| "impl_runtime_apis OffchainWorkerApi = offchain_worker_api"
| "impl_runtime_apis AuraApi = aura_api"
| "impl_runtime_apis SessionKeysApi = session_keys_api"
| "impl_runtime_apis GrandpaApi = grandpa_api"
| "impl_runtime_apis AccountNonceApi = account_nonce_api"
| "impl_runtime_apis TransactionPaymentApi = transaction_payment_api"
| "impl_runtime_apis TransactionPaymentCallApi = transaction_payment_call_api"

lemmas api_defs = core_api_def metadata_api_def block_builder_api_def transaction_queue_api_def
  offchain_worker_api_def aura_api_def session_keys_api_def grandpa_api_def account_nonce_api_def
  transaction_payment_api_def transaction_payment_call_api_def

section \<open>Evaluation\<close>

text \<open>
  Values of the stock crates are opaque (\<open>'v\<close>); those the runtime makes itself are the version,
  the absent option, a number of milliseconds and the slot duration. \<open>None\<close>: the method does not
  exist, or a conversion is applied to a value it does not fit.
\<close>

datatype 'v api_value =
    VersionValue runtime_version | NoneValue | Millis u64 | SlotDuration u64 | Opaque 'v

record 'v crates =
  call :: "callee \<Rightarrow> 'v api_value list \<Rightarrow> 'v api_value"
  into_inner :: "'v \<Rightarrow> 'v"
  opaque_metadata :: "'v \<Rightarrow> 'v"

primrec answer :: "'v crates \<Rightarrow> 'v api_value list \<Rightarrow> body \<Rightarrow> 'v api_value option" where
  "answer crates args (ReturnVersion v) = Some (VersionValue v)"
| "answer crates args ReturnNone = Some NoneValue"
| "answer crates args (Forward f) = Some (call crates f args)"
| "answer crates args (IntoInner b) =
     Option.bind (answer crates args b)
       (\<lambda>x. case x of Opaque v \<Rightarrow> Some (Opaque (into_inner crates v)) | _ \<Rightarrow> None)"
| "answer crates args (FromMillis b) =
     Option.bind (answer crates args b)
       (\<lambda>x. case x of Millis n \<Rightarrow> Some (SlotDuration n) | _ \<Rightarrow> None)"
| "answer crates args (OpaqueMetadataNew b) =
     Option.bind (answer crates args b)
       (\<lambda>x. case x of Opaque v \<Rightarrow> Some (Opaque (opaque_metadata crates v)) | _ \<Rightarrow> None)"

definition api_dispatch ::
  "'v crates \<Rightarrow> api_trait \<Rightarrow> string \<Rightarrow> 'v api_value list \<Rightarrow> 'v api_value option" where
  "api_dispatch crates tr mname args =
     Option.bind (map_of (impl_runtime_apis tr) mname) (answer crates args)"

section \<open>Session keys\<close>

text \<open>
  \<open>opaque::SessionKeys\<close>: the pallets whose key types make up the opaque keys that
  \<open>generate_session_keys\<close> and \<open>decode_session_keys\<close> handle, in order.
\<close>

definition SessionKeys :: "pallet list" where
  "SessionKeys = [Aura, Grandpa]"

section \<open>The node's side\<close>

text \<open>\<open>native_version\<close> of the runtime, and \<open>ExecutorDispatch\<close> of the node, which returns it.\<close>

definition native_version :: runtime_version where
  "native_version = VERSION"

definition executor_native_version :: runtime_version where
  "executor_native_version = native_version"

definition executor_dispatch ::
  "'v crates \<Rightarrow> api_trait \<Rightarrow> string \<Rightarrow> 'v api_value list \<Rightarrow> 'v api_value option" where
  "executor_dispatch crates tr mname args = api_dispatch crates tr mname args"

text \<open>The host functions the executor adds to those of Substrate.\<close>

definition ExtendHostFunctions :: "bool \<Rightarrow> string list" where
  "ExtendHostFunctions runtime_benchmarks =
     (if runtime_benchmarks then [''frame_benchmarking::benchmarking::HostFunctions''] else [])"

text \<open>The runtime APIs in the trait bounds of \<open>create_full\<close>.\<close>

definition rpc_required_apis :: "api_trait list" where
  "rpc_required_apis = [AccountNonceApi, TransactionPaymentApi, BlockBuilder]"

section \<open>try-runtime\<close>

text \<open>
  \<open>try_runtime_upgrade(..).unwrap()\<close> and \<open>try_execute_block(..).expect(..)\<close>: an error of the
  executive is a panic.
\<close>

primrec unwrap_result :: "('a, 'e) outcome \<Rightarrow> ('a, 'f) outcome" where
  "unwrap_result (Ok x) = Ok x"
| "unwrap_result (Err e) = Panic"
| "unwrap_result Panic = Panic"

definition try_on_runtime_upgrade ::
  "('checks \<Rightarrow> ('w, 'e) outcome) \<Rightarrow> 'w \<Rightarrow> 'checks \<Rightarrow> ('w \<times> 'w, 'f) outcome" where
  "try_on_runtime_upgrade try_runtime_upgrade max_block checks =
     rbind (unwrap_result (try_runtime_upgrade checks)) (\<lambda>weight. Ok (weight, max_block))"

definition try_execute_block ::
  "('blk \<Rightarrow> bool \<Rightarrow> bool \<Rightarrow> 'select \<Rightarrow> ('w, 'e) outcome) \<Rightarrow> 'blk \<Rightarrow> bool \<Rightarrow> bool \<Rightarrow> 'select \<Rightarrow>
   ('w, 'f) outcome" where
  "try_execute_block executive blk state_root_check signature_check select =
     unwrap_result (executive blk state_root_check signature_check select)"

text \<open>Neither entry point returns an error: an upgrade or block that fails its checks panics.\<close>

lemma try_runtime_no_error:
  "try_on_runtime_upgrade up mb checks \<noteq> Err e"
  "try_execute_block ex blk a b sel \<noteq> Err e"
  "try_on_runtime_upgrade up mb checks = Panic \<longleftrightarrow> (\<forall>w. up checks \<noteq> Ok w)"
  by (cases "up checks"; cases "ex blk a b sel";
      simp add: try_on_runtime_upgrade_def try_execute_block_def)+

section \<open>Properties\<close>

text \<open>
  Documented behaviour of the Aura pallet: \<open>slot_duration\<close> is twice the minimum period that the
  timestamp pallet is configured with, saturating.
\<close>

definition aura_doubles_period :: "'v crates \<Rightarrow> u64 \<Rightarrow> bool" where
  "aura_doubles_period crates period \<longleftrightarrow>
     (\<forall>args. call crates (ToPallet Aura ''slot_duration'') args =
        Millis (if 2 * unat period < 2 ^ 64 then 2 * period else - 1))"

text \<open>
  The slot duration the consensus client is given through the runtime API is the block time
  the runtime is built for: 6000 milliseconds, \<open>MILLISECS_PER_BLOCK\<close>, with which the minutes,
  hours and days are counted in blocks, although the constant reaches Aura only by way of half
  its value in the timestamp pallet's configuration.
\<close>

lemma api_slot_duration:
  assumes "aura_doubles_period crates (minimum_period timestamp_config)"
  shows "api_dispatch crates AuraApi ''slot_duration'' args = Some (SlotDuration SLOT_DURATION) \<and>
    unat SLOT_DURATION * unat MINUTES = 60 * 1000 \<and> unat SLOT_DURATION * unat DAYS = 86400 * 1000"
  using assms
  by (simp add: api_dispatch_def aura_api_def aura_doubles_period_def timestamp_config_def
      MinimumPeriod_def SLOT_DURATION_def MILLISECS_PER_BLOCK_def MINUTES_def DAYS_def HOURS_def)

definition demo_crates :: "nat crates" where
  "demo_crates = \<lparr>call = (\<lambda>f args. case f of ToPallet p m \<Rightarrow>
       if p = Aura \<and> m = ''slot_duration'' then Millis 6000 else Opaque 1 | _ \<Rightarrow> Opaque 0),
     into_inner = id, opaque_metadata = Suc\<rparr>"

lemma api_slot_duration_witness:
  "api_dispatch demo_crates AuraApi ''slot_duration'' [] = Some (SlotDuration 6000)"
  using api_slot_duration [of demo_crates "[]"]
  by (simp add: aura_doubles_period_def demo_crates_def timestamp_config_def MinimumPeriod_def
      SLOT_DURATION_def MILLISECS_PER_BLOCK_def)

text \<open>
  Equivocation is never reported: whatever the crates do and whatever proof is passed, the
  API yields no key-ownership proof and no report extrinsic, on the native as on the WASM side;
  the native executor answers every method as the runtime does and with the runtime's version,
  so it can stand in for it.
\<close>

lemma api_contract:
  "api_dispatch crates GrandpaApi ''submit_report_equivocation_unsigned_extrinsic'' args =
     Some NoneValue \<and>
   api_dispatch crates GrandpaApi ''generate_key_ownership_proof'' args = Some NoneValue \<and>
   api_dispatch crates Core ''version'' args = Some (VersionValue executor_native_version) \<and>
   executor_dispatch crates = api_dispatch crates"
  by (auto simp: api_dispatch_def grandpa_api_def core_api_def executor_native_version_def
      native_version_def executor_dispatch_def fun_eq_iff)

text \<open>
  The APIs are complete and unambiguous: no trait implements a method twice, and every API
  the RPC module demands of the runtime has methods, each of which forwards to the executive, the
  arguments or a pallet that the runtime composes.
\<close>

lemma rpc_apis_served:
  "(\<forall>tr. distinct (map fst (impl_runtime_apis tr))) \<and>
   list_all (\<lambda>tr. impl_runtime_apis tr \<noteq> [] \<and>
     list_all (\<lambda>(mname, b). \<exists>f. b = Forward f \<and>
       (case f of ToPallet p g \<Rightarrow> p \<in> set construct_runtime | ToRuntime g \<Rightarrow> False
        | ToSessionKeys g \<Rightarrow> False | _ \<Rightarrow> True)) (impl_runtime_apis tr)) rpc_required_apis"
proof
  show "\<forall>tr. distinct (map fst (impl_runtime_apis tr))"
  proof
    fix tr show "distinct (map fst (impl_runtime_apis tr))"
      by (cases tr) (simp_all add: api_defs)
  qed
  show "list_all (\<lambda>tr. impl_runtime_apis tr \<noteq> [] \<and>
     list_all (\<lambda>(mname, b). \<exists>f. b = Forward f \<and>
       (case f of ToPallet p g \<Rightarrow> p \<in> set construct_runtime | ToRuntime g \<Rightarrow> False
        | ToSessionKeys g \<Rightarrow> False | _ \<Rightarrow> True)) (impl_runtime_apis tr)) rpc_required_apis"
    by (simp add: rpc_required_apis_def api_defs construct_runtime_def)
qed

end
