(* ===== verification/Runtime_Benchmarks.thy ===== *)
theory Runtime_Benchmarks
  imports Runtime_Api
begin

text \<open>
  The runtime's benchmark API (\<open>mod benches\<close> and \<open>frame_benchmarking::Benchmark\<close> in
  \<open>blockchain/runtime/src/lib.rs\<close>): the pallets of \<open>define_benchmarks!\<close> and the two methods over
  them. What the benchmarking crate does for one entry is a parameter.
\<close>

section \<open>The benchmarked pallets\<close>

text \<open>The entries of \<open>define_benchmarks!\<close>: the crate and the pallet of each.\<close>

definition benches :: "(string \<times> string) list" where
  "benches =
     [(''frame_benchmarking'', ''BaselineBench''), (''frame_system'', ''SystemBench''),
      (''pallet_balances'', ''Balances''), (''pallet_timestamp'', ''Timestamp''),
      (''pallet_validator_subset_selection'', ''ValidatorSubsetSelection'')]"

primrec pallet_crate :: "pallet \<Rightarrow> string" where
  "pallet_crate System = ''frame_system''"
| "pallet_crate Timestamp = ''pallet_timestamp''"
| "pallet_crate Aura = ''pallet_aura''"
| "pallet_crate Grandpa = ''pallet_grandpa''"
| "pallet_crate Balances = ''pallet_balances''"
| "pallet_crate TransactionPayment = ''pallet_transaction_payment''"
| "pallet_crate Sudo = ''pallet_sudo''"
| "pallet_crate Nfts = ''pallet_nfts''"
| "pallet_crate InsecureRandomnessCollectiveFlip = ''pallet_insecure_randomness_collective_flip''"
| "pallet_crate ProbabilisticPayments = ''pallet_probabilistic_payments''"

text \<open>
  The benchmark list names a pallet crate the runtime does not have, and leaves out the payments
  pallet.
\<close>

lemma benches_off_runtime:
  "\<exists>c \<in> fst ` set benches. c \<noteq> ''frame_benchmarking'' \<and> c \<notin> range pallet_crate"
  "pallet_crate ProbabilisticPayments \<notin> fst ` set benches"
proof -
  have "''pallet_validator_subset_selection'' \<noteq> pallet_crate p" for p
    by (cases p) simp_all
  then show "\<exists>c \<in> fst ` set benches. c \<noteq> ''frame_benchmarking'' \<and> c \<notin> range pallet_crate"
    by (intro bexI [of _ "''pallet_validator_subset_selection''"]) (auto simp: benches_def)
qed (simp add: benches_def)

section \<open>The API\<close>

text \<open>
  \<open>list_entry extra e\<close> is the entry that \<open>list_benchmark!\<close> pushes, \<open>storage_info p\<close> the storage items
  of a pallet.
\<close>

definition benchmark_metadata ::
  "(bool \<Rightarrow> string \<times> string \<Rightarrow> 'entry) \<Rightarrow> (pallet \<Rightarrow> 'info list) \<Rightarrow> bool \<Rightarrow> 'entry list \<times> 'info list" where
  "benchmark_metadata list_entry storage_info extra =
     (let list = map (list_entry extra) benches;
          info = concat (map storage_info construct_runtime)
      in (list, info))"

text \<open>
  \<open>add_benchmark params e\<close>: the batches that \<open>add_benchmark!\<close> pushes for an entry, or the error it
  returns.
\<close>

primrec add_benchmarks ::
  "('params \<Rightarrow> string \<times> string \<Rightarrow> ('batch list, 'e) outcome) \<Rightarrow> 'params \<Rightarrow> (string \<times> string) list \<Rightarrow>
   'batch list \<Rightarrow> ('batch list, 'e) outcome" where
  "add_benchmarks add_benchmark params [] batches = Ok batches"
| "add_benchmarks add_benchmark params (e # es) batches =
     rbind (add_benchmark params e) (\<lambda>bs. add_benchmarks add_benchmark params es (batches @ bs))"

definition dispatch_benchmark ::
  "('config \<times> 'key list \<Rightarrow> string \<times> string \<Rightarrow> ('batch list, 'e) outcome) \<Rightarrow> (pallet \<Rightarrow> 'key list) \<Rightarrow>
   'config \<Rightarrow> ('batch list, 'e) outcome" where
  "dispatch_benchmark add_benchmark whitelisted_keys config =
     (let whitelist = concat (map whitelisted_keys construct_runtime);
          params = (config, whitelist)
      in rbind (add_benchmarks add_benchmark params benches []) Ok)"

text \<open>
  An entry is run only when its crate is the one asked for, as \<open>add_benchmark!\<close> documents. So a
  run for the payments pallet measures nothing and reports no error.
\<close>

lemma payments_never_benchmarked:
  assumes "\<And>params e. fst e \<noteq> wanted \<Longrightarrow> add_benchmark params e = Ok []"
    and "wanted = pallet_crate ProbabilisticPayments"
  shows "dispatch_benchmark add_benchmark whitelisted_keys config = Ok []"
proof -
  have none: "add_benchmark params e = Ok []" if "fst e \<noteq> wanted" for params e
    using assms(1) that .
  have "add_benchmarks add_benchmark params es batches = Ok batches" if "wanted \<notin> fst ` set es"
    for params batches es
    using that by (induction es) (auto simp: none)
  then show ?thesis
    using benches_off_runtime(2) assms(2) by (simp add: dispatch_benchmark_def Let_def)
qed

end
