(* ===== verification/Js_Values.thy ===== *)
theory Js_Values
  imports Byte_Codec
begin

unbundle bit_operations_syntax

text \<open>
  The JavaScript values and operations that the client's code uses
  (\<open>guillotine-local-node/express/src/helpers/packAndSignVoucher.js\<close> and
  \<open>guillotine-local-node/express/src/payments/payPaymentRequest.js\<close>): integers, strings and
  \<open>NaN\<close>, their conversions to each other, \<open>+\<close>, \<open>^\<close>, \<open>||\<close>, \<open>parseInt\<close>, \<open>toString(16)\<close> and
  \<open>padStart\<close>. Numbers are integers; the rounding to a double is written out where it occurs,
  in \<open>parseInt\<close> of a hash, as all others stay below \<open>2 ^ 53\<close>.
\<close>

section \<open>Digits\<close>

definition hex_digit :: "nat \<Rightarrow> char" where
  "hex_digit d = ''0123456789abcdef'' ! d"

definition hex_value :: "char \<Rightarrow> nat" where
  "hex_value c = length (takeWhile (\<lambda>d. d \<noteq> c) ''0123456789abcdef'')"

definition is_hex_digit :: "char \<Rightarrow> bool" where
  "is_hex_digit c \<longleftrightarrow> c \<in> set ''0123456789abcdef''"

definition is_digit :: "char \<Rightarrow> bool" where
  "is_digit c \<longleftrightarrow> c \<in> set ''0123456789''"

text \<open>The number that a string of digits denotes in a base.\<close>

definition radix_value :: "nat \<Rightarrow> string \<Rightarrow> nat" where
  "radix_value b s = foldl (\<lambda>n c. b * n + hex_value c) 0 s"

text \<open>\<open>n.toString(16)\<close> and \<open>n.toString()\<close> for a non-negative integer, and \<open>s.padStart(w, c)\<close>.\<close>

function hex_string :: "nat \<Rightarrow> string" where
  "hex_string n = (if n < 16 then [hex_digit n] else hex_string (n div 16) @ [hex_digit (n mod 16)])"
  by pat_completeness auto
termination
  by (relation "measure id") auto

declare hex_string.simps [simp del]

function dec_string :: "nat \<Rightarrow> string" where
  "dec_string n = (if n < 10 then [hex_digit n] else dec_string (n div 10) @ [hex_digit (n mod 10)])"
  by pat_completeness auto
termination
  by (relation "measure id") auto

declare dec_string.simps [simp del]

definition padStart :: "nat \<Rightarrow> char \<Rightarrow> string \<Rightarrow> string" where
  "padStart w c s = replicate (w - length s) c @ s"

fun hex_pairs :: "string \<Rightarrow> byte list" where
  "hex_pairs (a # b # cs) = word_of_nat (16 * hex_value a + hex_value b) # hex_pairs cs"
| "hex_pairs _ = []"

section \<open>Numbers, strings and NaN\<close>

datatype js_value = Num int | NaN | Text string

text \<open>
  \<open>Number(s)\<close> for a string over the characters of hexadecimal digits, the only ones in the
  strings that are converted: decimal digits, with an exponent or not, and binary literals.
\<close>

definition number_of_string :: "string \<Rightarrow> nat option" where
  "number_of_string s =
     (let mantissa = takeWhile (\<lambda>c. c \<noteq> CHR ''e'') s;
          exponent = drop (Suc (length mantissa)) s
      in if list_all is_digit s then Some (radix_value 10 s)
         else if mantissa \<noteq> [] \<and> list_all is_digit mantissa \<and> exponent \<noteq> [] \<and>
           list_all is_digit exponent
         then Some (radix_value 10 mantissa * 10 ^ radix_value 10 exponent)
         else if take 2 s = ''0b'' \<and> 2 < length s \<and> set (drop 2 s) \<subseteq> set ''01''
         then Some (radix_value 2 (drop 2 s))
         else None)"

primrec to_number :: "js_value \<Rightarrow> int option" where
  "to_number (Num n) = Some n"
| "to_number NaN = None"
| "to_number (Text s) = map_option int (number_of_string s)"

text \<open>\<open>x + k\<close>: concatenation where \<open>x\<close> is a string.\<close>

primrec js_plus :: "js_value \<Rightarrow> nat \<Rightarrow> js_value" where
  "js_plus (Num n) k = Num (n + int k)"
| "js_plus NaN k = NaN"
| "js_plus (Text s) k = Text (s @ dec_string k)"

text \<open>\<open>x.toString(16)\<close>: a string is returned as it is.\<close>

primrec to_string16 :: "js_value \<Rightarrow> string" where
  "to_string16 (Num n) = (if n < 0 then CHR ''-'' # hex_string (nat (- n)) else hex_string (nat n))"
| "to_string16 NaN = ''NaN''"
| "to_string16 (Text s) = s"

text \<open>\<open>x || y\<close>, where a missing \<open>x\<close> is \<open>undefined\<close>.\<close>

definition js_or :: "js_value option \<Rightarrow> js_value \<Rightarrow> js_value" where
  "js_or x y = (case x of Some v \<Rightarrow> if v \<in> {Num 0, NaN, Text []} then y else v | None \<Rightarrow> y)"

text \<open>The operands of \<open>^\<close> become 32-bit integers, \<open>NaN\<close> the integer 0; the result is signed.\<close>

definition to_int32 :: "nat option \<Rightarrow> 32 word" where
  "to_int32 x = (case x of Some n \<Rightarrow> word_of_nat n | None \<Rightarrow> 0)"

section \<open>Parsing a hash\<close>

text \<open>
  A double has 53 significant bits: a larger integer is rounded to the nearest multiple of a
  power of two, ties to even.
\<close>

fun excess_bits :: "nat \<Rightarrow> nat" where
  "excess_bits n = (if n < 2 ^ 53 then 0 else Suc (excess_bits (n div 2)))"

declare excess_bits.simps [simp del]

definition to_double :: "nat \<Rightarrow> nat" where
  "to_double n =
     (let unit = 2 ^ excess_bits n; q = n div unit; r = n mod unit
      in (if unit < 2 * r \<or> unit = 2 * r \<and> odd q then q + 1 else q) * unit)"

text \<open>\<open>parseInt(s, 16)\<close>: the longest prefix of hexadecimal digits after an optional \<open>0x\<close>.\<close>

definition hex_prefix :: "string \<Rightarrow> string" where
  "hex_prefix s = takeWhile is_hex_digit (if take 2 s = ''0x'' then drop 2 s else s)"

definition parseInt16 :: "string \<Rightarrow> nat option" where
  "parseInt16 s =
     (let ds = hex_prefix s in if ds = [] then None else Some (to_double (radix_value 16 ds)))"

section \<open>Facts about digits\<close>

lemma hex_value_digit [simp]: "d < 16 \<Longrightarrow> hex_value (hex_digit d) = d"
proof -
  have "\<forall>d \<in> set [0..<16]. hex_value (hex_digit d) = d"
    by (simp add: hex_value_def hex_digit_def upt_rec numeral_nat)
  then show "d < 16 \<Longrightarrow> ?thesis" by simp
qed

lemma is_hex_digit_digit [simp]: "d < 16 \<Longrightarrow> is_hex_digit (hex_digit d)"
proof -
  have "length ''0123456789abcdef'' = 16" by simp
  then show "d < 16 \<Longrightarrow> ?thesis" unfolding is_hex_digit_def hex_digit_def by (metis nth_mem)
qed

lemma hex_digit_value:
  assumes "is_hex_digit c"
  shows "hex_digit (hex_value c) = c" "hex_value c < 16"
  using assms by (auto simp: is_hex_digit_def hex_digit_def hex_value_def)

lemma is_digit_hex: "is_digit c \<Longrightarrow> is_hex_digit c"
  by (auto simp: is_digit_def is_hex_digit_def)

lemma digits_hex: "list_all is_digit s \<Longrightarrow> list_all is_hex_digit s"
  by (auto simp: list_all_iff is_digit_hex)

lemma radix_value_simps [simp]:
  "radix_value b [] = 0"
  "radix_value b (s @ [c]) = b * radix_value b s + hex_value c"
  by (simp_all add: radix_value_def)

lemma radix_value_mono: "a \<le> b \<Longrightarrow> radix_value a s \<le> radix_value b s"
  by (induction s rule: rev_induct) (auto intro: add_mono mult_le_mono)

lemma number_of_digits: "list_all is_digit s \<Longrightarrow> number_of_string s = Some (radix_value 10 s)"
  by (simp add: number_of_string_def)

text \<open>The last \<open>k\<close> hexadecimal digits.\<close>

primrec hex_fixed :: "nat \<Rightarrow> nat \<Rightarrow> string" where
  "hex_fixed 0 n = []"
| "hex_fixed (Suc k) n = hex_fixed k (n div 16) @ [hex_digit (n mod 16)]"

lemma length_hex_fixed [simp]: "length (hex_fixed k n) = k"
  by (induction k arbitrary: n) auto

lemma hex_fixed_digits: "list_all is_hex_digit (hex_fixed k n)"
  by (induction k arbitrary: n) auto

lemma hex_fixed_zero: "hex_fixed k 0 = replicate k (CHR ''0'')"
  by (induction k) (simp_all add: hex_digit_def replicate_append_same)

lemma hex_string_fixed:
  "n < 16 ^ k \<Longrightarrow> 0 < k \<Longrightarrow> padStart k (CHR ''0'') (hex_string n) = hex_fixed k n \<and>
     length (hex_string n) \<le> k"
proof (induction k arbitrary: n)
  case (Suc k)
  show ?case
  proof (cases "n < 16")
    case True
    then show ?thesis
      by (simp add: hex_string.simps [of n] padStart_def hex_fixed_zero)
  next
    case False
    then have "0 < k" using Suc.prems(1) by (cases k) auto
    moreover have "n div 16 < 16 ^ k"
      using Suc.prems(1) by (simp add: div_less_iff_less_mult mult.commute)
    ultimately have "padStart k (CHR ''0'') (hex_string (n div 16)) = hex_fixed k (n div 16)"
      "length (hex_string (n div 16)) \<le> k"
      using Suc.IH by auto
    then show ?thesis
      using False by (simp add: hex_string.simps [of n] padStart_def)
  qed
qed simp

text \<open>A string of digits is the fixed-width form of its own value, up to leading zeros.\<close>

lemma hex_fixed_value:
  "list_all is_hex_digit s \<Longrightarrow> length s \<le> k \<Longrightarrow>
   hex_fixed k (radix_value 16 s) = padStart k (CHR ''0'') s"
proof (induction s arbitrary: k rule: rev_induct)
  case (snoc c s)
  then obtain k' where k: "k = Suc k'" by (cases k) auto
  have "hex_fixed k' (radix_value 16 s) = padStart k' (CHR ''0'') s"
    using snoc.IH [of k'] snoc.prems by (simp add: k)
  then show ?case
    using hex_digit_value [of c] snoc.prems by (simp add: k padStart_def)
qed (simp add: hex_fixed_zero padStart_def)

lemma hex_pairs_append: "even (length xs) \<Longrightarrow> hex_pairs (xs @ ys) = hex_pairs xs @ hex_pairs ys"
  by (induction xs rule: hex_pairs.induct) auto

lemma length_hex_pairs [simp]: "length (hex_pairs xs) = length xs div 2"
  by (induction xs rule: hex_pairs.induct) auto

lemma hex_pairs_fixed: "hex_pairs (hex_fixed (2 * k) n) = rev (le_bytes k n)"
proof (induction k arbitrary: n)
  case (Suc k)
  have "16 * (n div 16 mod 16) + n mod 16 = n mod (16 * 16)"
    using mod_mult2_eq [of n 16 16] by simp
  then show ?case
    using Suc [of "n div 256"] by (simp add: hex_pairs_append div_mult2_eq [of n 16 16, simplified])
qed simp

section \<open>Facts about 32-bit integers\<close>

lemma xor_less_1024: "a < 1024 \<Longrightarrow> b < 1024 \<Longrightarrow> a XOR b < (1024 :: nat)"
proof -
  assume "a < 1024" "b < 1024"
  then have "take_bit 10 (a XOR b) = a XOR b"
    by (simp add: take_bit_xor take_bit_nat_eq_self)
  moreover have "take_bit 10 (a XOR b) < 2 ^ 10"
    by (rule take_bit_nat_less_exp)
  ultimately show ?thesis by simp
qed

lemma sint_small: "unat (w :: 32 word) < 2 ^ 31 \<Longrightarrow> sint w = int (unat w)"
proof -
  assume small: "unat w < 2 ^ 31"
  have "sint w = signed_take_bit 31 (int (unat w))"
    by (simp add: sint_uint)
  also have "\<dots> = int (unat w)"
  proof (rule signed_take_bit_int_eq_self)
    show "int (unat w) < 2 ^ 31" using small by (metis of_nat_less_numeral_power_cancel_iff)
    show "- (2 ^ 31) \<le> int (unat w)" by (rule order_trans [of _ 0]) (simp, rule of_nat_0_le_iff)
  qed
  finally show ?thesis .
qed

lemma to_int32_mod: "unat (to_int32 (map_option (\<lambda>n. n mod 1024) x)) < 1024"
proof (cases x)
  case (Some n)
  have "unat (word_of_nat (n mod 1024) :: 32 word) = n mod 1024 mod 2 ^ 32"
    by (simp only: unat_of_nat len_bit0 len_num1) simp
  also have "\<dots> \<le> n mod 1024" by (rule mod_less_eq_dividend)
  also have "\<dots> < 1024" by simp
  finally show ?thesis by (simp only: Some to_int32_def option.map option.case)
qed (simp add: to_int32_def)

lemma sint_xor_1024:
  assumes "unat (a :: 32 word) < 1024" and "unat b < 1024"
  shows "sint (a XOR b) < 1024" "0 \<le> sint (a XOR b)"
proof -
  have less: "unat (a XOR b) < 1024"
    using xor_less_1024 [OF assms] by (simp add: unsigned_xor_eq)
  then have "sint (a XOR b) = int (unat (a XOR b))"
    by (intro sint_small) simp
  then show "sint (a XOR b) < 1024" "0 \<le> sint (a XOR b)"
    using less by linarith+
qed

section \<open>Facts about doubles\<close>

lemma excess_bits_bound: "n < 2 ^ (53 + excess_bits n)"
proof (induction n rule: excess_bits.induct)
  case (1 n)
  show ?case
  proof (cases "n < 2 ^ 53")
    case False
    then have "n div 2 < 2 ^ (53 + excess_bits (n div 2))" using 1 by simp
    then have "n < 2 * 2 ^ (53 + excess_bits (n div 2))" by linarith
    also have "\<dots> = 2 ^ (53 + excess_bits n)"
      using False by (simp add: excess_bits.simps [of n] power_add)
    finally show ?thesis .
  qed (simp add: excess_bits.simps [of n])
qed

text \<open>A double of at least \<open>2 ^ 63\<close> has no bits below the eleventh.\<close>

lemma to_double_dvd:
  assumes "2 ^ 63 \<le> n"
  shows "2 ^ 11 dvd to_double n"
proof -
  have "(2 :: nat) ^ 63 < 2 ^ (53 + excess_bits n)"
    using assms excess_bits_bound [of n] by (rule le_less_trans)
  then have "63 < 53 + excess_bits n"
    by (rule power_less_imp_less_exp [rotated]) simp
  then have "11 \<le> excess_bits n" by simp
  then have "(2 :: nat) ^ 11 dvd 2 ^ excess_bits n"
    by (rule le_imp_power_dvd)
  then show ?thesis
    unfolding to_double_def Let_def by (rule dvd_mult)
qed

lemma to_double_small: "n < 2 ^ 53 \<Longrightarrow> to_double n = n"
  by (simp add: to_double_def Let_def excess_bits.simps [of n])

end
