(* ===== verification/Mock_Runtime.thy ===== *)
theory Mock_Runtime
  imports Runtime_Chain Runtime_Pallets Js_Values
begin

text \<open>
  The pallet's test runtime and its tests
  (\<open>blockchain/pallets/probabilistic-payments/src/mock.rs\<close> and \<open>tests.rs\<close> beside it): the pallets
  of the mock and its configuration, \<open>new_test_ext\<close>, and the test \<open>claim_works_for_given_values\<close> as
  a program over the model, with the account and signature functions as parameters.
\<close>

section \<open>The mock runtime\<close>

text \<open>The mock lists the payments pallet before the randomness pallet.\<close>

definition mock_runtime :: "pallet list" where
  "mock_runtime = [System, ProbabilisticPayments, InsecureRandomnessCollectiveFlip]"

record mock_system_config =
  mock_block_hash_count :: u32
  mock_ss58_prefix :: u16
  mock_max_consumers :: u32

definition mock_system_config :: mock_system_config where
  "mock_system_config = \<lparr>mock_block_hash_count = 250, mock_ss58_prefix = 42, mock_max_consumers = 16\<rparr>"

definition mock_payments_config :: payments_config where
  "mock_payments_config = \<lparr>payments_weight_info = UnitWeight\<rparr>"

text \<open>
  \<open>GenesisConfig::<Test>::default().build_storage()\<close>: no entry in the pallet's storage, block 0.
\<close>

definition new_test_ext :: "'r \<Rightarrow> ('acc, 'h, 'r) runtime_state" where
  "new_test_ext stock_genesis = \<lparr>payments = genesis, stock = stock_genesis\<rparr>"

definition set_block_number ::
  "u32 \<Rightarrow> ('acc, 'h, 'r) runtime_state \<Rightarrow> ('acc, 'h, 'r) runtime_state" where
  "set_block_number n rs = rs\<lparr>payments := (payments rs)\<lparr>block_number := n\<rparr>\<rparr>"

section \<open>claim_works_for_given_values\<close>

text \<open>
  The bytes of the test's voucher before the signature: the SCALE encoding of a \<open>u32\<close> is its four
  bytes, little-endian, and the default hash is zero.
\<close>

definition test_unsigned_voucher :: "byte list \<Rightarrow> byte list \<Rightarrow> byte list" where
  "test_unsigned_voucher bob_account alice_account =
     u32_to_le_bytes 1 @ u32_to_le_bytes 2 @ u32_to_le_bytes 3 @ u32_to_le_bytes 4 @
     [0xFE, 0xDC, 0xBA, 0x98, 0x76, 0x54, 0x32, 0x10, 0x01, 0x23, 0x45, 0x67, 0x89, 0xAB, 0xCD, 0xEF] @
     bob_account @ alice_account @ replicate 32 0"

text \<open>The test's first block, whose hooks it runs by hand.\<close>

definition test_first_block ::
  "('acc, 'sig, 'h) substrate \<Rightarrow> 'w db_weight \<Rightarrow> ('acc, 'h, 'c, 'hd, 'x, 'r) stock_pallets \<Rightarrow>
   ('acc, 'h, 'r) runtime_state \<Rightarrow> ('acc, 'h, 'r) runtime_state" where
  "test_first_block env db rt t0 =
     (let t1 = set_block_number 1 t0;
          t2 = run_hook env db rt 1 InsecureRandomnessCollectiveFlip t1
      in run_hook env db rt 1 ProbabilisticPayments t2)"

text \<open>
  \<open>encode_account\<close> and \<open>sign\<close> are the encoding of an account and Bob's signature of a message,
  encoded. The result is that of the dispatched claim, with the state it leaves.
\<close>

definition claim_works_for_given_values ::
  "('acc, 'sig, 'h) substrate \<Rightarrow> 'w db_weight \<Rightarrow> ('acc, 'h, 'c, 'hd, 'x, 'r) stock_pallets \<Rightarrow> 'r \<Rightarrow>
   ('acc \<Rightarrow> byte list) \<Rightarrow> (byte list \<Rightarrow> byte list) \<Rightarrow> 'acc \<Rightarrow> 'acc \<Rightarrow>
   (('acc, 'h) pallet_state, dispatch_error) outcome" where
  "claim_works_for_given_values env db rt stock_genesis encode_account sign alice bob =
     (let t0 = new_test_ext stock_genesis;
          t3 = test_first_block env db rt t0;
          t4 = set_block_number 10 t3;
          unsigned = test_unsigned_voucher (encode_account bob) (encode_account alice);
          voucher = unsigned @ sign unsigned
      in claim env (Some alice) voucher (payments t4))"

text \<open>
  \<open>impl_benchmark_test_suite!\<close> (\<open>benchmarking.rs\<close>) makes a test of the benchmark, in the genesis
  state of the mock: the test passes if the extrinsic call does.
\<close>

definition test_benchmark_claim :: "('acc, 'sig, 'h) substrate \<Rightarrow> 'acc \<Rightarrow> 'r \<Rightarrow>
    (('acc, 'h) pallet_state, dispatch_error) outcome" where
  "test_benchmark_claim env whitelisted_caller stock_genesis =
     benchmark_claim env whitelisted_caller (payments (new_test_ext stock_genesis))"

section \<open>signature_parsing_works\<close>

text \<open>The 64 bytes of the test; the value of the test is the decoded signature.\<close>

definition sig_bytes :: "byte list" where
  "sig_bytes = hex_pairs ''68c55958d16c8ea9cb283e99b16fd5a4f8a60cb2fad3bedb7731004922282f1495c960156450fc076d957606dc62bc925433853d4d81038a5ed4245d496d1e8d''"

definition signature_parsing_works ::
  "('acc, 'sig, 'h) substrate \<Rightarrow> ('sig, dispatch_error) outcome" where
  "signature_parsing_works env = unwrap (decode_signature env sig_bytes)"

section \<open>Correctness\<close>

text \<open>
  The tests of the mock cannot tell the two weights apart where the database weights are those of
  RocksDB, which the runtime has; the mock's own \<open>T::DbWeight\<close> is not asked for.
\<close>

lemma claim_weight_configs:
  "claim_weight (payments_weight_info mock_payments_config) api db_of_mock rocks_db =
   claim_weight (payments_weight_info runtime_payments_config) api rocks_db rocks_db"
  by (simp add: mock_payments_config_def runtime_payments_config_def claim_weight_unit_def
      claim_weight_substrate_def)

lemma test_benchmark_fails:
  "test_benchmark_claim env caller init = Err (Module (InvalidVoucher 0))"
  by (simp add: test_benchmark_claim_def benchmark_fails)

text \<open>The test of the signature passes wherever the decoder takes every 64 bytes.\<close>

lemma signature_parsing_iff:
  "(\<exists>s. signature_parsing_works env = Ok s) \<longleftrightarrow> decode_signature env sig_bytes \<noteq> None"
  by (cases "decode_signature env sig_bytes") (auto simp: signature_parsing_works_def)

lemma length_sig_bytes: "length sig_bytes = 64"
  by (simp add: sig_bytes_def del: hex_pairs.simps)


lemma length_test_unsigned:
  "length a = 32 \<Longrightarrow> length b = 32 \<Longrightarrow> length (test_unsigned_voucher a b) = 128"
  by (simp add: test_unsigned_voucher_def integer_codecs)

text \<open>The test's first block leaves the entry of block 1 only.\<close>

lemma test_first_block_draw:
  "history_get (payments (test_first_block env db rt (new_test_ext init))) =
     [1 \<mapsto> drawn env 1 (stock_random rt (stock_hook rt InsecureRandomnessCollectiveFlip 1 init))]"
  by (simp add: test_first_block_def Let_def set_block_number_def run_hook_def new_test_ext_def
      on_initialize_def drawn_def genesis_def history_set_def history_get_def saturating_sub_def
      EPOCH_LENGTH_def fun_eq_iff split: prod.split)

lemma test_first_block_deposited:
  "deposited (payments (test_first_block env db rt (new_test_ext init))) = []"
  by (simp add: test_first_block_def Let_def set_block_number_def run_hook_def new_test_ext_def
      genesis_def)

text \<open>The state in which the test claims, in block 10.\<close>

lemma test_state:
  "block_number (payments (set_block_number 10 rs)) = 10"
  "deposited (payments (set_block_number 10 rs)) = deposited (payments rs)"
  "history_get (payments (set_block_number 10 rs)) = history_get (payments rs)"
  by (simp_all add: set_block_number_def history_get_def fun_eq_iff)

lemma hooks_before_payments:
  "takeWhile (\<lambda>p. p \<noteq> ProbabilisticPayments) construct_runtime =
     [System, Timestamp, Aura, Grandpa, Balances, TransactionPayment, Sudo, Nfts,
      InsecureRandomnessCollectiveFlip]"
  by (simp add: construct_runtime_def)

text \<open>The mock has the pallets that the payments pallet needs, and all of them are in the runtime.\<close>

lemma mock_pallets: "distinct mock_runtime" "set mock_runtime \<subseteq> set construct_runtime"
  by (simp_all add: mock_runtime_def construct_runtime_def)

text \<open>The voucher that the pallet reads from the test's bytes.\<close>

lemma test_voucher_parse:
  assumes "substrate_ok env" and "length (ea alice) = 32" and "length (ea bob) = 32"
    and "decode_account env (ea alice) = Some alice" and "decode_account env (ea bob) = Some bob"
    and "length sig = 64" and "decode_signature env sig = Some s"
  shows "\<exists>v. parse env (test_unsigned_voucher (ea bob) (ea alice) @ sig) = Ok v \<and>
    oracle_block v = 1 \<and> difficulty v = 2 \<and> no_redeem_before_block v = 3 \<and> value_if_paid v = 4 \<and>
    sender_pk v = bob \<and> recipient_pk v = alice \<and> signature v = s"
proof -
  let ?bytes = "test_unsigned_voucher (ea bob) (ea alice) @ sig"
  have len: "192 \<le> length ?bytes"
    using assms by (simp add: length_test_unsigned)
  obtain h where h: "h256_from_slice env (replicate 32 0) = Some h"
    using substrate_okD(1) [OF assms(1), of "replicate 32 0"] by auto
  have int: "word_of_nat (le_val (u32_to_le_bytes w)) = w" for w
    using u32_le.dec_enc [of w] by (simp add: u32_from_le_bytes_def integer_codecs split: if_splits)
  show ?thesis
    unfolding parse_long [OF len]
    using assms h by (simp add: test_unsigned_voucher_def integer_codecs int)
qed

section \<open>Properties\<close>

text \<open>
  C20: What a block's draw is made of: in the runtime the payments pallet asks for randomness
  after the system pallet has been initialized with the block's header and after the hooks of all
  stock pallets, that of the randomness pallet included, so the value recorded under the header's
  number already depends on the block's own header and material. The test in the mock, which runs
  the two hooks by hand, does it in the same order: its draw too comes from the material after the
  randomness pallet's hook, though the mock lists the pallets the other way round.
\<close>

theorem draw_material:
  "history_get (payments (initialize_block env db rt construct_runtime header rs)) (header_number rt header) =
      Some (fst (stock_random rt
        (stock_hook rt InsecureRandomnessCollectiveFlip (header_number rt header)
          (fold (\<lambda>p. stock_hook rt p (header_number rt header))
            [System, Timestamp, Aura, Grandpa, Balances, TransactionPayment, Sudo, Nfts]
            (system_initialize rt header (stock rs))))
        (topic env (header_number rt header)))) \<and>
   history_get (payments (test_first_block env db rt (new_test_ext init))) =
      [1 \<mapsto> fst (stock_random rt (stock_hook rt InsecureRandomnessCollectiveFlip 1 init) (topic env 1))]"
  using runtime_hooks.initialize_block_draw [of env db rt header rs]
  by (simp add: material_def hooks_before_payments test_first_block_draw drawn_def)

text \<open>
  C17: The pallet's test: with working codecs and a signature of Bob that verifies, the claim of
  the test returns, and it succeeds exactly when the draw is below half of the range, which
  leaves the event of the test, four units to Alice, as the only one; otherwise it fails with
  \<open>VoucherDidNotWin\<close>. The test holds for its keys because their draw wins.
\<close>

theorem test_claim_works:
  fixes rt :: "('acc, 'h, 'c, 'hd, 'x, 'r) stock_pallets"
  assumes "substrate_ok env" and "length (ea alice) = 32" and "length (ea bob) = 32"
    and "decode_account env (ea alice) = Some alice" and "decode_account env (ea bob) = Some bob"
    and "msg = test_unsigned_voucher (ea bob) (ea alice)"
    and "length (sign msg) = 64" and "decode_signature env (sign msg) = Some s"
    and "sig_verify env s msg bob"
  shows "case claim_works_for_given_values env db rt init ea sign alice bob of
      Ok s' \<Rightarrow> deposited s' = [VoucherClaimed 4 alice] \<and>
        wins 2 (draw_of env msg (drawn env 1
          (stock_random rt (stock_hook rt InsecureRandomnessCollectiveFlip 1 init))))
    | Err e \<Rightarrow> e = Module VoucherDidNotWin \<and>
        \<not> wins 2 (draw_of env msg (drawn env 1
          (stock_random rt (stock_hook rt InsecureRandomnessCollectiveFlip 1 init))))
    | Panic \<Rightarrow> False"
proof -
  let ?st = "payments (set_block_number 10 (test_first_block env db rt (new_test_ext init)))"
  let ?bytes = "msg @ sign msg"
  let ?rand = "drawn env 1 (stock_random rt (stock_hook rt InsecureRandomnessCollectiveFlip 1 init))"
  obtain v where v: "parse env ?bytes = Ok v" "oracle_block v = 1" "difficulty v = 2"
    "no_redeem_before_block v = 3" "value_if_paid v = 4" "sender_pk v = bob"
    "recipient_pk v = alice" "signature v = s"
    using test_voucher_parse [OF assms(1-5,7,8)] assms(6) by blast
  have st: "block_number ?st = 10" "deposited ?st = []" "history_get ?st 1 = Some ?rand"
    by (simp_all add: test_state test_first_block_draw test_first_block_deposited)
  have len: "length msg = 128"
    using assms by (simp add: length_test_unsigned)
  have "draw_of env ?bytes ?rand = draw_of env msg ?rand"
    by (simp add: draw_of_def len)
  then have "decide env alice ?bytes v 10 (history_get ?st) =
      (if wins 2 (draw_of env msg ?rand) then Ok (VoucherClaimed 4 alice) else Err VoucherDidNotWin)"
    using assms(9) by (simp add: decide_def v st len)
  moreover have "claim_works_for_given_values env db rt init ea sign alice bob =
      claim env (Some alice) ?bytes ?st"
    by (simp add: claim_works_for_given_values_def Let_def assms(6))
  ultimately show ?thesis
    by (simp add: claim_parsed [OF assms(1) v(1)] st)
qed

theorem test_claim_works_witness:
  "case claim_works_for_given_values demo_substrate demo_db demo_rt (6, 0) word_to_le
      (\<lambda>m. word_to_le (1 :: 512 word)) 2 1 of
     Ok s' \<Rightarrow> deposited s' = [VoucherClaimed 4 2]
   | Err e \<Rightarrow> e = Module VoucherDidNotWin
   | Panic \<Rightarrow> False"
proof -
  have len: "length (word_to_le (a :: u256)) = 32"
    and dec: "decode_account demo_substrate (word_to_le a) = Some a" for a
    using voucher_codecsD(1,4) [OF demo_codecs] by blast+
  have sig: "length (word_to_le (s :: 512 word)) = 64"
    and dec_sig: "decode_signature demo_substrate (word_to_le s) = Some s" for s
    using voucher_codecsD(3,6) [OF demo_codecs] by blast+
  have ver: "sig_verify demo_substrate 1 m 1" for m
    by (simp add: demo_substrate_def)
  note works = test_claim_works [where ea = word_to_le and alice = 2 and bob = 1 and s = 1
      and sign = "\<lambda>m. word_to_le (1 :: 512 word)" and db = demo_db and rt = demo_rt and init = "(6, 0)",
      OF demo_substrate_ok len len dec dec refl sig dec_sig ver]
  show ?thesis
  proof (cases "claim_works_for_given_values demo_substrate demo_db demo_rt (6, 0) word_to_le
      (\<lambda>m. word_to_le (1 :: 512 word)) 2 1")
    case (Ok s')
    show ?thesis using works unfolding Ok outcome.case by (rule conjunct1)
  next
    case (Err e)
    show ?thesis using works unfolding Err outcome.case by (rule conjunct1)
  next
    case Panic
    show ?thesis using works unfolding Panic outcome.case .
  qed
qed

end
