(* ===== verification/Straight_Line.thy ===== *)
theory Straight_Line
  imports Prelude
begin

text \<open>
  Straight-line effectful code of the node: a sequence of calls into the Substrate crates,
  each made plainly, with \<open>?\<close> (return its error) or with \<open>expect\<close> (panic without a value).
  What the crates answer is a parameter; a run yields the outcome and the log of the calls
  made, in order. The interface \<open>guarded_start\<close> states what a start-up sequence with one
  final call promises.
\<close>

datatype ('c, 'e) stmt = Do 'c | Try 'c | Expect 'c | Throw 'e

text \<open>
  \<open>failure\<close> gives the error a call returns, if it fails; \<open>absent\<close> says where an
  \<open>expect\<close>ed value is missing. \<open>Throw\<close> is a \<open>return Err(..)\<close> of the code itself.
\<close>

record ('c, 'e) world =
  failure :: "'c \<Rightarrow> 'e option"
  absent :: "'c \<Rightarrow> bool"

primrec exec :: "('c, 'e) world \<Rightarrow> ('c, 'e) stmt list \<Rightarrow> (unit, 'e) outcome \<times> 'c list" where
  "exec w [] = (Ok (), [])"
| "exec w (st # sts) =
     (case st of
        Do c \<Rightarrow> apsnd ((#) c) (exec w sts)
      | Try c \<Rightarrow> (case failure w c of
          None \<Rightarrow> apsnd ((#) c) (exec w sts)
        | Some e \<Rightarrow> (Err e, [c]))
      | Expect c \<Rightarrow> (if absent w c then (Panic, [c]) else apsnd ((#) c) (exec w sts))
      | Throw e \<Rightarrow> (Err e, []))"

primrec calls :: "('c, 'e) stmt \<Rightarrow> 'c list" where
  "calls (Do c) = [c]"
| "calls (Try c) = [c]"
| "calls (Expect c) = [c]"
| "calls (Throw e) = []"

definition all_calls :: "('c, 'e) stmt list \<Rightarrow> 'c list" where
  "all_calls sts = concat (map calls sts)"

primrec stops :: "('c, 'e) world \<Rightarrow> ('c, 'e) stmt \<Rightarrow> bool" where
  "stops w (Do c) \<longleftrightarrow> False"
| "stops w (Try c) \<longleftrightarrow> failure w c \<noteq> None"
| "stops w (Expect c) \<longleftrightarrow> absent w c"
| "stops w (Throw e) \<longleftrightarrow> True"

definition only_if :: "bool \<Rightarrow> 'a list \<Rightarrow> 'a list" where
  "only_if b xs = (if b then xs else [])"

lemma set_only_if [simp]: "x \<in> set (only_if b xs) \<longleftrightarrow> b \<and> x \<in> set xs"
  by (simp add: only_if_def)

lemma only_if_simps [simp]: "only_if True xs = xs" "only_if False xs = []"
  by (simp_all add: only_if_def)

lemma all_calls_simps [simp]:
  "all_calls [] = []" "all_calls (st # sts) = calls st @ all_calls sts"
  "all_calls (xs @ ys) = all_calls xs @ all_calls ys"
  "all_calls (only_if b xs) = only_if b (all_calls xs)"
  by (simp_all add: all_calls_def only_if_def)

lemma exec_append:
  "exec w (xs @ ys) = (case exec w xs of
     (Ok _, log) \<Rightarrow> apsnd ((@) log) (exec w ys)
   | (Err e, log) \<Rightarrow> (Err e, log)
   | (Panic, log) \<Rightarrow> (Panic, log))"
  by (induction xs)
    (auto split: stmt.splits option.splits outcome.splits prod.splits simp: apsnd_def map_prod_def)

text \<open>A run succeeds iff no statement stops it, and then makes every call.\<close>

lemma exec_Ok_iff: "fst (exec w xs) = Ok u \<longleftrightarrow> (\<forall>st \<in> set xs. \<not> stops w st)"
  by (induction xs) (auto split: stmt.splits option.splits)

lemma exec_Ok_log: "fst (exec w xs) = Ok u \<Longrightarrow> snd (exec w xs) = all_calls xs"
  by (induction xs) (auto split: stmt.splits option.splits if_splits)

text \<open>Otherwise it makes the calls up to the first statement that stops it.\<close>

lemma exec_log_prefix: "\<exists>ys. all_calls xs = snd (exec w xs) @ ys"
  by (induction xs) (auto split: stmt.splits option.splits)

lemma exec_log_subset: "set (snd (exec w xs)) \<subseteq> set (all_calls xs)"
  using exec_log_prefix [of xs w] by (metis set_append sup.cobounded1)

text \<open>A call of a later part is made only after the earlier part has succeeded.\<close>

lemma exec_later_call:
  assumes "c \<in> set (snd (exec w (xs @ ys)))" and "c \<notin> set (all_calls xs)"
  shows "fst (exec w xs) = Ok () \<and> set (all_calls xs) \<subseteq> set (snd (exec w (xs @ ys)))"
proof -
  have c: "c \<notin> set (snd (exec w xs))" using assms(2) exec_log_subset [of w xs] by auto
  then have ok: "fst (exec w xs) = Ok ()"
    using assms(1) by (cases "exec w xs") (auto simp: exec_append split: outcome.splits)
  then show ?thesis
    using exec_Ok_log [OF ok] by (cases "exec w xs") (auto simp: exec_append)
qed

section \<open>Start-up sequences\<close>

text \<open>
  The start-up of a service is a sequence whose last call, made once, opens it to the
  outside.
\<close>

locale guarded_start =
  fixes script :: "'cfg \<Rightarrow> ('c, 'e) stmt list"
    and final :: 'c
  assumes ends_with_final: "\<exists>xs. script cfg = xs @ [Do final] \<and> final \<notin> set (all_calls xs)"
begin

text \<open>It is opened exactly when the whole start-up succeeds, and then as the last call.\<close>

lemma opened_iff_Ok:
  "final \<in> set (snd (exec w (script cfg))) \<longleftrightarrow> fst (exec w (script cfg)) = Ok ()"
proof -
  obtain xs where xs: "script cfg = xs @ [Do final]" "final \<notin> set (all_calls xs)"
    using ends_with_final by blast
  show ?thesis
  proof
    assume "final \<in> set (snd (exec w (script cfg)))"
    then have "fst (exec w xs) = Ok ()"
      using exec_later_call [of final w xs "[Do final]"] xs by simp
    then show "fst (exec w (script cfg)) = Ok ()"
      by (simp add: xs(1) exec_Ok_iff)
  next
    assume "fst (exec w (script cfg)) = Ok ()"
    from exec_Ok_log [OF this] show "final \<in> set (snd (exec w (script cfg)))"
      by (simp add: xs(1))
  qed
qed

lemma opened_last:
  assumes "fst (exec w (script cfg)) = Ok ()"
  shows "last (snd (exec w (script cfg))) = final"
proof -
  obtain xs where xs: "script cfg = xs @ [Do final]" using ends_with_final by blast
  show ?thesis unfolding exec_Ok_log [OF assms] by (simp add: xs)
qed

end

end
