(* ===== verification/Service.thy ===== *)
theory Service
  imports Straight_Line
begin

text \<open>
  The node's service (\<open>blockchain/node/src/service.rs\<close>) and its RPC module
  (\<open>blockchain/node/src/rpc.rs\<close>): \<open>new_partial\<close>, \<open>new_full\<close> and \<open>create_full\<close> as the sequences of
  calls into the Substrate crates that they make for a given configuration, with the
  arguments that depend on the configuration. Objects only passed on (client, backend,
  pools, handles) are left out of the calls.
\<close>

section \<open>Configuration and calls\<close>

record configuration =
  telemetry_endpoints :: "string list option"
  is_authority :: bool
  prometheus_registry :: bool
  offchain_worker_enabled :: bool
  force_authoring :: bool
  disable_grandpa :: bool
  node_name :: string

record task =
  task_name :: string
  task_group :: "string option"
  task_essential :: bool
  task_blocking :: bool

datatype service_call =
    TelemetryWorkerNew nat
  | NewTelemetry "string list"
  | NewNativeOrWasmExecutor
  | NewFullParts (with_telemetry: bool)
  | SpawnTask task
  | LongestChainNew
  | BasicPoolNewFull (pool_is_validator: bool) (pool_registry: bool)
  | GrandpaBlockImport (justification_period: u32) (import_telemetry: bool)
  | AuraSlotDuration
  | AuraImportQueue (queue_registry: bool) (queue_telemetry: bool)
  | NetworkConfigNew
  | ClientBlockHash u32
  | ProtocolStandardName
  | AddGrandpaNotificationProtocol
  | WarpProviderNew
  | BuildNetwork (warp_sync: bool)
  | OffchainWorkersNew (worker_is_validator: bool) (enable_http_requests: bool)
  | SpawnTasks (tasks_telemetry: bool)
  | ProposerFactoryNew (proposer_registry: bool) (proposer_telemetry: bool)
  | StartAura (aura_force_authoring: bool) (aura_telemetry: bool)
  | RunGrandpaVoter (voter_keystore: bool) (voter_period: u32) (voter_gossip_ms: nat)
      (voter_name: string) (voter_observer: bool) (voter_registry: bool) (voter_telemetry: bool)
  | StartNetwork

definition GRANDPA_JUSTIFICATION_PERIOD :: u32 where
  "GRANDPA_JUSTIFICATION_PERIOD = 512"

section \<open>new_partial\<close>

text \<open>The endpoints, unless they are missing or empty.\<close>

definition telemetry_of :: "configuration \<Rightarrow> string list option" where
  "telemetry_of config =
     (case telemetry_endpoints config of
        None \<Rightarrow> None
      | Some endpoints \<Rightarrow> if endpoints = [] then None else Some endpoints)"

definition has_telemetry :: "configuration \<Rightarrow> bool" where
  "has_telemetry config \<longleftrightarrow> telemetry_of config \<noteq> None"

definition telemetry_task :: task where
  "telemetry_task = \<lparr>task_name = ''telemetry'', task_group = None, task_essential = False,
     task_blocking = False\<rparr>"

definition new_partial :: "configuration \<Rightarrow> (service_call, 'e) stmt list" where
  "new_partial config =
     (case telemetry_of config of
        None \<Rightarrow> []
      | Some endpoints \<Rightarrow> [Try (TelemetryWorkerNew 16), Do (NewTelemetry endpoints)]) @
     [Do NewNativeOrWasmExecutor, Try (NewFullParts (has_telemetry config))] @
     only_if (has_telemetry config) [Do (SpawnTask telemetry_task)] @
     [Do LongestChainNew,
      Do (BasicPoolNewFull (is_authority config) (prometheus_registry config)),
      Try (GrandpaBlockImport GRANDPA_JUSTIFICATION_PERIOD (has_telemetry config)),
      Try AuraSlotDuration,
      Try (AuraImportQueue (prometheus_registry config) (has_telemetry config))]"

section \<open>new_full\<close>

definition network_part :: "(service_call, 'e) stmt list" where
  "network_part =
     [Do NetworkConfigNew, Expect (ClientBlockHash 0), Do ProtocolStandardName,
      Do AddGrandpaNotificationProtocol, Do WarpProviderNew, Try (BuildNetwork True)]"

definition offchain_task :: task where
  "offchain_task = \<lparr>task_name = ''offchain-workers-runner'', task_group = Some ''offchain-worker'',
     task_essential = False, task_blocking = False\<rparr>"

definition offchain_part :: "configuration \<Rightarrow> (service_call, 'e) stmt list" where
  "offchain_part config =
     only_if (offchain_worker_enabled config)
       [Do (OffchainWorkersNew (is_authority config) True), Do (SpawnTask offchain_task)]"

definition aura_task :: task where
  "aura_task = \<lparr>task_name = ''aura'', task_group = Some ''block-authoring'',
     task_essential = True, task_blocking = True\<rparr>"

definition authoring_part :: "configuration \<Rightarrow> (service_call, 'e) stmt list" where
  "authoring_part config =
     only_if (is_authority config)
       [Do (ProposerFactoryNew (prometheus_registry config) (has_telemetry config)),
        Try AuraSlotDuration,
        Try (StartAura (force_authoring config) (has_telemetry config)),
        Do (SpawnTask aura_task)]"

definition grandpa_task :: task where
  "grandpa_task = \<lparr>task_name = ''grandpa-voter'', task_group = None,
     task_essential = True, task_blocking = True\<rparr>"

definition grandpa_part :: "configuration \<Rightarrow> (service_call, 'e) stmt list" where
  "grandpa_part config =
     (let enable_grandpa = \<not> disable_grandpa config
      in only_if enable_grandpa
        [Try (RunGrandpaVoter (is_authority config) GRANDPA_JUSTIFICATION_PERIOD 333
           (node_name config) False (prometheus_registry config) (has_telemetry config)),
         Do (SpawnTask grandpa_task)])"

definition new_full :: "configuration \<Rightarrow> (service_call, 'e) stmt list" where
  "new_full config =
     new_partial config @ network_part @ offchain_part config @
     [Try (SpawnTasks (has_telemetry config))] @
     authoring_part config @ grandpa_part config @ [Do StartNetwork]"

lemmas service_parts = new_partial_def network_part_def offchain_part_def authoring_part_def
  grandpa_part_def

section \<open>The RPC module\<close>

text \<open>
  \<open>FullDeps\<close> and the modules that \<open>create_full\<close> merges; the service builds the dependencies anew
  for every connection, from its client and its pool.
\<close>

record ('client, 'pool) full_deps =
  deps_client :: 'client
  deps_pool :: 'pool
  deps_deny_unsafe :: bool

datatype ('client, 'pool) rpc_call =
    MergeSystem 'client 'pool bool
  | MergeTransactionPayment 'client

definition create_full ::
  "('client, 'pool) full_deps \<Rightarrow> (('client, 'pool) rpc_call, 'e) stmt list" where
  "create_full deps =
     [Try (MergeSystem (deps_client deps) (deps_pool deps) (deps_deny_unsafe deps)),
      Try (MergeTransactionPayment (deps_client deps))]"

definition rpc_extensions_builder ::
  "'client \<Rightarrow> 'pool \<Rightarrow> bool \<Rightarrow> (('client, 'pool) rpc_call, 'e) stmt list" where
  "rpc_extensions_builder client pool deny_unsafe =
     create_full \<lparr>deps_client = client, deps_pool = pool, deps_deny_unsafe = deny_unsafe\<rparr>"

section \<open>Correctness\<close>

interpretation full_start: guarded_start new_full StartNetwork
proof
  fix cfg :: configuration
  let ?xs = "new_partial cfg @ network_part @ offchain_part cfg @
     [Try (SpawnTasks (has_telemetry cfg))] @ authoring_part cfg @ grandpa_part cfg"
  have "new_full cfg = ?xs @ [Do StartNetwork]" by (simp add: new_full_def)
  moreover have "StartNetwork \<notin> set (all_calls ?xs)"
    by (auto simp: service_parts Let_def split: option.splits)
  ultimately show "\<exists>xs. new_full cfg = xs @ [Do StartNetwork] \<and> StartNetwork \<notin> set (all_calls xs)"
    by blast
qed

lemma has_telemetry_iff:
  "has_telemetry config \<longleftrightarrow> (\<exists>es. telemetry_endpoints config = Some es \<and> es \<noteq> [])"
  by (auto simp: has_telemetry_def telemetry_of_def split: option.splits if_splits)


section \<open>A concrete node\<close>

definition demo_config :: configuration where
  "demo_config = \<lparr>telemetry_endpoints = Some [], is_authority = True, prometheus_registry = False,
     offchain_worker_enabled = True, force_authoring = False, disable_grandpa = False,
     node_name = ''alice''\<rparr>"

definition quiet_world :: "('c, 'e) world" where
  "quiet_world = \<lparr>failure = (\<lambda>_. None), absent = (\<lambda>_. False)\<rparr>"

lemma quiet_never_stops:
  "(\<forall>e. Throw e \<notin> set sts) \<Longrightarrow> fst (exec quiet_world sts) = Ok ()"
proof -
  assume "\<forall>e. Throw e \<notin> set sts"
  then have "\<not> stops quiet_world st" if "st \<in> set sts" for st
    using that by (cases st) (auto simp: quiet_world_def)
  then show ?thesis by (simp add: exec_Ok_iff)
qed

lemma demo_full_ok: "fst (exec quiet_world (new_full demo_config)) = Ok ()"
  by (rule quiet_never_stops) (auto simp: new_full_def service_parts split: option.splits)

section \<open>Properties\<close>

text \<open>
  C15: A node opens its network exactly when the whole start-up has succeeded, and as its
  last act: on any failure or panic of any call of \<open>new_full\<close> the network is not started.
\<close>

theorem network_started_last:
  "(StartNetwork \<in> set (snd (exec w (new_full config))) \<longleftrightarrow>
      fst (exec w (new_full config)) = Ok ()) \<and>
   (fst (exec w (new_full config)) = Ok () \<longrightarrow>
      last (snd (exec w (new_full config))) = StartNetwork)"
  using full_start.opened_iff_Ok full_start.opened_last by blast

theorem network_started_last_witness:
  "StartNetwork \<in> set (snd (exec (quiet_world :: (service_call, string) world) (new_full demo_config)))"
  using network_started_last [of quiet_world demo_config] demo_full_ok by blast



text \<open>
  C22: Only an authority signs: whatever happens during start-up, block authoring is started
  and a keystore is given to the finality voter only on an authority, and neither happens
  before the common part of the node has been built and the genesis block found.
\<close>

theorem only_authorities_sign:
  fixes w :: "(service_call, 'e) world"
  assumes "StartAura f t \<in> set (snd (exec w (new_full config))) \<or>
    RunGrandpaVoter True p g n ob r tel \<in> set (snd (exec w (new_full config)))"
  shows "is_authority config \<and> \<not> absent w (ClientBlockHash 0) \<and>
    fst (exec w (new_partial config)) = Ok ()"
proof -
  let ?first = "new_partial config @ network_part :: (service_call, 'e) stmt list"
  have split: "new_full config = ?first @ (offchain_part config @
     [Try (SpawnTasks (has_telemetry config))] @
     authoring_part config @ grandpa_part config @ [Do StartNetwork])"
    by (simp add: new_full_def)
  obtain c where c: "c \<in> set (snd (exec w (new_full config)))"
    and kind: "c = StartAura f t \<or> c = RunGrandpaVoter True p g n ob r tel"
    using assms by blast
  have "c \<in> set (all_calls (new_full config :: (service_call, 'e) stmt list))"
    using c exec_log_subset [of w "new_full config"] by auto
  then have auth: "is_authority config"
    using kind by (auto simp: new_full_def service_parts Let_def split: option.splits if_splits)
  have "c \<notin> set (all_calls ?first)"
    using kind by (auto simp: service_parts split: option.splits)
  then have "fst (exec w ?first) = Ok ()"
    using exec_later_call [of c w ?first] c unfolding split by blast
  then show ?thesis
    using auth by (auto simp: exec_Ok_iff network_part_def)
qed

theorem only_authorities_sign_witness:
  "StartAura False False \<in>
     set (snd (exec (quiet_world :: (service_call, string) world) (new_full demo_config))) \<and>
   is_authority demo_config"
proof -
  have "StartAura False False \<in>
     set (snd (exec (quiet_world :: (service_call, string) world) (new_full demo_config)))"
    unfolding exec_Ok_log [OF demo_full_ok]
    by (simp add: new_full_def service_parts demo_config_def has_telemetry_iff)
  with only_authorities_sign [of False False quiet_world demo_config] show ?thesis by blast
qed

text \<open>
  The RPC module is returned only with both method sets merged, the system methods
  first and under the caller's choice to deny unsafe calls; a failing merge is returned as
  the error and nothing is merged after it.
\<close>

lemma rpc_module_complete:
  "exec w (rpc_extensions_builder client pool deny) =
     (let system = MergeSystem client pool deny; payment = MergeTransactionPayment client
      in case failure w system of
           Some e \<Rightarrow> (Err e, [system])
         | None \<Rightarrow>
             (case failure w payment of
                Some e \<Rightarrow> (Err e, [system, payment])
              | None \<Rightarrow> (Ok (), [system, payment])))"
  by (simp add: rpc_extensions_builder_def create_full_def Let_def split: option.split)

end
