(* ===== verification/Command.thy ===== *)
theory Command
  imports Service Chain_Spec
begin

text \<open>
  The command line of the node (\<open>blockchain/node/src/cli.rs\<close> and
  \<open>blockchain/node/src/command.rs\<close>, with \<open>main.rs\<close> beside them): the subcommands, the node's
  description of itself, \<open>load_spec\<close>, and \<open>run\<close> as the sequence of calls that each subcommand makes. The features the node is compiled with are an argument,
  and so are the configuration the runner builds and the notice of the \<open>try-runtime-cli\<close>
  crate.
\<close>

section \<open>Subcommands and calls\<close>

datatype benchmark_cmd = Pallet | Block | Storage | Overhead | Extrinsic | Machine

datatype subcommand =
    Key | BuildSpec | CheckBlock | ExportBlocks | ExportState | ImportBlocks | PurgeChain
  | Revert | Benchmark benchmark_cmd | TryRuntime | ChainInfo

record cli =
  subcommand :: "subcommand option"

record features =
  runtime_benchmarks :: bool
  try_runtime :: bool

datatype 'x cli_error = Input string | Crate 'x

text \<open>
  \<open>CmdRun c\<close> is the \<open>run\<close> of the command's own implementation in the Substrate crates,
  \<open>Service s\<close> a call of \<open>service.rs\<close>.
\<close>

datatype cli_call =
    CreateRunner "subcommand option"
  | CmdRun subcommand
  | Service service_call
  | ExposeDb
  | ExposeStorage
  | RemarkBuilderNew
  | TransferKeepAliveBuilderNew (keep_alive_dest: string) (keep_alive_value: u128)
  | InherentBenchmarkData

definition service_stmts :: "(service_call, 'e) stmt list \<Rightarrow> (cli_call, 'e) stmt list" where
  "service_stmts = map (map_stmt Service id)"

section \<open>The node's self-description\<close>

text \<open>
  The constants of \<open>SubstrateCli\<close>; version, description and author are the variables of the build,
  read by \<open>env\<close>.
\<close>

record cli_description =
  cli_name :: string
  cli_version :: string
  cli_about :: string
  cli_author :: string
  support_url :: string
  copyright_start_year :: "32 word"

definition substrate_cli :: "(string \<Rightarrow> string) \<Rightarrow> cli_description" where
  "substrate_cli env =
     \<lparr>cli_name = ''Substrate Node'', cli_version = env ''SUBSTRATE_CLI_IMPL_VERSION'',
      cli_about = env ''CARGO_PKG_DESCRIPTION'', cli_author = env ''CARGO_PKG_AUTHORS'',
      support_url = ''support.anonymous.an'', copyright_start_year = 2017\<rparr>"

section \<open>load_spec\<close>

definition load_spec ::
  "('aura, 'gran, 'pub, 'acc) key_api \<Rightarrow> byte list option \<Rightarrow>
   (string \<Rightarrow> (('aura, 'gran, 'acc) chain_spec, string) outcome) \<Rightarrow> string \<Rightarrow>
   (('aura, 'gran, 'acc) chain_spec, string) outcome" where
  "load_spec api WASM_BINARY from_json_file spec =
     (if spec = ''dev'' then development_config api WASM_BINARY
      else if spec = '''' \<or> spec = ''local'' then local_testnet_config api WASM_BINARY
      else from_json_file spec)"

section \<open>run\<close>

definition partial_then ::
  "configuration \<Rightarrow> (cli_call, 'e) stmt list \<Rightarrow> (cli_call, 'e) stmt list" where
  "partial_then config rest = service_stmts (new_partial config) @ rest"

primrec run_benchmark ::
  "features \<Rightarrow> configuration \<Rightarrow> benchmark_cmd \<Rightarrow> (cli_call, 'x cli_error) stmt list" where
  "run_benchmark features config Pallet =
     only_if (\<not> runtime_benchmarks features)
       [Throw (Input (''Runtime benchmarking wasn't enabled when building the node. '' @
          ''You can enable it with `--features runtime-benchmarks`.''))] @
     [Try (CmdRun (Benchmark Pallet))]"
| "run_benchmark features config Block =
     partial_then config [Try (CmdRun (Benchmark Block))]"
| "run_benchmark features config Storage =
     (if runtime_benchmarks features
      then partial_then config
        [Do ExposeDb, Do ExposeStorage, Try (CmdRun (Benchmark Storage))]
      else [Throw (Input
        ''Storage benchmarking can be enabled with `--features runtime-benchmarks`.'')])"
| "run_benchmark features config Overhead =
     partial_then config
       [Do RemarkBuilderNew, Try InherentBenchmarkData, Try (CmdRun (Benchmark Overhead))]"
| "run_benchmark features config Extrinsic =
     partial_then config
       [Do RemarkBuilderNew, Do (TransferKeepAliveBuilderNew ''Alice'' EXISTENTIAL_DEPOSIT),
        Try InherentBenchmarkData, Try (CmdRun (Benchmark Extrinsic))]"
| "run_benchmark features config Machine = [Try (CmdRun (Benchmark Machine))]"

primrec run_subcommand ::
  "features \<Rightarrow> string \<Rightarrow> configuration \<Rightarrow> subcommand \<Rightarrow> (cli_call, 'x cli_error) stmt list" where
  "run_subcommand features DEPRECATION_NOTICE config Key = [Try (CmdRun Key)]"
| "run_subcommand features DEPRECATION_NOTICE config BuildSpec =
     [Try (CreateRunner (Some BuildSpec)), Try (CmdRun BuildSpec)]"
| "run_subcommand features DEPRECATION_NOTICE config CheckBlock =
     Try (CreateRunner (Some CheckBlock)) # partial_then config [Try (CmdRun CheckBlock)]"
| "run_subcommand features DEPRECATION_NOTICE config ExportBlocks =
     Try (CreateRunner (Some ExportBlocks)) # partial_then config [Try (CmdRun ExportBlocks)]"
| "run_subcommand features DEPRECATION_NOTICE config ExportState =
     Try (CreateRunner (Some ExportState)) # partial_then config [Try (CmdRun ExportState)]"
| "run_subcommand features DEPRECATION_NOTICE config ImportBlocks =
     Try (CreateRunner (Some ImportBlocks)) # partial_then config [Try (CmdRun ImportBlocks)]"
| "run_subcommand features DEPRECATION_NOTICE config PurgeChain =
     [Try (CreateRunner (Some PurgeChain)), Try (CmdRun PurgeChain)]"
| "run_subcommand features DEPRECATION_NOTICE config Revert =
     Try (CreateRunner (Some Revert)) # partial_then config [Try (CmdRun Revert)]"
| "run_subcommand features DEPRECATION_NOTICE config (Benchmark cmd) =
     Try (CreateRunner (Some (Benchmark cmd))) # run_benchmark features config cmd"
| "run_subcommand features DEPRECATION_NOTICE config TryRuntime =
     (if try_runtime features then [Throw (Input DEPRECATION_NOTICE)]
      else [Throw (Input (''TryRuntime wasn't enabled when building the node. '' @
        ''You can enable it with `--features try-runtime`.''))])"
| "run_subcommand features DEPRECATION_NOTICE config ChainInfo =
     [Try (CreateRunner (Some ChainInfo)), Try (CmdRun ChainInfo)]"

definition run ::
  "features \<Rightarrow> string \<Rightarrow> configuration \<Rightarrow> cli \<Rightarrow> (cli_call, 'x cli_error) stmt list" where
  "run features DEPRECATION_NOTICE config cli =
     (case subcommand cli of
        Some cmd \<Rightarrow> run_subcommand features DEPRECATION_NOTICE config cmd
      | None \<Rightarrow> Try (CreateRunner None) # service_stmts (new_full config))"

text \<open>\<open>main\<close>: the process ends with the result of \<open>run\<close>.\<close>

definition main ::
  "features \<Rightarrow> string \<Rightarrow> configuration \<Rightarrow> cli \<Rightarrow> (cli_call, 'x cli_error) stmt list" where
  "main features DEPRECATION_NOTICE config cli = run features DEPRECATION_NOTICE config cli"

section \<open>Service calls within a run\<close>

text \<open>The world as the service sees it.\<close>

definition service_world :: "(cli_call, 'e) world \<Rightarrow> (service_call, 'e) world" where
  "service_world w = \<lparr>failure = failure w \<circ> Service, absent = absent w \<circ> Service\<rparr>"

lemma calls_map_stmt [simp]: "calls (map_stmt f g st) = map f (calls st)"
  by (cases st) simp_all

lemma all_calls_service_stmts [simp]:
  "all_calls (service_stmts sts) = map Service (all_calls sts)"
  by (induction sts) (simp_all add: service_stmts_def)

lemma exec_service_stmts:
  "exec w (service_stmts sts) = apsnd (map Service) (exec (service_world w) sts)"
  by (induction sts)
    (auto simp: service_stmts_def service_world_def apsnd_def map_prod_def
      split: stmt.splits option.splits prod.splits)

lemma service_inj [simp]: "(\<exists>x. Service s = Service x \<and> P x) \<longleftrightarrow> P s"
  by auto

text \<open>The commands that work on the node's client, and so on its database and state.\<close>

definition needs_client :: "subcommand \<Rightarrow> bool" where
  "needs_client cmd \<longleftrightarrow>
     cmd \<in> {CheckBlock, ExportBlocks, ExportState, ImportBlocks, Revert} \<or>
     cmd \<in> Benchmark ` {Block, Storage, Overhead, Extrinsic}"

text \<open>
  A subcommand's script is a preparation, then the command's own work: the preparation
  creates the runner (except for \<open>key\<close>) and, where the command needs one, the client.
\<close>

definition refused :: "features \<Rightarrow> subcommand \<Rightarrow> bool" where
  "refused features cmd \<longleftrightarrow> cmd = TryRuntime \<or>
     \<not> runtime_benchmarks features \<and> cmd \<in> {Benchmark Pallet, Benchmark Storage}"

definition preparation :: "configuration \<Rightarrow> subcommand \<Rightarrow> (cli_call, 'x cli_error) stmt list" where
  "preparation config cmd =
     only_if (cmd \<noteq> Key) [Try (CreateRunner (Some cmd))] @
     only_if (needs_client cmd) (service_stmts (new_partial config)) @
     only_if (cmd = Benchmark Storage) [Do ExposeDb, Do ExposeStorage] @
     only_if (cmd \<in> {Benchmark Overhead, Benchmark Extrinsic}) [Do RemarkBuilderNew] @
     only_if (cmd = Benchmark Extrinsic)
       [Do (TransferKeepAliveBuilderNew ''Alice'' EXISTENTIAL_DEPOSIT)] @
     only_if (cmd \<in> {Benchmark Overhead, Benchmark Extrinsic}) [Try InherentBenchmarkData]"

lemma run_subcommand_not_refused:
  "\<not> refused features cmd \<Longrightarrow>
   run_subcommand features notice config cmd = preparation config cmd @ [Try (CmdRun cmd)]"
proof (cases cmd)
  case (Benchmark b)
  then show "\<not> refused features cmd \<Longrightarrow> ?thesis"
    by (cases b)
      (simp_all add: refused_def preparation_def needs_client_def partial_then_def image_def)
qed (simp_all add: refused_def preparation_def needs_client_def partial_then_def image_def)

text \<open>A refused command makes at most the call that creates its runner, and fails.\<close>

lemma run_subcommand_refused:
  assumes "refused features cmd"
  shows "\<exists>msg. exec w (run_subcommand features notice config cmd) =
    (if cmd = TryRuntime then (Err (Input msg), [])
     else case failure w (CreateRunner (Some cmd)) of
       Some e \<Rightarrow> (Err e, [CreateRunner (Some cmd)])
     | None \<Rightarrow> (Err (Input msg), [CreateRunner (Some cmd)]))"
  using assms by (auto simp: refused_def split: option.splits)

lemma preparation_calls:
  "CmdRun c \<notin> set (all_calls (preparation config cmd))"
  "Service s \<in> set (all_calls (preparation config cmd :: (cli_call, 'x cli_error) stmt list)) \<longleftrightarrow>
     needs_client cmd \<and> s \<in> set (all_calls (new_partial config :: (service_call, 'x cli_error) stmt list))"
  by (auto simp: preparation_def)

text \<open>
  The calls a command has to have made before it works, and those of them whose failure the code
  checks for (the calls of the service among them by \<open>new_partial\<close> itself).
\<close>

definition prepared_calls :: "configuration \<Rightarrow> subcommand \<Rightarrow> cli_call list" where
  "prepared_calls config cmd =
     (if cmd = Key then [] else [CreateRunner (Some cmd)]) @
     (if needs_client cmd
      then map Service (all_calls (new_partial config :: (service_call, unit) stmt list)) else []) @
     (case cmd of
        Benchmark Storage \<Rightarrow> [ExposeDb, ExposeStorage]
      | Benchmark Overhead \<Rightarrow> [RemarkBuilderNew, InherentBenchmarkData]
      | Benchmark Extrinsic \<Rightarrow>
          [RemarkBuilderNew, TransferKeepAliveBuilderNew ''Alice'' EXISTENTIAL_DEPOSIT,
           InherentBenchmarkData]
      | _ \<Rightarrow> [])"

definition prepared_ok :: "(cli_call, 'e) world \<Rightarrow> configuration \<Rightarrow> subcommand \<Rightarrow> bool" where
  "prepared_ok w config cmd \<longleftrightarrow>
     (cmd \<noteq> Key \<longrightarrow> failure w (CreateRunner (Some cmd)) = None) \<and>
     (needs_client cmd \<longrightarrow> fst (exec (service_world w) (new_partial config)) = Ok ()) \<and>
     (cmd \<in> {Benchmark Overhead, Benchmark Extrinsic} \<longrightarrow> failure w InherentBenchmarkData = None)"

lemma new_partial_calls:
  "all_calls (new_partial config :: (service_call, 'e) stmt list) =
   all_calls (new_partial config :: (service_call, 'f) stmt list)"
  by (simp add: new_partial_def split: option.split)

lemma preparation_all_calls:
  "all_calls (preparation config cmd :: (cli_call, 'x cli_error) stmt list) = prepared_calls config cmd"
  using new_partial_calls [where 'e = "'x cli_error" and 'f = unit, of config]
  by (simp add: preparation_def prepared_calls_def only_if_def
      split: subcommand.split benchmark_cmd.split)

lemma preparation_ok_iff:
  "fst (exec w (preparation config cmd)) = Ok () \<longleftrightarrow> prepared_ok w config cmd"
proof -
  have "fst (exec (service_world w) (new_partial config)) = Ok () \<longleftrightarrow>
      (\<forall>st \<in> set (service_stmts (new_partial config)). \<not> stops w st)"
    by (simp only: exec_Ok_iff [of w _ "()", symmetric] exec_service_stmts) simp
  then show ?thesis
    by (auto simp: exec_Ok_iff [of w] preparation_def prepared_ok_def)
qed

section \<open>Properties\<close>

text \<open>
  C24: A command does its work exactly when it is the one on the command line, is not refused, its
  runner could be created, \<open>new_partial\<close> has built the client for the commands that read or write
  the chain (\<open>check-block\<close>, \<open>export-blocks\<close>, \<open>export-state\<close>, \<open>import-blocks\<close>, \<open>revert\<close> and four of the
  benchmarks), and the inherent data could be made for the two benchmarks that execute blocks.
  When it works, all its preparation has been done before it, in order, and nothing else.
\<close>

theorem command_runs_prepared:
  fixes w :: "(cli_call, 'x cli_error) world"
  shows "(CmdRun cmd \<in> set (snd (exec w (run features notice config cli))) \<longleftrightarrow>
      subcommand cli = Some cmd \<and> \<not> refused features cmd \<and> prepared_ok w config cmd) \<and>
    (CmdRun cmd \<in> set (snd (exec w (run features notice config cli))) \<longrightarrow>
      snd (exec w (run features notice config cli)) = prepared_calls config cmd @ [CmdRun cmd])"
proof (cases "subcommand cli")
  case None
  have "CmdRun cmd \<notin> set (all_calls (run features notice config cli :: (cli_call, 'x cli_error) stmt list))"
    by (auto simp: run_def None)
  then show ?thesis
    using None exec_log_subset [of w "run features notice config cli"] by auto
next
  case (Some c)
  then have run: "run features notice config cli = run_subcommand features notice config c"
    by (simp add: run_def)
  show ?thesis
  proof (cases "refused features c")
    case True
    then have "CmdRun cmd \<notin> set (snd (exec w (run features notice config cli)))"
      using run_subcommand_refused [of features c w notice config]
      by (auto simp: run split: if_splits option.splits)
    then show ?thesis using Some True by auto
  next
    case False
    let ?prep = "preparation config c :: (cli_call, 'x cli_error) stmt list"
    have split: "run features notice config cli = ?prep @ [Try (CmdRun c)]"
      by (simp add: run run_subcommand_not_refused [OF False])
    have ok: "snd (exec w (run features notice config cli)) = prepared_calls config c @ [CmdRun c]"
      if "prepared_ok w config c"
    proof -
      have "fst (exec w ?prep) = Ok ()" using that by (simp add: preparation_ok_iff)
      moreover from this have "snd (exec w ?prep) = prepared_calls config c"
        by (simp add: exec_Ok_log preparation_all_calls)
      ultimately show ?thesis
        by (cases "exec w ?prep") (auto simp: split exec_append split: option.split)
    qed
    have none: "prepared_ok w config c" and only: "cmd = c"
      if "CmdRun cmd \<in> set (snd (exec w (run features notice config cli)))"
    proof -
      show "prepared_ok w config c"
        using exec_later_call [OF that [unfolded split] preparation_calls(1)]
        by (simp add: preparation_ok_iff)
      show "cmd = c"
        using that exec_log_subset [of w "run features notice config cli"]
          preparation_calls(1) [of cmd config c] by (auto simp: split)
    qed
    have works: "CmdRun cmd \<in> set (snd (exec w (run features notice config cli))) \<longleftrightarrow>
        prepared_ok w config c \<and> cmd = c"
    proof
      assume "prepared_ok w config c \<and> cmd = c"
      then show "CmdRun cmd \<in> set (snd (exec w (run features notice config cli)))"
        by (simp only: ok set_append) simp
    qed (use none only in blast)
    show ?thesis
      unfolding works by (cases "cmd = c") (simp_all add: Some False ok)
  qed
qed

lemma demo_revert_log:
  "CmdRun Revert \<in> set (snd (exec (quiet_world :: (cli_call, string cli_error) world)
     (run features notice demo_config \<lparr>subcommand = Some Revert\<rparr>)))"
proof -
  let ?script = "run features notice demo_config \<lparr>subcommand = Some Revert\<rparr> ::
    (cli_call, string cli_error) stmt list"
  have "fst (exec quiet_world ?script) = Ok ()"
    by (rule quiet_never_stops)
      (auto simp: run_def partial_then_def service_stmts_def service_parts demo_config_def
        has_telemetry_def telemetry_of_def)
  from exec_Ok_log [OF this] show ?thesis by (simp add: run_def partial_then_def)
qed

theorem command_runs_prepared_witness:
  "subcommand \<lparr>subcommand = Some Revert\<rparr> = Some Revert \<and>
   snd (exec (quiet_world :: (cli_call, string cli_error) world)
     (run \<lparr>runtime_benchmarks = False, try_runtime = False\<rparr> [] demo_config
       \<lparr>subcommand = Some Revert\<rparr>)) = prepared_calls demo_config Revert @ [CmdRun Revert]"
  using command_runs_prepared [THEN conjunct2, rule_format, OF demo_revert_log] by simp

text \<open>
  C21: Without a subcommand, and only then, the node opens its network, and it does so exactly
  when its runner was created and the whole of \<open>new_full\<close> succeeded; a subcommand that needs
  no client makes no call of the service at all, and the others only calls of \<open>new_partial\<close>.
\<close>

theorem service_started_by:
  fixes w :: "(cli_call, 'x cli_error) world"
  shows "(Service StartNetwork \<in> set (snd (exec w (run features notice config cli))) \<longleftrightarrow>
      subcommand cli = None \<and> failure w (CreateRunner None) = None \<and>
      fst (exec (service_world w) (new_full config)) = Ok ()) \<and>
    (\<forall>cmd. subcommand cli = Some cmd \<longrightarrow>
      {s. Service s \<in> set (snd (exec w (run features notice config cli)))} \<subseteq>
        (if needs_client cmd \<and> \<not> refused features cmd
         then set (all_calls (new_partial config :: (service_call, 'x cli_error) stmt list))
         else {}))"
proof (cases "subcommand cli")
  case None
  then show ?thesis
    using full_start.opened_iff_Ok [of "service_world w" config]
    by (auto simp: run_def exec_service_stmts split: option.split)
next
  case (Some c)
  let ?partial = "new_partial config :: (service_call, 'x cli_error) stmt list"
  have sub: "needs_client c \<and> \<not> refused features c \<and> s \<in> set (all_calls ?partial)"
    if "Service s \<in> set (snd (exec w (run features notice config cli)))" for s
  proof -
    have run: "run features notice config cli = run_subcommand features notice config c"
      by (simp add: run_def Some)
    have nr: "\<not> refused features c"
      using that run_subcommand_refused [of features c w notice config]
      by (auto simp: run split: if_splits option.splits)
    have "Service s \<in> set (all_calls (preparation config c @ [Try (CmdRun c)] ::
        (cli_call, 'x cli_error) stmt list))"
      using that exec_log_subset [of w "preparation config c @ [Try (CmdRun c)]"]
      by (auto simp: run run_subcommand_not_refused [OF nr])
    then show ?thesis using nr preparation_calls(2) by auto
  qed
  moreover have "StartNetwork \<notin> set (all_calls ?partial)"
    by (auto simp: service_parts split: option.splits)
  ultimately show ?thesis using Some by fastforce
qed

theorem service_started_by_witness:
  "Service StartNetwork \<notin> set (snd (exec (quiet_world :: (cli_call, string cli_error) world)
     (run \<lparr>runtime_benchmarks = False, try_runtime = False\<rparr> [] demo_config
       \<lparr>subcommand = Some PurgeChain\<rparr>))) \<and>
   {s. Service s \<in> set (snd (exec (quiet_world :: (cli_call, string cli_error) world)
     (run \<lparr>runtime_benchmarks = False, try_runtime = False\<rparr> [] demo_config
       \<lparr>subcommand = Some PurgeChain\<rparr>)))} = {}"
  using service_started_by [of quiet_world "\<lparr>runtime_benchmarks = False, try_runtime = False\<rparr>" "[]"
      demo_config "\<lparr>subcommand = Some PurgeChain\<rparr>"]
  by (simp add: needs_client_def image_def)

text \<open>
  C40: The refusals: \<open>try-runtime\<close> always fails and makes no call, whichever way the node was
  built; without the \<open>runtime-benchmarks\<close> feature the pallet and storage benchmarks fail
  once their runner has been created, before any client or database is opened.
\<close>

theorem refused_commands:
  fixes w :: "(cli_call, 'x cli_error) world"
  assumes "refused features cmd" and "subcommand cli = Some cmd"
  shows "\<exists>e. fst (exec w (run features notice config cli)) = Err e \<and>
    snd (exec w (run features notice config cli)) =
      (if cmd = TryRuntime then [] else [CreateRunner (Some cmd)]) \<and>
    (cmd = TryRuntime \<or> failure w (CreateRunner (Some cmd)) = None \<longrightarrow> (\<exists>msg. e = Input msg))"
proof -
  have run: "exec w (run features notice config cli) =
      exec w (run_subcommand features notice config cmd)"
    by (simp add: run_def assms(2))
  show ?thesis
    unfolding run using run_subcommand_refused [OF assms(1), of w notice config]
    by (cases "failure w (CreateRunner (Some cmd))") (auto simp del: run_subcommand.simps)
qed

theorem refused_commands_witness:
  "snd (exec (quiet_world :: (cli_call, string cli_error) world)
     (run \<lparr>runtime_benchmarks = False, try_runtime = True\<rparr> [] demo_config
       \<lparr>subcommand = Some (Benchmark Storage)\<rparr>)) = [CreateRunner (Some (Benchmark Storage))]"
  using refused_commands [of "\<lparr>runtime_benchmarks = False, try_runtime = True\<rparr>" "Benchmark Storage"
      "\<lparr>subcommand = Some (Benchmark Storage)\<rparr>" quiet_world "[]" demo_config]
  by (auto simp: refused_def)

text \<open>
  \<open>load_spec\<close> resolves \<open>dev\<close> to the development chain and both the empty identifier and
  \<open>local\<close> to the local testnet, never reading a file for them: they fail, with the same
  message, exactly when the node was built without the WASM binary. Every other identifier is
  the path of a specification file, whose contents or error are returned as they are.
\<close>

lemma load_spec_resolution:
  "load_spec api wasm from_file '''' = load_spec api wasm from_file ''local'' \<and>
   (\<forall>spec \<in> {''dev'', '''', ''local''}.
      (wasm = None \<longrightarrow>
         load_spec api wasm from_file spec = Err ''Development wasm not available'') \<and>
      (wasm \<noteq> None \<longrightarrow> (\<exists>s. load_spec api wasm from_file spec = Ok s \<and>
         spec_type s = (if spec = ''dev'' then Development else Local)))) \<and>
   (\<forall>spec. spec \<notin> {''dev'', '''', ''local''} \<longrightarrow>
      load_spec api wasm from_file spec = from_file spec)"
  by (cases wasm) (auto simp: load_spec_def development_config_def local_testnet_config_def)

lemma load_spec_resolution_witness:
  "load_spec demo_keys None (\<lambda>path. Err path) ''dev'' = Err ''Development wasm not available'' \<and>
   load_spec demo_keys None (\<lambda>path. Err path) ''spec.json'' = Err ''spec.json''"
  using load_spec_resolution [of demo_keys None "\<lambda>path. Err path"] by auto

end
