(* ===== verification/Offchain_Tx.thy ===== *)
theory Offchain_Tx
  imports Runtime_Config
begin

text \<open>
  Signed transactions: \<open>create_transaction\<close> of the runtime (\<open>blockchain/runtime/src/lib.rs\<close>) and
  the benchmark extrinsics of the node (\<open>blockchain/node/src/benchmarking.rs\<close>). The era
  encoding, the additional data each signed extension contributes, the SCALE encoding of the
  payload and the keys are parameters; the era period, the extensions and what is signed
  are the code's.
\<close>

section \<open>Payloads\<close>

text \<open>The components of the tuple \<open>SignedExtra\<close>, and the tuple as the list of them.\<close>

datatype 'era extension =
    CheckNonZeroSender | CheckSpecVersion | CheckTxVersion | CheckGenesis
  | CheckEra 'era | CheckNonce u32 | CheckWeight | ChargeTransactionPayment u128

type_synonym 'era signed_extra = "'era extension list"

primrec extension_name :: "'era extension \<Rightarrow> string" where
  "extension_name CheckNonZeroSender = ''CheckNonZeroSender''"
| "extension_name CheckSpecVersion = ''CheckSpecVersion''"
| "extension_name CheckTxVersion = ''CheckTxVersion''"
| "extension_name CheckGenesis = ''CheckGenesis''"
| "extension_name (CheckEra era) = ''CheckEra''"
| "extension_name (CheckNonce nonce) = ''CheckNonce''"
| "extension_name CheckWeight = ''CheckWeight''"
| "extension_name (ChargeTransactionPayment tip) = ''ChargeTransactionPayment''"

definition SignedExtra :: "string list" where
  "SignedExtra = [''CheckNonZeroSender'', ''CheckSpecVersion'', ''CheckTxVersion'', ''CheckGenesis'',
     ''CheckEra'', ''CheckNonce'', ''CheckWeight'', ''ChargeTransactionPayment'']"

definition is_signed_extra :: "'era signed_extra \<Rightarrow> bool" where
  "is_signed_extra extra \<longleftrightarrow> map extension_name extra = SignedExtra"

text \<open>
  The additional signed data of the extensions: spec version, transaction version, genesis
  hash and the hash of the era's first block; the others contribute nothing.
\<close>

record 'hash additional =
  signed_spec_version :: u32
  signed_tx_version :: u32
  signed_genesis :: 'hash
  signed_era_hash :: 'hash

type_synonym ('call, 'era, 'hash) signed_payload = "'call \<times> 'era signed_extra \<times> 'hash additional"

datatype 'acc multi_address = Id 'acc

datatype 'sig multi_signature = Sr25519 'sig

section \<open>create_transaction\<close>

text \<open>
  \<open>mortal\<close> is \<open>Era::mortal\<close>, \<open>additional_signed\<close> what \<open>SignedPayload::new\<close> asks of the extensions
  (\<open>None\<close> for its error), \<open>encode\<close> the bytes that \<open>using_encoded\<close> passes on and \<open>sign\<close> is
  \<open>C::sign\<close>.
\<close>

record ('call, 'era, 'hash, 'pub, 'sig) tx_api =
  mortal :: "u64 \<Rightarrow> u64 \<Rightarrow> 'era"
  additional_signed :: "'era signed_extra \<Rightarrow> 'hash additional option"
  encode :: "('call, 'era, 'hash) signed_payload \<Rightarrow> byte list"
  sign :: "byte list \<Rightarrow> 'pub \<Rightarrow> 'sig option"

definition extra_of :: "'era \<Rightarrow> u32 \<Rightarrow> 'era signed_extra" where
  "extra_of era nonce =
     [CheckNonZeroSender, CheckSpecVersion, CheckTxVersion, CheckGenesis,
      CheckEra era, CheckNonce nonce, CheckWeight, ChargeTransactionPayment 0]"

definition create_transaction ::
  "('call, 'era, 'hash, 'pub, 'sig) tx_api \<Rightarrow> u32 \<Rightarrow> 'call \<Rightarrow> 'pub \<Rightarrow> 'acc \<Rightarrow> u32 \<Rightarrow>
   ('call \<times> 'acc multi_address \<times> 'sig \<times> 'era signed_extra) option" where
  "create_transaction api block_number call public account nonce =
     (let period = era_period BlockHashCount;
          current_block = saturating_sub (ucast block_number) 1;
          era = mortal api period current_block;
          extra = extra_of era nonce
      in Option.bind (additional_signed api extra) (\<lambda>additional.
           let raw_payload = (call, extra, additional)
           in Option.bind (sign api (encode api raw_payload) public) (\<lambda>signature.
                let address = account;
                    (call, extra, _) = raw_payload
                in Some (call, Id address, signature, extra))))"

section \<open>Benchmark extrinsics\<close>

text \<open>\<open>genesis_block\<close> is the client's answer for block 0, \<open>None\<close> if it has none.\<close>

record 'hash full_client =
  genesis_block :: "'hash option"
  best_hash :: 'hash
  best_number :: u32

record ('pub, 'acc, 'sig) pair =
  pair_public :: 'pub
  pair_account :: 'acc
  pair_sign :: "byte list \<Rightarrow> 'sig"

record ('call, 'acc, 'sig, 'era) unchecked_extrinsic =
  ext_function :: 'call
  ext_address :: "'acc multi_address"
  ext_signature :: "'sig multi_signature"
  ext_extra :: "'era signed_extra"

definition create_benchmark_extrinsic ::
  "('call, 'era, 'hash, 'pub, 'sig) tx_api \<Rightarrow> 'hash full_client \<Rightarrow> ('pub, 'acc, 'sig) pair \<Rightarrow>
   'call \<Rightarrow> u32 \<Rightarrow> (('call, 'acc, 'sig, 'era) unchecked_extrinsic, string) outcome" where
  "create_benchmark_extrinsic api client sender call nonce =
     rbind (unwrap (genesis_block client)) (\<lambda>genesis_hash.
       let best_hash = best_hash client;
           best_block = best_number client;
           period = era_period BlockHashCount;
           extra = extra_of (mortal api period (ucast best_block)) nonce;
           raw_payload = (call, extra,
             \<lparr>signed_spec_version = spec_version VERSION,
              signed_tx_version = transaction_version VERSION,
              signed_genesis = genesis_hash,
              signed_era_hash = best_hash\<rparr>);
           signature = pair_sign sender (encode api raw_payload)
       in Ok \<lparr>ext_function = call, ext_address = Id (pair_account sender),
              ext_signature = Sr25519 signature, ext_extra = extra\<rparr>)"

datatype 'acc runtime_call = Remark "byte list" | TransferKeepAlive 'acc u128

record 'hash remark_builder =
  remark_client :: "'hash full_client"

record ('hash, 'acc) transfer_builder =
  transfer_client :: "'hash full_client"
  dest :: 'acc
  transfer_value :: u128

text \<open>\<open>keyring_bob\<close> is \<open>Sr25519Keyring::Bob.pair()\<close>.\<close>

text \<open>The pallet and the extrinsic that each builder names.\<close>

definition remark_target :: "string \<times> string" where
  "remark_target = (''system'', ''remark'')"

definition transfer_target :: "string \<times> string" where
  "transfer_target = (''balances'', ''transfer_keep_alive'')"

definition remark_build ::
  "('acc runtime_call, 'era, 'hash, 'pub, 'sig) tx_api \<Rightarrow> ('pub, 'acc, 'sig) pair \<Rightarrow>
   'hash remark_builder \<Rightarrow> u32 \<Rightarrow>
   (('acc runtime_call, 'acc, 'sig, 'era) unchecked_extrinsic, string) outcome" where
  "remark_build api keyring_bob self nonce =
     create_benchmark_extrinsic api (remark_client self) keyring_bob (Remark []) nonce"

definition transfer_build ::
  "('acc runtime_call, 'era, 'hash, 'pub, 'sig) tx_api \<Rightarrow> ('pub, 'acc, 'sig) pair \<Rightarrow>
   ('hash, 'acc) transfer_builder \<Rightarrow> u32 \<Rightarrow>
   (('acc runtime_call, 'acc, 'sig, 'era) unchecked_extrinsic, string) outcome" where
  "transfer_build api keyring_bob self nonce =
     create_benchmark_extrinsic api (transfer_client self) keyring_bob
       (TransferKeepAlive (dest self) (transfer_value self)) nonce"

text \<open>\<open>provide\<close> is the timestamp provider's \<open>provide_inherent_data\<close>, at the given time.\<close>

definition inherent_benchmark_data ::
  "(u64 \<Rightarrow> 'data \<Rightarrow> ('data, string) outcome) \<Rightarrow> 'data \<Rightarrow> ('data, string) outcome" where
  "inherent_benchmark_data provide new_data =
     map_err (\<lambda>e. ''creating inherent data: '' @ e) (provide 0 new_data)"

section \<open>Correctness\<close>

text \<open>The inherent data is the timestamp provider's at time 0; its error gets a prefix.\<close>

lemma inherent_benchmark_data_iffs:
  "inherent_benchmark_data provide d = Ok d' \<longleftrightarrow> provide 0 d = Ok d'"
  "inherent_benchmark_data provide d = Panic \<longleftrightarrow> provide 0 d = Panic"
  by (simp_all add: inherent_benchmark_data_def outcome_simps)

lemma era_period_2048 [simp]: "era_period BlockHashCount = 2048"
proof -
  have "pow2_from 1 2400 = 4096"
    by (simp add: pow2_from.simps)
  then show ?thesis
    by (simp add: era_period_def checked_next_power_of_two_def BlockHashCount_def Let_def)
qed

lemma is_signed_extra_extra_of [simp]: "is_signed_extra (extra_of era nonce)"
  by (simp add: extra_of_def is_signed_extra_def SignedExtra_def)

lemma extra_of_members [simp]:
  "CheckNonce nonce' \<in> set (extra_of era nonce) \<longleftrightarrow> nonce' = nonce"
  "CheckEra era' \<in> set (extra_of era nonce) \<longleftrightarrow> era' = era"
  "ChargeTransactionPayment tip \<in> set (extra_of era nonce) \<longleftrightarrow> tip = 0"
  by (auto simp: extra_of_def)

lemma extension_name_eq:
  "extension_name x = ''CheckNonZeroSender'' \<longleftrightarrow> x = CheckNonZeroSender"
  "extension_name x = ''CheckSpecVersion'' \<longleftrightarrow> x = CheckSpecVersion"
  "extension_name x = ''CheckTxVersion'' \<longleftrightarrow> x = CheckTxVersion"
  "extension_name x = ''CheckGenesis'' \<longleftrightarrow> x = CheckGenesis"
  "extension_name x = ''CheckEra'' \<longleftrightarrow> (\<exists>era. x = CheckEra era)"
  "extension_name x = ''CheckNonce'' \<longleftrightarrow> (\<exists>nonce. x = CheckNonce nonce)"
  "extension_name x = ''CheckWeight'' \<longleftrightarrow> x = CheckWeight"
  "extension_name x = ''ChargeTransactionPayment'' \<longleftrightarrow> (\<exists>tip. x = ChargeTransactionPayment tip)"
  by (cases x, simp_all)+

text \<open>The order, the era, the nonce and the tip determine the extensions.\<close>

lemma signed_extra_iff:
  "is_signed_extra extra \<and> CheckEra e \<in> set extra \<and> CheckNonce nonce \<in> set extra \<and>
     ChargeTransactionPayment 0 \<in> set extra \<longleftrightarrow> extra = extra_of e nonce"
  by (auto simp: is_signed_extra_def SignedExtra_def map_eq_Cons_conv extension_name_eq extra_of_def)

text \<open>
  What is signed is what is sent: a transaction carries a signature over the encoding of its
  own call and extension, with the additional data the extensions ask for.
\<close>

definition signed_over ::
  "('call, 'era, 'hash, 'pub, 'sig) tx_api \<Rightarrow> 'pub \<Rightarrow> 'call \<Rightarrow> 'era signed_extra \<Rightarrow> 'sig \<Rightarrow> bool" where
  "signed_over api public call extra signature \<longleftrightarrow>
     (\<exists>additional. additional_signed api extra = Some additional \<and>
        sign api (encode api (call, extra, additional)) public = Some signature)"

lemma unat_ucast_u64: "unat (ucast (n :: u32) :: u64) = unat n"
  by (simp add: unsigned_ucast_eq take_bit_nat_eq_self_iff order_less_trans [OF unsigned_less])

lemma parent_block:
  assumes "unat n + 1 < 2 ^ 32"
  shows "saturating_sub (ucast (n + 1 :: u32) :: u64) 1 = ucast n"
proof -
  have "unat (n + 1) = unat n + 1"
    using assms by (simp add: unat_word_ariths)
  then show ?thesis by (simp add: word_unat_eq_iff unat_ucast_u64)
qed

text \<open>
  Documented behaviour of \<open>Era\<close>: an era of a period between 4 and 4096, a power of two, made at
  block \<open>c\<close>, divides the blocks from \<open>c\<close> on into spans of that length; \<open>birth\<close> is the first block
  of the span that a block lies in.
\<close>

definition era_births ::
  "(u64 \<Rightarrow> u64 \<Rightarrow> 'era) \<Rightarrow> ('era \<Rightarrow> nat \<Rightarrow> nat) \<Rightarrow> bool" where
  "era_births era_of birth \<longleftrightarrow>
     (\<forall>p c m. (\<exists>i. 2 \<le> i \<and> i \<le> 12 \<and> unat p = 2 ^ i) \<and> unat c \<le> m \<longrightarrow>
        birth (era_of p c) m = unat c + (m - unat c) div unat p * unat p)"

lemma era_births_2048:
  assumes "era_births era_of birth" and "unat c \<le> m"
  shows "birth (era_of 2048 c) m = unat c + (m - unat c) div 2048 * 2048"
proof -
  have "\<exists>i. 2 \<le> i \<and> i \<le> 12 \<and> unat (2048 :: u64) = 2 ^ i"
    by (rule exI [of _ 11]) simp
  then show ?thesis using assms unfolding era_births_def by fastforce
qed

text \<open>
  Documented behaviour of \<open>frame_system\<close>: while block \<open>m\<close> is executed the chain has the hashes of the
  last \<open>BlockHashCount\<close> blocks before it. What the extensions add to a payload then: the version of
  the runtime, the hash of the genesis block and the hash of the block the era was born in, if it
  is still there.
\<close>

definition hash_kept :: "nat \<Rightarrow> nat \<Rightarrow> bool" where
  "hash_kept m k \<longleftrightarrow> k < m \<and> m \<le> k + unat BlockHashCount"

definition extensions_report ::
  "('call, 'era, 'hash, 'pub, 'sig) tx_api \<Rightarrow> ('era \<Rightarrow> nat \<Rightarrow> nat) \<Rightarrow> (nat \<Rightarrow> 'hash) \<Rightarrow> nat \<Rightarrow> bool" where
  "extensions_report api birth block_hash m \<longleftrightarrow>
     (\<forall>extra era. is_signed_extra extra \<and> CheckEra era \<in> set extra \<and> hash_kept m (birth era m) \<longrightarrow>
        additional_signed api extra =
          Some \<lparr>signed_spec_version = spec_version VERSION,
            signed_tx_version = transaction_version VERSION, signed_genesis = block_hash 0,
            signed_era_hash = block_hash (birth era m)\<rparr>)"

section \<open>A concrete environment\<close>

text \<open>
  An era is its period and phase, the hash of a block its number, and block 42 is being executed; a
  signature is the encoding with the key's name.
\<close>

definition demo_birth :: "u64 \<times> u64 \<Rightarrow> nat \<Rightarrow> nat" where
  "demo_birth = (\<lambda>(period, phase) m. m - (m - unat phase) mod unat period)"

definition demo_api :: "(string runtime_call, u64 \<times> u64, nat, string, byte list \<times> string) tx_api" where
  "demo_api = \<lparr>mortal = (\<lambda>period current. (period, current mod period)),
     additional_signed = (\<lambda>extra. case extra ! 4 of
       CheckEra era \<Rightarrow> Some \<lparr>signed_spec_version = 100, signed_tx_version = 1,
         signed_genesis = 0, signed_era_hash = demo_birth era 42\<rparr>
     | _ \<Rightarrow> None),
     encode = (\<lambda>(call, extra, additional). [word_of_nat (signed_era_hash additional)]),
     sign = (\<lambda>bytes public. if public = ''Bob'' then Some (bytes, public) else None)\<rparr>"

definition demo_client :: "nat full_client" where
  "demo_client = \<lparr>genesis_block = Some 0, best_hash = 41, best_number = 41\<rparr>"

definition demo_bob :: "(string, string, byte list \<times> string) pair" where
  "demo_bob = \<lparr>pair_public = ''Bob'', pair_account = ''bob'', pair_sign = (\<lambda>bytes. (bytes, ''Bob''))\<rparr>"

lemma demo_era_births: "era_births (mortal demo_api) demo_birth"
proof -
  have "m - (m - unat (c mod p)) mod unat p = unat c + (m - unat c) div unat p * unat p"
    if "unat c \<le> m" for m and c p :: u64
  proof -
    let ?c = "unat c" and ?p = "unat p"
    have "m - ?c mod ?p = (m - ?c) + ?c div ?p * ?p"
      using that div_mult_mod_eq [of ?c ?p] by linarith
    then have "(m - ?c mod ?p) mod ?p = (m - ?c) mod ?p" by simp
    moreover have "m - (m - ?c) mod ?p = ?c + (m - ?c) div ?p * ?p"
      using that div_mult_mod_eq [of "m - ?c" ?p] by linarith
    ultimately show ?thesis by (simp add: unat_mod)
  qed
  then show ?thesis by (auto simp: era_births_def demo_api_def demo_birth_def)
qed

lemma demo_extensions: "extensions_report demo_api demo_birth id 42"
  by (auto simp: extensions_report_def is_signed_extra_def SignedExtra_def map_eq_Cons_conv
      extension_name_eq demo_api_def VERSION_def)

lemma demo_create:
  "create_transaction demo_api 42 (Remark []) ''Bob'' ''bob'' 3 =
     Some (Remark [], Id ''bob'', ([41], ''Bob''), extra_of (2048, 41) 3)"
  by (simp add: create_transaction_def Let_def demo_api_def saturating_sub_def extra_of_def
      demo_birth_def)

section \<open>Properties\<close>

text \<open>
  C16: \<open>create_transaction\<close> returns a transaction exactly when the extensions can be filled and
  the key signs. Then it carries the caller's call, account and nonce, the extensions in the
  order of \<open>SignedExtra\<close> with no tip and an era of 2048 blocks at the parent of the current
  block, and its signature is over its own call and extensions.
\<close>

theorem create_transaction_spec:
  "create_transaction api n call public account nonce = Some (call', addr, sig, extra) \<longleftrightarrow>
    call' = call \<and> addr = Id account \<and> is_signed_extra extra \<and>
    CheckEra (mortal api 2048 (saturating_sub (ucast n) 1)) \<in> set extra \<and>
    CheckNonce nonce \<in> set extra \<and> ChargeTransactionPayment 0 \<in> set extra \<and>
    signed_over api public call' extra sig"
proof -
  have "create_transaction api n call public account nonce = Some (call', addr, sig, extra) \<longleftrightarrow>
      call' = call \<and> addr = Id account \<and> extra = extra_of (mortal api 2048 (saturating_sub (ucast n) 1)) nonce \<and>
      signed_over api public call' extra sig"
    unfolding create_transaction_def Let_def era_period_2048
    by (auto simp: signed_over_def bind_eq_Some_conv)
  then show ?thesis unfolding signed_extra_iff [symmetric] by blast
qed

theorem create_transaction_spec_witness:
  "\<exists>sig extra. create_transaction demo_api 42 (Remark []) ''Bob'' ''bob'' 3 =
     Some (Remark [], Id ''bob'', sig, extra) \<and> CheckEra (2048, 41) \<in> set extra"
  using create_transaction_spec [of demo_api 42 "Remark []" "''Bob''" "''bob''" 3 "Remark []"
      "Id ''bob''" "([41], ''Bob'')" "extra_of (2048, 41) 3"]
  by (auto simp: demo_api_def saturating_sub_def signed_over_def extra_of_def is_signed_extra_def
      SignedExtra_def demo_birth_def)

text \<open>
  C39: How long a self-signed transaction lives: made in block \<open>n\<close>, it commits to the hash of the
  block before, and it can be checked in the 2047 blocks from \<open>n\<close> on and in no later one. In
  those the era still names that block and its hash is among the \<open>BlockHashCount\<close> that the chain keeps;
  in the next block the era is reborn, and names a block whose hash is not known.
\<close>

theorem transaction_lifetime:
  assumes "era_births (mortal api) birth"
    and "create_transaction api n call public account nonce = Some (call', addr, sig, extra)"
    and "CheckEra era \<in> set extra" and "0 < unat n" and "unat n \<le> m"
  shows "birth era (unat n) = unat n - 1 \<and>
    (birth era m = unat n - 1 \<and> hash_kept m (birth era m) \<longleftrightarrow> m < unat n + 2047) \<and>
    \<not> hash_kept (unat n + 2047) (birth era (unat n + 2047))"
proof -
  have era: "era = mortal api 2048 (saturating_sub (ucast n) 1)"
    using assms(2,3)
    by (auto simp: create_transaction_def Let_def bind_eq_Some_conv extra_of_def)
  have "unat (saturating_sub (ucast n :: u64) 1) = unat n - 1"
    by (simp add: unat_ucast_u64)
  then have birth: "birth era k = (unat n - 1) + (k - (unat n - 1)) div 2048 * 2048"
    if "unat n \<le> k" for k
    using era_births_2048 [OF assms(1), of "saturating_sub (ucast n :: u64) 1" k] that
    by (simp add: era)
  have "birth era m = unat n - 1 \<longleftrightarrow> m < unat n + 2047"
    using birth [OF assms(5)] assms(4) by (auto simp: div_eq_0_iff)
  moreover have "birth era (unat n + 2047) = unat n + 2047"
    using birth [of "unat n + 2047"] assms(4) by (simp add: Suc_diff_le)
  ultimately show ?thesis
    using birth [of "unat n"] assms(4,5) by (auto simp: hash_kept_def BlockHashCount_def)
qed

theorem transaction_lifetime_witness:
  "demo_birth (2048, 41) 42 = 41 \<and> hash_kept 2088 (demo_birth (2048, 41) 2088) \<and>
   \<not> hash_kept 2089 (demo_birth (2048, 41) 2089)"
proof -
  have "CheckEra (2048, 41) \<in> set (extra_of (2048, 41) 3)" by simp
  from transaction_lifetime [OF demo_era_births demo_create this, of 2088] show ?thesis
    by auto
qed

text \<open>
  C25: The node and the runtime sign alike: the benchmark extrinsic built on best block \<open>n\<close> has the
  call, account and extensions of the transaction that the runtime's off-chain worker creates
  while block \<open>n + 1\<close> is processed, and its signature is over the very same bytes: what the node puts
  into the payload by hand (versions, genesis hash, best hash) is what the extensions report in
  that block. Without a genesis block the node panics.
\<close>

theorem benchmark_extrinsic_agrees:
  assumes "era_births (mortal api) birth"
    and "extensions_report api birth block_hash (unat (best_number client) + 1)"
    and "genesis_block client = Some (block_hash 0)"
    and "best_hash client = block_hash (unat (best_number client))"
    and "unat (best_number client) + 1 < 2 ^ 32"
  shows "\<exists>extra bytes.
    create_benchmark_extrinsic api client sender call nonce =
      Ok \<lparr>ext_function = call, ext_address = Id (pair_account sender),
        ext_signature = Sr25519 (pair_sign sender bytes), ext_extra = extra\<rparr> \<and>
    create_transaction api (best_number client + 1) call (pair_public sender)
        (pair_account sender) nonce =
      map_option (\<lambda>sig. (call, Id (pair_account sender), sig, extra))
        (sign api bytes (pair_public sender)) \<and>
    create_benchmark_extrinsic api (client\<lparr>genesis_block := None\<rparr>) sender call nonce = Panic"
proof -
  let ?n = "best_number client"
  let ?era = "mortal api 2048 (ucast ?n)"
  let ?extra = "extra_of ?era nonce"
  let ?added = "\<lparr>signed_spec_version = spec_version VERSION,
     signed_tx_version = transaction_version VERSION, signed_genesis = block_hash 0,
     signed_era_hash = block_hash (unat ?n)\<rparr>"
  have parent: "saturating_sub (ucast (?n + 1) :: u64) 1 = ucast ?n"
    by (rule parent_block [OF assms(5)])
  have birth: "birth ?era (unat ?n + 1) = unat ?n"
    using era_births_2048 [OF assms(1), of "ucast ?n" "unat ?n + 1"] by (simp add: unat_ucast_u64)
  have "hash_kept (unat ?n + 1) (birth ?era (unat ?n + 1))"
    by (simp only: birth hash_kept_def BlockHashCount_def) simp
  then have added: "additional_signed api ?extra = Some ?added"
    using assms(2) birth unfolding extensions_report_def
    by (metis extra_of_members(2) is_signed_extra_extra_of)
  have "create_transaction api (?n + 1) call (pair_public sender) (pair_account sender) nonce =
      map_option (\<lambda>sig. (call, Id (pair_account sender), sig, ?extra))
        (sign api (encode api (call, ?extra, ?added)) (pair_public sender))"
    by (simp add: create_transaction_def Let_def parent added map_conv_bind_option comp_def)
  then show ?thesis
    using assms(3,4) by (auto simp: create_benchmark_extrinsic_def Let_def)
qed

theorem benchmark_extrinsic_agrees_witness:
  "\<exists>ext. create_benchmark_extrinsic demo_api demo_client demo_bob (Remark []) 3 = Ok ext \<and>
     create_transaction demo_api 42 (Remark []) ''Bob'' ''bob'' 3 =
       Some (Remark [], Id ''bob'', ([41], ''Bob''), ext_extra ext)"
  using benchmark_extrinsic_agrees [OF demo_era_births, of id demo_client demo_bob "Remark []" 3]
    demo_extensions demo_create
  by (fastforce simp: demo_client_def demo_bob_def demo_api_def)

text \<open>
  The benchmark builders never return an error: with a genesis block they yield an
  extrinsic of Bob's account with the requested nonce and no tip, an empty remark or the
  transfer the builder was made for, and the keep-alive transfer and the remark of one nonce
  differ in nothing but the call and the signature; without a genesis block they panic.
\<close>

lemma benchmark_builders:
  "case genesis_block client of
      None \<Rightarrow> remark_build api bob \<lparr>remark_client = client\<rparr> nonce = Panic \<and>
        transfer_build api bob
          \<lparr>transfer_client = client, dest = dst, transfer_value = amount\<rparr> nonce = Panic
    | Some g \<Rightarrow> \<exists>r t. remark_build api bob \<lparr>remark_client = client\<rparr> nonce = Ok r \<and>
        transfer_build api bob
          \<lparr>transfer_client = client, dest = dst, transfer_value = amount\<rparr> nonce = Ok t \<and>
        ext_function r = Remark [] \<and> ext_function t = TransferKeepAlive dst amount \<and>
        ext_address r = Id (pair_account bob) \<and> ext_address t = ext_address r \<and>
        ext_extra t = ext_extra r \<and> is_signed_extra (ext_extra r) \<and>
        CheckNonce nonce \<in> set (ext_extra r) \<and> ChargeTransactionPayment 0 \<in> set (ext_extra r)"
  by (simp add: remark_build_def transfer_build_def create_benchmark_extrinsic_def Let_def
      split: option.split)

end
