(* ===== verification/Client_Voucher.thy ===== *)
theory Client_Voucher
  imports Chain Js_Values
begin

unbundle bit_operations_syntax

text \<open>
  The voucher as the local node's client makes it
  (\<open>guillotine-local-node/express/src/helpers/packAndSignVoucher.js\<close> and
  \<open>guillotine-local-node/express/src/payments/payPaymentRequest.js\<close>), against the pallet that
  has to accept it, over the JavaScript values of \<open>Js_Values\<close>. Byte arrays are lists; \<open>hexToU8a\<close>,
  \<open>blake2AsHex\<close> and the signer are parameters.
\<close>

section \<open>Packing and signing\<close>

record client_api =
  hexToU8a :: "string \<Rightarrow> byte list"
  blake2AsHex :: "string \<Rightarrow> string"
  signer_sign :: "byte list \<Rightarrow> byte list"

record voucher_data =
  oracleBlock :: js_value
  vd_difficulty :: js_value
  noRedeemBeforeBlock :: js_value
  valueIfPaid :: js_value
  priceListCommit :: string
  senderPubKey :: string
  recipientPubKey :: string
  vd_nonce :: string

text \<open>\<open>array.set(source, offset)\<close> throws a \<open>RangeError\<close> where the source does not fit.\<close>

definition set_u8a :: "byte list \<Rightarrow> byte list \<Rightarrow> nat \<Rightarrow> (byte list, string) outcome" where
  "set_u8a dst src offset =
     (if offset + length src \<le> length dst
      then Ok (take offset dst @ src @ drop (offset + length src) dst)
      else Err ''RangeError: offset is out of bounds'')"

definition packAndSignVoucher ::
  "client_api \<Rightarrow> voucher_data \<Rightarrow> string \<Rightarrow> (byte list, string) outcome" where
  "packAndSignVoucher api voucherData scheme =
     (if scheme \<noteq> ''sr25519'' then Err ''Expected scheme to be sr25519'' else
      rbind (set_u8a (replicate 192 0)
        (hexToU8a api (concat (map (\<lambda>num. padStart 8 (CHR ''0'') (to_string16 num))
          [oracleBlock voucherData, vd_difficulty voucherData, noRedeemBeforeBlock voucherData,
           valueIfPaid voucherData]))) 0) (\<lambda>u1.
      rbind (set_u8a u1 (hexToU8a api (priceListCommit voucherData)) 16) (\<lambda>u2.
      rbind (set_u8a u2 (hexToU8a api (senderPubKey voucherData)) 32) (\<lambda>u3.
      rbind (set_u8a u3 (hexToU8a api (recipientPubKey voucherData)) 64) (\<lambda>u4.
      rbind (set_u8a u4 (hexToU8a api (vd_nonce voucherData)) 96) (\<lambda>u5.
      let sig = signer_sign api u5 in set_u8a u5 sig 128))))))"

section \<open>Answering a payment request\<close>

record session =
  session_selfPubkey :: string
  sesh :: "32 word"
  session_difficulty :: js_value
  session_commit :: string

definition selfPubkey :: string where
  "selfPubkey = ''0xd43593c715fdd31c61141abd04a99fd6822c8558854ccde39a5684e7a56da27d''"

definition remotePubkey :: string where
  "remotePubkey = ''0xd43593c715fdd31c61141abd04a99fd6822c8558854ccde39a5684e7a56da27d''"

text \<open>
  \<open>selfPubkey.slice(-3) ^ remotePubkey.slice(-3) % 1024\<close>: the suffixes are read as decimal
  numbers, and \<open>%\<close> binds before \<open>^\<close>.
\<close>

definition key_suffix :: "string \<Rightarrow> string" where
  "key_suffix key = drop (length key - 3) key"

definition sesh_of :: "string \<Rightarrow> string \<Rightarrow> 32 word" where
  "sesh_of self remote =
     to_int32 (number_of_string (key_suffix self)) XOR
     to_int32 (map_option (\<lambda>n. n mod 1024) (number_of_string (key_suffix remote)))"

text \<open>The session used where none is given; its price list is the JSON form of a string.\<close>

definition default_session :: "client_api \<Rightarrow> session" where
  "default_session api =
     \<lparr>session_selfPubkey = selfPubkey, sesh = sesh_of selfPubkey remotePubkey,
      session_difficulty = Num 5000,
      session_commit = blake2AsHex api
        (CHR 0x22 # ''[{abc:123}, {def:678}]'' @ [CHR 0x22])\<rparr>"

text \<open>
  \<open>currentBlock\<close> is the \<open>number\<close> field of the sidecar's answer, as it is in the JSON. The pallet's
  field for the recipient gets the constant of the module: the session's key has another
  spelling there. The voucher is only logged; the function returns no value.
\<close>

definition voucher_data_of ::
  "client_api \<Rightarrow> js_value \<Rightarrow> session \<Rightarrow> js_value option \<Rightarrow> string option \<Rightarrow> voucher_data" where
  "voucher_data_of api currentBlock session amountRequested cache =
     (let value = js_or amountRequested (Num 12345);
          url = (case cache of Some u \<Rightarrow> u | None \<Rightarrow> ''http:/blah.bla'');
          nonce = blake2AsHex api (blake2AsHex api url);
          era = map_option (\<lambda>n. n div 1024) (to_number currentBlock);
          block_of_oracle = sesh session XOR
            to_int32 (map_option (\<lambda>n. n mod 1024) (parseInt16 nonce));
          oracle = (case era of Some e \<Rightarrow> Num (e * 1024 + sint block_of_oracle) | None \<Rightarrow> NaN);
          noRedeem = js_plus currentBlock 2048
      in \<lparr>oracleBlock = oracle, vd_difficulty = session_difficulty session,
          noRedeemBeforeBlock = noRedeem, valueIfPaid = value,
          priceListCommit = session_commit session, senderPubKey = session_selfPubkey session,
          recipientPubKey = remotePubkey, vd_nonce = nonce\<rparr>)"

definition payPaymentRequest ::
  "client_api \<Rightarrow> js_value \<Rightarrow> session option \<Rightarrow> js_value option \<Rightarrow> string option \<Rightarrow>
   (byte list, string) outcome" where
  "payPaymentRequest api currentBlock session amountRequested cache =
     packAndSignVoucher api
       (voucher_data_of api currentBlock
         (case session of Some s \<Rightarrow> s | None \<Rightarrow> default_session api) amountRequested cache) ''sr25519''"

section \<open>The packed voucher\<close>

text \<open>
  Documented behaviour: \<open>hexToU8a\<close> reads an even number of digits pairwise, with or without a
  prefix; a Blake2 hash has 32 bytes and an sr25519 signature 64.
\<close>

definition client_ok :: "client_api \<Rightarrow> bool" where
  "client_ok api \<longleftrightarrow>
     (\<forall>ds. list_all is_hex_digit ds \<and> even (length ds) \<longrightarrow>
        hexToU8a api ds = hex_pairs ds \<and> hexToU8a api (''0x'' @ ds) = hex_pairs ds) \<and>
     (\<forall>s. length (hexToU8a api (blake2AsHex api s)) = 32) \<and>
     (\<forall>m. length (signer_sign api m) = 64)"

text \<open>
  The number that stands in a field after packing: that of the eight hexadecimal digits written,
  if there are no more. A string is written as it is.
\<close>

definition written :: "js_value \<Rightarrow> nat option" where
  "written x =
     (case x of
        Num n \<Rightarrow> if 0 \<le> n \<and> n < 2 ^ 32 then Some (nat n) else None
      | NaN \<Rightarrow> None
      | Text s \<Rightarrow> if list_all is_hex_digit s \<and> length s \<le> 8 then Some (radix_value 16 s) else None)"

text \<open>Voucher data whose numbers fit 32 bits and whose strings are 32 bytes.\<close>

definition packable :: "client_api \<Rightarrow> voucher_data \<Rightarrow> bool" where
  "packable api vd \<longleftrightarrow>
     (\<forall>x \<in> {oracleBlock vd, vd_difficulty vd, noRedeemBeforeBlock vd, valueIfPaid vd}.
        written x \<noteq> None) \<and>
     (\<forall>h \<in> {priceListCommit vd, senderPubKey vd, recipientPubKey vd, vd_nonce vd}.
        length (hexToU8a api h) = 32)"

definition be_bytes :: "nat \<Rightarrow> byte list" where
  "be_bytes n = rev (le_bytes 4 n)"

definition field :: "js_value \<Rightarrow> byte list" where
  "field x = be_bytes (case written x of Some n \<Rightarrow> n | None \<Rightarrow> 0)"

definition packed :: "client_api \<Rightarrow> voucher_data \<Rightarrow> byte list" where
  "packed api vd =
     field (oracleBlock vd) @ field (vd_difficulty vd) @
     field (noRedeemBeforeBlock vd) @ field (valueIfPaid vd) @
     take 16 (hexToU8a api (priceListCommit vd)) @ hexToU8a api (senderPubKey vd) @
     hexToU8a api (recipientPubKey vd) @ hexToU8a api (vd_nonce vd)"

lemma length_be_bytes [simp]: "length (be_bytes n) = 4"
  by (simp add: be_bytes_def)

lemma le_bytes_4:
  "le_bytes 4 n = [word_of_nat (n mod 256), word_of_nat (n div 256 mod 256),
     word_of_nat (n div 256 div 256 mod 256), word_of_nat (n div 256 div 256 div 256 mod 256)]"
proof -
  have four: "(4 :: nat) = Suc (Suc (Suc (Suc 0)))" by simp
  show ?thesis unfolding four by (simp only: le_bytes.simps)
qed

lemma set_u8a_at:
  "offset = length xs \<Longrightarrow> length src = length ys \<Longrightarrow>
   set_u8a (xs @ ys @ zs) src offset = Ok (xs @ src @ zs)"
  by (simp add: set_u8a_def)

lemma length_field [simp]: "length (field x) = 4"
  by (simp add: field_def)

lemma be_bytes_hex: "hex_pairs (hex_fixed 8 n) = be_bytes n"
  using hex_pairs_fixed [of 4 n] by (simp add: be_bytes_def)

lemma written_digits:
  assumes "written x = Some n"
  shows "padStart 8 (CHR ''0'') (to_string16 x) = hex_fixed 8 n"
proof (cases x)
  case (Num i)
  then show ?thesis
    using assms hex_string_fixed [of n 8] by (auto simp: written_def nat_less_iff split: if_splits)
next
  case (Text s)
  then show ?thesis
    using assms hex_fixed_value [of s 8] by (auto simp: written_def split: if_splits)
qed (use assms in \<open>simp add: written_def\<close>)

lemma hexToU8a_numbers:
  assumes "client_ok api" and "\<forall>x \<in> {a, b, c, d}. written x \<noteq> None"
  shows "hexToU8a api (concat (map (\<lambda>num. padStart 8 (CHR ''0'') (to_string16 num)) [a, b, c, d])) =
    field a @ field b @ field c @ field d"
proof -
  have digits: "padStart 8 (CHR ''0'') (to_string16 x) =
      hex_fixed 8 (case written x of Some n \<Rightarrow> n | None \<Rightarrow> 0)" if "x \<in> {a, b, c, d}" for x
    using assms(2) that by (auto simp: written_digits)
  let ?n = "\<lambda>x. hex_fixed 8 (case written x of Some n \<Rightarrow> n | None \<Rightarrow> 0)"
  let ?ds = "?n a @ ?n b @ ?n c @ ?n d"
  have "list_all is_hex_digit ?ds" "even (length ?ds)"
    by (simp_all add: hex_fixed_digits)
  then have "hexToU8a api ?ds = hex_pairs ?ds"
    using assms(1) by (simp only: client_ok_def)
  then show ?thesis
    by (simp add: digits field_def be_bytes_hex hex_pairs_append)
qed

lemma replicate_split: "n = k + m \<Longrightarrow> replicate n x = replicate k x @ replicate m x"
  by (simp add: replicate_add)

lemma pack_layout:
  assumes api: "client_ok api" and vd: "packable api vd"
  shows "packAndSignVoucher api vd ''sr25519'' =
    Ok (packed api vd @ signer_sign api (packed api vd @ replicate 64 0))"
proof -
  let ?n = "field (oracleBlock vd) @ field (vd_difficulty vd) @
    field (noRedeemBeforeBlock vd) @ field (valueIfPaid vd)"
  let ?c = "hexToU8a api (priceListCommit vd)"
  let ?s = "hexToU8a api (senderPubKey vd)"
  let ?r = "hexToU8a api (recipientPubKey vd)"
  let ?h = "hexToU8a api (vd_nonce vd)"
  have len: "length ?c = 32" "length ?s = 32" "length ?r = 32" "length ?h = 32"
    using vd by (auto simp: packable_def)
  have u1: "set_u8a (replicate 192 0) ?n 0 = Ok (?n @ replicate 176 0)"
    using set_u8a_at [of 0 "[]" ?n "replicate 16 0" "replicate 176 0"]
    by (simp add: replicate_split [of 192 16 176])
  have u2: "set_u8a (?n @ replicate 176 0) ?c 16 = Ok (?n @ ?c @ replicate 144 0)"
    using set_u8a_at [of 16 ?n ?c "replicate 32 0" "replicate 144 0"] len
    by (simp add: replicate_split [of 176 32 144])
  have u3: "set_u8a (?n @ ?c @ replicate 144 0) ?s 32 =
      Ok (?n @ take 16 ?c @ ?s @ replicate 128 0)"
  proof -
    have "?n @ ?c @ replicate 144 0 =
        (?n @ take 16 ?c) @ (drop 16 ?c @ replicate 16 0) @ replicate 128 0"
      by (simp add: replicate_split [of 144 16 128])
    then show ?thesis
      using set_u8a_at [of 32 "?n @ take 16 ?c" ?s "drop 16 ?c @ replicate 16 0" "replicate 128 0"] len
      by simp
  qed
  have u4: "set_u8a (?n @ take 16 ?c @ ?s @ replicate 128 0) ?r 64 =
      Ok (?n @ take 16 ?c @ ?s @ ?r @ replicate 96 0)"
    using set_u8a_at [of 64 "?n @ take 16 ?c @ ?s" ?r "replicate 32 0" "replicate 96 0"] len
    by (simp add: replicate_split [of 128 32 96])
  have u5: "set_u8a (?n @ take 16 ?c @ ?s @ ?r @ replicate 96 0) ?h 96 =
      Ok (?n @ take 16 ?c @ ?s @ ?r @ ?h @ replicate 64 0)"
    using set_u8a_at [of 96 "?n @ take 16 ?c @ ?s @ ?r" ?h "replicate 32 0" "replicate 64 0"] len
    by (simp add: replicate_split [of 96 32 64])
  have p: "packed api vd = ?n @ take 16 ?c @ ?s @ ?r @ ?h"
    by (simp add: packed_def)
  have u6: "set_u8a (packed api vd @ replicate 64 0) sig 128 = Ok (packed api vd @ sig)"
    if "length sig = 64" for sig
    using set_u8a_at [of 128 "packed api vd" sig "replicate 64 0" "[]"] len that by (simp add: p)
  have "hexToU8a api (concat (map (\<lambda>num. padStart 8 (CHR ''0'') (to_string16 num))
      [oracleBlock vd, vd_difficulty vd, noRedeemBeforeBlock vd, valueIfPaid vd])) = ?n"
    using vd by (intro hexToU8a_numbers [OF api]) (simp add: packable_def)
  moreover have "length (signer_sign api m) = 64" for m
    using api by (simp add: client_ok_def)
  ultimately show ?thesis
    using u1 u2 u3 u4 u5 u6 [of "signer_sign api (packed api vd @ replicate 64 0)"]
    unfolding packAndSignVoucher_def by (simp add: p Let_def del: list.map concat.simps)
qed

lemma length_packed: "packable api vd \<Longrightarrow> length (packed api vd) = 128"
  by (simp add: packed_def packable_def)

lemma parse_packed:
  assumes "packable api vd" and "parse env (packed api vd @ sig) = Ok v"
  shows "unat (oracle_block v) = le_val (field (oracleBlock vd))"
    and "unat (difficulty v) = le_val (field (vd_difficulty vd))"
    and "unat (no_redeem_before_block v) = le_val (field (noRedeemBeforeBlock vd))"
    and "unat (value_if_paid v) = le_val (field (valueIfPaid vd))"
    and "decode_account env (hexToU8a api (senderPubKey vd)) = Some (sender_pk v)"
    and "decode_account env (hexToU8a api (recipientPubKey vd)) = Some (recipient_pk v)"
    and "decode_signature env (take 64 sig) = Some (signature v)"
proof -
  have bound: "w = word_of_nat (le_val (field x)) \<Longrightarrow> unat w = le_val (field x)"
    for x and w :: u32
    using unat_word_of_le_val [of "field x", where 'a = 32] by simp
  have len: "\<forall>h \<in> {priceListCommit vd, senderPubKey vd, recipientPubKey vd, vd_nonce vd}.
      length (hexToU8a api h) = 32"
    using assms(1) by (simp add: packable_def)
  note fields = assms(2) [unfolded parse_Ok_iff]
  then show "unat (oracle_block v) = le_val (field (oracleBlock vd))"
    "unat (difficulty v) = le_val (field (vd_difficulty vd))"
    "unat (no_redeem_before_block v) = le_val (field (noRedeemBeforeBlock vd))"
    "unat (value_if_paid v) = le_val (field (valueIfPaid vd))"
    "decode_account env (hexToU8a api (senderPubKey vd)) = Some (sender_pk v)"
    "decode_account env (hexToU8a api (recipientPubKey vd)) = Some (recipient_pk v)"
    "decode_signature env (take 64 sig) = Some (signature v)"
    using len by (auto simp: packed_def u32_from_le_bytes_def intro!: bound)
qed

text \<open>
  \<open>vouches_only env api m\<close>: the signature that the client's signer makes of \<open>m\<close> is not valid
  for another message, under any key.
\<close>

definition vouches_only :: "('acc, 'sig, 'h) substrate \<Rightarrow> client_api \<Rightarrow> byte list \<Rightarrow> bool" where
  "vouches_only env api m \<longleftrightarrow>
     (\<forall>sig msg pk. decode_signature env (signer_sign api m) = Some sig \<and>
        sig_verify env sig msg pk \<longrightarrow> msg = m)"

section \<open>The client's numbers\<close>

text \<open>The head block as the sidecar may give it: a number, or its decimal digits.\<close>

definition names_block :: "js_value \<Rightarrow> nat \<Rightarrow> bool" where
  "names_block x n \<longleftrightarrow>
     (case x of
        Num i \<Rightarrow> i = int n
      | NaN \<Rightarrow> False
      | Text s \<Rightarrow> list_all is_digit s \<and> radix_value 10 s = n)"

lemma names_block_number: "names_block x n \<Longrightarrow> to_number x = Some (int n)"
  by (cases x) (auto simp: names_block_def number_of_digits)

lemma oracle_block_in_era:
  assumes "unat (sesh session) < 1024" and "names_block currentBlock n"
    and "vd = voucher_data_of api currentBlock session amount cache"
    and "written (oracleBlock vd) = Some k"
  shows "k < n div 1024 * 1024 + 1024"
proof -
  have "int n div 1024 = int (n div 1024)" by (simp add: zdiv_int)
  then show ?thesis
    using assms(4) sint_xor_1024(1) [OF assms(1) to_int32_mod, of "parseInt16 (vd_nonce vd)"]
    by (simp add: assms(3) voucher_data_of_def names_block_number [OF assms(2)] Let_def written_def
        split: if_splits)
qed

lemma dec_string_2048: "dec_string 2048 = ''2048''"
  by (simp add: dec_string.simps [of 2048] dec_string.simps [of 204] dec_string.simps [of 20]
      dec_string.simps [of 2] hex_digit_def)

lemma redemption_late:
  assumes "names_block currentBlock n" and "vd = voucher_data_of api currentBlock session amount cache"
    and "written (noRedeemBeforeBlock vd) = Some k"
  shows "n + 2048 \<le> k"
proof (cases currentBlock)
  case (Text s)
  have "radix_value 10 s \<le> radix_value 16 s" by (rule radix_value_mono) simp
  moreover have "radix_value 16 (s @ ''2048'') = 65536 * radix_value 16 s + 8264"
    using radix_value_simps(2) [of 16 "s @ ''204''"] radix_value_simps(2) [of 16 "s @ ''20''"]
      radix_value_simps(2) [of 16 "s @ ''2''"] radix_value_simps(2) [of 16 s]
    by (simp add: hex_value_def)
  ultimately show ?thesis
    using assms by (auto simp: Text voucher_data_of_def Let_def written_def names_block_def
        dec_string_2048 split: if_splits)
next
  case (Num i)
  then show ?thesis
    using assms by (auto simp: voucher_data_of_def Let_def written_def names_block_def
        split: if_splits)
qed (use assms in \<open>simp add: names_block_def\<close>)

text \<open>The oracle block where the nonce's hash has 64 bits or more.\<close>

lemma nonce_free_oracle:
  assumes "vd = voucher_data_of api currentBlock session amount cache"
    and "to_number currentBlock = Some n"
    and "2 ^ 63 \<le> radix_value 16 (hex_prefix (vd_nonce vd))"
  shows "oracleBlock vd = Num (n div 1024 * 1024 + sint (sesh session))"
proof -
  have "map_option (\<lambda>n. n mod 1024) (parseInt16 (vd_nonce vd)) \<in> {None, Some 0}"
  proof -
    have "1024 dvd to_double (radix_value 16 (hex_prefix (vd_nonce vd)))"
      using to_double_dvd [OF assms(3)] by (rule dvd_trans [rotated]) simp
    then show ?thesis by (simp add: parseInt16_def Let_def)
  qed
  then have "to_int32 (map_option (\<lambda>n. n mod 1024) (parseInt16 (vd_nonce vd))) = 0"
    by (auto simp: to_int32_def)
  then show ?thesis
    using assms(2) by (simp add: assms(1) voucher_data_of_def Let_def)
qed

section \<open>A concrete client\<close>

text \<open>
  The signature of a message is its first 64 bytes; the pallet's scheme accepts it for the
  messages that go on with 128 zeros.
\<close>

definition demo_client_api :: client_api where
  "demo_client_api = \<lparr>
     hexToU8a = (\<lambda>s. if take 2 s = ''0x'' then hex_pairs (drop 2 s) else hex_pairs s),
     blake2AsHex = (\<lambda>s. replicate 64 (CHR ''0'')),
     signer_sign = (\<lambda>m. take 64 (m @ replicate 64 0))\<rparr>"

lemma two_zeros [simp]: "replicate 2 (CHR ''0'') = ''00''"
  by (simp add: numeral_2_eq_2)

lemma hex_digits_no_prefix: "list_all is_hex_digit ds \<Longrightarrow> take 2 ds \<noteq> ''0x''"
proof
  assume "list_all is_hex_digit ds" and "take 2 ds = ''0x''"
  moreover from this(2) have "CHR ''x'' \<in> set ds"
    by (metis in_set_takeD list.set_intros(1,2))
  ultimately have "is_hex_digit (CHR ''x'')"
    by (simp add: list_all_iff)
  then show False by (simp add: is_hex_digit_def)
qed

lemma demo_client_ok: "client_ok demo_client_api"
  by (auto simp: client_ok_def demo_client_api_def hex_digits_no_prefix min_def)

definition demo_session :: session where
  "demo_session = \<lparr>session_selfPubkey = replicate 64 (CHR ''0''), sesh = 5, session_difficulty = Num 5000,
     session_commit = replicate 64 (CHR ''0'')\<rparr>"

definition demo_vd :: voucher_data where
  "demo_vd = voucher_data_of demo_client_api (Num 100) demo_session (Some (Num 7)) None"

text \<open>The nonce of the concrete client: a hash of zeros, which parses to 0.\<close>

lemma demo_nonce: "parseInt16 (blake2AsHex demo_client_api s) = Some 0"
proof -
  have "takeWhile is_hex_digit (replicate n (CHR ''0'')) = replicate n (CHR ''0'')" for n
    by (simp add: takeWhile_replicate is_hex_digit_def)
  then have "hex_prefix (replicate 64 (CHR ''0'')) = replicate 64 (CHR ''0'')"
    by (simp add: hex_prefix_def)
  moreover have "radix_value 16 (replicate n (CHR ''0'')) = 0" for n
    by (induction n) (simp_all add: radix_value_def hex_value_def)
  ultimately show ?thesis
    by (simp add: parseInt16_def demo_client_api_def to_double_small)
qed

lemma demo_vd_numbers:
  "oracleBlock demo_vd = Num 5" "vd_difficulty demo_vd = Num 5000"
  "noRedeemBeforeBlock demo_vd = Num 2148" "valueIfPaid demo_vd = Num 7"
  by (simp_all add: demo_vd_def voucher_data_of_def demo_session_def demo_nonce Let_def to_int32_def
      js_or_def sint_small)

lemma demo_packable: "packable demo_client_api demo_vd"
proof -
  have "length (hexToU8a demo_client_api h) = 32"
    if "h \<in> {priceListCommit demo_vd, senderPubKey demo_vd, recipientPubKey demo_vd, vd_nonce demo_vd}"
    for h
    using that by (auto simp: demo_vd_def voucher_data_of_def demo_session_def demo_client_api_def
        remotePubkey_def Let_def)
  then show ?thesis
    by (simp add: packable_def demo_vd_numbers written_def)
qed

definition demo_scheme :: "byte list \<Rightarrow> (u256, 512 word, u256) substrate" where
  "demo_scheme rest = demo_substrate
     \<lparr>sig_verify := \<lambda>sig msg pk. word_from_le (take 64 msg) = Some sig \<and> drop 64 msg = rest\<rparr>"

lemma demo_scheme_ok: "substrate_ok (demo_scheme rest)"
  using demo_substrate_ok by (simp add: substrate_ok_def demo_scheme_def)

lemma demo_vouches_only:
  assumes "64 \<le> length m"
  shows "vouches_only (demo_scheme (drop 64 m)) demo_client_api m"
proof -
  have "total_codec 64 (word_to_le :: 512 word \<Rightarrow> byte list) word_from_le"
    by (rule word_total_codec) simp
  then have dec: "word_to_le sig = bs"
    if "word_from_le bs = Some (sig :: 512 word)" "length bs = 64" for bs sig
    using that by (simp add: total_codec_def fixed_codec_def)
  have "msg = m" if sig: "word_from_le (take 64 m) = Some (sig :: 512 word)"
    "word_from_le (take 64 msg) = Some sig" and rest: "drop 64 msg = drop 64 m" for sig msg
  proof -
    have "length (take 64 msg) = 64"
      using sig(2) by (auto simp: word_from_le_def split: if_splits)
    then have "take 64 msg = take 64 m"
      using dec [OF sig(1)] dec [OF sig(2)] assms by simp
    with rest show ?thesis by (metis append_take_drop_id)
  qed
  then show ?thesis
    using assms by (auto simp: vouches_only_def demo_scheme_def demo_substrate_def demo_client_api_def)
qed

section \<open>Properties\<close>

text \<open>
  C28: The client's voucher on the wire: data whose numbers fit 32 bits and whose keys and
  hashes are 32 bytes pack to 192 bytes with every field at its documented offset and the
  first half of the price-list commitment, signed over all 192 bytes with the signature
  field still zero. The client writes the four numbers big-endian, a number given as a string
  with its characters taken for hexadecimal digits, so the pallet reads each of them with its
  bytes reversed.
\<close>

theorem client_layout:
  assumes "client_ok api" and "packable api vd"
  shows "packAndSignVoucher api vd ''sr25519'' =
      Ok (packed api vd @ signer_sign api (packed api vd @ replicate 64 0)) \<and>
    length (packed api vd @ signer_sign api (packed api vd @ replicate 64 0)) = 192 \<and>
    (parse env (packed api vd @ signer_sign api (packed api vd @ replicate 64 0)) = Ok v \<longrightarrow>
      u32_to_le_bytes (oracle_block v) = field (oracleBlock vd) \<and>
      u32_to_le_bytes (difficulty v) = field (vd_difficulty vd) \<and>
      u32_to_le_bytes (no_redeem_before_block v) = field (noRedeemBeforeBlock vd) \<and>
      u32_to_le_bytes (value_if_paid v) = field (valueIfPaid vd))"
proof -
  have "length (signer_sign api (packed api vd @ replicate 64 0)) = 64"
    using assms(1) by (simp add: client_ok_def)
  moreover have "u32_to_le_bytes w = field x" if "unat w = le_val (field x)" for w x
    using that le_bytes_le_val [of "field x"] by (simp add: u32_to_le_bytes_def)
  ultimately show ?thesis
    using pack_layout [OF assms] length_packed [OF assms(2)]
      parse_packed(1-4) [OF assms(2), of env "signer_sign api (packed api vd @ replicate 64 0)" v]
    by simp
qed

theorem client_layout_witness:
  "\<exists>sig. packAndSignVoucher demo_client_api demo_vd ''sr25519'' = Ok (packed demo_client_api demo_vd @ sig) \<and>
     (\<forall>v. parse demo_substrate (packed demo_client_api demo_vd @ sig) = Ok v \<longrightarrow>
       u32_to_le_bytes (difficulty v) = [0, 0, 19, 136])"
proof -
  have "field (Num 5000) = [0, 0, 19, 136]"
    by (simp add: field_def written_def be_bytes_def le_bytes_4)
  then show ?thesis
    using client_layout [OF demo_client_ok demo_packable, where env = demo_substrate]
    by (auto simp: demo_vd_numbers)
qed

text \<open>
  C27: The pallet rejects every voucher the client makes: it checks the signature on the first
  128 bytes and the client signs all 192, so with a signature valid for the signed message
  alone a claim of the voucher always ends in an error, in every state and by every caller.
\<close>

theorem client_claim_rejected:
  assumes "client_ok api" and "packable api vd" and "substrate_ok env"
    and "vouches_only env api (packed api vd @ replicate 64 0)"
    and "packAndSignVoucher api vd scheme = Ok bytes"
  shows "\<exists>e. claim env origin bytes s = Err e"
proof -
  have "scheme = ''sr25519''"
    using assms(5) by (auto simp: packAndSignVoucher_def split: if_splits)
  then have bytes: "bytes = packed api vd @ signer_sign api (packed api vd @ replicate 64 0)"
    using assms(5) pack_layout [OF assms(1,2)] by simp
  have sig64: "length (signer_sign api (packed api vd @ replicate 64 0)) = 64"
    using assms(1) by (simp add: client_ok_def)
  have "\<not> sig_verify env (signature v) (take 128 bytes) pk" if "parse env bytes = Ok v" for v pk
  proof
    assume "sig_verify env (signature v) (take 128 bytes) pk"
    moreover have "decode_signature env (signer_sign api (packed api vd @ replicate 64 0)) =
        Some (signature v)"
      using parse_packed(7) [OF assms(2) that [unfolded bytes]] sig64 by simp
    ultimately have "take 128 bytes = packed api vd @ replicate 64 0"
      using assms(4) unfolding vouches_only_def by blast
    then show False
      using length_packed [OF assms(2)] by (simp add: bytes)
  qed
  then have "claim env origin bytes s \<noteq> Ok s'" "claim env origin bytes s \<noteq> Panic" for s'
    using claim_Ok_iff [OF assms(3)] claim_Panic_iff [OF assms(3)] by (auto simp: outcome_simps)
  then show ?thesis by (cases "claim env origin bytes s") auto
qed

theorem client_claim_rejected_witness:
  "\<exists>bytes e. packAndSignVoucher demo_client_api demo_vd ''sr25519'' = Ok bytes \<and>
     claim (demo_scheme (drop 64 (packed demo_client_api demo_vd @ replicate 64 0)))
       (Some 2) bytes demo_state = Err e"
proof -
  have "64 \<le> length (packed demo_client_api demo_vd @ replicate 64 (0 :: byte))" by simp
  from client_claim_rejected [OF demo_client_ok demo_packable demo_scheme_ok
      demo_vouches_only [OF this] pack_layout [OF demo_client_ok demo_packable]]
    pack_layout [OF demo_client_ok demo_packable]
  show ?thesis by blast
qed

text \<open>
  C29: The client's schedule leaves no block for a claim, whether the sidecar gives it the block
  number as a number or as a string of digits: it takes the oracle block from the era of the
  current block and the redemption block at least 2048 blocks after it (the string it
  concatenates is read as a larger, hexadecimal number), so even a voucher that carries these
  two numbers as the pallet reads them can never be claimed.
\<close>

theorem client_redeems_too_late:
  assumes "substrate_ok env" and "trace env db as s" and "parse env bytes = Ok v"
    and "unat (sesh session) < 1024" and "names_block currentBlock n"
    and "vd = voucher_data_of api currentBlock session amount cache"
    and "written (oracleBlock vd) = Some (unat (oracle_block v))"
    and "written (noRedeemBeforeBlock vd) = Some (unat (no_redeem_before_block v))"
  shows "claim env origin bytes s \<noteq> Ok s'"
proof
  assume "claim env origin bytes s = Ok s'"
  from claim_Ok_on_trace [OF assms(1,2) this] obtain who w where
    "honest_voucher env who bytes w" and "claimable_at w (block_number s)"
    by metis
  then have "unat (no_redeem_before_block v) < unat (oracle_block v) + 1024"
    using assms(3) by (auto simp: honest_voucher_def claimable_at_interval)
  moreover have "unat (oracle_block v) < n div 1024 * 1024 + 1024"
    using assms(4,5,6,7) by (rule oracle_block_in_era)
  moreover have "n + 2048 \<le> unat (no_redeem_before_block v)"
    using assms(5,6,8) by (rule redemption_late)
  ultimately show False by linarith
qed

theorem client_redeems_too_late_witness:
  "claim demo_substrate (Some 2) (take 8 demo_bytes @ [0, 8] @ drop 10 demo_bytes) demo_state \<noteq>
     Ok demo_state"
proof -
  let ?v = "demo_voucher\<lparr>no_redeem_before_block := 2048\<rparr>"
  let ?vd = "voucher_data_of demo_client_api (Num 0) (demo_session\<lparr>sesh := 1\<rparr>) None None"
  have parse: "parse demo_substrate (take 8 demo_bytes @ [0, 8] @ drop 10 demo_bytes) = Ok ?v"
    by (simp add: parse_Ok_iff demo_substrate_def word_from_le_def u32_from_le_bytes_def
        u128_from_le_bytes_def demo_bytes_def demo_voucher_def)
  have "written (oracleBlock ?vd) = Some (unat (oracle_block ?v))"
    and "written (noRedeemBeforeBlock ?vd) = Some (unat (no_redeem_before_block ?v))"
    by (simp_all add: demo_voucher_def voucher_data_of_def demo_session_def demo_nonce Let_def
        to_int32_def written_def sint_small)
  moreover have "names_block (Num 0) 0" by (simp add: names_block_def)
  moreover have "unat (sesh (demo_session\<lparr>sesh := 1\<rparr>)) < 1024" by simp
  ultimately show ?thesis
    using client_redeems_too_late [OF demo_substrate_ok demo_trace parse _ _ refl] by blast
qed

text \<open>
  C33: The nonce has no part in the choice of the oracle block: a hash of 64 bits or more parses to
  a double that is a multiple of 1024, so the block's place in its era is the session's alone,
  and every voucher of a session and an era has the same oracle block.
\<close>

theorem nonce_ineffective:
  assumes "vd = voucher_data_of api currentBlock session amount cache"
    and "to_number currentBlock = Some n"
    and "2 ^ 63 \<le> radix_value 16 (hex_prefix (vd_nonce vd))"
  shows "oracleBlock vd = Num (n div 1024 * 1024 + sint (sesh session))"
  using assms by (rule nonce_free_oracle)

theorem nonce_ineffective_witness:
  "oracleBlock (voucher_data_of (demo_client_api\<lparr>blake2AsHex := \<lambda>s. ''0xffffffffffffffff''\<rparr>)
     (Text ''6568'') demo_session None None) = Num 6149"
proof -
  let ?vd = "voucher_data_of (demo_client_api\<lparr>blake2AsHex := \<lambda>s. ''0xffffffffffffffff''\<rparr>)
     (Text ''6568'') demo_session None None"
  have "2 ^ 63 \<le> radix_value 16 (hex_prefix (vd_nonce ?vd))"
    by (simp add: voucher_data_of_def Let_def hex_prefix_def is_hex_digit_def radix_value_def
        hex_value_def)
  moreover have "to_number (Text ''6568'') = Some 6568"
    by (simp add: number_of_digits is_digit_def radix_value_def hex_value_def)
  ultimately show ?thesis
    using nonce_ineffective [OF refl] by (simp add: demo_session_def sint_small)
qed

text \<open>
  The schedule the documentation gives, with the oracle block in the era after the current
  block's and redemption two eras on, leaves a claim a block if and only if the oracle block
  comes later in its era than the current block does in its own.
\<close>

lemma documented_schedule:
  assumes "unat (oracle_block v) = (currentBlock div 1024 + 1) * 1024 + x" and "x < 1024"
    and "unat (no_redeem_before_block v) = currentBlock + 2048"
  shows "(\<exists>now. claimable_at v now) \<longleftrightarrow> currentBlock mod 1024 < x"
proof -
  have "claimable_at v now \<Longrightarrow> claimable_at v (no_redeem_before_block v)" for now
    using assms div_mult_mod_eq [of currentBlock 1024] mod_less_divisor [of 1024 currentBlock]
    by (simp add: claimable_at_interval)
  then have "(\<exists>now. claimable_at v now) \<longleftrightarrow> claimable_at v (no_redeem_before_block v)"
    by blast
  also have "\<dots> \<longleftrightarrow> currentBlock < currentBlock div 1024 * 1024 + x"
    using assms by (simp add: claimable_at_interval)
  also have "\<dots> \<longleftrightarrow> currentBlock mod 1024 < x"
    using div_mult_mod_eq [of currentBlock 1024] by linarith
  finally show ?thesis .
qed

lemma documented_schedule_witness:
  "(\<exists>now. claimable_at (demo_voucher\<lparr>oracle_block := 1034, no_redeem_before_block := 2057\<rparr>) now) \<and>
   \<not> (\<exists>now. claimable_at (demo_voucher\<lparr>oracle_block := 1034, no_redeem_before_block := 2058\<rparr>) now)"
  using documented_schedule [of "demo_voucher\<lparr>oracle_block := 1034, no_redeem_before_block := 2057\<rparr>" 9 10]
    documented_schedule [of "demo_voucher\<lparr>oracle_block := 1034, no_redeem_before_block := 2058\<rparr>" 10 10]
  by simp

end
