(* ===== verification/Test_Vector.thy ===== *)
theory Test_Vector
  imports Client_Voucher Mock_Runtime
begin

text \<open>
  The voucher of the pallet's ignored test \<open>claim_works_for_test_vector\<close>
  (\<open>blockchain/pallets/probabilistic-payments/src/tests.rs\<close>), against the client that made it
  (\<open>guillotine-local-node/express/src/payments/payPaymentRequest.js\<close>) and the pallet that is to
  accept it.
\<close>

section \<open>The test\<close>

definition test_key :: "byte list" where
  "test_key = hex_pairs ''d43593c715fdd31c61141abd04a99fd6822c8558854ccde39a5684e7a56da27d''"

definition test_vector :: "byte list" where
  "test_vector = hex_pairs
     (''00001800'' @
      ''00001388'' @
      ''65682048'' @
      ''00003039'' @
      ''ba1149929099a1c820e4baa3be7c72ad'' @
      ''d43593c715fdd31c61141abd04a99fd6822c8558854ccde39a5684e7a56da27d'' @
      ''d43593c715fdd31c61141abd04a99fd6822c8558854ccde39a5684e7a56da27d'' @
      ''a93124266cc3860edc492483e6fae43b0eaf53497f582fdd909b8ead81e4cc40'' @
      ''8e8e7ec4f0a87263ba762a08f4ae377ee070d5abb96d1d9049ac13f4a3744c4b4eaf88d53d24afc9a6b4f33ee2522264f0de185254ce20bc689ab5b4050cf681'')"

text \<open>
  The keys of the test decode as accounts do; the result is that of the dispatched claim. There
  is no block before it.
\<close>

definition claim_works_for_test_vector ::
  "('acc, 'sig, 'h) substrate \<Rightarrow> 'r \<Rightarrow> (('acc, 'h) pallet_state, dispatch_error) outcome" where
  "claim_works_for_test_vector env stock_genesis =
     rbind (unwrap (decode_account env test_key)) (\<lambda>sender_pub.
     rbind (unwrap (decode_account env test_key)) (\<lambda>recipient_pub.
     rbind (unwrap (u32_from_le_bytes (hex_pairs ''65682048''))) (\<lambda>n.
     let t = set_block_number (n + 1) (new_test_ext stock_genesis)
     in claim env (Some recipient_pub) test_vector (payments t))))"

section \<open>The bytes of the vector\<close>

lemma test_vector_parts:
  "test_vector = hex_pairs ''00001800'' @ hex_pairs ''00001388'' @ hex_pairs ''65682048'' @
     hex_pairs ''00003039'' @ hex_pairs ''ba1149929099a1c820e4baa3be7c72ad'' @ test_key @ test_key @
     hex_pairs ''a93124266cc3860edc492483e6fae43b0eaf53497f582fdd909b8ead81e4cc40'' @
     hex_pairs ''8e8e7ec4f0a87263ba762a08f4ae377ee070d5abb96d1d9049ac13f4a3744c4b4eaf88d53d24afc9a6b4f33ee2522264f0de185254ce20bc689ab5b4050cf681''"
  unfolding test_vector_def test_key_def
  by (simp add: hex_pairs_append del: append.simps hex_pairs.simps)

lemma test_numbers:
  "hex_pairs ''00001800'' = be_bytes 6144" "hex_pairs ''00001388'' = be_bytes 5000"
  "hex_pairs ''65682048'' = be_bytes 1701322824" "hex_pairs ''00003039'' = be_bytes 12345"
  by (simp_all add: be_bytes_def le_bytes_4 hex_value_def)

lemma length_test_key: "length test_key = 32"
  by (simp add: test_key_def del: hex_pairs.simps)

lemma test_vector_fields:
  "take 16 test_vector = be_bytes 6144 @ be_bytes 5000 @ be_bytes 1701322824 @ be_bytes 12345"
  "take 64 (drop 32 test_vector) = test_key @ test_key"
  "length test_vector = 192"
  by (simp_all add: test_vector_parts test_numbers length_test_key del: hex_pairs.simps)

section \<open>The pallet's run\<close>

lemma test_block: "u32_from_le_bytes (hex_pairs ''65682048'') = Some 0x48206865"
  unfolding test_numbers by (simp add: be_bytes_def le_bytes_4 u32_from_le_bytes_def)

lemma test_run:
  assumes "decode_account env test_key = Some alice"
  shows "claim_works_for_test_vector env init = claim env (Some alice) test_vector
    (payments (set_block_number 0x48206866 (new_test_ext init)))"
  by (simp add: claim_works_for_test_vector_def assms test_block del: hex_pairs.simps)

lemma test_vector_slices:
  "take 32 (drop 32 test_vector) = test_key" "take 32 (drop 64 test_vector) = test_key"
  "take 4 (drop 8 test_vector) = be_bytes 1701322824" "length (drop 128 test_vector) = 64"
  by (simp_all add: test_vector_parts test_numbers length_test_key del: hex_pairs.simps)

lemma test_vector_parse_steps:
  assumes "substrate_ok env" and "decode_account env test_key = Some alice"
  shows "\<exists>v. sender_pk v = alice \<and> recipient_pk v = alice \<and> no_redeem_before_block v = 0x48206865 \<and>
    parse env test_vector = rbind (ok_or (decode_signature env (drop 128 test_vector)) 3)
      (\<lambda>sig. Ok (v\<lparr>signature := sig\<rparr>))"
proof -
  obtain h where h: "h256_from_slice env (take 32 (drop 96 test_vector)) = Some h"
    using substrate_okD(1) [OF assms(1)] test_vector_fields(3) by fastforce
  have block: "word_of_nat (le_val (be_bytes 1701322824)) = (0x48206865 :: u32)"
    by (simp add: be_bytes_def le_bytes_4)
  let ?v = "\<lparr>oracle_block = word_of_nat (le_val (take 4 test_vector)),
    difficulty = word_of_nat (le_val (take 4 (drop 4 test_vector))),
    no_redeem_before_block = 0x48206865,
    value_if_paid = word_of_nat (le_val (take 4 (drop 12 test_vector))),
    price_list_commit = word_of_nat (le_val (take 16 (drop 16 test_vector))),
    sender_pk = alice, recipient_pk = alice, nonce = h, signature = undefined\<rparr>"
  have "parse env test_vector = rbind (ok_or (decode_signature env (drop 128 test_vector)) 3)
      (\<lambda>sig. Ok (?v\<lparr>signature := sig\<rparr>))"
    using test_vector_fields(3) test_vector_slices(4)
    by (simp add: parse_long test_vector_slices(1-3) assms(2) h block)
  then show ?thesis by (intro exI [of _ ?v]) simp
qed

lemma test_vector_unsigned:
  assumes "substrate_ok env" and "decode_account env test_key = Some alice"
    and "decode_signature env (drop 128 test_vector) = None"
  shows "parse env test_vector = Err 3"
  using test_vector_parse_steps [OF assms(1,2)] assms(3) by auto

lemma test_vector_parse:
  assumes "substrate_ok env" and "decode_account env test_key = Some alice"
    and "decode_signature env (drop 128 test_vector) = Some sig"
  shows "\<exists>v. parse env test_vector = Ok v \<and> signature v = sig \<and> sender_pk v = alice \<and>
    recipient_pk v = alice \<and> no_redeem_before_block v = 0x48206865"
  using test_vector_parse_steps [OF assms(1,2)] assms(3) by fastforce

section \<open>The client's run\<close>

lemma hexToU8a_keys:
  assumes "client_ok api"
  shows "hexToU8a api selfPubkey = test_key" "hexToU8a api remotePubkey = test_key"
proof -
  let ?ds = "''d43593c715fdd31c61141abd04a99fd6822c8558854ccde39a5684e7a56da27d''"
  have "list_all is_hex_digit ?ds" by (simp add: is_hex_digit_def)
  moreover have "even (length ?ds)" by simp
  ultimately have "hexToU8a api (''0x'' @ ?ds) = hex_pairs ?ds"
    using assms by (simp only: client_ok_def)
  then show "hexToU8a api selfPubkey = test_key" "hexToU8a api remotePubkey = test_key"
    by (simp_all add: selfPubkey_def remotePubkey_def test_key_def del: hex_pairs.simps)
qed

text \<open>The suffix \<open>27d\<close> of the default keys is no decimal number, so the default \<open>sesh\<close> is 0.\<close>

lemma default_sesh: "sesh_of selfPubkey remotePubkey = 0"
proof -
  have "number_of_string ''27d'' = None"
    by (simp add: number_of_string_def is_digit_def)
  then show ?thesis
    by (simp add: sesh_of_def key_suffix_def selfPubkey_def remotePubkey_def to_int32_def)
qed

lemma default_numbers:
  assumes "vd = voucher_data_of api (Text ''6568'') (default_session api) None None"
    and "2 ^ 63 \<le> radix_value 16 (hex_prefix (vd_nonce vd))"
  shows "written (oracleBlock vd) = Some 6144" "written (vd_difficulty vd) = Some 5000"
    "written (noRedeemBeforeBlock vd) = Some 1701322824" "written (valueIfPaid vd) = Some 12345"
proof -
  have "to_number (Text ''6568'') = Some 6568"
    by (simp add: number_of_digits is_digit_def radix_value_def hex_value_def)
  from nonce_free_oracle [OF assms(1) this assms(2)]
  show "written (oracleBlock vd) = Some 6144"
    by (simp add: default_session_def default_sesh written_def)
  show "written (noRedeemBeforeBlock vd) = Some 1701322824"
    by (simp add: assms(1) voucher_data_of_def Let_def dec_string_2048 written_def is_hex_digit_def
        radix_value_def hex_value_def)
qed (simp_all add: assms(1) voucher_data_of_def Let_def default_session_def js_or_def written_def)

section \<open>A client with a large nonce\<close>

definition vector_api :: client_api where
  "vector_api = demo_client_api\<lparr>blake2AsHex := \<lambda>s. replicate 64 (CHR ''f'')\<rparr>"

lemma digits_f: "list_all is_hex_digit (replicate n (CHR ''f''))"
  by (induction n) (simp_all add: is_hex_digit_def)

lemma vector_ok: "client_ok vector_api"
  using demo_client_ok digits_f [of 64] hex_digits_no_prefix [OF digits_f [of 64]]
  by (simp add: client_ok_def vector_api_def demo_client_api_def)

lemma vector_nonce: "2 ^ 63 \<le> radix_value 16 (hex_prefix (blake2AsHex vector_api s))"
proof -
  have radix: "radix_value 16 (replicate n (CHR ''f'')) + 1 = 16 ^ n" for n
  proof (induction n)
    case (Suc n)
    have "radix_value 16 (replicate (Suc n) (CHR ''f'')) =
        16 * radix_value 16 (replicate n (CHR ''f'')) + 15"
      using radix_value_simps(2) [of 16 "replicate n (CHR ''f'')" "CHR ''f''"]
      by (simp add: replicate_append_same hex_value_def)
    also have "\<dots> + 1 = 16 * (radix_value 16 (replicate n (CHR ''f'')) + 1)" by simp
    finally show ?case using Suc by simp
  qed simp
  have "2 ^ 63 \<le> radix_value 16 (replicate 64 (CHR ''f''))"
    using radix [of 64] by simp
  moreover have "hex_prefix (replicate 64 (CHR ''f'')) = replicate 64 (CHR ''f'')"
    using digits_f [of 64] by (simp add: hex_prefix_def takeWhile_replicate is_hex_digit_def numeral_2_eq_2)
  ultimately show ?thesis
    by (simp add: vector_api_def)
qed

section \<open>Properties\<close>

text \<open>
  C31: The test vector is the client's own: asked at head block 6568, which the sidecar gives as a
  string, with the default session and price and any nonce whose hash has 64 bits or more, the
  client makes a voucher with the numbers and keys of the vector. So the vector's redemption
  block, \<open>65682048\<close>, is the head block with the characters \<open>2048\<close> appended, and its oracle block
  the first of the current era.
\<close>

theorem test_vector_of_client:
  assumes "client_ok api"
    and "2 ^ 63 \<le> radix_value 16 (hex_prefix (blake2AsHex api (blake2AsHex api ''http:/blah.bla'')))"
  shows "\<exists>bytes. payPaymentRequest api (Text ''6568'') None None None = Ok bytes \<and>
    length bytes = 192 \<and> take 16 bytes = take 16 test_vector \<and>
    take 64 (drop 32 bytes) = take 64 (drop 32 test_vector)"
proof -
  define vd where "vd = voucher_data_of api (Text ''6568'') (default_session api) None None"
  have "2 ^ 63 \<le> radix_value 16 (hex_prefix (vd_nonce vd))"
    using assms(2) by (simp add: vd_def voucher_data_of_def Let_def)
  note numbers = default_numbers [OF vd_def this]
  have keys: "senderPubKey vd = selfPubkey" "recipientPubKey vd = remotePubkey"
    by (simp_all add: vd_def voucher_data_of_def Let_def default_session_def)
  have hashes: "length (hexToU8a api (priceListCommit vd)) = 32" "length (hexToU8a api (vd_nonce vd)) = 32"
    using assms(1)
    by (simp_all add: client_ok_def vd_def voucher_data_of_def Let_def default_session_def)
  have "packable api vd"
    by (simp add: packable_def numbers keys hashes hexToU8a_keys [OF assms(1)] length_test_key)
  note layout = pack_layout [OF assms(1) this] length_packed [OF this]
  have "length (signer_sign api m) = 64" for m
    using assms(1) by (simp add: client_ok_def)
  then show ?thesis
    using layout
    by (simp add: payPaymentRequest_def flip: vd_def)
      (simp add: packed_def test_vector_fields field_def numbers keys hashes length_test_key
        hexToU8a_keys [OF assms(1)])
qed

theorem test_vector_of_client_witness:
  "\<exists>bytes. payPaymentRequest vector_api (Text ''6568'') None None None = Ok bytes \<and>
     take 16 bytes = [0, 0, 0x18, 0, 0, 0, 0x13, 0x88, 0x65, 0x68, 0x20, 0x48, 0, 0, 0x30, 0x39]"
  using test_vector_of_client [OF vector_ok vector_nonce]
  by (auto simp: test_vector_fields be_bytes_def le_bytes_4)

text \<open>
  C32: The test vector's test cannot pass, whatever the signature in the vector: no block has been
  started, so there is no draw for the oracle block. The claim returns an error, and with a
  signature that verifies the error is \<open>ClaimedTooSoonOrLate\<close>.
\<close>

theorem test_vector_fails:
  assumes "substrate_ok env" and "decode_account env test_key = Some alice"
  shows "\<exists>e. claim_works_for_test_vector env init = Err e \<and>
    (\<forall>sig. decode_signature env (drop 128 test_vector) = Some sig \<and>
       sig_verify env sig (take 128 test_vector) alice \<longrightarrow> e = Module ClaimedTooSoonOrLate)"
proof (cases "decode_signature env (drop 128 test_vector)")
  case None
  have "claim_works_for_test_vector env init = Err (Module (InvalidVoucher 3))"
    using test_vector_unsigned [OF assms None] by (simp add: test_run [OF assms(2)] claim_def)
  then show ?thesis using None by simp
next
  case (Some sig)
  obtain v where v: "parse env test_vector = Ok v" "signature v = sig" "sender_pk v = alice"
    "recipient_pk v = alice" "no_redeem_before_block v = 0x48206865"
    using test_vector_parse [OF assms Some] by blast
  then show ?thesis
    by (simp add: test_run [OF assms(2)] claim_parsed [OF assms(1) v(1)] decide_def Some
        set_block_number_def new_test_ext_def genesis_def history_get_def)
qed

theorem test_vector_fails_witness:
  "\<exists>e. claim_works_for_test_vector demo_substrate (0 :: nat) = Err e"
proof -
  have "decode_account demo_substrate test_key \<noteq> None"
    by (simp add: demo_substrate_def word_from_le_def length_test_key)
  then obtain a where "decode_account demo_substrate test_key = Some a" by blast
  from test_vector_fails [OF demo_substrate_ok this, of 0] show ?thesis by (elim exE conjE) (rule exI)
qed

end
