(* ===== verification/Client_Oracle.thy ===== *)
theory Client_Oracle
  imports Test_Vector
begin

text \<open>
  What is known of the draw when the client signs a voucher
  (\<open>guillotine-local-node/express/src/payments/payPaymentRequest.js\<close> against \<open>on_initialize\<close> and
  \<open>claim\<close> of \<open>blockchain/pallets/probabilistic-payments/src/lib.rs\<close>): the client takes the oracle
  block from the era of the head block, so the chain may have drawn for it already.
\<close>

section \<open>The oracle block of a voucher\<close>

lemma oracle_block_number:
  assumes "names_block currentBlock n"
    and "vd = voucher_data_of api currentBlock session amount cache"
    and "2 ^ 63 \<le> radix_value 16 (hex_prefix (vd_nonce vd))"
    and "unat (sesh session) < 1024" and "written (oracleBlock vd) = Some k"
  shows "k = n div 1024 * 1024 + unat (sesh session)"
proof -
  have "oracleBlock vd = Num (int n div 1024 * 1024 + int (unat (sesh session)))"
    using nonce_free_oracle [OF assms(2) names_block_number [OF assms(1)] assms(3)] assms(4)
    by (simp add: sint_small)
  also have "\<dots> = Num (int (n div 1024 * 1024 + unat (sesh session)))"
    by (simp add: zdiv_int)
  finally have "nat (int (n div 1024 * 1024 + unat (sesh session))) = k"
    using assms(5) by (simp only: written_def js_value.case option.inject option.distinct split: if_splits)
  then show ?thesis by (simp only: nat_int)
qed

lemma drawn_in_era:
  assumes "substrate_ok env" and "trace env db as s" and "0 < unat k"
    and "unat k = unat (block_number s) div 1024 * 1024 + x"
  shows "history_get s k \<noteq> None \<longleftrightarrow> x \<le> unat (block_number s) mod 1024"
proof -
  let ?n = "unat (block_number s)"
  have "?n = ?n div 1024 * 1024 + ?n mod 1024" by simp
  moreover have "?n mod 1024 < 1024" by simp
  ultimately have "0 < unat k \<and> unat k \<le> ?n \<and> ?n < unat k + 1024 \<longleftrightarrow> x \<le> ?n mod 1024"
    using assms(3,4) by linarith
  then show ?thesis
    by (simp add: trace_history [OF assms(1,2)] in_window_def EPOCH_LENGTH_def)
qed

text \<open>Once the draw of an oracle block is known, so is what every voucher on it will do.\<close>

lemma drawn_decides:
  assumes env: "substrate_ok env" and tr: "trace env db as s" and "history_get s (oracle_block v) = Some d"
    and later: "trace env db (as @ bs) t"
    and v: "honest_voucher env who bytes v"
  shows "(\<exists>t'. claim env (Some who) bytes t = Ok t') \<longleftrightarrow>
    claimable_at v (block_number t) \<and> wins (difficulty v) (draw_of env bytes d)"
proof -
  have win: "in_window EPOCH_LENGTH (block_number s) (oracle_block v)"
    and "d = logged env as (oracle_block v)"
    using assms(3) by (auto simp: trace_history [OF env tr] split: if_splits)
  moreover have "logged env (as @ bs) (oracle_block v) = logged env as (oracle_block v)"
    using win trace_block_number [OF env tr] by (intro logged_prefix) (auto simp: in_window_def)
  ultimately show ?thesis
    using claim_on_trace [OF env later v] wins_nonzero by auto
qed

section \<open>The default session\<close>

text \<open>The default session's number is 0, so its oracle block never lies ahead.\<close>

lemma default_oracle_drawn:
  assumes "substrate_ok env" and "trace env db as s"
    and "names_block currentBlock (unat (block_number s))"
    and "vd = voucher_data_of api currentBlock (default_session api) amount cache"
    and "2 ^ 63 \<le> radix_value 16 (hex_prefix (vd_nonce vd))"
    and "written (oracleBlock vd) = Some (unat k)" and "0 < unat k"
  shows "history_get s k \<noteq> None"
proof -
  have sesh: "unat (sesh (default_session api)) = 0"
    by (simp add: default_session_def default_sesh)
  have "unat k = unat (block_number s) div 1024 * 1024 + 0"
    using oracle_block_number [OF assms(3,4,5) _ assms(6)] sesh by simp
  from drawn_in_era [OF assms(1,2,7) this] show ?thesis by simp
qed

section \<open>Properties\<close>

text \<open>
  C30: The client can know the outcome before it signs: for a voucher made at the head block, the
  draw of its oracle block is already in the history exactly if the session's number is at most
  the head block's place in its era; and then the draw decides, for every voucher on that oracle
  block and in every continuation of the chain, whether a claim in time pays. A sender can so
  hand out only vouchers that lose.
\<close>

theorem oracle_already_drawn:
  assumes "substrate_ok env" and "trace env db as s"
    and "names_block currentBlock (unat (block_number s))"
    and "vd = voucher_data_of api currentBlock session amount cache"
    and "2 ^ 63 \<le> radix_value 16 (hex_prefix (vd_nonce vd))" and "unat (sesh session) < 1024"
    and "written (oracleBlock vd) = Some (unat k)" and "0 < unat k"
  shows "(history_get s k \<noteq> None \<longleftrightarrow> unat (sesh session) \<le> unat (block_number s) mod 1024) \<and>
    (\<forall>d bs t who bytes v. history_get s k = Some d \<and> trace env db (as @ bs) t \<and>
       honest_voucher env who bytes v \<and> oracle_block v = k \<longrightarrow>
       ((\<exists>t'. claim env (Some who) bytes t = Ok t') \<longleftrightarrow>
        claimable_at v (block_number t) \<and> wins (difficulty v) (draw_of env bytes d)))"
proof
  show "history_get s k \<noteq> None \<longleftrightarrow> unat (sesh session) \<le> unat (block_number s) mod 1024"
    using drawn_in_era [OF assms(1,2,8) oracle_block_number [OF assms(3-7)]] .
qed (use drawn_decides [OF assms(1,2)] in blast)

theorem oracle_already_drawn_witness:
  "\<exists>d. history_get demo_state 1 = Some d \<and>
     wins (difficulty demo_voucher) (draw_of demo_substrate demo_bytes d)"
proof -
  let ?session = "demo_session\<lparr>sesh := 1\<rparr>"
  let ?vd = "voucher_data_of vector_api (Num 1) ?session None None"
  have names: "names_block (Num 1) (unat (block_number (demo_state :: (u256, u256) pallet_state)))"
    by (simp add: names_block_def demo_state_def)
  have nonce: "2 ^ 63 \<le> radix_value 16 (hex_prefix (vd_nonce ?vd))"
    using vector_nonce by (simp add: voucher_data_of_def Let_def)
  then have "oracleBlock ?vd = Num 1"
    using nonce_free_oracle [OF refl, of "Num 1" 1 vector_api ?session None None]
    by (simp add: sint_small)
  then have written: "written (oracleBlock ?vd) = Some (unat (1 :: u32))"
    by (simp add: written_def)
  have bounds: "unat (sesh ?session) < 1024" "0 < unat (1 :: u32)" by simp_all
  note known = oracle_already_drawn [OF demo_substrate_ok demo_trace names refl nonce bounds(1) written bounds(2)]
  obtain d where d: "history_get demo_state 1 = Some d"
    using known by (auto simp: demo_state_def)
  have "(\<exists>t'. claim demo_substrate (Some 2) demo_bytes demo_state = Ok t') \<longleftrightarrow>
      claimable_at demo_voucher (block_number (demo_state :: (u256, u256) pallet_state)) \<and>
      wins (difficulty demo_voucher) (draw_of demo_substrate demo_bytes d)"
    using known [THEN conjunct2, rule_format, of d "[]" demo_state 2 demo_bytes demo_voucher]
      d demo_trace demo_honest by (simp add: demo_voucher_def)
  then show ?thesis using d demo_claim by blast
qed

end
