(* ===== verification/Http_Handlers.thy ===== *)
theory Http_Handlers
  imports Straight_Line Client_Voucher
begin

text \<open>
  The HTTP handlers of the two Express servers (\<open>guillotine-node/express/src\<close>: \<open>server.js\<close>,
  \<open>openSession.js\<close>, \<open>acceptPageRequest.js\<close>; \<open>guillotine-local-node/express/src\<close>: \<open>server.js\<close>,
  \<open>forwardRequest.js\<close>, \<open>completePayment.js\<close>), as the sequences of calls they make on the network
  and on the response. A handler runs \<open>process(..).then(respond).catch(log)\<close>: an exception
  thrown on the way skips the rest and is only logged, so the request gets no answer. A
  \<open>ReferenceError\<close> of the code is a \<open>Throw\<close>; the code after it is kept.
\<close>

section \<open>Calls and routes\<close>

text \<open>
  An entry of \<open>siteCookies\<close> is an object with a property \<open>cookie\<close>. The second argument of \<open>fetch\<close> is
  missing or has the headers, whose \<open>cookie\<close> is such an object or \<open>undefined\<close>.

  \<open>Fetch url modifier\<close> stands for the request and the reading of its answer, \<open>PipeBody\<close> for
  \<open>response.body.stream.pipe(res)\<close>; both may throw, as may \<open>decodeAddress\<close>.
\<close>

datatype site_cookie = SiteCookie string

datatype http_call =
    Fetch string "site_cookie option option"
  | DecodeAddress string
  | Blake2 string
  | SetType string
  | SetStatus nat
  | PipeBody
  | Send

datatype handler = OpenSession | AcceptPageRequest | ForwardRequest | CompletePayment

definition node_routes :: "(string \<times> handler) list" where
  "node_routes =
     [(''/openSession/:from'', OpenSession), (''/page/:url/:from'', AcceptPageRequest)]"

definition local_routes :: "(string \<times> handler) list" where
  "local_routes =
     [(''/request'', ForwardRequest), (''/completePayment/:sesh/:voucher'', CompletePayment)]"

definition sidecarUrl :: string where
  "sidecarUrl = ''http://127.0.0.1:8080/''"

definition not_defined :: "string \<Rightarrow> string" where
  "not_defined x = ''ReferenceError: '' @ x @ '' is not defined''"

definition refuse_error :: string where
  "refuse_error = ''Error: [object Object]''"

text \<open>The answer that ends every handler: JSON with status 200.\<close>

definition send_json :: "(http_call, string) stmt list" where
  "send_json = [Do (SetType ''application/json''), Do (SetStatus 200), Do Send]"

section \<open>The guillotine node\<close>

definition AliceAddy :: string where
  "AliceAddy = ''5GrwvaEF5zXb26Fz9rcQpDWS57CtERHpNehXCPcNoHGKutQY''"

text \<open>\<open>JSON.stringify(priceList.default)\<close>, of \<open>express/constants.js\<close>.\<close>

definition priceList_json :: string where
  \<open>priceList_json = ''{"service":"default","unit":"byte","price":1}''\<close>

text \<open>
  \<open>newSession\<close>: the peer has to name itself and to have a balance. Its session number reads a
  variable \<open>remotePubkey\<close> that the file does not have, and then one \<open>sesh\<close>. The route passes no
  modules, so none are asked for.
\<close>

definition newSession :: "string option \<Rightarrow> bool \<Rightarrow> (http_call, string) stmt list" where
  "newSession from peerBalancePositive =
     only_if (from \<in> {None, Some []}) [Throw refuse_error] @
     [Try (Fetch (sidecarUrl @ ''accounts/'' @ AliceAddy @ ''/balance-info'') None)] @
     only_if (\<not> peerBalancePositive) [Throw refuse_error] @
     [Do (Blake2 priceList_json),
      Throw (not_defined ''remotePubkey''),
      Throw (not_defined ''sesh'')]"

definition openSession_get :: "string option \<Rightarrow> bool \<Rightarrow> (http_call, string) stmt list" where
  "openSession_get from peerBalancePositive = newSession from peerBalancePositive @ send_json"

text \<open>\<open>url.indexOf(pattern) > -1\<close>, and the cookies a page is fetched with.\<close>

fun contains :: "string \<Rightarrow> string \<Rightarrow> bool" where
  "contains pattern [] \<longleftrightarrow> pattern = []"
| "contains pattern (c # cs) \<longleftrightarrow>
     take (length pattern) (c # cs) = pattern \<or> contains pattern cs"

definition fetchModifier ::
  "(string \<Rightarrow> site_cookie option) \<Rightarrow> string \<Rightarrow> site_cookie option option" where
  "fetchModifier cookies url =
     (if contains ''medium.com'' url then Some (cookies ''medium'')
      else if contains ''twitter.com'' url then Some (cookies ''twitter'')
      else None)"

definition siteCookies :: "string \<Rightarrow> site_cookie option" where
  "siteCookies = [''medium'' \<mapsto> SiteCookie ''accessToken=1234abc; userId=1234'']"

text \<open>
  \<open>processRequest\<close> of a page: the page's body is piped into the response, and then a variable
  \<open>params\<close> is returned that the function does not have.
\<close>

definition page_process ::
  "(string \<Rightarrow> site_cookie option) \<Rightarrow> string \<Rightarrow> string \<Rightarrow> (http_call, string) stmt list" where
  "page_process cookies url from =
     [Try (DecodeAddress from),
      Try (Fetch url (fetchModifier cookies url)),
      Do (SetStatus 200),
      Try PipeBody,
      Throw (not_defined ''params'')]"

text \<open>
  What both page handlers do with the result: its headers are read, which no result of
  \<open>processRequest\<close> has, and a variable \<open>results\<close> is sent that does not exist.
\<close>

definition page_respond :: "(http_call, string) stmt list" where
  "page_respond =
     [Throw ''TypeError: Cannot read properties of undefined'',
      Do (SetType ''application/json''),
      Do (SetStatus 200),
      Throw (not_defined ''results''),
      Do Send]"

definition acceptPageRequest_get ::
  "(string \<Rightarrow> site_cookie option) \<Rightarrow> string \<Rightarrow> string \<Rightarrow> (http_call, string) stmt list" where
  "acceptPageRequest_get cookies url from = page_process cookies url from @ page_respond"

text \<open>
  With the cookies of the constants, a page of one site is fetched with an object for a cookie, and a
  page of the other with none.
\<close>

lemma fetchModifier_cookies:
  "contains ''medium.com'' url \<Longrightarrow>
     fetchModifier siteCookies url = Some (Some (SiteCookie ''accessToken=1234abc; userId=1234''))"
  "\<not> contains ''medium.com'' url \<Longrightarrow> contains ''twitter.com'' url \<Longrightarrow>
     fetchModifier siteCookies url = Some None"
  by (simp_all add: fetchModifier_def siteCookies_def)

section \<open>The local node\<close>

definition forward_process :: "string \<Rightarrow> string \<Rightarrow> (http_call, string) stmt list" where
  "forward_process nodeUrl query =
     [Try (Fetch (nodeUrl @ ''/'' @ query) None), Throw (not_defined ''params'')]"

definition forwardRequest_get :: "string \<Rightarrow> string \<Rightarrow> (http_call, string) stmt list" where
  "forwardRequest_get nodeUrl query = forward_process nodeUrl query @ page_respond"

text \<open>
  \<open>payPaymentRequest(undefined, sesh)\<close>: the head block is fetched, the voucher is packed with the
  default session and price, and nothing is returned; a failure to pack is thrown.
\<close>

definition payment_process :: "client_api \<Rightarrow> js_value \<Rightarrow> (http_call, string) stmt list" where
  "payment_process api currentBlock =
     Try (Fetch (sidecarUrl @ ''blocks/head/header'') None) #
     (case payPaymentRequest api currentBlock None None None of
        Ok voucher \<Rightarrow> []
      | Err e \<Rightarrow> [Throw e]
      | Panic \<Rightarrow> [])"

definition completePayment_get :: "client_api \<Rightarrow> js_value \<Rightarrow> (http_call, string) stmt list" where
  "completePayment_get api currentBlock = payment_process api currentBlock @ send_json"

section \<open>Answers\<close>

text \<open>What a handler does in a world; the final \<open>catch\<close> swallows an exception.\<close>

definition handled :: "(http_call, string) world \<Rightarrow> (http_call, string) stmt list \<Rightarrow> http_call list" where
  "handled w script = snd (exec w script)"

definition answered :: "http_call list \<Rightarrow> bool" where
  "answered log \<longleftrightarrow> Send \<in> set log"

text \<open>A call that comes after a \<open>Throw\<close> is never made.\<close>

lemma handled_throw:
  assumes "c \<notin> set (all_calls xs)"
  shows "c \<notin> set (handled w (xs @ Throw e # ys))"
proof
  assume c: "c \<in> set (handled w (xs @ Throw e # ys))"
  have "exec w ((xs @ [Throw e]) @ ys) = exec w (xs @ [Throw e])"
    using exec_append [of w "xs @ [Throw e]" ys]
    by (cases "exec w xs") (auto simp: exec_append split: outcome.splits)
  then have "c \<in> set (snd (exec w (xs @ [Throw e])))"
    using c by (simp add: handled_def)
  then show False
    using exec_log_subset [of w "xs @ [Throw e]"] assms by auto
qed

lemma packs_or_throws: "payPaymentRequest api currentBlock s a c \<noteq> Panic"
proof -
  have "set_u8a dst src k \<noteq> Panic" for dst src k
    by (simp add: set_u8a_def)
  then show ?thesis
    by (simp add: payPaymentRequest_def packAndSignVoucher_def Let_def rbind_Panic_iff
        del: list.map concat.simps)
qed

section \<open>Properties\<close>

text \<open>
  C34: Of the four routes only the completion of a payment is ever answered. Whatever the
  network does and whoever asks, no request to open a session and no request to forward gets
  an answer, and a page request gets at most the piped body of the page, after which its
  handler fails; the completion is answered exactly when the head block could be fetched and
  the voucher packed.
\<close>

theorem only_payments_answered:
  "\<not> answered (handled w (openSession_get from positive)) \<and>
   \<not> answered (handled w (forwardRequest_get nodeUrl query)) \<and>
   \<not> answered (handled w (acceptPageRequest_get cookies url from')) \<and>
   (answered (handled w (completePayment_get api currentBlock)) \<longleftrightarrow>
      failure w (Fetch ''http://127.0.0.1:8080/blocks/head/header'' None) = None \<and>
      (\<exists>voucher. payPaymentRequest api currentBlock None None None = Ok voucher))"
proof (intro conjI)
  have "Send \<notin> set (handled w
      ((only_if (from \<in> {None, Some []}) [Throw refuse_error] @
        [Try (Fetch (sidecarUrl @ ''accounts/'' @ AliceAddy @ ''/balance-info'') None)] @
        only_if (\<not> positive) [Throw refuse_error] @ [Do (Blake2 priceList_json)]) @
       Throw (not_defined ''remotePubkey'') # [Throw (not_defined ''sesh'')] @ send_json))"
    by (intro handled_throw) (simp add: only_if_def)
  then show "\<not> answered (handled w (openSession_get from positive))"
    by (simp add: answered_def openSession_get_def newSession_def)
  have "Send \<notin> set (handled w ([Try (Fetch (nodeUrl @ ''/'' @ query) None)] @
      Throw (not_defined ''params'') # page_respond))"
    by (intro handled_throw) simp
  then show "\<not> answered (handled w (forwardRequest_get nodeUrl query))"
    by (simp add: answered_def forwardRequest_get_def forward_process_def)
  have "Send \<notin> set (handled w ([Try (DecodeAddress from'),
      Try (Fetch url (fetchModifier cookies url)), Do (SetStatus 200), Try PipeBody] @
      Throw (not_defined ''params'') # page_respond))"
    by (intro handled_throw) simp
  then show "\<not> answered (handled w (acceptPageRequest_get cookies url from'))"
    by (simp add: answered_def acceptPageRequest_get_def page_process_def)
  show "answered (handled w (completePayment_get api currentBlock)) \<longleftrightarrow>
      failure w (Fetch ''http://127.0.0.1:8080/blocks/head/header'' None) = None \<and>
      (\<exists>voucher. payPaymentRequest api currentBlock None None None = Ok voucher)"
    using packs_or_throws [of api currentBlock None None None]
    by (cases "payPaymentRequest api currentBlock None None None")
      (auto simp: answered_def handled_def completePayment_get_def payment_process_def
        send_json_def sidecarUrl_def split: option.split)
qed

end
