(* ===== verification/Http_Start.thy ===== *)
theory Http_Start
  imports Http_Handlers
begin

text \<open>
  The start of the two Express servers (\<open>guillotine-local-node/express/src/index.js\<close> and
  \<open>guillotine-node/express/src/index.js\<close>, alike but for the text of a message; the ports of
  \<open>server.js\<close>), as a state machine: the main program makes one attempt to listen and sets a timer
  for another; then the callbacks run, in the order in which the operating system reports.
\<close>

section \<open>State and calls\<close>

text \<open>The port of the environment, else a default; an empty variable counts as missing.\<close>

definition local_port :: "string option \<Rightarrow> js_value" where
  "local_port LOCAL_GUILLOTINE_PORT = js_or (map_option Text LOCAL_GUILLOTINE_PORT) (Num 6000)"

definition node_port :: "string option \<Rightarrow> js_value" where
  "node_port GUILLOTINE_PORT = js_or (map_option Text GUILLOTINE_PORT) (Num 7000)"

definition delay :: nat where
  "delay = 500"

text \<open>
  What the program does to the outside, in order. \<open>LogError\<close> is \<open>console.log(e)\<close>, \<open>LogText\<close> the
  output of a string, \<open>Netstat\<close> the shell command that looks the port up; \<open>Uncaught\<close> stands for
  an exception that no handler catches.
\<close>

datatype start_call =
    Listen js_value
  | LogRunning js_value
  | LogTryingAgain nat
  | LogError string string
  | LogText string
  | Netstat js_value
  | Uncaught string
  | Exit

text \<open>
  The variables of the program, the attempts to listen and the shell commands whose callbacks are
  still to come, the number of servers that listen, whether the process has ended, and the calls made
  so far. \<open>nextTry\<close> is the timer: set or \<open>null\<close>.
\<close>

record start_state =
  triesRemaining :: int
  nextTry :: bool
  attempts :: nat
  servers :: nat
  lookups :: nat
  ended :: bool
  made :: "start_call list"

definition log_calls :: "start_call list \<Rightarrow> start_state \<Rightarrow> start_state" where
  "log_calls cs s = s\<lparr>made := made s @ cs\<rparr>"

text \<open>The port, and whether \<open>listen\<close> throws on it at once, as it does on one out of range.\<close>

record listen_env =
  port :: js_value
  port_rejected :: bool

section \<open>The callbacks\<close>

text \<open>
  \<open>if (triesRemaining--)\<close> tests the old value and decrements in any case; nothing catches what
  \<open>listen\<close> throws.
\<close>

definition tryToListen :: "listen_env \<Rightarrow> start_state \<Rightarrow> start_state" where
  "tryToListen env s =
     (let tries = triesRemaining s;
          s1 = s\<lparr>triesRemaining := tries - 1\<rparr>
      in if tries \<noteq> 0
         then if port_rejected env
           then log_calls [Listen (port env), Uncaught ''RangeError: ERR_SOCKET_BAD_PORT'']
             (s1\<lparr>ended := True\<rparr>)
           else log_calls [Listen (port env)] (s1\<lparr>attempts := attempts s1 + 1\<rparr>)
         else s1)"

definition on_listening :: "listen_env \<Rightarrow> start_state \<Rightarrow> start_state" where
  "on_listening env s =
     log_calls [LogRunning (port env)]
       (s\<lparr>attempts := attempts s - 1, servers := servers s + 1, triesRemaining := 0\<rparr>)"

text \<open>
  The error's code and message are logged after both branches: the \<open>else\<close> ends with its first
  statement.
\<close>

definition on_error :: "listen_env \<Rightarrow> string \<Rightarrow> string \<Rightarrow> start_state \<Rightarrow> start_state" where
  "on_error env code message s =
     (let s1 = (if code = ''EADDRINUSE'' then
                  let s2 = log_calls [LogText message] s
                  in if triesRemaining s2 \<noteq> 0 then log_calls [LogTryingAgain delay] s2
                     else log_calls [Netstat (port env)] (s2\<lparr>lookups := lookups s2 + 1\<rparr>)
                else log_calls [LogError code message] s)
      in log_calls [LogText code, LogText message] s1)"

text \<open>
  \<open>stdout.match(/(\d+)(?:\/node)/)[1]\<close>: the first run of digits that \<open>/node\<close> follows. Without
  a match the index is taken of \<open>null\<close>.
\<close>

fun node_pid :: "string \<Rightarrow> string option" where
  "node_pid [] = None"
| "node_pid (c # cs) =
     (let digits = takeWhile is_digit (c # cs)
      in if digits \<noteq> [] \<and> take 5 (dropWhile is_digit (c # cs)) = ''/node''
         then Some digits
         else node_pid cs)"

definition on_netstat :: "string \<Rightarrow> start_state \<Rightarrow> start_state" where
  "on_netstat stdout s =
     (let s1 = s\<lparr>lookups := lookups s - 1\<rparr>
      in case node_pid stdout of
           Some pid \<Rightarrow> log_calls [LogText ''Maybe try:'', LogText (''  kill -9 '' @ pid)] s1
         | None \<Rightarrow>
             log_calls [Uncaught ''TypeError: Cannot read properties of null''] (s1\<lparr>ended := True\<rparr>))"

definition on_timeout :: "listen_env \<Rightarrow> start_state \<Rightarrow> start_state" where
  "on_timeout env s = tryToListen env (s\<lparr>nextTry := False\<rparr>)"

definition on_sighup :: "start_state \<Rightarrow> start_state" where
  "on_sighup s = log_calls [LogText ''Bye bye!'', Exit] (s\<lparr>ended := True\<rparr>)"

text \<open>The main program; \<open>setTimeout\<close> gets no delay.\<close>

definition start_main :: "listen_env \<Rightarrow> start_state" where
  "start_main env =
     (let s = tryToListen env
        \<lparr>triesRemaining = 2, nextTry = False, attempts = 0, servers = 0, lookups = 0, ended = False,
         made = []\<rparr>
      in if ended s then s else s\<lparr>nextTry := True\<rparr>)"

section \<open>Runs\<close>

datatype start_event =
    Listening
  | Refused (refused_code: string) (refused_message: string)
  | Fault (fault_code: string) (fault_message: string)
  | Timeout
  | NetstatDone string
  | Hangup

text \<open>
  A callback runs while what it answers to is outstanding and the process has not ended. An attempt
  is answered once, by \<open>listening\<close> or by an error; the handler of errors stays on the server, so a
  server that listens may call it for a later fault, any number of times.
\<close>

inductive start_step :: "listen_env \<Rightarrow> start_state \<Rightarrow> start_event \<Rightarrow> start_state \<Rightarrow> bool"
  for env :: listen_env where
  listening: "\<not> ended s \<Longrightarrow> 0 < attempts s \<Longrightarrow> start_step env s Listening (on_listening env s)"
| refused: "\<not> ended s \<Longrightarrow> 0 < attempts s \<Longrightarrow>
    start_step env s (Refused code message)
      (on_error env code message (s\<lparr>attempts := attempts s - 1\<rparr>))"
| fault: "\<not> ended s \<Longrightarrow> 0 < servers s \<Longrightarrow>
    start_step env s (Fault code message) (on_error env code message s)"
| timeout: "\<not> ended s \<Longrightarrow> nextTry s \<Longrightarrow> start_step env s Timeout (on_timeout env s)"
| netstat: "\<not> ended s \<Longrightarrow> 0 < lookups s \<Longrightarrow>
    start_step env s (NetstatDone stdout) (on_netstat stdout s)"
| hangup: "\<not> ended s \<Longrightarrow> start_step env s Hangup (on_sighup s)"

inductive start_run :: "listen_env \<Rightarrow> start_event list \<Rightarrow> start_state \<Rightarrow> bool"
  for env :: listen_env where
  main: "start_run env [] (start_main env)"
| callback: "start_run env evs s \<Longrightarrow> start_step env s ev t \<Longrightarrow> start_run env (evs @ [ev]) t"

inductive_simps start_step_simps:
  "start_step env s Listening t"
  "start_step env s (Refused code message) t"
  "start_step env s (Fault code message) t"
  "start_step env s Timeout t"
  "start_step env s (NetstatDone stdout) t"
  "start_step env s Hangup t"

section \<open>The invariant\<close>

text \<open>
  Whether the server was running before the timer fired decides what the timer does. The state
  follows from the events so far; the answers to attempts and the attempts still open are the calls
  of \<open>listen\<close>.
\<close>

definition running_first :: "start_event list \<Rightarrow> bool" where
  "running_first evs \<longleftrightarrow> Listening \<in> set (takeWhile (\<lambda>e. e \<noteq> Timeout) evs)"

definition listen_count :: "start_call list \<Rightarrow> nat" where
  "listen_count cs = length (filter (\<lambda>c. case c of Listen _ \<Rightarrow> True | _ \<Rightarrow> False) cs)"

definition answer_count :: "start_event list \<Rightarrow> nat" where
  "answer_count evs =
     length (filter (\<lambda>e. case e of Listening \<Rightarrow> True | Refused _ _ \<Rightarrow> True | _ \<Rightarrow> False) evs)"

definition start_inv :: "listen_env \<Rightarrow> start_event list \<Rightarrow> start_state \<Rightarrow> bool" where
  "start_inv env evs s \<longleftrightarrow>
     (if port_rejected env then evs = [] \<and> ended s \<and> listen_count (made s) = 1
      else
       (nextTry s \<longleftrightarrow> Timeout \<notin> set evs) \<and>
       listen_count (made s) = (if Timeout \<in> set evs \<and> \<not> running_first evs then 2 else 1) \<and>
       triesRemaining s = (if nextTry s then if running_first evs then 0 else 1
                           else if running_first evs then - 1 else 0) \<and>
       (running_first evs \<longrightarrow> attempts s = 0) \<and>
       count_list evs Timeout \<le> 1 \<and>
       answer_count evs + attempts s = listen_count (made s))"

lemma listen_count_append [simp]: "listen_count (xs @ ys) = listen_count xs + listen_count ys"
  by (simp add: listen_count_def)

lemma listen_count_Cons [simp]:
  "listen_count (c # cs) = (case c of Listen _ \<Rightarrow> 1 | _ \<Rightarrow> 0) + listen_count cs"
  "listen_count [] = 0"
  by (auto simp: listen_count_def split: start_call.split)

lemma answer_count_simps [simp]:
  "answer_count [] = 0"
  "answer_count (evs @ [e]) =
     answer_count evs + (case e of Listening \<Rightarrow> 1 | Refused _ _ \<Rightarrow> 1 | _ \<Rightarrow> 0)"
  by (auto simp: answer_count_def split: start_event.split)

lemma running_first_snoc [simp]:
  "running_first (evs @ [e]) \<longleftrightarrow> running_first evs \<or> (e = Listening \<and> Timeout \<notin> set evs)"
proof (cases "Timeout \<in> set evs")
  case False
  have all: "takeWhile (\<lambda>e. e \<noteq> Timeout) (evs @ es) = evs @ takeWhile (\<lambda>e. e \<noteq> Timeout) es" for es
    by (rule takeWhile_append2) (use False in auto)
  then have "running_first evs \<longleftrightarrow> Listening \<in> set evs"
    unfolding running_first_def by (metis append_Nil2 takeWhile.simps(1))
  then show ?thesis using False by (auto simp: running_first_def all)
qed (auto simp: running_first_def)

lemmas start_defs = log_calls_def on_listening_def on_error_def on_netstat_def on_timeout_def
  on_sighup_def tryToListen_def Let_def

lemma start_inv_step:
  assumes "start_inv env evs s" and "start_step env s ev t"
  shows "start_inv env (evs @ [ev]) t"
  using assms(2,1)
  by cases
    (auto simp: start_inv_def start_defs count_list_0_iff split: option.split if_splits)

lemma start_inv_run: "start_run env evs s \<Longrightarrow> start_inv env evs s"
proof (induction rule: start_run.induct)
  case main
  then show ?case
    by (simp add: start_main_def start_inv_def start_defs running_first_def)
qed (rule start_inv_step)

section \<open>The hint\<close>

text \<open>The regular expression matches exactly if some digit stands before \<open>/node\<close>.\<close>

definition node_listed :: "string \<Rightarrow> bool" where
  "node_listed stdout \<longleftrightarrow> (\<exists>xs d ys. stdout = xs @ d # ''/node'' @ ys \<and> is_digit d)"

lemma node_listed_Cons:
  "node_listed (c # cs) \<longleftrightarrow> is_digit c \<and> take 5 cs = ''/node'' \<or> node_listed cs"
proof
  assume "node_listed (c # cs)"
  then obtain xs d ys where "c # cs = xs @ d # ''/node'' @ ys" "is_digit d"
    by (auto simp only: node_listed_def)
  then show "is_digit c \<and> take 5 cs = ''/node'' \<or> node_listed cs"
    by (cases xs) (auto simp: node_listed_def)
next
  assume "is_digit c \<and> take 5 cs = ''/node'' \<or> node_listed cs"
  moreover have "node_listed (c # cs)" if "is_digit c" "take 5 cs = ''/node''"
    using that append_take_drop_id [of 5 cs]
    unfolding node_listed_def by (intro exI [of _ "[]"] exI [of _ c] exI [of _ "drop 5 cs"]) simp
  moreover have "node_listed (c # cs)" if "node_listed cs"
    using that unfolding node_listed_def by (metis append_Cons)
  ultimately show "node_listed (c # cs)" by blast
qed

abbreviation pid_here :: "string \<Rightarrow> bool" where
  "pid_here s \<equiv> takeWhile is_digit s \<noteq> [] \<and> take 5 (dropWhile is_digit s) = ''/node''"

lemma node_pid_here: "pid_here (c # cs) \<Longrightarrow> node_pid (c # cs) = Some (takeWhile is_digit (c # cs))"
  unfolding node_pid.simps Let_def by (rule if_P)

lemma node_pid_later: "\<not> pid_here (c # cs) \<Longrightarrow> node_pid (c # cs) = node_pid cs"
  unfolding node_pid.simps Let_def by (rule if_not_P)

lemma node_pid_Some:
  "node_pid out = Some pid \<Longrightarrow>
    \<exists>xs ys. out = xs @ pid @ ''/node'' @ ys \<and> pid \<noteq> [] \<and> list_all is_digit pid"
proof (induction out rule: node_pid.induct)
  case (2 c cs)
  let ?ds = "takeWhile is_digit (c # cs)" and ?rest = "dropWhile is_digit (c # cs)"
  show ?case
  proof (cases "pid_here (c # cs)")
    case True
    then have "pid = ?ds" using 2(2) node_pid_here by simp
    moreover have "c # cs = [] @ ?ds @ ''/node'' @ drop 5 ?rest"
      using True append_take_drop_id [of 5 ?rest] takeWhile_dropWhile_id [of is_digit "c # cs"]
      by (metis append_Nil)
    moreover have "list_all is_digit ?ds"
      by (auto simp only: list_all_iff dest: set_takeWhileD)
    ultimately show ?thesis using True by blast
  next
    case False
    then have "node_pid cs = Some pid" using 2(2) node_pid_later by simp
    from 2(1) [OF refl False this] show ?thesis by (metis append_Cons)
  qed
qed simp

lemma node_pid_None: "node_pid out = None \<longleftrightarrow> \<not> node_listed out"
proof (induction out rule: node_pid.induct)
  case (2 c cs)
  show ?case
  proof (cases "node_pid (c # cs)")
    case None
    then have *: "\<not> pid_here (c # cs)" using node_pid_here by force
    have "\<not> (is_digit c \<and> take 5 cs = ''/node'')"
    proof
      assume "is_digit c \<and> take 5 cs = ''/node''"
      moreover from this obtain ys where "cs = ''/node'' @ ys" by (metis append_take_drop_id)
      ultimately show False using * by (simp add: is_digit_def)
    qed
    then show ?thesis using 2 [OF refl *] None node_pid_later [OF *] by (simp add: node_listed_Cons)
  next
    case (Some pid)
    then obtain xs ys where *: "c # cs = xs @ pid @ ''/node'' @ ys" "pid \<noteq> []" "list_all is_digit pid"
      using node_pid_Some by blast
    then have "c # cs = (xs @ butlast pid) @ last pid # ''/node'' @ ys \<and> is_digit (last pid)"
      by (auto simp: list_all_iff)
    then have "node_listed (c # cs)" unfolding node_listed_def by blast
    then show ?thesis using Some by simp
  qed
qed (simp add: node_listed_def)

section \<open>Properties\<close>

text \<open>
  C35: A server calls \<open>listen\<close> once, and a second time exactly if it is not running when its
  timer fires, which it does at most once; no attempt is answered twice. An attempt that finds the
  port busy is answered by the promise to try again exactly while the timer is still to come, so the
  promise is always kept, and by the look-up of the process to kill after that. The look-up ends
  the server with an uncaught exception exactly if its output has no number in front of
  \<open>/node\<close>, and a port that \<open>listen\<close> does not take ends it in the first attempt.
\<close>

theorem start_retries_once:
  assumes "start_run env evs s"
  shows "listen_count (made s) = (if Timeout \<in> set evs \<and> \<not> running_first evs then 2 else 1) \<and>
    count_list evs Timeout \<le> 1 \<and> answer_count evs \<le> listen_count (made s) \<and>
    (\<forall>message t. start_step env s (Refused ''EADDRINUSE'' message) t \<longrightarrow>
       made t = made s @ [LogText message,
         if Timeout \<in> set evs then Netstat (port env) else LogTryingAgain delay,
         LogText ''EADDRINUSE'', LogText message]) \<and>
    (\<forall>stdout t. start_step env s (NetstatDone stdout) t \<longrightarrow> (ended t \<longleftrightarrow> \<not> node_listed stdout)) \<and>
    (port_rejected env \<longrightarrow> evs = [] \<and> ended s)"
proof (intro conjI allI impI)
  note inv = start_inv_run [OF assms, unfolded start_inv_def]
  show "listen_count (made s) = (if Timeout \<in> set evs \<and> \<not> running_first evs then 2 else 1)"
    and "count_list evs Timeout \<le> 1" and "answer_count evs \<le> listen_count (made s)"
    using inv by (auto split: if_splits)
  show "evs = []" and "ended s" if "port_rejected env" using that inv by simp_all
  fix message stdout t
  show "made t = made s @ [LogText message,
      if Timeout \<in> set evs then Netstat (port env) else LogTryingAgain delay,
      LogText ''EADDRINUSE'', LogText message]"
    if "start_step env s (Refused ''EADDRINUSE'' message) t"
    using that inv by (auto simp: start_step_simps start_defs split: if_splits)
  show "ended t \<longleftrightarrow> \<not> node_listed stdout" if "start_step env s (NetstatDone stdout) t"
    using that node_pid_None [of stdout]
    by (auto simp: start_step_simps start_defs split: option.split)
qed

theorem start_retries_once_witness:
  "\<exists>s t. start_run \<lparr>port = Num 6000, port_rejected = False\<rparr> [Refused ''EADDRINUSE'' ''in use'', Timeout] s \<and>
     listen_count (made s) = 2 \<and>
     start_step \<lparr>port = Num 6000, port_rejected = False\<rparr> s (Refused ''EADDRINUSE'' ''in use'') t \<and>
     Netstat (Num 6000) \<in> set (made t)"
proof -
  let ?p = "\<lparr>port = Num 6000, port_rejected = False\<rparr>" and ?busy = "Refused ''EADDRINUSE'' ''in use''"
  let ?a = "on_error ?p ''EADDRINUSE'' ''in use'' ((start_main ?p)\<lparr>attempts := 0\<rparr>)"
  let ?s = "on_timeout ?p ?a" and ?t = "on_error ?p ''EADDRINUSE'' ''in use'' ((on_timeout ?p ?a)\<lparr>attempts := 0\<rparr>)"
  have "start_run ?p ([] @ [?busy]) ?a"
    by (rule callback [OF main]) (simp add: start_step_simps start_main_def start_defs)
  then have "start_run ?p (([] @ [?busy]) @ [Timeout]) ?s"
    by (rule callback) (simp add: start_step_simps start_main_def start_defs)
  then have run: "start_run ?p [?busy, Timeout] ?s" by simp
  have step: "start_step ?p ?s ?busy ?t"
    by (simp add: start_step_simps start_main_def start_defs)
  have "Netstat (Num 6000) \<in> set (made ?t)" and "listen_count (made ?s) = 2"
    using start_retries_once [OF run] step by (auto simp: running_first_def)
  then show ?thesis using run step by blast
qed

end
