(* ===== verification/Spec2Isabelle.thy ===== *)
theory Spec2Isabelle
  imports Chain_Progress Claim_Order Raw_Storage Storage_Cost Runtime_Refinement Runtime_Benchmarks
    Mock_Runtime Chain_Spec Service Command Offchain_Tx Test_Vector Client_Oracle Http_Handlers
    Http_Start
begin

text \<open>
  A model of the guillotine payment chain and of the client that pays over it.

  \<^bold>\<open>The program.\<close> A client of a guillotine node pays it in lottery vouchers: 192 bytes that
  name an oracle block, a difficulty, a redemption block and a value, signed by the sender.
  The node submits a voucher to a Substrate chain, whose pallet \<open>probabilistic-payments\<close>
  records one random value per block and decides from the value of the oracle block
  whether the voucher wins. Around the pallet are the runtime that composes it with the stock
  pallets, the node binary that runs the runtime, and two Express servers in JavaScript.

  \<^bold>\<open>Parts and theories\<close> (paths under \<open>src/\<close>).
  \<^item> \<open>Prelude\<close>: results with errors and panics (\<open>outcome\<close>), machine integers, slices.
  \<^item> \<open>Byte_Codec\<close>: little-endian integers and \<open>U256\<close>; the interfaces \<open>fixed_codec\<close> and
    \<open>total_codec\<close>, interpreted on the integer codecs.
  \<^item> \<open>Substrate\<close>: the parameters that stand for the Substrate crates.
  \<^item> \<open>Voucher\<close>: \<open>Voucher\<close> and \<open>Voucher::parse\<close> of
    \<open>blockchain/pallets/probabilistic-payments/src/lib.rs\<close>.
  \<^item> \<open>Randomness_History\<close>: the storage map and \<open>on_initialize\<close> of the same file; the interfaces
    \<open>storage_map\<close> and \<open>rolling_window\<close>, interpreted on them.
  \<^item> \<open>Draw\<close> and \<open>Claim\<close>: the draw and the dispatchable \<open>claim\<close> of the same file.
  \<^item> \<open>Chain\<close>: blocks and extrinsics as a step relation, and all that holds over a trace;
    \<open>Chain_Progress\<close>: that the relation never gets stuck; \<open>Claim_Order\<close>: that the order of the
    claims in a block does not matter.
  \<^item> \<open>Raw_Storage\<close>: the pallet over the hashed keys and encoded values of the chain's store.
  \<^item> \<open>Weights\<close>: \<open>weights.rs\<close> and \<open>benchmarking.rs\<close> beside the pallet; \<open>Storage_Cost\<close>: the pallet's
    operations as programs whose every storage access is logged, against those weights.
  \<^item> \<open>Runtime_Config\<close> and \<open>Offchain_Tx\<close>: constants, pallet composition and
    \<open>create_transaction\<close> of \<open>blockchain/runtime/src/lib.rs\<close>, and the extrinsic builders of
    \<open>blockchain/node/src/benchmarking.rs\<close>.
  \<^item> \<open>Runtime_Chain\<close>: the pallet inside the runtime, whose blocks start from a header, run the hooks
    of all pallets in the order of \<open>construct_runtime!\<close> and take extrinsics with the calls of any
    pallet, between the checks and charges of the signed extensions; the interface
    \<open>hook_schedule\<close>, interpreted on the runtime's pallets. \<open>Runtime_Refinement\<close>: which trace of the
    chain a run of the runtime is.
  \<^item> \<open>Chain_Spec\<close>: \<open>blockchain/node/src/chain_spec.rs\<close>.
  \<^item> \<open>Runtime_Pallets\<close>: the configuration of the pallets; \<open>Runtime_Api\<close> and
    \<open>Runtime_Benchmarks\<close>: \<open>impl_runtime_apis!\<close> of the same \<open>lib.rs\<close>, with the node's native executor.
  \<^item> \<open>Mock_Runtime\<close>: \<open>mock.rs\<close> and \<open>tests.rs\<close> beside the pallet.
  \<^item> \<open>Straight_Line\<close>: effectful code as a sequence of calls that may fail; the interface
    \<open>guarded_start\<close>, interpreted on \<open>new_full\<close>.
  \<^item> \<open>Service\<close>: \<open>service.rs\<close> and \<open>rpc.rs\<close>; \<open>Command\<close>: \<open>cli.rs\<close>, \<open>command.rs\<close> and \<open>main.rs\<close>, all of
    \<open>blockchain/node/src\<close>.
  \<^item> \<open>Js_Values\<close>: the JavaScript values and conversions that the client uses; \<open>Client_Voucher\<close>:
    \<open>packAndSignVoucher.js\<close> and \<open>payPaymentRequest.js\<close> of \<open>guillotine-local-node/express/src\<close>.
  \<^item> \<open>Http_Handlers\<close>: the routes of \<open>guillotine-node/express/src\<close> and
    \<open>guillotine-local-node/express/src\<close>; \<open>Http_Start\<close>: how the two servers start to listen
    (\<open>index.js\<close>).
  \<^item> \<open>Test_Vector\<close>: the voucher of the pallet's ignored test, made by the client and given to the
    pallet; \<open>Client_Oracle\<close>: what is known of the draw when the client makes a voucher.

  \<^bold>\<open>State and operations.\<close> The pallet's state is the record \<open>pallet_state\<close>: the block number of
  \<open>frame_system\<close>, the map \<open>RandomnessHistory\<close> and the deposited events. \<open>on_initialize\<close> and
  \<open>claim\<close> take and return it; a dispatchable that fails leaves it as it was, which the step
  relation of \<open>Chain\<close> says, and a panic is no step. \<open>new_partial\<close>, \<open>new_full\<close>, \<open>create_full\<close>,
  \<open>run\<close> and the HTTP handlers are lists of statements (a plain call, a call with \<open>?\<close>, an \<open>expect\<close>,
  a returned error), run against a world that says which calls fail; a run yields the outcome and
  the log of calls.
  The state of the runtime is the payments pallet's and all other storage, which is a parameter with
  the hooks, extensions and calls of the stock pallets: every extrinsic, a claim too, may change it. A method of the runtime APIs is the expression that answers
  it, evaluated over the functions of the crates. The start of a server is a step relation on its
  variables and outstanding callbacks, whose events are what the operating system reports.
  Machine integers keep their width, with the wrap-around or saturation of the code.

  \<^bold>\<open>What is shown.\<close>
  \<^item> Parsing and the wire layout are inverse to each other, parsing never panics, its error codes
    name the first bad field.
  \<^item> In every reachable state the history holds exactly the values of the last 1024 blocks, and
    the events along any trace are those of a specification over the log of all blocks that knows
    of no storage. From this follow the interval in which a voucher can be claimed, that every
    event is backed by a signed winning voucher, and that a claim stays good until the interval
    ends; also what the pallet does not do: a paid voucher can be claimed again, and a difficulty
    of zero panics. Every schedule of blocks and live submissions runs to its end.
    The claims of a block commute but for the order of their events.
  \<^item> The map refines to the store of the chain: over hashed keys and encoded values the pallet does
    the same, touches no other key and never occupies more than 1024.
  \<^item> The runtime refines the chain: whatever the headers, the stock pallets and the charges for
    extrinsics do, every run of it is, for the payments pallet, the trace of the chain whose draws
    come from the storage as the run left it, so the theorems on traces hold of the runtime. The
    exception are calls by which root writes into the pallet's storage. The draw of a block comes from
    the material after the block's header and the randomness pallet's own hook.
  \<^item> The weights of a block start and of a claim cover their storage accesses, though the weight of a
    claim charges a write where the claim reads.
  \<^item> The slot duration given through the runtime API is the block time the constants are made for.
  \<^item> \<open>claim\<close> is its decision table on every branch; exactly \<open>(2 ^ 256 - 1) div d\<close> of the hash values
    win at difficulty \<open>d\<close>.
  \<^item> The genesis states of both chain specifications are well typed for the configured pallets.
  \<^item> The transactions the runtime signs are over their own call and extensions and can be checked in
    the 2047 blocks from their own on; the node's benchmark extrinsics sign the same bytes.
  \<^item> The node opens its network last and only after a complete start-up; only authorities sign;
    every command works exactly when all that it needs has been prepared, and the others touch no
    client. Authoring and finality are the node's essential tasks.
  \<^item> The client's vouchers have the documented offsets but neither the byte order nor the signed
    range nor the schedule of the pallet, which rejects them; the nonce does not reach the oracle
    block. The pallet's test vector is the client's output for a head block given as a string, and
    the test of it cannot pass, while the other test passes exactly when its draw wins.
    The draw of the client's oracle block may be public before the voucher is signed.
  \<^item> Of the four HTTP routes only the completion of a payment is ever answered. A server tries at
    most twice to listen, and keeps its promise to try again.

  \<^bold>\<open>Parameters.\<close> Decoding of accounts and signatures, hashing, signature verification, key
  derivation, era encoding and the calls into the Substrate crates are parameters. The hypotheses
  on them are \<open>substrate_ok\<close>, \<open>storage_ok\<close> (a hash is decoded as it was encoded, and no two block
  numbers have the same storage key), \<open>voucher_codecs\<close>, \<open>keys_derivable\<close>, \<open>era_births\<close>,
  \<open>extensions_report\<close>, \<open>client_ok\<close>, \<open>packable\<close>, \<open>vouches_only\<close>, \<open>aura_doubles_period\<close> and
  \<open>foreign_free\<close> (no call of another pallet in a run changes the payments pallet's state), each with a concrete
  instance. The order of
  the hooks (\<open>AllPalletsWithSystem\<close>) is the documented one of \<open>frame_executive\<close>.

  \<^bold>\<open>Bounds.\<close> Everything terminates structurally or by a measure (\<open>pow2_from\<close>, \<open>hex_string\<close>,
  \<open>dec_string\<close>); no fuel is used. A trace ends at block \<open>2 ^ 32 - 1\<close>, where the block number would wrap.

  \<^bold>\<open>Not modelled.\<close> The stock pallets and crates themselves, runtime upgrades, claims that sudo
  dispatches for another account, the import queue's inherent providers, logging of the node, and the build scripts, which call third-party builders at compile time.
\<close>

end
